(* ===== verification/Rigo_Prelude.thy ===== *)
theory Rigo_Prelude
  imports Main "HOL-Library.Word" "HOL-Library.AList" "HOL-Library.Multiset"
begin

text \<open>
  The shared part of the development: Go's machine integers, the 256-bit amounts and the lemmas on
  their wrap-around that the components use.

  \<^item> A Go \<^verbatim>\<open>int64\<close> is an \<open>int\<close>; every arithmetic operation of the source is wrapped by \<open>i64\<close>,
    the reduction to two's complement at 64 bits. A \<^verbatim>\<open>uint64\<close> is a \<open>64 word\<close>, a
    \<^verbatim>\<open>uint256.Int\<close> a \<open>256 word\<close> (addition, subtraction and multiplication wrap, division by
    zero gives zero, \<^verbatim>\<open>Sign\<close> reads the value as two's complement, as that package documents).
\<close>

named_theorems i64_simps \<open>reduction of wrapped 64-bit arithmetic\<close>

section \<open>Machine integers\<close>

type_synonym byte = "8 word"
type_synonym bytes = "byte list"
type_synonym u64 = "64 word"
type_synonym u256 = "256 word"

definition i64 :: "int \<Rightarrow> int" where
  "i64 x = (x + 2 ^ 63) mod 2 ^ 64 - 2 ^ 63"

definition in_i64 :: "int \<Rightarrow> bool" where
  "in_i64 x \<longleftrightarrow> - (2 ^ 63) \<le> x \<and> x < 2 ^ 63"

lemma i64_id [i64_simps]: "in_i64 x \<Longrightarrow> i64 x = x"
  by (simp add: i64_def in_i64_def)

lemma in_i64_i64 [simp]: "in_i64 (i64 x)"
proof -
  have "0 \<le> (x + 2 ^ 63) mod 2 ^ 64" and "(x + 2 ^ 63) mod 2 ^ 64 < (2::int) ^ 64"
    by simp_all
  then show ?thesis
    by (simp add: i64_def in_i64_def)
qed

lemma i64_i64 [simp]: "i64 (i64 x) = i64 x"
  by (rule i64_id) simp

lemma i64_mod: "i64 x mod 2 ^ 64 = x mod 2 ^ 64"
proof -
  have "i64 x mod 2 ^ 64 = ((x + 2 ^ 63) mod 2 ^ 64 - 2 ^ 63) mod 2 ^ 64"
    by (simp only: i64_def)
  also have "\<dots> = ((x + 2 ^ 63) - 2 ^ 63) mod 2 ^ 64"
    by (rule mod_diff_left_eq)
  finally show ?thesis by simp
qed

lemma i64_cong: "x mod 2 ^ 64 = y mod 2 ^ 64 \<Longrightarrow> i64 x = i64 y"
proof -
  assume "x mod 2 ^ 64 = y mod 2 ^ 64"
  then have "(x + 2 ^ 63) mod 2 ^ 64 = (y + 2 ^ 63) mod 2 ^ 64"
    by (rule mod_add_cong) simp
  then show ?thesis by (simp only: i64_def)
qed

lemma i64_add_left [simp]: "i64 (i64 x + y) = i64 (x + y)"
proof (rule i64_cong)
  show "(i64 x + y) mod 2 ^ 64 = (x + y) mod 2 ^ 64"
    by (rule mod_add_cong [OF i64_mod]) simp
qed

lemma i64_add_right [simp]: "i64 (x + i64 y) = i64 (x + y)"
  using i64_add_left [of y x] by (simp only: add.commute)

lemma i64_diff_left [simp]: "i64 (i64 x - y) = i64 (x - y)"
  using i64_add_left [of x "- y"] by simp

lemma i64_diff_right [simp]: "i64 (x - i64 y) = i64 (x - y)"
proof (rule i64_cong)
  show "(x - i64 y) mod 2 ^ 64 = (x - y) mod 2 ^ 64"
    by (rule mod_diff_cong) (rule refl, rule i64_mod)
qed

lemma i64_0 [simp]: "i64 0 = 0"
  by (simp add: i64_def)

lemma i64_nonneg: "0 \<le> x \<Longrightarrow> x < 2 ^ 63 \<Longrightarrow> i64 x = x"
  by (simp add: i64_id in_i64_def)

text \<open>Go's integer division truncates towards zero; dividing by zero panics, which every
  caller below writes out.\<close>

definition go_div :: "int \<Rightarrow> int \<Rightarrow> int" where
  "go_div a b = i64 (sgn a * sgn b * (\<bar>a\<bar> div \<bar>b\<bar>))"

lemma go_div_nonneg:
  assumes "0 \<le> a" "0 < b" "a < 2 ^ 63"
  shows "go_div a b = a div b"
proof -
  have le: "a div b \<le> a"
    using assms by (smt (verit) div_by_1 zdiv_mono2)
  have "0 \<le> a div b"
    using assms by (simp add: pos_imp_zdiv_nonneg_iff)
  with le assms have "i64 (a div b) = a div b"
    by (intro i64_nonneg) simp_all
  moreover have "sgn a * sgn b * (\<bar>a\<bar> div \<bar>b\<bar>) = a div b"
    using assms by (cases "a = 0") (simp_all add: sgn_if)
  ultimately show ?thesis
    by (simp add: go_div_def)
qed

text \<open>Conversions: \<open>uint64(x)\<close> of an \<^verbatim>\<open>int64\<close>, \<open>int64(x)\<close> of a \<^verbatim>\<open>uint64\<close>, \<^verbatim>\<open>uint256.NewInt\<close>, and
  \<^verbatim>\<open>Int.Uint64\<close>, which keeps the low 64 bits.\<close>

definition u64_of_i64 :: "int \<Rightarrow> u64" where
  "u64_of_i64 x = word_of_int x"

definition i64_of_u64 :: "u64 \<Rightarrow> int" where
  "i64_of_u64 w = sint w"

definition u256_NewInt :: "u64 \<Rightarrow> u256" where
  "u256_NewInt w = ucast w"

definition u256_Uint64 :: "u256 \<Rightarrow> u64" where
  "u256_Uint64 w = ucast w"

definition u256_Sign :: "u256 \<Rightarrow> int" where
  "u256_Sign w = sgn (sint w)"

definition u256_Cmp :: "u256 \<Rightarrow> u256 \<Rightarrow> int" where
  "u256_Cmp a b = (if a < b then -1 else if a > b then 1 else 0)"

lemma u256_Cmp_simps [simp]:
  "u256_Cmp a b > 0 \<longleftrightarrow> b < a"
  "u256_Cmp a b < 0 \<longleftrightarrow> a < b"
  "u256_Cmp a b = 0 \<longleftrightarrow> a = b"
  "u256_Cmp a b \<noteq> 0 \<longleftrightarrow> a \<noteq> b"
  by (auto simp: u256_Cmp_def)

lemma sint_256: "sint (w :: u256) = (if uint w < 2 ^ 255 then uint w else uint w - 2 ^ 256)"
proof -
  have b: "uint w < 2 ^ 256" "0 \<le> uint w"
    using uint_lt2p [of w] by simp_all
  have s: "sint w = signed_take_bit 255 (uint w)"
    by (simp add: sint_uint)
  show ?thesis
  proof (cases "uint w < 2 ^ 255")
    case True
    have "- (2 ^ 255) \<le> uint w"
      using b(2) by (rule order_trans [rotated]) simp
    with True have "signed_take_bit 255 (uint w) = uint w"
      by (intro signed_take_bit_int_eq_self)
    with True s show ?thesis
      by simp
  next
    case False
    have "(uint w + 2 ^ 255) mod 2 ^ 256 = (uint w + 2 ^ 255 - 2 ^ 256) mod 2 ^ 256"
      by (metis minus_mod_self2)
    also have "\<dots> = uint w + 2 ^ 255 - 2 ^ 256"
      using False b by (intro mod_pos_pos_trivial) simp_all
    finally show ?thesis
      using False s by (simp add: signed_take_bit_eq_take_bit_shift take_bit_eq_mod)
  qed
qed

lemma u256_Sign_neg_iff: "u256_Sign w < 0 \<longleftrightarrow> 2 ^ 255 \<le> uint w"
proof -
  have b: "uint w < 2 ^ 256" "0 \<le> uint w"
    using uint_lt2p [of w] by simp_all
  have "u256_Sign w < 0 \<longleftrightarrow> sint w < 0"
    by (simp add: u256_Sign_def sgn_if)
  with b show ?thesis
    by (simp add: sint_256)
qed

lemma u256_Sign_0_iff [simp]: "u256_Sign w = 0 \<longleftrightarrow> w = 0"
proof -
  have b: "uint w < 2 ^ 256" "0 \<le> uint w"
    using uint_lt2p [of w] by simp_all
  have "u256_Sign w = 0 \<longleftrightarrow> sint w = 0"
    by (simp add: u256_Sign_def sgn_0_0)
  also have "\<dots> \<longleftrightarrow> uint w = 0"
    using b by (simp add: sint_256)
  finally show ?thesis
    by (simp add: uint_0_iff)
qed

lemma uint_u256_bound: "uint (a :: u256) < 2 ^ 256" "0 \<le> uint a"
  using uint_lt2p [of a] by simp_all

lemma uint_u256_add: "uint a + uint (b :: u256) < 2 ^ 256 \<Longrightarrow> uint (a + b) = uint a + uint b"
  using uint_u256_bound [of a] uint_u256_bound [of b] by (simp add: uint_word_ariths)

lemma uint_u256_sub: "(b :: u256) \<le> a \<Longrightarrow> uint (a - b) = uint a - uint b"
  by (simp add: uint_minus_simple_alt)

lemma uint_u256_add_mod: "uint (a + b :: u256) = (uint a + uint b) mod 2 ^ 256"
  by (simp add: uint_word_ariths)

lemma uint_u256_sub_int: "uint b \<le> uint (a :: u256) \<Longrightarrow> uint (a - b) = uint a - uint b"
  by (rule uint_u256_sub) (simp add: word_le_def)

end
