(* ===== verification/Rigo_Errors.thy ===== *)
theory Rigo_Errors
  imports Rigo_Prelude
begin

text \<open>
  The package \<^verbatim>\<open>types/xerrors\<close> (\<^verbatim>\<open>src/types/xerrors/xerror.go\<close>): coded errors with a chain of
  causes, and the errors the controllers return. A cause is either a plain Go error or again a
  coded one. The text a \<^verbatim>\<open>Wrapf\<close> formats is kept as its format string, without the arguments.
  A panic is not an error value, so a fallible operation returns \<open>'a res\<close>: a fault (a coded
  error, or a panic that unwinds the call) or a result.
\<close>

datatype goerror =
    PlainError string
  | XError (ecode: nat) (emsg: string) (ecause: "goerror option")

datatype fault = Error goerror | Panic string

type_synonym 'a res = "fault + 'a"

text \<open>Using a nil pointer panics.\<close>

definition nilPointer :: fault where
  "nilPointer = Panic ''runtime error: invalid memory address or nil pointer dereference''"

definition deref :: "'a option \<Rightarrow> 'a res" where
  "deref p = (case p of None \<Rightarrow> Inl nilPointer | Some v \<Rightarrow> Inr v)"

text \<open>Integer division of the source, with its panic.\<close>

definition go_quo :: "int \<Rightarrow> int \<Rightarrow> int res" where
  "go_quo a b = (if b = 0 then Inl (Panic ''runtime error: integer divide by zero'') else Inr (go_div a b))"

section \<open>Codes\<close>

definition ErrCodeOrdinary :: nat where "ErrCodeOrdinary = 1"
definition ErrCodeInitChain :: nat where "ErrCodeInitChain = 2"
definition ErrCodeCheckTx :: nat where "ErrCodeCheckTx = 3"
definition ErrCodeBeginBlock :: nat where "ErrCodeBeginBlock = 4"
definition ErrCodeDeliverTx :: nat where "ErrCodeDeliverTx = 5"
definition ErrCodeEndBlock :: nat where "ErrCodeEndBlock = 6"
definition ErrCodeCommit :: nat where "ErrCodeCommit = 7"
definition ErrCodeNotFoundAccount :: nat where "ErrCodeNotFoundAccount = 8"
definition ErrCodeInvalidAccountType :: nat where "ErrCodeInvalidAccountType = 9"
definition ErrCodeInvalidTrx :: nat where "ErrCodeInvalidTrx = 10"
definition ErrCodeNotFoundTx :: nat where "ErrCodeNotFoundTx = 11"
definition ErrCodeNotFoundDelegatee :: nat where "ErrCodeNotFoundDelegatee = 12"
definition ErrCodeNotFoundStake :: nat where "ErrCodeNotFoundStake = 13"
definition ErrCodeNotFoundProposal :: nat where "ErrCodeNotFoundProposal = 14"
definition ErrCodeNotFoundVoter :: nat where "ErrCodeNotFoundVoter = 15"
definition ErrCodeNotFoundReward :: nat where "ErrCodeNotFoundReward = 16"
definition ErrCodeUpdatableStakeRatio :: nat where "ErrCodeUpdatableStakeRatio = 17"
definition ErrCodeQuery :: nat where "ErrCodeQuery = 1000"
definition ErrCodeInvalidQueryPath :: nat where "ErrCodeInvalidQueryPath = 1001"
definition ErrCodeNotFoundResult :: nat where "ErrCodeNotFoundResult = 1003"

section \<open>Operations\<close>

definition xerrors_New :: "nat \<Rightarrow> string \<Rightarrow> goerror option \<Rightarrow> goerror" where
  "xerrors_New code msg err = XError code msg err"

definition xerrors_NewOrdinary :: "string \<Rightarrow> goerror" where
  "xerrors_NewOrdinary msg = XError ErrCodeOrdinary msg None"

text \<open>\<^verbatim>\<open>Error()\<close>: the message, then the messages of the causes, each on an indented line.\<close>

fun xerror_Error :: "goerror \<Rightarrow> string" where
  "xerror_Error (PlainError m) = m"
| "xerror_Error (XError c m None) = m"
| "xerror_Error (XError c m (Some e)) = m @ [CHR 0x0A, CHR 0x09] @ xerror_Error e"

definition xerrors_From :: "goerror option \<Rightarrow> goerror option" where
  "xerrors_From err = (case err of None \<Rightarrow> None | Some e \<Rightarrow> Some (xerrors_NewOrdinary (xerror_Error e)))"

text \<open>\<^verbatim>\<open>Wrap\<close>: the new error goes to the end of the chain of coded causes; a plain cause is
  replaced. (The receiver is always a coded error; the first equation only makes the function
  total.)\<close>

fun xerror_Wrap :: "goerror \<Rightarrow> goerror \<Rightarrow> goerror" where
  "xerror_Wrap (PlainError m) err = PlainError m"
| "xerror_Wrap (XError c m None) err = XError c m (Some err)"
| "xerror_Wrap (XError c m (Some (PlainError p))) err = XError c m (Some err)"
| "xerror_Wrap (XError c m (Some (XError c' m' k'))) err =
     XError c m (Some (xerror_Wrap (XError c' m' k') err))"

definition xerror_Wrapf :: "goerror \<Rightarrow> string \<Rightarrow> goerror" where
  "xerror_Wrapf e fmt = xerror_Wrap e (PlainError fmt)"

text \<open>The function \<^verbatim>\<open>Cause\<close>: follows the causes of coded errors to the first plain one.\<close>

fun xerrors_Cause :: "goerror \<Rightarrow> goerror option" where
  "xerrors_Cause (PlainError m) = Some (PlainError m)"
| "xerrors_Cause (XError c m None) = None"
| "xerrors_Cause (XError c m (Some e)) = xerrors_Cause e"

text \<open>The function \<^verbatim>\<open>Wrap\<close>: an ordinary error with a cause.\<close>

definition xerrors_Wrap :: "goerror option \<Rightarrow> string \<Rightarrow> goerror" where
  "xerrors_Wrap err msg = XError ErrCodeOrdinary msg err"

definition xerror_Code :: "goerror \<Rightarrow> nat" where
  "xerror_Code e = (case e of XError c m k \<Rightarrow> c | PlainError m \<Rightarrow> ErrCodeOrdinary)"

section \<open>The named errors\<close>

definition ErrInitChain :: goerror where "ErrInitChain = xerrors_New ErrCodeInitChain ''InitChain failed'' None"
definition ErrCheckTx :: goerror where "ErrCheckTx = xerrors_New ErrCodeCheckTx ''CheckTx failed'' None"
definition ErrBeginBlock :: goerror where "ErrBeginBlock = xerrors_New ErrCodeBeginBlock ''BeginBlock failed'' None"
definition ErrDeliverTx :: goerror where "ErrDeliverTx = xerrors_New ErrCodeDeliverTx ''DeliverTx failed'' None"
definition ErrCommit :: goerror where "ErrCommit = xerrors_New ErrCodeCommit ''Commit failed'' None"
definition ErrQuery :: goerror where "ErrQuery = xerrors_New ErrCodeQuery ''query failed'' None"
definition ErrInvalidQueryPath :: goerror where "ErrInvalidQueryPath = xerrors_New ErrCodeInvalidQueryPath ''invalid query path'' None"
definition ErrNotFoundAccount :: goerror where "ErrNotFoundAccount = xerrors_New ErrCodeNotFoundAccount ''not found account'' None"
definition ErrInvalidTrx :: goerror where "ErrInvalidTrx = xerrors_New ErrCodeInvalidTrx ''invalid transaction'' None"
definition ErrInvalidGas :: goerror where "ErrInvalidGas = xerror_Wrap ErrInvalidTrx (PlainError ''invalid gas'')"
definition ErrInvalidGasPrice :: goerror where "ErrInvalidGasPrice = xerror_Wrap ErrInvalidTrx (PlainError ''invalid gas price'')"
definition ErrInvalidAddress :: goerror where "ErrInvalidAddress = xerror_Wrap ErrInvalidTrx (PlainError ''invalid address'')"
definition ErrInvalidNonce :: goerror where "ErrInvalidNonce = xerror_Wrap ErrInvalidTrx (PlainError ''invalid nonce'')"
definition ErrInvalidAmount :: goerror where "ErrInvalidAmount = xerror_Wrap ErrInvalidTrx (PlainError ''invalid amount'')"
definition ErrInsufficientFund :: goerror where "ErrInsufficientFund = xerror_Wrap ErrInvalidTrx (PlainError ''insufficient fund'')"
definition ErrInvalidTrxPayloadType :: goerror where "ErrInvalidTrxPayloadType = xerror_Wrap ErrInvalidTrx (PlainError ''wrong transaction payload type'')"
definition ErrInvalidTrxPayloadParams :: goerror where "ErrInvalidTrxPayloadParams = xerror_Wrap ErrInvalidTrx (PlainError ''invalid params of transaction payload'')"
definition ErrInvalidTrxSig :: goerror where "ErrInvalidTrxSig = xerror_Wrap ErrInvalidTrx (PlainError ''invalid signature'')"
definition ErrNotFoundDelegatee :: goerror where "ErrNotFoundDelegatee = xerrors_New ErrCodeNotFoundDelegatee ''not found delegatee'' None"
definition ErrNotFoundStake :: goerror where "ErrNotFoundStake = xerrors_New ErrCodeNotFoundStake ''not found stake'' None"
definition ErrNotFoundProposal :: goerror where "ErrNotFoundProposal = xerrors_New ErrCodeNotFoundProposal ''not found proposal'' None"
definition ErrNotFoundVoter :: goerror where "ErrNotFoundVoter = xerrors_New ErrCodeNotFoundVoter ''not found voter'' None"
definition ErrUpdatableStakeRatio :: goerror where "ErrUpdatableStakeRatio = xerrors_New ErrCodeUpdatableStakeRatio ''exceeded updatable stake ratio'' None"
definition ErrNotFoundResult :: goerror where "ErrNotFoundResult = xerrors_New ErrCodeNotFoundResult ''not found result'' None"
definition ErrUnknownTrxType :: goerror where "ErrUnknownTrxType = xerrors_NewOrdinary ''unknown transaction type''"
definition ErrNoRight :: goerror where "ErrNoRight = xerrors_NewOrdinary ''no right''"
definition ErrNotVotingPeriod :: goerror where "ErrNotVotingPeriod = xerrors_NewOrdinary ''not voting period''"
definition ErrDuplicatedKey :: goerror where "ErrDuplicatedKey = xerrors_NewOrdinary ''already existed key''"

lemmas err_defs =
  xerrors_New_def xerrors_NewOrdinary_def xerror_Wrapf_def
  ErrInvalidTrx_def ErrInvalidGas_def ErrInvalidGasPrice_def ErrInvalidAddress_def ErrInvalidNonce_def
  ErrInvalidAmount_def ErrInsufficientFund_def ErrInvalidTrxPayloadType_def
  ErrInvalidTrxPayloadParams_def ErrInvalidTrxSig_def ErrNotFoundAccount_def ErrNotFoundDelegatee_def
  ErrNotFoundStake_def ErrNotFoundProposal_def ErrNotFoundVoter_def ErrUpdatableStakeRatio_def
  ErrNotFoundResult_def ErrUnknownTrxType_def ErrNoRight_def ErrNotVotingPeriod_def
  ErrDuplicatedKey_def ErrCheckTx_def ErrDeliverTx_def ErrCommit_def ErrInitChain_def ErrBeginBlock_def

section \<open>Sequencing\<close>

text \<open>The rest of a function after a call whose error it returns: on a fault the state the call
  left is kept, as Go undoes nothing.\<close>

definition bindE :: "'a res \<times> 's \<Rightarrow> ('a \<Rightarrow> 's \<Rightarrow> 'b res \<times> 's) \<Rightarrow> 'b res \<times> 's" where
  "bindE r f = (case r of (Inl e, s) \<Rightarrow> (Inl e, s) | (Inr a, s) \<Rightarrow> f a s)"

lemma bindE_simps [simp]:
  "bindE (Inl e, s) f = (Inl e, s)"
  "bindE (Inr a, s) f = f a s"
  by (simp_all add: bindE_def)

lemma bindE_split:
  "P (bindE r f) \<longleftrightarrow>
     (\<forall>e s. r = (Inl e, s) \<longrightarrow> P (Inl e, s)) \<and> (\<forall>a s. r = (Inr a, s) \<longrightarrow> P (f a s))"
  by (cases r; cases "fst r") (auto simp: bindE_def)

lemma bindE_Inr_iff:
  "bindE r f = (Inr b, s') \<longleftrightarrow> (\<exists>a s. r = (Inr a, s) \<and> f a s = (Inr b, s'))"
  by (cases r; cases "fst r") (auto simp: bindE_def)

lemma bindE_Inl_iff:
  "bindE r f = (Inl e, s') \<longleftrightarrow> r = (Inl e, s') \<or> (\<exists>a s. r = (Inr a, s) \<and> f a s = (Inl e, s'))"
  by (cases r; cases "fst r") (auto simp: bindE_def)

section \<open>The chain of causes\<close>

lemma xerror_Wrap_code: "ecode (xerror_Wrap (XError c m k) err) = c"
  by (cases "(XError c m k, err)" rule: xerror_Wrap.cases) auto

lemma xerror_Wrap_msg: "emsg (xerror_Wrap (XError c m k) err) = m"
  by (cases "(XError c m k, err)" rule: xerror_Wrap.cases) auto

lemma xerrors_Cause_Wrap: "xerrors_Cause (xerror_Wrap (XError c m k) err) = xerrors_Cause err"
proof (induction "XError c m k" err arbitrary: c m k rule: xerror_Wrap.induct)
  case (4 c m c' m' k' err)
  then show ?case
    by (cases "(XError c' m' k', err)" rule: xerror_Wrap.cases) auto
qed simp_all

end
