(* ===== verification/Rigo_Bytes.thy ===== *)
theory Rigo_Bytes
  imports Rigo_Errors
begin

text \<open>
  Byte strings: \<^verbatim>\<open>src/types/bytes\<close> (the type \<^verbatim>\<open>HexBytes\<close>), \<^verbatim>\<open>src/types/address.go\<close>, the
  ledger keys of \<^verbatim>\<open>src/ledger/types.go\<close>, and the big-endian byte form of a 256-bit amount.
\<close>

section \<open>Comparison\<close>

fun bytes_Compare :: "bytes \<Rightarrow> bytes \<Rightarrow> int" where
  "bytes_Compare [] [] = 0"
| "bytes_Compare [] (y # ys) = -1"
| "bytes_Compare (x # xs) [] = 1"
| "bytes_Compare (x # xs) (y # ys) =
     (if x < y then -1 else if y < x then 1 else bytes_Compare xs ys)"

lemma bytes_Compare_eq_0 [simp]: "bytes_Compare a b = 0 \<longleftrightarrow> a = b"
  by (induction a b rule: bytes_Compare.induct) auto

lemma bytes_Compare_antisym: "bytes_Compare b a = - bytes_Compare a b"
  by (induction a b rule: bytes_Compare.induct) auto

lemma bytes_Compare_pos_iff: "bytes_Compare a b > 0 \<longleftrightarrow> bytes_Compare b a < 0"
  by (subst bytes_Compare_antisym) simp

lemma bytes_Compare_neg_trans:
  "bytes_Compare a b < 0 \<Longrightarrow> bytes_Compare b c < 0 \<Longrightarrow> bytes_Compare a c < 0"
proof (induction a b arbitrary: c rule: bytes_Compare.induct)
  case (2 y ys)
  then show ?case by (cases c) auto
next
  case (4 x xs y ys)
  then show ?case by (cases c) (auto split: if_splits)
qed auto

lemma bytes_Compare_less_total: "a \<noteq> b \<Longrightarrow> bytes_Compare a b < 0 \<or> bytes_Compare b a < 0"
  using bytes_Compare_eq_0 [of a b] bytes_Compare_antisym [of a b] by linarith

section \<open>Fixed-size arrays, zero bytes, addresses\<close>

text \<open>\<^verbatim>\<open>HexBytes.Array20\<close> and \<^verbatim>\<open>Array32\<close>: the first bytes, padded with zeros.\<close>

definition HexBytes_Array20 :: "bytes \<Rightarrow> bytes" where
  "HexBytes_Array20 hb =
     (let n = (if length hb < 20 then length hb else 20) in take n hb @ replicate (20 - n) 0)"

definition HexBytes_Array32 :: "bytes \<Rightarrow> bytes" where
  "HexBytes_Array32 hb =
     (let n = (if length hb < 32 then length hb else 32) in take n hb @ replicate (32 - n) 0)"

definition ZeroBytes :: "nat \<Rightarrow> bytes" where
  "ZeroBytes n = replicate n 0"

definition ClearBytes :: "bytes \<Rightarrow> bytes" where
  "ClearBytes b = map (\<lambda>_. 0) b"

definition AddrSize :: nat where "AddrSize = 20"

definition ZeroAddress :: bytes where
  "ZeroAddress = ZeroBytes AddrSize"

primrec IsZeroAddress :: "bytes \<Rightarrow> bool" where
  "IsZeroAddress [] = True"
| "IsZeroAddress (b # bs) = (if b \<noteq> 0 then False else IsZeroAddress bs)"

type_synonym ledgerKey = bytes

definition LEDGERKEYSIZE :: nat where "LEDGERKEYSIZE = 32"

definition ToLedgerKey :: "bytes \<Rightarrow> ledgerKey" where
  "ToLedgerKey s =
     (let n = (if length s > LEDGERKEYSIZE then LEDGERKEYSIZE else length s)
      in take n s @ replicate (LEDGERKEYSIZE - n) 0)"

text \<open>\<^verbatim>\<open>LedgerKeyList.Less\<close>: the keys are sorted downwards.\<close>

definition LedgerKey_Less :: "ledgerKey \<Rightarrow> ledgerKey \<Rightarrow> bool" where
  "LedgerKey_Less a b \<longleftrightarrow> bytes_Compare a b > 0"

lemma ToLedgerKey_short: "length s \<le> 32 \<Longrightarrow> ToLedgerKey s = s @ replicate (32 - length s) 0"
  by (simp add: ToLedgerKey_def LEDGERKEYSIZE_def)

lemma length_ToLedgerKey [simp]: "length (ToLedgerKey s) = 32"
  by (simp add: ToLedgerKey_def LEDGERKEYSIZE_def Let_def)

lemma HexBytes_Array32_ToLedgerKey: "HexBytes_Array32 s = ToLedgerKey s"
  by (auto simp: HexBytes_Array32_def ToLedgerKey_def LEDGERKEYSIZE_def Let_def)

lemma ToLedgerKey_inj:
  assumes "length a = length b" "length a \<le> 32" "ToLedgerKey a = ToLedgerKey b"
  shows "a = b"
  using assms by (simp add: ToLedgerKey_short)

lemma ToLedgerKey_32 [simp]: "length k = 32 \<Longrightarrow> ToLedgerKey k = k"
  by (simp add: ToLedgerKey_short)

lemma IsZeroAddress_iff: "IsZeroAddress a \<longleftrightarrow> a = replicate (length a) 0"
  by (induction a) auto

section \<open>Hexadecimal text\<close>

definition hex_digits :: string where "hex_digits = ''0123456789abcdef''"

definition hex_EncodeToString :: "bytes \<Rightarrow> string" where
  "hex_EncodeToString bs =
     concat (map (\<lambda>b. [hex_digits ! (unat b div 16), hex_digits ! (unat b mod 16)]) bs)"

definition to_upper :: "char \<Rightarrow> char" where
  "to_upper c = (let n = of_char c :: nat in if 97 \<le> n \<and> n \<le> 122 then char_of (n - 32) else c)"

definition HexBytes_String :: "bytes \<Rightarrow> string" where
  "HexBytes_String hb = map to_upper (hex_EncodeToString hb)"

definition from_hex_char :: "char \<Rightarrow> nat option" where
  "from_hex_char c = (let n = of_char c :: nat in
     if 48 \<le> n \<and> n \<le> 57 then Some (n - 48)
     else if 97 \<le> n \<and> n \<le> 102 then Some (n - 87)
     else if 65 \<le> n \<and> n \<le> 70 then Some (n - 55)
     else None)"

text \<open>\<^verbatim>\<open>hex.DecodeString\<close>: fails on an odd number of digits and on a character that is no
  digit.\<close>

fun hex_DecodeString :: "string \<Rightarrow> bytes option" where
  "hex_DecodeString [] = Some []"
| "hex_DecodeString [c] = None"
| "hex_DecodeString (c # d # cs) =
     (case (from_hex_char c, from_hex_char d, hex_DecodeString cs) of
        (Some h, Some l, Some bs) \<Rightarrow> Some (word_of_nat (16 * h + l) # bs)
      | _ \<Rightarrow> None)"

definition strings_TrimPrefix_0x :: "string \<Rightarrow> string" where
  "strings_TrimPrefix_0x s = (if take 2 s = ''0x'' then drop 2 s else s)"

definition HexBytes_MarshalJSON :: "bytes \<Rightarrow> string" where
  "HexBytes_MarshalJSON hb = [CHR 0x22] @ HexBytes_String hb @ [CHR 0x22]"

definition HexBytes_UnmarshalJSON :: "string \<Rightarrow> bytes res" where
  "HexBytes_UnmarshalJSON data =
     (if length data < 2 \<or> hd data \<noteq> CHR 0x22 \<or> last data \<noteq> CHR 0x22
      then Inl (Error (PlainError ''invalid hex string''))
      else case hex_DecodeString (strings_TrimPrefix_0x (butlast (tl data))) of
             None \<Rightarrow> Inl (Error (PlainError ''encoding/hex: invalid input''))
           | Some bz \<Rightarrow> Inr bz)"

definition HexToAddress :: "string \<Rightarrow> bytes res" where
  "HexToAddress hex =
     (case hex_DecodeString (strings_TrimPrefix_0x hex) of
        None \<Rightarrow> Inl (Error (xerrors_NewOrdinary ''encoding/hex: invalid input''))
      | Some bz \<Rightarrow> if length bz \<noteq> 20
                  then Inl (Error (xerrors_NewOrdinary
                    ''error of address length: address length should be 20 bytes''))
                  else Inr bz)"

lemma hex_digit_roundtrip:
  "n < 16 \<Longrightarrow> from_hex_char (hex_digits ! n) = Some n"
  "n < 16 \<Longrightarrow> from_hex_char (to_upper (hex_digits ! n)) = Some n"
  "n < 16 \<Longrightarrow> to_upper (hex_digits ! n) \<noteq> CHR ''x''"
proof -
  have "\<forall>n \<in> set [0..<16]. from_hex_char (hex_digits ! n) = Some n \<and>
      from_hex_char (to_upper (hex_digits ! n)) = Some n \<and> to_upper (hex_digits ! n) \<noteq> CHR ''x''"
    by code_simp
  then show "n < 16 \<Longrightarrow> from_hex_char (hex_digits ! n) = Some n"
    "n < 16 \<Longrightarrow> from_hex_char (to_upper (hex_digits ! n)) = Some n"
    "n < 16 \<Longrightarrow> to_upper (hex_digits ! n) \<noteq> CHR ''x''"
    by auto
qed

lemma unat_byte_nibbles: "unat (b :: byte) div 16 < 16" "unat b mod 16 < 16"
  using unsigned_less [of b, where 'a = nat] by simp_all

lemma HexBytes_String_Nil [simp]: "HexBytes_String [] = []"
  by (simp add: HexBytes_String_def hex_EncodeToString_def)

lemma HexBytes_String_Cons [simp]:
  "HexBytes_String (b # bs) =
     to_upper (hex_digits ! (unat b div 16)) # to_upper (hex_digits ! (unat b mod 16)) # HexBytes_String bs"
  by (simp add: HexBytes_String_def hex_EncodeToString_def)

lemma hex_DecodeString_String: "hex_DecodeString (HexBytes_String bs) = Some bs"
proof (induction bs)
  case (Cons b bs)
  have "word_of_nat (16 * (unat b div 16) + unat b mod 16) = b"
    by (simp only: mult_div_mod_eq) simp
  with Cons show ?case
    by (simp add: hex_digit_roundtrip(2) unat_byte_nibbles)
qed simp

lemma HexBytes_String_inj: "HexBytes_String a = HexBytes_String b \<longleftrightarrow> a = b"
  by (metis hex_DecodeString_String option.inject)

lemma TrimPrefix_String: "strings_TrimPrefix_0x (HexBytes_String bs) = HexBytes_String bs"
  by (cases bs) (simp_all add: strings_TrimPrefix_0x_def hex_digit_roundtrip(3) unat_byte_nibbles
    numeral_2_eq_2)

lemma HexBytes_UnmarshalJSON_Marshal: "HexBytes_UnmarshalJSON (HexBytes_MarshalJSON hb) = Inr hb"
  by (simp add: HexBytes_UnmarshalJSON_def HexBytes_MarshalJSON_def TrimPrefix_String
    hex_DecodeString_String)

section \<open>Big-endian bytes of an amount\<close>

text \<open>\<^verbatim>\<open>uint256.Int.Bytes\<close> gives the big-endian bytes without leading zeros, \<^verbatim>\<open>SetBytes\<close> reads
  big-endian bytes (of more than 32 the last 32 count, which the wrap-around gives).\<close>

fun be_bytes :: "nat \<Rightarrow> bytes" where
  "be_bytes n = (if n = 0 then [] else be_bytes (n div 256) @ [word_of_nat (n mod 256)])"

declare be_bytes.simps [simp del]

definition u256_Bytes :: "u256 \<Rightarrow> bytes" where
  "u256_Bytes w = be_bytes (unat w)"

definition u256_SetBytes :: "bytes \<Rightarrow> u256" where
  "u256_SetBytes bs = foldl (\<lambda>acc b. acc * 256 + ucast b) 0 bs"

lemma foldl_be_bytes: "foldl (\<lambda>acc b. acc * 256 + ucast b) 0 (be_bytes n) = (of_nat n :: u256)"
proof (induction n rule: be_bytes.induct)
  case (1 n)
  show ?case
  proof (cases "n = 0")
    case False
    have "ucast (word_of_nat (n mod 256) :: byte) = (of_nat (n mod 256) :: u256)"
      by (simp add: unsigned_of_nat take_bit_eq_mod of_nat_mod)
    moreover have "of_nat (n div 256) * 256 + of_nat (n mod 256) = (of_nat n :: u256)"
      by (metis div_mult_mod_eq of_nat_add of_nat_mult of_nat_numeral)
    ultimately show ?thesis
      using False "1.IH" by (simp add: be_bytes.simps [of n])
  qed (simp add: be_bytes.simps)
qed

lemma u256_SetBytes_Bytes [simp]: "u256_SetBytes (u256_Bytes w) = w"
  by (simp add: u256_SetBytes_def u256_Bytes_def foldl_be_bytes)

section \<open>Decimal text\<close>

fun dec_digits :: "nat \<Rightarrow> string" where
  "dec_digits n = (if n < 10 then [char_of (n + 48)] else dec_digits (n div 10) @ [char_of (n mod 10 + 48)])"

declare dec_digits.simps [simp del]

text \<open>\<^verbatim>\<open>strconv.FormatInt(i, 10)\<close>.\<close>

definition strconv_FormatInt :: "int \<Rightarrow> string" where
  "strconv_FormatInt i = (if i < 0 then CHR ''-'' # dec_digits (nat (- i)) else dec_digits (nat i))"

end
