(* ===== verification/Rigo_Sort.thy ===== *)
theory Rigo_Sort
  imports Rigo_Bytes "HOL-Library.Multiset"
begin

text \<open>
  \<^verbatim>\<open>sort.Sort\<close> of the Go library over a \<^verbatim>\<open>Less\<close> of the source. The algorithm of the library is
  not a stable one, so a model may fix a result only where \<^verbatim>\<open>Less\<close> determines it. The locale
  \<open>sort_interface\<close> is that condition: a strict weak order that decides between any two elements
  of different identity. Under it the sorted list is unique (\<open>sorted_unique\<close>), so insertion
  sort stands for the library's algorithm. Every \<^verbatim>\<open>Less\<close> the controllers sort by is an
  interpretation.
\<close>

fun go_insert :: "('a \<Rightarrow> 'a \<Rightarrow> bool) \<Rightarrow> 'a \<Rightarrow> 'a list \<Rightarrow> 'a list" where
  "go_insert lt x [] = [x]"
| "go_insert lt x (y # ys) = (if lt y x then y # go_insert lt x ys else x # y # ys)"

fun go_sort :: "('a \<Rightarrow> 'a \<Rightarrow> bool) \<Rightarrow> 'a list \<Rightarrow> 'a list" where
  "go_sort lt [] = []"
| "go_sort lt (x # xs) = go_insert lt x (go_sort lt xs)"

lemma mset_go_insert [simp]: "mset (go_insert lt x xs) = add_mset x (mset xs)"
  by (induction xs) auto

lemma mset_go_sort [simp]: "mset (go_sort lt xs) = mset xs"
  by (induction xs) auto

lemma set_go_sort [simp]: "set (go_sort lt xs) = set xs"
  using mset_go_sort [of lt xs] mset_eq_setD by blast

lemma length_go_sort [simp]: "length (go_sort lt xs) = length xs"
  using mset_go_sort [of lt xs] mset_eq_length by blast

lemma distinct_map_go_sort [simp]: "distinct (map f (go_sort lt xs)) = distinct (map f xs)"
  by (metis mset_go_sort mset_map mset_eq_imp_distinct_iff)

lemma distinct_go_sort [simp]: "distinct (go_sort lt xs) = distinct xs"
  using distinct_map_go_sort [of id] by simp

locale sort_interface =
  fixes lt :: "'a \<Rightarrow> 'a \<Rightarrow> bool"
    and ident :: "'a \<Rightarrow> 'k"
  assumes lt_asym: "lt a b \<Longrightarrow> \<not> lt b a"
    and lt_neg_trans: "\<not> lt a b \<Longrightarrow> \<not> lt b c \<Longrightarrow> \<not> lt a c"
    and lt_total: "ident a \<noteq> ident b \<Longrightarrow> lt a b \<or> lt b a"
begin

lemma lt_trans: "lt a b \<Longrightarrow> lt b c \<Longrightarrow> lt a c"
  using lt_asym lt_neg_trans by blast

lemma sorted_go_insert:
  "sorted_wrt (\<lambda>a b. \<not> lt b a) xs \<Longrightarrow> sorted_wrt (\<lambda>a b. \<not> lt b a) (go_insert lt x xs)"
proof (induction xs)
  case (Cons y ys)
  have "set (go_insert lt x ys) = insert x (set ys)"
    by (metis mset_go_insert set_mset_add_mset_insert set_mset_mset)
  with Cons show ?case
    by (auto dest: lt_asym lt_neg_trans)
qed simp

lemma sorted_go_sort: "sorted_wrt (\<lambda>a b. \<not> lt b a) (go_sort lt xs)"
  by (induction xs) (auto intro: sorted_go_insert)

lemma strictly_sorted:
  "distinct (map ident xs) \<Longrightarrow> sorted_wrt (\<lambda>a b. \<not> lt b a) xs \<Longrightarrow> sorted_wrt lt xs"
  by (induction xs) (auto, metis lt_total imageI)

lemma strictly_sorted_unique:
  "sorted_wrt lt xs \<Longrightarrow> sorted_wrt lt ys \<Longrightarrow> mset xs = mset ys \<Longrightarrow> xs = ys"
proof (induction xs arbitrary: ys)
  case (Cons x xs)
  then obtain y ys' where ys: "ys = y # ys'"
    by (cases ys) auto
  have "x = y"
  proof (rule ccontr)
    assume "x \<noteq> y"
    with Cons.prems(3) ys have "y \<in> set xs" "x \<in> set ys'"
      by (metis insert_iff list.simps(15) mset_eq_setD)+
    with Cons.prems(1,2) ys have "lt x y" "lt y x"
      by auto
    then show False
      using lt_asym by blast
  qed
  with Cons ys show ?case
    by simp
qed simp

text \<open>Whatever algorithm sorts the elements, it gives this list.\<close>

lemma sorted_unique:
  assumes "distinct (map ident xs)" "mset ys = mset xs" "sorted_wrt (\<lambda>a b. \<not> lt b a) ys"
  shows "ys = go_sort lt xs"
proof (rule strictly_sorted_unique)
  have "distinct (map ident ys)"
    using assms(1,2) by (metis mset_map mset_eq_imp_distinct_iff)
  then show "sorted_wrt lt ys"
    using assms(3) by (rule strictly_sorted)
  show "sorted_wrt lt (go_sort lt xs)"
    using assms(1) by (intro strictly_sorted sorted_go_sort) simp
  show "mset ys = mset (go_sort lt xs)"
    using assms(2) by simp
qed

text \<open>So the order of the input does not matter, e.g. the random order of a Go map.\<close>

lemma go_sort_perm:
  assumes "distinct (map ident xs)" "mset ys = mset xs"
  shows "go_sort lt ys = go_sort lt xs"
  using assms by (intro sorted_unique) (simp_all add: sorted_go_sort)

lemma sorted_id: "distinct (map ident xs) \<Longrightarrow> sorted_wrt lt xs \<Longrightarrow> go_sort lt xs = xs"
  by (rule sorted_unique [symmetric]) (auto elim!: sorted_wrt_mono_rel [rotated] dest: lt_asym)

text \<open>The first \<open>n\<close> of the sorted list are the greatest ones: no element left out precedes one
  of them.\<close>

lemma take_sorted:
  "a \<in> set (take n (go_sort lt xs)) \<Longrightarrow> b \<in> set (drop n (go_sort lt xs)) \<Longrightarrow> \<not> lt b a"
  using sorted_go_sort [of xs]
  by (metis append_take_drop_id sorted_wrt_append)

end

text \<open>Orders built from orders: by a key, and by a number first, greater ones in front.\<close>

lemma sort_interface_key:
  assumes "sort_interface lt ident"
  shows "sort_interface (\<lambda>a b. lt (f a) (f b)) (\<lambda>a. ident (f a))"
  by unfold_locales (fact sort_interface.lt_asym [OF assms] sort_interface.lt_neg_trans [OF assms]
    sort_interface.lt_total [OF assms])+

lemma sort_interface_desc:
  fixes f :: "'a \<Rightarrow> 'b::linorder"
  assumes "sort_interface lt ident"
  shows "sort_interface (\<lambda>a b. if f a \<noteq> f b then f a > f b else lt a b) ident"
proof
  fix a b c
  show "(if f a \<noteq> f b then f a > f b else lt a b) \<Longrightarrow> \<not> (if f b \<noteq> f a then f b > f a else lt b a)"
    using sort_interface.lt_asym [OF assms, of a b] by (auto split: if_splits)
  show "\<not> (if f a \<noteq> f b then f a > f b else lt a b) \<Longrightarrow> \<not> (if f b \<noteq> f c then f b > f c else lt b c) \<Longrightarrow>
      \<not> (if f a \<noteq> f c then f a > f c else lt a c)"
    using sort_interface.lt_neg_trans [OF assms, of a b c] by (auto split: if_splits)
  show "ident a \<noteq> ident b \<Longrightarrow> (if f a \<noteq> f b then f a > f b else lt a b) \<or> (if f b \<noteq> f a then f b > f a else lt b a)"
    using sort_interface.lt_total [OF assms, of a b] by auto
qed

interpretation ledgerKeyOrder: sort_interface LedgerKey_Less "\<lambda>k. k"
proof
  fix a b c :: ledgerKey
  show "LedgerKey_Less a b \<Longrightarrow> \<not> LedgerKey_Less b a"
    using bytes_Compare_antisym [of a b] by (simp add: LedgerKey_Less_def)
  show "\<not> LedgerKey_Less a b \<Longrightarrow> \<not> LedgerKey_Less b c \<Longrightarrow> \<not> LedgerKey_Less a c"
    unfolding LedgerKey_Less_def bytes_Compare_pos_iff
    using bytes_Compare_neg_trans [of c b a] bytes_Compare_neg_trans [of b c a] bytes_Compare_neg_trans [of c a b]
      bytes_Compare_less_total [of a b] bytes_Compare_less_total [of b c]
    by metis
  show "a \<noteq> b \<Longrightarrow> LedgerKey_Less a b \<or> LedgerKey_Less b a"
    unfolding LedgerKey_Less_def bytes_Compare_pos_iff using bytes_Compare_less_total by blast
qed

lemma sort_interface_Compare_desc: "sort_interface (\<lambda>a b. bytes_Compare a b > 0) (\<lambda>k. k)"
  using ledgerKeyOrder.sort_interface_axioms unfolding LedgerKey_Less_def .

lemma sort_interface_flip:
  assumes "sort_interface lt ident"
  shows "sort_interface (\<lambda>a b. lt b a) ident"
proof
  show "lt b a \<Longrightarrow> \<not> lt a b" for a b
    by (rule sort_interface.lt_asym [OF assms])
  show "\<not> lt b a \<Longrightarrow> \<not> lt c b \<Longrightarrow> \<not> lt c a" for a b c
    using sort_interface.lt_neg_trans [OF assms] .
  show "ident a \<noteq> ident b \<Longrightarrow> lt b a \<or> lt a b" for a b
    using sort_interface.lt_total [OF assms, of a b] by blast
qed

lemma sort_interface_Compare_asc: "sort_interface (\<lambda>a b. bytes_Compare a b < 0) (\<lambda>k. k)"
  using sort_interface_flip [OF sort_interface_Compare_desc] unfolding bytes_Compare_pos_iff .

end
