(* ===== verification/Rigo_Ledger.thy ===== *)
theory Rigo_Ledger
  imports Rigo_Sort "HOL-Library.AList"
begin

text \<open>
  The package \<^verbatim>\<open>ledger\<close>: the store every controller keeps its items in. \<^verbatim>\<open>SimpleLedger\<close>
  (\<^verbatim>\<open>src/ledger/simple_ledger.go\<close>) is a cache in front of an iavl tree, the level CheckTx works
  on; \<^verbatim>\<open>FinalityLedger\<close> (\<^verbatim>\<open>finality_ledger.go\<close>) embeds it and adds the level the block is
  executed on, which \<^verbatim>\<open>Commit\<close> writes to the tree. The caches are \<^verbatim>\<open>memItems\<close>
  (\<^verbatim>\<open>mem_items.go\<close>).

  The iavl tree is not part of the repository: it is the record \<open>treeOps\<close> of its operations,
  and \<open>tree_laws\<close> is what the ledger relies on. An item type is the record \<open>itemOps\<close> of the
  methods of \<^verbatim>\<open>ILedgerItem\<close>. A Go map is an association list; the order it is iterated in is
  unspecified in Go, and \<^verbatim>\<open>Commit\<close> sorts the keys. Mutexes are left out: an operation runs to its
  end. The database handle (opening and closing files) is left out too.
\<close>

section \<open>Interfaces\<close>

record 'a itemOps =
  Key :: "'a \<Rightarrow> ledgerKey"
  Encode :: "'a \<Rightarrow> bytes res"
  Decode :: "bytes \<Rightarrow> goerror + 'a"

text \<open>The operations of \<^verbatim>\<open>iavl.MutableTree\<close> the ledger calls. \<open>treeIterate\<close> gives the entries in
  the order \<^verbatim>\<open>Iterate\<close> visits them, \<open>treeLoad t n\<close> a second tree on the same database with version
  \<open>n\<close> loaded (\<^verbatim>\<open>NewMutableTree\<close> and \<^verbatim>\<open>LazyLoadVersion\<close>). A \<open>string\<close> is the text of an error.\<close>

record 't treeOps =
  treeGet :: "'t \<Rightarrow> bytes \<Rightarrow> string + bytes option"
  treeSet :: "'t \<Rightarrow> bytes \<Rightarrow> bytes \<Rightarrow> string + 't"
  treeRemove :: "'t \<Rightarrow> bytes \<Rightarrow> string + 't"
  treeSaveVersion :: "'t \<Rightarrow> string + bytes \<times> int \<times> 't"
  treeVersion :: "'t \<Rightarrow> int"
  treeIterate :: "'t \<Rightarrow> string + (bytes \<times> bytes) list"
  treeLoad :: "'t \<Rightarrow> int \<Rightarrow> string + 't"

text \<open>The laws of a tree whose database does not fail: \<open>A\<close> is the map the working tree holds, \<open>H\<close>
  the maps of the saved versions. Version 0 loads the latest saved one.\<close>

definition tree_laws ::
  "'t treeOps \<Rightarrow> ('t \<Rightarrow> bytes \<rightharpoonup> bytes) \<Rightarrow> ('t \<Rightarrow> int \<rightharpoonup> (bytes \<rightharpoonup> bytes)) \<Rightarrow> bool" where
  "tree_laws T A H \<longleftrightarrow>
     (\<forall>t k. treeGet T t k = Inr (A t k)) \<and>
     (\<forall>t k v. \<exists>t'. treeSet T t k v = Inr t' \<and> A t' = (A t)(k \<mapsto> v) \<and> H t' = H t \<and>
        treeVersion T t' = treeVersion T t) \<and>
     (\<forall>t k. \<exists>t'. treeRemove T t k = Inr t' \<and> A t' = (A t)(k := None) \<and> H t' = H t \<and>
        treeVersion T t' = treeVersion T t) \<and>
     (\<forall>t. \<exists>h t'. treeSaveVersion T t = Inr (h, treeVersion T t + 1, t') \<and> A t' = A t \<and>
        H t' = (H t)(treeVersion T t + 1 \<mapsto> A t) \<and> treeVersion T t' = treeVersion T t + 1) \<and>
     (\<forall>t. \<exists>es. treeIterate T t = Inr es \<and> distinct (map fst es) \<and> map_of es = A t \<and>
        sorted_wrt (\<lambda>a b. bytes_Compare a b < 0) (map fst es)) \<and>
     (\<forall>t n m. H t (if n = 0 then treeVersion T t else n) = Some m \<longrightarrow>
        (\<exists>t'. treeLoad T t n = Inr t' \<and> A t' = m))"

section \<open>memItems\<close>

record 'a memItems =
  gotItems :: "(ledgerKey \<times> 'a) list"
  updatedItems :: "(ledgerKey \<times> 'a) list"
  removedKeys :: "ledgerKey list"

definition newMemItems :: "'a memItems" where
  "newMemItems = \<lparr>gotItems = [], updatedItems = [], removedKeys = []\<rparr>"

definition memItems_appendRemovedKey :: "ledgerKey \<Rightarrow> 'a memItems \<Rightarrow> 'a memItems" where
  "memItems_appendRemovedKey key m = m\<lparr>removedKeys := removedKeys m @ [key]\<rparr>"

definition memItems_isRemovedKey :: "'a memItems \<Rightarrow> ledgerKey \<Rightarrow> bool" where
  "memItems_isRemovedKey m key \<longleftrightarrow> (\<exists>k \<in> set (removedKeys m). key = k)"

definition memItems_setGotItem :: "'a itemOps \<Rightarrow> 'a \<Rightarrow> 'a memItems \<Rightarrow> 'a memItems" where
  "memItems_setGotItem I item m = m\<lparr>gotItems := AList.update (Key I item) item (gotItems m)\<rparr>"

definition memItems_setUpdatedItem :: "'a itemOps \<Rightarrow> 'a \<Rightarrow> 'a memItems \<Rightarrow> 'a memItems" where
  "memItems_setUpdatedItem I item m =
     m\<lparr>updatedItems := AList.update (Key I item) item (updatedItems m)\<rparr>"

definition memItems_getGotItem :: "'a memItems \<Rightarrow> ledgerKey \<Rightarrow> 'a option" where
  "memItems_getGotItem m key = map_of (gotItems m) key"

definition memItems_getUpdatedItem :: "'a memItems \<Rightarrow> ledgerKey \<Rightarrow> 'a option" where
  "memItems_getUpdatedItem m key = map_of (updatedItems m) key"

definition memItems_delGotItem :: "ledgerKey \<Rightarrow> 'a memItems \<Rightarrow> 'a memItems" where
  "memItems_delGotItem key m = m\<lparr>gotItems := AList.delete key (gotItems m)\<rparr>"

definition memItems_delUpdatedItem :: "ledgerKey \<Rightarrow> 'a memItems \<Rightarrow> 'a memItems" where
  "memItems_delUpdatedItem key m = m\<lparr>updatedItems := AList.delete key (updatedItems m)\<rparr>"

text \<open>\<^verbatim>\<open>delRemovedKey\<close> drops the first occurrence only.\<close>

definition memItems_delRemovedKey :: "ledgerKey \<Rightarrow> 'a memItems \<Rightarrow> 'a memItems" where
  "memItems_delRemovedKey key m = m\<lparr>removedKeys := remove1 key (removedKeys m)\<rparr>"

definition memItems_reset :: "'a memItems \<Rightarrow> 'a memItems" where
  "memItems_reset m = \<lparr>gotItems = [], updatedItems = [], removedKeys = []\<rparr>"

definition memItems_refresh :: "'a memItems \<Rightarrow> 'a memItems" where
  "memItems_refresh m =
     \<lparr>gotItems = fold (\<lambda>(k, v) got. AList.update k v got) (updatedItems m) (gotItems m),
      updatedItems = [], removedKeys = []\<rparr>"

text \<open>The cached items are pointers: a caller that got an item and writes through the pointer
  changes the cached item, and the updated one where it is the same object.\<close>

definition memItems_assign :: "'a itemOps \<Rightarrow> 'a \<Rightarrow> 'a memItems \<Rightarrow> 'a memItems" where
  "memItems_assign I item m =
     m\<lparr>gotItems := AList.update (Key I item) item (gotItems m),
       updatedItems := (if map_of (updatedItems m) (Key I item) = None then updatedItems m
                        else AList.update (Key I item) item (updatedItems m))\<rparr>"

text \<open>\<^verbatim>\<open>iterateItems\<close> and \<^verbatim>\<open>iterateRemovedKeys\<close>: the callback is run on a state of the caller and its
  error stops the loop.\<close>

fun iterateItems :: "(ledgerKey \<times> 'a) list \<Rightarrow> ('a \<Rightarrow> 's \<Rightarrow> unit res \<times> 's) \<Rightarrow> 's \<Rightarrow> unit res \<times> 's" where
  "iterateItems [] cb s = (Inr (), s)"
| "iterateItems ((k, v) # m) cb s = bindE (cb v s) (\<lambda>_ s. iterateItems m cb s)"

fun memItems_iterateRemovedKeys :: "ledgerKey list \<Rightarrow> (ledgerKey \<Rightarrow> 's \<Rightarrow> unit res \<times> 's) \<Rightarrow> 's \<Rightarrow> unit res \<times> 's" where
  "memItems_iterateRemovedKeys [] cb s = (Inr (), s)"
| "memItems_iterateRemovedKeys (k # ks) cb s = bindE (cb k s) (\<lambda>_ s. memItems_iterateRemovedKeys ks cb s)"

section \<open>SimpleLedger\<close>

record ('t, 'a) SimpleLedger =
  tree :: 't
  cachedItems :: "'a memItems"

definition SimpleLedger_Version :: "'t treeOps \<Rightarrow> ('t, 'a, 'z) SimpleLedger_scheme \<Rightarrow> int" where
  "SimpleLedger_Version T l = treeVersion T (tree l)"

definition SimpleLedger_Set :: "'a itemOps \<Rightarrow> 'a \<Rightarrow> ('t, 'a, 'z) SimpleLedger_scheme \<Rightarrow> unit res \<times> ('t, 'a, 'z) SimpleLedger_scheme" where
  "SimpleLedger_Set I item l =
     (Inr (), l\<lparr>cachedItems := memItems_setGotItem I item (memItems_setUpdatedItem I item (cachedItems l))\<rparr>)"

definition SimpleLedger_CancelSet :: "ledgerKey \<Rightarrow> ('t, 'a, 'z) SimpleLedger_scheme \<Rightarrow> unit res \<times> ('t, 'a, 'z) SimpleLedger_scheme" where
  "SimpleLedger_CancelSet key l =
     (Inr (), l\<lparr>cachedItems := memItems_delGotItem key (memItems_delUpdatedItem key (cachedItems l))\<rparr>)"

definition ErrKeyCompromised :: goerror where
  "ErrKeyCompromised = xerrors_NewOrdinary ''simple_ledger: the key is compromised - the requested key is not equal to the key encoded in value''"

definition SimpleLedger_Read :: "'t treeOps \<Rightarrow> 'a itemOps \<Rightarrow> ledgerKey \<Rightarrow> ('t, 'a, 'z) SimpleLedger_scheme \<Rightarrow> 'a res" where
  "SimpleLedger_Read T I key l =
     (case treeGet T (tree l) key of
        Inl err \<Rightarrow> Inl (Error (xerrors_NewOrdinary err))
      | Inr None \<Rightarrow> Inl (Error ErrNotFoundResult)
      | Inr (Some bz) \<Rightarrow>
          (case Decode I bz of
             Inl err \<Rightarrow> Inl (Error (xerrors_NewOrdinary (xerror_Error err)))
           | Inr item \<Rightarrow> if key \<noteq> Key I item then Inl (Error ErrKeyCompromised) else Inr item))"

definition SimpleLedger_Get :: "'t treeOps \<Rightarrow> 'a itemOps \<Rightarrow> ledgerKey \<Rightarrow> ('t, 'a, 'z) SimpleLedger_scheme \<Rightarrow> 'a res \<times> ('t, 'a, 'z) SimpleLedger_scheme" where
  "SimpleLedger_Get T I key l =
     (if memItems_isRemovedKey (cachedItems l) key then (Inl (Error ErrNotFoundResult), l)
      else case memItems_getGotItem (cachedItems l) key of
             Some item \<Rightarrow> (Inr item, l)
           | None \<Rightarrow>
               (case SimpleLedger_Read T I key l of
                  Inl xerr \<Rightarrow> (Inl xerr, l)
                | Inr item \<Rightarrow> (Inr item, l\<lparr>cachedItems := memItems_setGotItem I item (cachedItems l)\<rparr>)))"

definition SimpleLedger_Del :: "'t treeOps \<Rightarrow> 'a itemOps \<Rightarrow> ledgerKey \<Rightarrow> ('t, 'a, 'z) SimpleLedger_scheme \<Rightarrow> 'a res \<times> ('t, 'a, 'z) SimpleLedger_scheme" where
  "SimpleLedger_Del T I key l =
     bindE (SimpleLedger_Get T I key l) (\<lambda>item l.
       (Inr item, l\<lparr>cachedItems := memItems_appendRemovedKey key
                      (memItems_delUpdatedItem key (memItems_delGotItem key (cachedItems l)))\<rparr>))"

definition SimpleLedger_CancelDel :: "ledgerKey \<Rightarrow> ('t, 'a, 'z) SimpleLedger_scheme \<Rightarrow> unit res \<times> ('t, 'a, 'z) SimpleLedger_scheme" where
  "SimpleLedger_CancelDel key l = (Inr (), l\<lparr>cachedItems := memItems_delRemovedKey key (cachedItems l)\<rparr>)"

text \<open>\<^verbatim>\<open>IterateReadAllItems\<close>: the committed items, in key order; a value that does not decode or
  that carries another key stops the loop.\<close>

fun iterateTree :: "'a itemOps \<Rightarrow> (bytes \<times> bytes) list \<Rightarrow> ('a \<Rightarrow> 's \<Rightarrow> unit res \<times> 's) \<Rightarrow> 's \<Rightarrow> unit res \<times> 's" where
  "iterateTree I [] cb s = (Inr (), s)"
| "iterateTree I ((key, value) # es) cb s =
     (case Decode I value of
        Inl xerr \<Rightarrow> (Inl (Error (xerrors_NewOrdinary ''item decode error - Key:%X vs. err:%v'')), s)
      | Inr item \<Rightarrow>
          if Key I item \<noteq> ToLedgerKey key
          then (Inl (Error (xerrors_NewOrdinary ''wrong key - Key:%X vs. stake's txhash:%X'')), s)
          else bindE (cb item s) (\<lambda>_ s. iterateTree I es cb s))"

definition SimpleLedger_IterateReadAllItems ::
  "'t treeOps \<Rightarrow> 'a itemOps \<Rightarrow> ('a \<Rightarrow> 's \<Rightarrow> unit res \<times> 's) \<Rightarrow> ('t, 'a, 'z) SimpleLedger_scheme \<Rightarrow> 's \<Rightarrow> unit res \<times> 's" where
  "SimpleLedger_IterateReadAllItems T I cb l s =
     (case treeIterate T (tree l) of
        Inl err \<Rightarrow> (Inl (Error (xerrors_NewOrdinary err)), s)
      | Inr es \<Rightarrow> iterateTree I es cb s)"

definition SimpleLedger_IterateGotItems ::
  "('a \<Rightarrow> 's \<Rightarrow> unit res \<times> 's) \<Rightarrow> ('t, 'a, 'z) SimpleLedger_scheme \<Rightarrow> 's \<Rightarrow> unit res \<times> 's" where
  "SimpleLedger_IterateGotItems cb l s = iterateItems (gotItems (cachedItems l)) cb s"

definition SimpleLedger_IterateUpdatedItems ::
  "('a \<Rightarrow> 's \<Rightarrow> unit res \<times> 's) \<Rightarrow> ('t, 'a, 'z) SimpleLedger_scheme \<Rightarrow> 's \<Rightarrow> unit res \<times> 's" where
  "SimpleLedger_IterateUpdatedItems cb l s = iterateItems (updatedItems (cachedItems l)) cb s"

definition SimpleLedger_Commit :: "('t, 'a, 'z) SimpleLedger_scheme \<Rightarrow> (bytes \<times> int) res \<times> ('t, 'a, 'z) SimpleLedger_scheme" where
  "SimpleLedger_Commit l = (Inl (Panic ''DO NOT call SimpleLedger::Commit()''), l)"

definition SimpleLedger_ImmutableLedgerAt :: "'t treeOps \<Rightarrow> int \<Rightarrow> ('t, 'a, 'z) SimpleLedger_scheme \<Rightarrow> ('t, 'a) SimpleLedger res" where
  "SimpleLedger_ImmutableLedgerAt T n l =
     (case treeLoad T (tree l) n of
        Inl err \<Rightarrow> Inl (Error (xerrors_NewOrdinary err))
      | Inr t \<Rightarrow> Inr \<lparr>tree = t, cachedItems = newMemItems\<rparr>)"

definition SimpleLedger_Clone :: "('t, 'a, 'z) SimpleLedger_scheme \<Rightarrow> ('t, 'a) SimpleLedger" where
  "SimpleLedger_Clone l = \<lparr>tree = tree l, cachedItems = newMemItems\<rparr>"

section \<open>FinalityLedger\<close>

record ('t, 'a) FinalityLedger = "('t, 'a) SimpleLedger" +
  finalityItems :: "'a memItems"

definition FinalityLedger_SetFinality :: "'a itemOps \<Rightarrow> 'a \<Rightarrow> ('t, 'a) FinalityLedger \<Rightarrow> unit res \<times> ('t, 'a) FinalityLedger" where
  "FinalityLedger_SetFinality I item l =
     (Inr (), l\<lparr>finalityItems := memItems_setGotItem I item (memItems_setUpdatedItem I item (finalityItems l))\<rparr>)"

definition FinalityLedger_CancelSetFinality :: "ledgerKey \<Rightarrow> ('t, 'a) FinalityLedger \<Rightarrow> unit res \<times> ('t, 'a) FinalityLedger" where
  "FinalityLedger_CancelSetFinality key l =
     (Inr (), l\<lparr>finalityItems := memItems_delGotItem key (memItems_delUpdatedItem key (finalityItems l))\<rparr>)"

definition FinalityLedger_GetFinality :: "'t treeOps \<Rightarrow> 'a itemOps \<Rightarrow> ledgerKey \<Rightarrow> ('t, 'a) FinalityLedger \<Rightarrow> 'a res \<times> ('t, 'a) FinalityLedger" where
  "FinalityLedger_GetFinality T I key l =
     (if memItems_isRemovedKey (finalityItems l) key then (Inl (Error ErrNotFoundResult), l)
      else case memItems_getGotItem (finalityItems l) key of
             Some item \<Rightarrow> (Inr item, l)
           | None \<Rightarrow>
               (case SimpleLedger_Read T I key l of
                  Inl xerr \<Rightarrow> (Inl xerr, l)
                | Inr item \<Rightarrow> (Inr item, l\<lparr>finalityItems := memItems_setGotItem I item (finalityItems l)\<rparr>)))"

definition FinalityLedger_DelFinality :: "'t treeOps \<Rightarrow> 'a itemOps \<Rightarrow> ledgerKey \<Rightarrow> ('t, 'a) FinalityLedger \<Rightarrow> 'a res \<times> ('t, 'a) FinalityLedger" where
  "FinalityLedger_DelFinality T I key l =
     (let l = snd (SimpleLedger_Del T I key l) in
      bindE (FinalityLedger_GetFinality T I key l) (\<lambda>item l.
        (Inr item, l\<lparr>finalityItems := memItems_appendRemovedKey key
                       (memItems_delUpdatedItem key (memItems_delGotItem key (finalityItems l)))\<rparr>)))"

definition FinalityLedger_CancelDelFinality :: "ledgerKey \<Rightarrow> ('t, 'a) FinalityLedger \<Rightarrow> unit res \<times> ('t, 'a) FinalityLedger" where
  "FinalityLedger_CancelDelFinality key l =
     (Inr (), l\<lparr>finalityItems := memItems_delRemovedKey key (finalityItems l)\<rparr>)"

definition FinalityLedger_IterateReadAllFinalityItems ::
  "'t treeOps \<Rightarrow> 'a itemOps \<Rightarrow> ('a \<Rightarrow> 's \<Rightarrow> unit res \<times> 's) \<Rightarrow> ('t, 'a) FinalityLedger \<Rightarrow> 's \<Rightarrow> unit res \<times> 's" where
  "FinalityLedger_IterateReadAllFinalityItems T I cb l s = SimpleLedger_IterateReadAllItems T I cb l s"

definition FinalityLedger_IterateFinalityGotItems ::
  "('a \<Rightarrow> 's \<Rightarrow> unit res \<times> 's) \<Rightarrow> ('t, 'a) FinalityLedger \<Rightarrow> 's \<Rightarrow> unit res \<times> 's" where
  "FinalityLedger_IterateFinalityGotItems cb l s = iterateItems (gotItems (finalityItems l)) cb s"

definition FinalityLedger_IterateFinalityUpdatedItems ::
  "('a \<Rightarrow> 's \<Rightarrow> unit res \<times> 's) \<Rightarrow> ('t, 'a) FinalityLedger \<Rightarrow> 's \<Rightarrow> unit res \<times> 's" where
  "FinalityLedger_IterateFinalityUpdatedItems cb l s = iterateItems (updatedItems (finalityItems l)) cb s"

text \<open>\<^verbatim>\<open>Commit\<close>: the removals, then the updates in key order, then a new version. A failure leaves
  the tree as far as it got.\<close>

fun commit_remove :: "'t treeOps \<Rightarrow> ledgerKey list \<Rightarrow> 't \<Rightarrow> unit res \<times> 't" where
  "commit_remove T [] t = (Inr (), t)"
| "commit_remove T (k # ks) t =
     (case treeRemove T t k of
        Inl err \<Rightarrow> (Inl (Error (xerrors_NewOrdinary err)), t)
      | Inr t' \<Rightarrow> commit_remove T ks t')"

text \<open>The loop runs over the keys of the map, so the lookup always finds a value.\<close>

fun commit_update :: "'t treeOps \<Rightarrow> 'a itemOps \<Rightarrow> (ledgerKey \<times> 'a) list \<Rightarrow> ledgerKey list \<Rightarrow> 't \<Rightarrow> unit res \<times> 't" where
  "commit_update T I m [] t = (Inr (), t)"
| "commit_update T I m (k # ks) t =
     (case map_of m k of
        None \<Rightarrow> (Inl (Panic ''nil dereference''), t)
      | Some val \<Rightarrow>
          (case Encode I val of
             Inl err \<Rightarrow> (Inl err, t)
           | Inr bz \<Rightarrow>
               (case treeSet T t (Key I val) bz of
                  Inl err \<Rightarrow> (Inl (Error (xerrors_NewOrdinary err)), t)
                | Inr t' \<Rightarrow> commit_update T I m ks t')))"

definition FinalityLedger_Commit :: "'t treeOps \<Rightarrow> 'a itemOps \<Rightarrow> ('t, 'a) FinalityLedger \<Rightarrow> (bytes \<times> int) res \<times> ('t, 'a) FinalityLedger" where
  "FinalityLedger_Commit T I l =
     (case commit_remove T (removedKeys (finalityItems l)) (tree l) of
        (Inl e, t) \<Rightarrow> (Inl e, l\<lparr>tree := t\<rparr>)
      | (Inr _, t) \<Rightarrow>
          (let keys = go_sort LedgerKey_Less (map fst (updatedItems (finalityItems l))) in
           case commit_update T I (updatedItems (finalityItems l)) keys t of
             (Inl e, t) \<Rightarrow> (Inl e, l\<lparr>tree := t\<rparr>)
           | (Inr _, t) \<Rightarrow>
               (case treeSaveVersion T t of
                  Inl err \<Rightarrow> (Inl (Error (xerrors_NewOrdinary err)), l\<lparr>tree := t\<rparr>)
                | Inr (h, v, t') \<Rightarrow>
                    (Inr (h, v), l\<lparr>tree := t', cachedItems := memItems_reset (cachedItems l),
                                   finalityItems := memItems_refresh (finalityItems l)\<rparr>))))"

definition FinalityLedger_ImmutableLedgerAt :: "'t treeOps \<Rightarrow> int \<Rightarrow> ('t, 'a) FinalityLedger \<Rightarrow> ('t, 'a) SimpleLedger res" where
  "FinalityLedger_ImmutableLedgerAt T n l = SimpleLedger_ImmutableLedgerAt T n l"

lemmas memItems_defs =
  newMemItems_def memItems_appendRemovedKey_def memItems_isRemovedKey_def memItems_setGotItem_def
  memItems_setUpdatedItem_def memItems_getGotItem_def memItems_getUpdatedItem_def
  memItems_delGotItem_def memItems_delUpdatedItem_def memItems_delRemovedKey_def memItems_reset_def

lemmas simple_defs =
  SimpleLedger_Set_def SimpleLedger_CancelSet_def SimpleLedger_Get_def SimpleLedger_Del_def
  SimpleLedger_CancelDel_def

lemmas finality_defs =
  FinalityLedger_SetFinality_def FinalityLedger_CancelSetFinality_def FinalityLedger_GetFinality_def
  FinalityLedger_DelFinality_def FinalityLedger_CancelDelFinality_def

end
