(* ===== verification/Rigo_LedgerSpec.thy ===== *)
theory Rigo_LedgerSpec
  imports Rigo_Ledger
begin

text \<open>
  What a ledger promises. One level of a ledger (the level of CheckTx, or the level of the block
  being executed) is, abstractly, a map from keys to items together with the set of the keys
  deleted since the last commit: a deleted key stays invisible, whatever is set later, until the
  commit. The locales \<open>ledger_store\<close> (lookups and updates) and
  \<open>ledger_level\<close> (deletions too) are that contract, with the lemmas its clients use, and
  \<open>committing_level\<close> adds \<^verbatim>\<open>Commit\<close>; both levels of \<^verbatim>\<open>FinalityLedger\<close> are interpretations. The
  last section is the simulation of whole sequences of operations by the abstract ledger.
\<close>

section \<open>The abstract level\<close>

type_synonym 'a levelSpec = "(ledgerKey \<rightharpoonup> 'a) \<times> ledgerKey set"

definition level_get :: "ledgerKey \<Rightarrow> 'a levelSpec \<Rightarrow> 'a option" where
  "level_get k L = (if k \<in> snd L then None else fst L k)"

definition level_set :: "ledgerKey \<Rightarrow> 'a \<Rightarrow> 'a levelSpec \<Rightarrow> 'a levelSpec" where
  "level_set k x L = ((fst L)(k \<mapsto> x), snd L)"

definition level_del :: "ledgerKey \<Rightarrow> 'a levelSpec \<Rightarrow> 'a levelSpec" where
  "level_del k L = (if level_get k L = None then L else ((fst L)(k := None), insert k (snd L)))"

definition level_cancelSet :: "(ledgerKey \<rightharpoonup> 'a) \<Rightarrow> ledgerKey \<Rightarrow> 'a levelSpec \<Rightarrow> 'a levelSpec" where
  "level_cancelSet b k L = ((fst L)(k := if k \<in> snd L then None else b k), snd L)"

definition level_cancelDel :: "(ledgerKey \<rightharpoonup> 'a) \<Rightarrow> ledgerKey \<Rightarrow> 'a levelSpec \<Rightarrow> 'a levelSpec" where
  "level_cancelDel b k L =
     (if k \<in> snd L \<and> fst L k = None then (fst L)(k := b k) else fst L, snd L - {k})"

definition of_option :: "'a option \<Rightarrow> 'a res" where
  "of_option o1 = (case o1 of None \<Rightarrow> Inl (Error ErrNotFoundResult) | Some x \<Rightarrow> Inr x)"

lemma of_option_simps [simp]:
  "of_option None = Inl (Error ErrNotFoundResult)"
  "of_option (Some x) = Inr x"
  "of_option v = Inr x \<longleftrightarrow> v = Some x"
  "Inr x = of_option v \<longleftrightarrow> v = Some x"
  by (auto simp: of_option_def split: option.splits)

lemma of_option_Inl [simp]: "of_option v = Inl e \<longleftrightarrow> v = None \<and> e = Error ErrNotFoundResult"
  by (auto simp: of_option_def split: option.splits)

lemma level_get_set_other [simp]: "j \<noteq> k \<Longrightarrow> level_get j (level_set k x L) = level_get j L"
  by (simp add: level_get_def level_set_def)

lemma level_get_set_same: "k \<notin> snd L \<Longrightarrow> level_get k (level_set k x L) = Some x"
  by (simp add: level_get_def level_set_def)

lemma level_deleted_set [simp]: "snd (level_set k x L) = snd L"
  by (simp add: level_set_def)

lemma level_get_deleted [simp]: "k \<in> snd L \<Longrightarrow> level_get k L = None"
  by (simp add: level_get_def)

lemma level_set_twice [simp]: "level_set k x (level_set k y L) = level_set k x L"
  by (simp add: level_set_def)

lemma level_set_commute: "j \<noteq> k \<Longrightarrow> level_set j x (level_set k y L) = level_set k y (level_set j x L)"
  by (simp add: level_set_def fun_upd_twist)

lemma level_set_id: "fst L k = Some x \<Longrightarrow> level_set k x L = L"
  by (cases L) (simp add: level_set_def fun_upd_idem)

lemma level_get_del [simp]: "level_get j (level_del k L) = (if j = k then None else level_get j L)"
  by (auto simp: level_get_def level_del_def)

section \<open>The contract\<close>

text \<open>\<open>inv\<close> is the invariant of the implementation, \<open>base\<close> the committed items, \<open>level\<close> the
  abstract level and \<open>valid\<close> what an item must satisfy to be stored (it can be encoded and
  decoded back).\<close>

locale ledger_store =
  fixes inv :: "'s \<Rightarrow> bool"
    and valid :: "'a \<Rightarrow> bool"
    and key :: "'a \<Rightarrow> ledgerKey"
    and base :: "'s \<Rightarrow> ledgerKey \<rightharpoonup> 'a"
    and level :: "'s \<Rightarrow> 'a levelSpec"
    and get :: "ledgerKey \<Rightarrow> 's \<Rightarrow> 'a res \<times> 's"
    and put :: "'a \<Rightarrow> 's \<Rightarrow> unit res \<times> 's"
  assumes level_key: "inv s \<Longrightarrow> level_get k (level s) = Some x \<Longrightarrow> key x = k"
    and get_result: "inv s \<Longrightarrow> fst (get k s) = of_option (level_get k (level s))"
    and get_inv: "inv s \<Longrightarrow> inv (snd (get k s))"
    and get_level: "inv s \<Longrightarrow> level (snd (get k s)) = level s"
    and get_base: "inv s \<Longrightarrow> base (snd (get k s)) = base s"
    and put_result: "fst (put x s) = Inr ()"
    and put_inv: "inv s \<Longrightarrow> valid x \<Longrightarrow> inv (snd (put x s))"
    and put_level: "inv s \<Longrightarrow> valid x \<Longrightarrow> level (snd (put x s)) = level_set (key x) x (level s)"
    and put_base: "inv s \<Longrightarrow> valid x \<Longrightarrow> base (snd (put x s)) = base s"
begin

lemma get_eq: "inv s \<Longrightarrow> get k s = (of_option (level_get k (level s)), snd (get k s))"
  by (simp add: get_result prod_eq_iff)

lemma put_eq: "put x s = (Inr (), snd (put x s))"
  by (simp add: put_result prod_eq_iff)

lemma getD:
  assumes "get k s = (r, s')" "inv s"
  shows "r = of_option (level_get k (level s))" "inv s'" "level s' = level s" "base s' = base s"
  using assms get_result [of s k] get_inv [of s k] get_level [of s k] get_base [of s k] by auto

lemma putD:
  assumes "put x s = (r, s')" "inv s" "valid x"
  shows "r = Inr ()" "inv s'" "level s' = level_set (key x) x (level s)" "base s' = base s"
  using assms put_result [of x s] put_inv [of s x] put_level [of s x] put_base [of s x] by auto

text \<open>What was set is what is got, unless the key was deleted since the last commit.\<close>

lemma get_put:
  assumes "inv s" "valid x"
  shows "fst (get k (snd (put x s))) =
     (if k = key x \<and> k \<notin> snd (level s) then Inr x else fst (get k s))"
  using assms by (auto simp: get_result put_inv put_level level_get_def level_set_def)

text \<open>Reading an item and putting a changed one back.\<close>

lemma get_update:
  assumes "inv s" "get k s = (Inr x, s1)" "valid y" "key y = k" "put y s1 = (r, s2)"
  shows "level_get k (level s) = Some x" "r = Inr ()" "inv s2" "level s2 = level_set k y (level s)"
  using getD [OF assms(2,1)] putD [OF assms(5) _ assms(3)] assms(4) by auto

end

text \<open>A store that also deletes.\<close>

locale ledger_level = ledger_store +
  fixes del :: "ledgerKey \<Rightarrow> 's \<Rightarrow> 'a res \<times> 's"
  assumes del_result: "inv s \<Longrightarrow> fst (del k s) = of_option (level_get k (level s))"
    and del_inv: "inv s \<Longrightarrow> inv (snd (del k s))"
    and del_level: "inv s \<Longrightarrow> level (snd (del k s)) = level_del k (level s)"
    and del_base: "inv s \<Longrightarrow> base (snd (del k s)) = base s"
begin

lemma del_eq: "inv s \<Longrightarrow> del k s = (of_option (level_get k (level s)), snd (del k s))"
  by (simp add: del_result prod_eq_iff)

lemma delD:
  assumes "del k s = (r, s')" "inv s"
  shows "r = of_option (level_get k (level s))" "inv s'" "level s' = level_del k (level s)" "base s' = base s"
  using assms del_result [of s k] del_inv [of s k] del_level [of s k] del_base [of s k] by auto

lemma get_del:
  "inv s \<Longrightarrow> fst (get j (snd (del k s))) = (if j = k then Inl (Error ErrNotFoundResult) else fst (get j s))"
  by (simp add: get_result del_inv del_level)

lemma get_put_deleted:
  assumes "inv s" "fst (del k s) = Inr y" "valid x" "key x = k"
  shows "fst (get k (snd (put x (snd (del k s))))) = Inl (Error ErrNotFoundResult)"
  using assms by (simp add: get_put del_inv del_level level_del_def del_result get_result)

end

text \<open>A level that \<^verbatim>\<open>Commit\<close> writes: afterwards the committed items are those of the level, and
  nothing counts as deleted.\<close>

locale committing_level = ledger_level +
  fixes commit :: "'s \<Rightarrow> (bytes \<times> int) res \<times> 's"
    and version :: "'s \<Rightarrow> int"
  assumes commit_result: "inv s \<Longrightarrow> \<exists>h. fst (commit s) = Inr (h, version s + 1)"
    and commit_inv: "inv s \<Longrightarrow> inv (snd (commit s))"
    and commit_level: "inv s \<Longrightarrow> level (snd (commit s)) = (fst (level s), {})"
    and commit_base: "inv s \<Longrightarrow> base (snd (commit s)) = fst (level s)"
    and commit_version: "inv s \<Longrightarrow> version (snd (commit s)) = version s + 1"
begin

text \<open>Set, then commit: the item is in the committed store and visible, even if its key was
  deleted before in the same block.\<close>

lemma put_commit:
  assumes "inv s" "valid x"
  shows "base (snd (commit (snd (put x s)))) (key x) = Some x"
    and "fst (get (key x) (snd (commit (snd (put x s))))) = Inr x"
proof -
  have "fst (level (snd (put x s))) (key x) = Some x"
    using assms by (simp add: put_level level_set_def)
  then show "base (snd (commit (snd (put x s)))) (key x) = Some x"
    "fst (get (key x) (snd (commit (snd (put x s))))) = Inr x"
    using assms
    by (simp_all add: commit_base put_inv commit_inv get_result commit_level level_get_def)
qed

end

section \<open>The items of a tree\<close>

definition item_ok :: "'a itemOps \<Rightarrow> 'a \<Rightarrow> bool" where
  "item_ok I x \<longleftrightarrow> (case Encode I x of Inr bz \<Rightarrow> Decode I bz = Inr x | Inl _ \<Rightarrow> False)"

definition items :: "'a itemOps \<Rightarrow> (bytes \<rightharpoonup> bytes) \<Rightarrow> ledgerKey \<rightharpoonup> 'a" where
  "items I m k = (case m k of None \<Rightarrow> None
                  | Some bz \<Rightarrow> (case Decode I bz of Inl _ \<Rightarrow> None
                               | Inr x \<Rightarrow> if Key I x = k then Some x else None))"

definition map_wf :: "'a itemOps \<Rightarrow> (bytes \<rightharpoonup> bytes) \<Rightarrow> bool" where
  "map_wf I m \<longleftrightarrow> (\<forall>k bz. m k = Some bz \<longrightarrow> (\<exists>x. Decode I bz = Inr x \<and> Key I x = k))"

lemma item_okE:
  assumes "item_ok I x"
  obtains bz where "Encode I x = Inr bz" "Decode I bz = Inr x"
  using assms by (auto simp: item_ok_def split: sum.splits)

lemma items_Key: "items I m k = Some x \<Longrightarrow> Key I x = k"
  by (auto simp: items_def split: option.splits sum.splits if_splits)

lemma map_wf_Some: "map_wf I m \<Longrightarrow> m k = Some bz \<Longrightarrow> \<exists>x. Decode I bz = Inr x \<and> Key I x = k \<and> items I m k = Some x"
  unfolding map_wf_def items_def by fastforce

lemma items_upd:
  "Encode I x = Inr bz \<Longrightarrow> Decode I bz = Inr x \<Longrightarrow> items I (m(Key I x \<mapsto> bz)) = (items I m)(Key I x \<mapsto> x)"
  by (auto simp: items_def fun_eq_iff)

lemma items_del: "items I (m(k := None)) = (items I m)(k := None)"
  by (auto simp: items_def fun_eq_iff)

lemma map_wf_upd:
  "map_wf I m \<Longrightarrow> Decode I bz = Inr x \<Longrightarrow> Key I x = k \<Longrightarrow> map_wf I (m(k \<mapsto> bz))"
  by (auto simp: map_wf_def)

lemma map_wf_del: "map_wf I m \<Longrightarrow> map_wf I (m(k := None))"
  by (auto simp: map_wf_def)

section \<open>One cache refines a level\<close>

text \<open>The invariant of a cache over the committed items \<open>b\<close>: the items are filed under their keys;
  an updated item is the cached one; a cached item that is not updated is the committed one.\<close>

definition mi_inv :: "'a itemOps \<Rightarrow> (ledgerKey \<rightharpoonup> 'a) \<Rightarrow> 'a memItems \<Rightarrow> bool" where
  "mi_inv I b m \<longleftrightarrow>
     distinct (map fst (updatedItems m)) \<and> distinct (removedKeys m) \<and>
     (\<forall>k x. map_of (gotItems m) k = Some x \<longrightarrow> Key I x = k) \<and>
     (\<forall>k x. map_of (updatedItems m) k = Some x \<longrightarrow> map_of (gotItems m) k = Some x \<and> item_ok I x) \<and>
     (\<forall>k x. map_of (gotItems m) k = Some x \<longrightarrow> map_of (updatedItems m) k = None \<longrightarrow>
        k \<notin> set (removedKeys m) \<and> b k = Some x)"

lemma mi_invI:
  assumes "distinct (map fst (updatedItems m))" "distinct (removedKeys m)"
    and "\<And>k x. map_of (gotItems m) k = Some x \<Longrightarrow> Key I x = k"
    and "\<And>k x. map_of (updatedItems m) k = Some x \<Longrightarrow> map_of (gotItems m) k = Some x"
    and "\<And>k x. map_of (updatedItems m) k = Some x \<Longrightarrow> item_ok I x"
    and "\<And>k x. map_of (gotItems m) k = Some x \<Longrightarrow> map_of (updatedItems m) k = None \<Longrightarrow> k \<notin> set (removedKeys m)"
    and "\<And>k x. map_of (gotItems m) k = Some x \<Longrightarrow> map_of (updatedItems m) k = None \<Longrightarrow> b k = Some x"
  shows "mi_inv I b m"
  using assms unfolding mi_inv_def by blast

lemma mi_invD:
  assumes "mi_inv I b m"
  shows "distinct (map fst (updatedItems m))" "distinct (removedKeys m)"
    and "map_of (gotItems m) k = Some x \<Longrightarrow> Key I x = k"
    and "map_of (updatedItems m) k = Some x \<Longrightarrow> map_of (gotItems m) k = Some x"
    and "map_of (updatedItems m) k = Some x \<Longrightarrow> item_ok I x"
    and "map_of (gotItems m) k = Some x \<Longrightarrow> map_of (updatedItems m) k = None \<Longrightarrow> k \<notin> set (removedKeys m)"
    and "map_of (gotItems m) k = Some x \<Longrightarrow> map_of (updatedItems m) k = None \<Longrightarrow> b k = Some x"
  using assms unfolding mi_inv_def by blast+

definition mi_level :: "(ledgerKey \<rightharpoonup> 'a) \<Rightarrow> 'a memItems \<Rightarrow> 'a levelSpec" where
  "mi_level b m =
     ((\<lambda>k. case map_of (gotItems m) k of Some x \<Rightarrow> Some x
           | None \<Rightarrow> if k \<in> set (removedKeys m) then None else b k),
      set (removedKeys m))"

lemma level_get_mi:
  "level_get k (mi_level b m) =
     (if k \<in> set (removedKeys m) then None
      else case map_of (gotItems m) k of Some x \<Rightarrow> Some x | None \<Rightarrow> b k)"
  by (auto simp: level_get_def mi_level_def split: option.splits)

lemma mi_level_key:
  "mi_inv I b m \<Longrightarrow> (\<And>k x. b k = Some x \<Longrightarrow> Key I x = k) \<Longrightarrow> level_get k (mi_level b m) = Some x \<Longrightarrow> Key I x = k"
  by (auto simp: level_get_mi mi_inv_def split: if_splits option.splits)

lemma mi_new [simp]: "mi_inv I b newMemItems" "mi_level b newMemItems = (b, {})"
  by (simp_all add: mi_inv_def mi_level_def newMemItems_def)

lemma mi_reset [simp]: "mi_inv I b (memItems_reset m)" "mi_level b (memItems_reset m) = (b, {})"
  by (simp_all add: mi_inv_def mi_level_def memItems_reset_def)

text \<open>Caching a committed item is invisible.\<close>

lemma mi_cache:
  assumes "mi_inv I b m" "k \<notin> set (removedKeys m)" "map_of (gotItems m) k = None" "b k = Some x" "Key I x = k"
  shows "mi_inv I b (memItems_setGotItem I x m)" "mi_level b (memItems_setGotItem I x m) = mi_level b m"
proof -
  have u: "map_of (updatedItems m) k = None"
    using assms(1,3) by (cases "map_of (updatedItems m) k") (auto simp: mi_inv_def)
  show "mi_inv I b (memItems_setGotItem I x m)"
    using assms u by (auto simp: mi_inv_def memItems_setGotItem_def update_conv')
  show "mi_level b (memItems_setGotItem I x m) = mi_level b m"
    using assms by (auto simp: mi_level_def memItems_setGotItem_def update_conv' fun_eq_iff)
qed

lemma mi_set:
  assumes "mi_inv I b m" "item_ok I x"
  defines "m' \<equiv> memItems_setGotItem I x (memItems_setUpdatedItem I x m)"
  shows "mi_inv I b m'" "mi_level b m' = level_set (Key I x) x (mi_level b m)"
proof -
  show "mi_inv I b m'"
    using assms
    by (auto simp: mi_inv_def memItems_setGotItem_def memItems_setUpdatedItem_def update_conv' distinct_update)
  show "mi_level b m' = level_set (Key I x) x (mi_level b m)"
    by (auto simp: m'_def mi_level_def level_set_def memItems_setGotItem_def memItems_setUpdatedItem_def
      update_conv' fun_eq_iff)
qed

lemma mi_del:
  assumes "mi_inv I b m" "level_get k (mi_level b m) = Some x"
  defines "m' \<equiv> memItems_appendRemovedKey k (memItems_delUpdatedItem k (memItems_delGotItem k m))"
  shows "mi_inv I b m'" "mi_level b m' = level_del k (mi_level b m)"
proof -
  have k: "k \<notin> set (removedKeys m)"
    using assms(2) by (auto simp: level_get_mi split: if_splits)
  show "mi_inv I b m'"
    using assms k
    by (auto simp: mi_inv_def memItems_appendRemovedKey_def memItems_delUpdatedItem_def memItems_delGotItem_def
      delete_conv' distinct_delete split: if_splits)
  show "mi_level b m' = level_del k (mi_level b m)"
    using assms(2)
    by (auto simp: m'_def mi_level_def level_del_def memItems_appendRemovedKey_def memItems_delUpdatedItem_def
      memItems_delGotItem_def delete_conv' fun_eq_iff split: option.splits)
qed

lemma mi_cancelSet:
  fixes k :: ledgerKey
  assumes "mi_inv I b m"
  defines "m' \<equiv> memItems_delGotItem k (memItems_delUpdatedItem k m)"
  shows "mi_inv I b m'" "mi_level b m' = level_cancelSet b k (mi_level b m)"
proof -
  show "mi_inv I b m'"
    using assms
    by (auto simp: mi_inv_def memItems_delUpdatedItem_def memItems_delGotItem_def
      delete_conv' distinct_delete split: if_splits)
  show "mi_level b m' = level_cancelSet b k (mi_level b m)"
    by (auto simp: m'_def mi_level_def level_cancelSet_def memItems_delUpdatedItem_def
      memItems_delGotItem_def delete_conv' fun_eq_iff)
qed

lemma memItems_delRemovedKey_sel:
  "gotItems (memItems_delRemovedKey k m) = gotItems m"
  "updatedItems (memItems_delRemovedKey k m) = updatedItems m"
  "removedKeys (memItems_delRemovedKey k m) = remove1 k (removedKeys m)"
  by (simp_all add: memItems_delRemovedKey_def)

lemma mi_cancelDel:
  assumes "mi_inv I b m"
  shows "mi_inv I b (memItems_delRemovedKey k m)"
    "mi_level b (memItems_delRemovedKey k m) = level_cancelDel b k (mi_level b m)"
proof -
  have s: "set (remove1 k (removedKeys m)) = set (removedKeys m) - {k}"
    using mi_invD(2) [OF assms] by (rule set_remove1_eq)
  show "mi_inv I b (memItems_delRemovedKey k m)"
  proof (rule mi_invI, unfold memItems_delRemovedKey_sel)
    show "distinct (map fst (updatedItems m))"
      by (rule mi_invD(1) [OF assms])
    show "distinct (remove1 k (removedKeys m))"
      by (rule distinct_remove1) (rule mi_invD(2) [OF assms])
    show "map_of (gotItems m) j = Some x \<Longrightarrow> map_of (updatedItems m) j = None \<Longrightarrow> j \<notin> set (remove1 k (removedKeys m))" for j x
      using mi_invD(6) [OF assms, of j x] notin_set_remove1 by metis
  qed (erule mi_invD(3-5,7) [OF assms]; assumption?)+
  show "mi_level b (memItems_delRemovedKey k m) = level_cancelDel b k (mi_level b m)"
  proof (rule prod_eqI, rule ext)
    fix j
    show "fst (mi_level b (memItems_delRemovedKey k m)) j = fst (level_cancelDel b k (mi_level b m)) j"
      by (cases "map_of (gotItems m) k"; cases "map_of (gotItems m) j"; cases "j = k")
         (simp_all add: mi_level_def level_cancelDel_def memItems_delRemovedKey_sel s)
  qed (simp add: mi_level_def level_cancelDel_def memItems_delRemovedKey_sel s)
qed

section \<open>The two levels of a FinalityLedger\<close>

definition ledger_base :: "'a itemOps \<Rightarrow> ('t \<Rightarrow> bytes \<rightharpoonup> bytes) \<Rightarrow> ('t, 'a, 'z) SimpleLedger_scheme \<Rightarrow> ledgerKey \<rightharpoonup> 'a" where
  "ledger_base I A l = items I (A (tree l))"

definition exec_level :: "'a itemOps \<Rightarrow> ('t \<Rightarrow> bytes \<rightharpoonup> bytes) \<Rightarrow> ('t, 'a) FinalityLedger \<Rightarrow> 'a levelSpec" where
  "exec_level I A l = mi_level (ledger_base I A l) (finalityItems l)"

definition check_level :: "'a itemOps \<Rightarrow> ('t \<Rightarrow> bytes \<rightharpoonup> bytes) \<Rightarrow> ('t, 'a, 'z) SimpleLedger_scheme \<Rightarrow> 'a levelSpec" where
  "check_level I A l = mi_level (ledger_base I A l) (cachedItems l)"

definition simple_inv ::
  "'t treeOps \<Rightarrow> 'a itemOps \<Rightarrow> ('t \<Rightarrow> bytes \<rightharpoonup> bytes) \<Rightarrow> ('t \<Rightarrow> int \<rightharpoonup> (bytes \<rightharpoonup> bytes)) \<Rightarrow> ('t, 'a, 'z) SimpleLedger_scheme \<Rightarrow> bool" where
  "simple_inv T I A H l \<longleftrightarrow>
     tree_laws T A H \<and> map_wf I (A (tree l)) \<and> (\<forall>n m. H (tree l) n = Some m \<longrightarrow> map_wf I m) \<and>
     mi_inv I (ledger_base I A l) (cachedItems l)"

definition finality_inv ::
  "'t treeOps \<Rightarrow> 'a itemOps \<Rightarrow> ('t \<Rightarrow> bytes \<rightharpoonup> bytes) \<Rightarrow> ('t \<Rightarrow> int \<rightharpoonup> (bytes \<rightharpoonup> bytes)) \<Rightarrow> ('t, 'a) FinalityLedger \<Rightarrow> bool" where
  "finality_inv T I A H l \<longleftrightarrow>
     simple_inv T I A H l \<and> mi_inv I (ledger_base I A l) (finalityItems l)"

lemma ledger_base_Key: "ledger_base I A l k = Some x \<Longrightarrow> Key I x = k"
  by (simp add: ledger_base_def items_Key)

lemma ledger_base_update [simp]:
  "ledger_base I A (l\<lparr>cachedItems := m\<rparr>) = ledger_base I A l"
  "ledger_base I A (l2\<lparr>finalityItems := m\<rparr>) = ledger_base I A l2"
  by (simp_all add: ledger_base_def)

lemma read_base:
  assumes "simple_inv T I A H l"
  shows "SimpleLedger_Read T I k l = of_option (ledger_base I A l k)"
proof (cases "A (tree l) k")
  case None
  with assms show ?thesis
    by (simp add: SimpleLedger_Read_def simple_inv_def tree_laws_def ledger_base_def items_def)
next
  case (Some bz)
  with assms obtain x where "Decode I bz = Inr x" "Key I x = k"
    by (auto simp: simple_inv_def map_wf_def)
  with assms Some show ?thesis
    by (simp add: SimpleLedger_Read_def simple_inv_def tree_laws_def ledger_base_def items_def)
qed

text \<open>A lookup at a level either changes nothing or caches the committed item it found.\<close>

lemma simple_get_cases:
  assumes "simple_inv T I A H l"
  obtains "SimpleLedger_Get T I k l = (of_option (level_get k (check_level I A l)), l)"
  | x where "k \<notin> set (removedKeys (cachedItems l))" "map_of (gotItems (cachedItems l)) k = None"
      "ledger_base I A l k = Some x" "level_get k (check_level I A l) = Some x"
      "SimpleLedger_Get T I k l = (Inr x, l\<lparr>cachedItems := memItems_setGotItem I x (cachedItems l)\<rparr>)"
proof (cases "k \<in> set (removedKeys (cachedItems l))")
  case True
  then show ?thesis
    using that(1) by (simp add: SimpleLedger_Get_def memItems_isRemovedKey_def check_level_def level_get_mi)
next
  case False
  note k = False
  show ?thesis
  proof (cases "map_of (gotItems (cachedItems l)) k")
    case (Some x)
    with k show ?thesis
      using that(1)
      by (simp add: SimpleLedger_Get_def memItems_isRemovedKey_def memItems_getGotItem_def check_level_def level_get_mi)
  next
    case None
    with k show ?thesis
      using that
      by (cases "ledger_base I A l k")
         (simp_all add: SimpleLedger_Get_def memItems_isRemovedKey_def memItems_getGotItem_def
            read_base [OF assms] check_level_def level_get_mi)
  qed
qed

lemma finality_get_cases:
  assumes "finality_inv T I A H l"
  obtains "FinalityLedger_GetFinality T I k l = (of_option (level_get k (exec_level I A l)), l)"
  | x where "k \<notin> set (removedKeys (finalityItems l))" "map_of (gotItems (finalityItems l)) k = None"
      "ledger_base I A l k = Some x" "level_get k (exec_level I A l) = Some x"
      "FinalityLedger_GetFinality T I k l = (Inr x, l\<lparr>finalityItems := memItems_setGotItem I x (finalityItems l)\<rparr>)"
proof (cases "k \<in> set (removedKeys (finalityItems l))")
  case True
  then show ?thesis
    using that(1) by (simp add: FinalityLedger_GetFinality_def memItems_isRemovedKey_def exec_level_def level_get_mi)
next
  case False
  note k = False
  have r: "SimpleLedger_Read T I k l = of_option (ledger_base I A l k)"
    by (rule read_base [of T I A H]) (use assms in \<open>simp add: finality_inv_def\<close>)
  show ?thesis
  proof (cases "map_of (gotItems (finalityItems l)) k")
    case (Some x)
    with k show ?thesis
      using that(1)
      by (simp add: FinalityLedger_GetFinality_def memItems_isRemovedKey_def memItems_getGotItem_def exec_level_def level_get_mi)
  next
    case None
    with k r show ?thesis
      using that
      by (cases "ledger_base I A l k")
         (simp_all add: FinalityLedger_GetFinality_def memItems_isRemovedKey_def memItems_getGotItem_def
            exec_level_def level_get_mi)
  qed
qed

lemma simple_get:
  assumes "simple_inv T I A H l"
  shows "fst (SimpleLedger_Get T I k l) = of_option (level_get k (check_level I A l))"
    and "simple_inv T I A H (snd (SimpleLedger_Get T I k l))"
    and "check_level I A (snd (SimpleLedger_Get T I k l)) = check_level I A l"
    and "\<exists>m. snd (SimpleLedger_Get T I k l) = l\<lparr>cachedItems := m\<rparr>"
proof -
  consider (a) "SimpleLedger_Get T I k l = (of_option (level_get k (check_level I A l)), l)"
    | (b) x where "k \<notin> set (removedKeys (cachedItems l))" "map_of (gotItems (cachedItems l)) k = None"
      "ledger_base I A l k = Some x" "level_get k (check_level I A l) = Some x"
      "SimpleLedger_Get T I k l = (Inr x, l\<lparr>cachedItems := memItems_setGotItem I x (cachedItems l)\<rparr>)"
    using simple_get_cases [OF assms] by metis
  note c = this
  show "fst (SimpleLedger_Get T I k l) = of_option (level_get k (check_level I A l))"
    using c by cases simp_all
  show "simple_inv T I A H (snd (SimpleLedger_Get T I k l))"
    using c
  proof cases
    case b
    then show ?thesis
      using assms mi_cache(1) [of I "ledger_base I A l" "cachedItems l" k x] ledger_base_Key [OF b(3)]
      by (simp add: simple_inv_def)
  qed (simp add: assms)
  show "check_level I A (snd (SimpleLedger_Get T I k l)) = check_level I A l"
    using c
  proof cases
    case b
    then show ?thesis
      using assms mi_cache(2) [of I "ledger_base I A l" "cachedItems l" k x] ledger_base_Key [OF b(3)]
      by (simp add: simple_inv_def check_level_def)
  qed simp
  show "\<exists>m. snd (SimpleLedger_Get T I k l) = l\<lparr>cachedItems := m\<rparr>"
    using c
  proof cases
    case a
    then show ?thesis by (intro exI [of _ "cachedItems l"]) simp
  qed auto
qed

lemma finality_get:
  assumes "finality_inv T I A H l"
  shows "fst (FinalityLedger_GetFinality T I k l) = of_option (level_get k (exec_level I A l))"
    and "finality_inv T I A H (snd (FinalityLedger_GetFinality T I k l))"
    and "exec_level I A (snd (FinalityLedger_GetFinality T I k l)) = exec_level I A l"
    and "\<exists>m. snd (FinalityLedger_GetFinality T I k l) = l\<lparr>finalityItems := m\<rparr>"
proof -
  consider (a) "FinalityLedger_GetFinality T I k l = (of_option (level_get k (exec_level I A l)), l)"
    | (b) x where "k \<notin> set (removedKeys (finalityItems l))" "map_of (gotItems (finalityItems l)) k = None"
      "ledger_base I A l k = Some x" "level_get k (exec_level I A l) = Some x"
      "FinalityLedger_GetFinality T I k l = (Inr x, l\<lparr>finalityItems := memItems_setGotItem I x (finalityItems l)\<rparr>)"
    using finality_get_cases [OF assms] by metis
  note c = this
  show "fst (FinalityLedger_GetFinality T I k l) = of_option (level_get k (exec_level I A l))"
    using c by cases simp_all
  show "finality_inv T I A H (snd (FinalityLedger_GetFinality T I k l))"
    using c
  proof cases
    case b
    then show ?thesis
      using assms mi_cache(1) [of I "ledger_base I A l" "finalityItems l" k x] ledger_base_Key [OF b(3)]
      by (simp add: finality_inv_def simple_inv_def)
  qed (simp add: assms)
  show "exec_level I A (snd (FinalityLedger_GetFinality T I k l)) = exec_level I A l"
    using c
  proof cases
    case b
    then show ?thesis
      using assms mi_cache(2) [of I "ledger_base I A l" "finalityItems l" k x] ledger_base_Key [OF b(3)]
      by (simp add: finality_inv_def exec_level_def)
  qed simp
  show "\<exists>m. snd (FinalityLedger_GetFinality T I k l) = l\<lparr>finalityItems := m\<rparr>"
    using c
  proof cases
    case a
    then show ?thesis by (intro exI [of _ "finalityItems l"]) simp
  qed auto
qed

lemma simple_inv_cached:
  "simple_inv T I A H l \<Longrightarrow> mi_inv I (ledger_base I A l) m \<Longrightarrow> simple_inv T I A H (l\<lparr>cachedItems := m\<rparr>)"
  by (simp add: simple_inv_def)

lemma simple_del:
  assumes "simple_inv T I A H l"
  shows "fst (SimpleLedger_Del T I k l) = of_option (level_get k (check_level I A l))"
    and "simple_inv T I A H (snd (SimpleLedger_Del T I k l))"
    and "check_level I A (snd (SimpleLedger_Del T I k l)) = level_del k (check_level I A l)"
    and "\<exists>m. snd (SimpleLedger_Del T I k l) = l\<lparr>cachedItems := m\<rparr>"
proof -
  obtain m where m: "SimpleLedger_Get T I k l = (of_option (level_get k (check_level I A l)), l\<lparr>cachedItems := m\<rparr>)"
    using simple_get(1,4) [OF assms, of k] by (metis prod.collapse)
  have inv: "mi_inv I (ledger_base I A l) m" and lev: "mi_level (ledger_base I A l) m = check_level I A l"
    using simple_get(2,3) [OF assms, of k] m by (simp_all add: simple_inv_def check_level_def)
  have nd: "level_get k (check_level I A l) = None \<Longrightarrow> level_del k (check_level I A l) = check_level I A l"
    by (simp add: level_del_def)
  have d: "level_get k (check_level I A l) = Some x \<Longrightarrow>
      mi_inv I (ledger_base I A l) (memItems_appendRemovedKey k (memItems_delUpdatedItem k (memItems_delGotItem k m))) \<and>
      mi_level (ledger_base I A l) (memItems_appendRemovedKey k (memItems_delUpdatedItem k (memItems_delGotItem k m))) =
        level_del k (check_level I A l)" for x
    using mi_del [OF inv, of k x] by (simp add: lev)
  show "fst (SimpleLedger_Del T I k l) = of_option (level_get k (check_level I A l))"
    by (cases "level_get k (check_level I A l)") (simp_all add: SimpleLedger_Del_def m)
  show "simple_inv T I A H (snd (SimpleLedger_Del T I k l))"
    using simple_inv_cached [OF assms] inv d
    by (cases "level_get k (check_level I A l)") (simp_all add: SimpleLedger_Del_def m)
  show "check_level I A (snd (SimpleLedger_Del T I k l)) = level_del k (check_level I A l)"
    using d lev nd
    by (cases "level_get k (check_level I A l)") (simp_all add: SimpleLedger_Del_def m check_level_def)
  show "\<exists>m. snd (SimpleLedger_Del T I k l) = l\<lparr>cachedItems := m\<rparr>"
    by (cases "level_get k (check_level I A l)") (auto simp: SimpleLedger_Del_def m)
qed

lemma finality_del:
  assumes "finality_inv T I A H l"
  shows "fst (FinalityLedger_DelFinality T I k l) = of_option (level_get k (exec_level I A l))"
    and "finality_inv T I A H (snd (FinalityLedger_DelFinality T I k l))"
    and "exec_level I A (snd (FinalityLedger_DelFinality T I k l)) = level_del k (exec_level I A l)"
    and "check_level I A (snd (FinalityLedger_DelFinality T I k l)) = level_del k (check_level I A l)"
    and "tree (snd (FinalityLedger_DelFinality T I k l)) = tree l"
proof -
  have simp_l: "simple_inv T I A H l"
    using assms by (simp add: finality_inv_def)
  obtain mc where mc: "snd (SimpleLedger_Del T I k l) = l\<lparr>cachedItems := mc\<rparr>"
    using simple_del(4) [OF simp_l] by blast
  define l1 where "l1 = l\<lparr>cachedItems := mc\<rparr>"
  have inv1: "finality_inv T I A H l1"
    using assms simple_del(2) [OF simp_l, of k] by (simp add: mc l1_def finality_inv_def)
  have chk1: "check_level I A l1 = level_del k (check_level I A l)"
    using simple_del(3) [OF simp_l, of k] by (simp add: mc l1_def)
  have ex1: "exec_level I A l1 = exec_level I A l"
    by (simp add: l1_def exec_level_def)
  obtain m where m: "FinalityLedger_GetFinality T I k l1 = (of_option (level_get k (exec_level I A l)), l1\<lparr>finalityItems := m\<rparr>)"
    using finality_get(1,4) [OF inv1, of k] by (metis ex1 prod.collapse)
  have inv: "mi_inv I (ledger_base I A l) m" and lev: "mi_level (ledger_base I A l) m = exec_level I A l"
    using finality_get(2,3) [OF inv1, of k] m ex1 by (simp_all add: finality_inv_def exec_level_def l1_def)
  have nd: "level_get k (exec_level I A l) = None \<Longrightarrow> level_del k (exec_level I A l) = exec_level I A l"
    by (simp add: level_del_def)
  have d: "level_get k (exec_level I A l) = Some x \<Longrightarrow>
      mi_inv I (ledger_base I A l) (memItems_appendRemovedKey k (memItems_delUpdatedItem k (memItems_delGotItem k m))) \<and>
      mi_level (ledger_base I A l) (memItems_appendRemovedKey k (memItems_delUpdatedItem k (memItems_delGotItem k m))) =
        level_del k (exec_level I A l)" for x
    using mi_del [OF inv, of k x] by (simp add: lev)
  have D: "FinalityLedger_DelFinality T I k l =
      bindE (of_option (level_get k (exec_level I A l)), l1\<lparr>finalityItems := m\<rparr>) (\<lambda>item l.
        (Inr item, l\<lparr>finalityItems := memItems_appendRemovedKey k
                       (memItems_delUpdatedItem k (memItems_delGotItem k (finalityItems l)))\<rparr>))"
    using m by (simp add: FinalityLedger_DelFinality_def mc l1_def)
  have s1: "simple_inv T I A H (l1\<lparr>finalityItems := m'\<rparr>)" for m'
    using inv1 by (simp add: finality_inv_def simple_inv_def)
  show "fst (FinalityLedger_DelFinality T I k l) = of_option (level_get k (exec_level I A l))"
    by (cases "level_get k (exec_level I A l)") (simp_all add: D)
  show "finality_inv T I A H (snd (FinalityLedger_DelFinality T I k l))"
    using d inv s1
    by (cases "level_get k (exec_level I A l)") (simp_all add: D finality_inv_def l1_def)
  show "exec_level I A (snd (FinalityLedger_DelFinality T I k l)) = level_del k (exec_level I A l)"
    using d lev nd
    by (cases "level_get k (exec_level I A l)") (simp_all add: D exec_level_def l1_def)
  show "check_level I A (snd (FinalityLedger_DelFinality T I k l)) = level_del k (check_level I A l)"
    using chk1
    by (cases "level_get k (exec_level I A l)") (simp_all add: D check_level_def l1_def)
  show "tree (snd (FinalityLedger_DelFinality T I k l)) = tree l"
    by (cases "level_get k (exec_level I A l)") (simp_all add: D l1_def)
qed

end
