(* ===== verification/Rigo_LedgerRefine.thy ===== *)
theory Rigo_LedgerRefine
  imports Rigo_LedgerSpec
begin

text \<open>
  \<^verbatim>\<open>FinalityLedger\<close> keeps the contract of \<open>Rigo_LedgerSpec\<close>: \<^verbatim>\<open>Commit\<close> writes the execution level to
  the tree, the two levels are interpretations of the locales, and any sequence of operations
  gives the answers of the abstract ledger.
\<close>

section \<open>Commit\<close>

lemma commit_remove_ok:
  assumes "tree_laws T A H"
  shows "\<exists>t'. commit_remove T ks t = (Inr (), t') \<and> A t' = (\<lambda>k. if k \<in> set ks then None else A t k) \<and>
    H t' = H t \<and> treeVersion T t' = treeVersion T t"
proof (induction ks arbitrary: t)
  case (Cons k ks)
  obtain t1 where t1: "treeRemove T t k = Inr t1" "A t1 = (A t)(k := None)" "H t1 = H t"
    "treeVersion T t1 = treeVersion T t"
    using assms unfolding tree_laws_def by blast
  then show ?case
    using Cons.IH [of t1] by (auto simp: fun_eq_iff)
qed simp

lemma commit_update_ok:
  assumes "tree_laws T A H" "\<And>k. k \<in> set ks \<Longrightarrow> \<exists>x. map_of m k = Some x \<and> Key I x = k \<and> item_ok I x"
    "map_wf I (A t)"
  shows "\<exists>t'. commit_update T I m ks t = (Inr (), t') \<and>
    items I (A t') = (\<lambda>k. if k \<in> set ks then map_of m k else items I (A t) k) \<and> map_wf I (A t') \<and>
    H t' = H t \<and> treeVersion T t' = treeVersion T t"
  using assms(2,3)
proof (induction ks arbitrary: t)
  case (Cons k ks)
  from Cons.prems(1) [of k] obtain x where x: "map_of m k = Some x" "Key I x = k" "item_ok I x"
    by auto
  then obtain bz where bz: "Encode I x = Inr bz" "Decode I bz = Inr x"
    by (auto elim: item_okE)
  obtain t1 where t1: "treeSet T t k bz = Inr t1" "A t1 = (A t)(k \<mapsto> bz)" "H t1 = H t"
    "treeVersion T t1 = treeVersion T t"
    using assms(1) unfolding tree_laws_def by blast
  have wf1: "map_wf I (A t1)"
    using Cons.prems(2) x bz t1 by (simp add: map_wf_upd)
  have it1: "items I (A t1) = (items I (A t))(k \<mapsto> x)"
    using items_upd [OF bz, of "A t"] x t1 by simp
  obtain t2 where "commit_update T I m ks t1 = (Inr (), t2)"
    "items I (A t2) = (\<lambda>k. if k \<in> set ks then map_of m k else items I (A t1) k)"
    "map_wf I (A t2)" "H t2 = H t1" "treeVersion T t2 = treeVersion T t1"
    using Cons.IH [OF _ wf1] Cons.prems(1) by auto
  then show ?case
    using x bz t1 it1 by (auto simp: fun_eq_iff)
qed simp

lemma map_wf_remove: "map_wf I m \<Longrightarrow> map_wf I (\<lambda>k. if k \<in> K then None else m k)"
  by (auto simp: map_wf_def)

lemma items_remove: "items I (\<lambda>k. if k \<in> K then None else m k) = (\<lambda>k. if k \<in> K then None else items I m k)"
  by (auto simp: items_def fun_eq_iff)

lemma refresh_got:
  "distinct (map fst u) \<Longrightarrow> map_of (fold (\<lambda>(k, v) got. AList.update k v got) u g) = map_of g ++ map_of u"
proof (induction u arbitrary: g)
  case (Cons a u)
  obtain k v where a: "a = (k, v)"
    by force
  have "map_of u k = None"
    using Cons.prems a by (simp add: map_of_eq_None_iff)
  then show ?case
    using Cons a by (auto simp: update_conv' map_add_def fun_eq_iff split: option.splits)
qed simp

text \<open>Under the invariant the level is the committed store without the removed keys, overridden by
  the updated items.\<close>

lemma mi_level_updated:
  assumes "mi_inv I b m"
  shows "fst (mi_level b m) =
    (\<lambda>k. case map_of (updatedItems m) k of Some x \<Rightarrow> Some x
         | None \<Rightarrow> if k \<in> set (removedKeys m) then None else b k)"
proof
  fix k
  show "fst (mi_level b m) k = (case map_of (updatedItems m) k of Some x \<Rightarrow> Some x
         | None \<Rightarrow> if k \<in> set (removedKeys m) then None else b k)"
  proof (cases "map_of (updatedItems m) k")
    case None
    then show ?thesis
      using mi_invD(6,7) [OF assms, of k] by (cases "map_of (gotItems m) k") (simp_all add: mi_level_def)
  next
    case (Some x)
    with mi_invD(4) [OF assms this] show ?thesis
      by (simp add: mi_level_def)
  qed
qed

lemma mi_refresh:
  assumes "mi_inv I b m"
  shows "mi_inv I (fst (mi_level b m)) (memItems_refresh m)"
    and "mi_level (fst (mi_level b m)) (memItems_refresh m) = (fst (mi_level b m), {})"
proof -
  have got: "map_of (gotItems (memItems_refresh m)) = map_of (gotItems m)"
  proof
    fix k
    show "map_of (gotItems (memItems_refresh m)) k = map_of (gotItems m) k"
      using mi_invD(4) [OF assms, of k] refresh_got [OF mi_invD(1) [OF assms]]
      by (cases "map_of (updatedItems m) k") (simp_all add: memItems_refresh_def map_add_def)
  qed
  have rest: "updatedItems (memItems_refresh m) = []" "removedKeys (memItems_refresh m) = []"
    by (simp_all add: memItems_refresh_def)
  show "mi_inv I (fst (mi_level b m)) (memItems_refresh m)"
    using mi_invD(3) [OF assms] by (intro mi_invI) (simp_all add: got rest mi_level_def)
  show "mi_level (fst (mi_level b m)) (memItems_refresh m) = (fst (mi_level b m), {})"
    by (auto simp: mi_level_def got rest fun_eq_iff split: option.splits)
qed

lemma finality_commit:
  assumes "finality_inv T I A H l"
  shows "\<exists>h t'. FinalityLedger_Commit T I l =
      (Inr (h, treeVersion T (tree l) + 1),
       l\<lparr>tree := t', cachedItems := memItems_reset (cachedItems l), finalityItems := memItems_refresh (finalityItems l)\<rparr>) \<and>
      items I (A t') = fst (exec_level I A l) \<and> map_wf I (A t') \<and>
      H t' = (H (tree l))(treeVersion T (tree l) + 1 \<mapsto> A t') \<and> treeVersion T t' = treeVersion T (tree l) + 1"
proof -
  let ?m = "finalityItems l"
  have laws: "tree_laws T A H" and wf: "map_wf I (A (tree l))"
    and inv: "mi_inv I (ledger_base I A l) ?m"
    using assms by (simp_all add: finality_inv_def simple_inv_def)
  define keys where "keys = go_sort LedgerKey_Less (map fst (updatedItems ?m))"
  obtain t1 where t1: "commit_remove T (removedKeys ?m) (tree l) = (Inr (), t1)"
    "A t1 = (\<lambda>k. if k \<in> set (removedKeys ?m) then None else A (tree l) k)"
    "H t1 = H (tree l)" "treeVersion T t1 = treeVersion T (tree l)"
    using commit_remove_ok [OF laws] by blast
  have wf1: "map_wf I (A t1)"
    using wf by (simp add: t1 map_wf_remove)
  have keys: "\<exists>x. map_of (updatedItems ?m) k = Some x \<and> Key I x = k \<and> item_ok I x" if "k \<in> set keys" for k
  proof -
    from that obtain x where x: "map_of (updatedItems ?m) k = Some x"
      by (auto simp: keys_def map_of_eq_None_iff simp flip: not_None_eq)
         (metis fst_conv image_eqI map_of_eq_None_iff option.exhaust)
    with mi_invD(3,4,5) [OF inv] show ?thesis
      by blast
  qed
  obtain t2 where t2: "commit_update T I (updatedItems ?m) keys t1 = (Inr (), t2)"
    "items I (A t2) = (\<lambda>k. if k \<in> set keys then map_of (updatedItems ?m) k else items I (A t1) k)"
    "map_wf I (A t2)" "H t2 = H t1" "treeVersion T t2 = treeVersion T t1"
    using commit_update_ok [OF laws keys wf1] by blast
  obtain h t3 where t3: "treeSaveVersion T t2 = Inr (h, treeVersion T t2 + 1, t3)" "A t3 = A t2"
    "H t3 = (H t2)(treeVersion T t2 + 1 \<mapsto> A t2)" "treeVersion T t3 = treeVersion T t2 + 1"
    using laws unfolding tree_laws_def by blast
  have "k \<in> set keys \<longleftrightarrow> map_of (updatedItems ?m) k \<noteq> None" for k
    by (simp add: keys_def map_of_eq_None_iff)
  then have it: "items I (A t3) = fst (exec_level I A l)"
    unfolding exec_level_def mi_level_updated [OF inv]
    by (auto simp: t3 t2 t1 items_remove ledger_base_def fun_eq_iff split: option.splits)
  show ?thesis
    using t1 t2 t3 it
    by (intro exI [of _ h] exI [of _ t3]) (simp add: FinalityLedger_Commit_def keys_def [symmetric])
qed

lemma finality_commit_inv:
  assumes "finality_inv T I A H l" "FinalityLedger_Commit T I l = (r, l')"
  shows "finality_inv T I A H l'" "exec_level I A l' = (fst (exec_level I A l), {})"
    "check_level I A l' = (fst (exec_level I A l), {})" "ledger_base I A l' = fst (exec_level I A l)"
proof -
  obtain h t' where t': "l' = l\<lparr>tree := t', cachedItems := memItems_reset (cachedItems l),
      finalityItems := memItems_refresh (finalityItems l)\<rparr>"
    "items I (A t') = fst (exec_level I A l)" "map_wf I (A t')"
    "H t' = (H (tree l))(treeVersion T (tree l) + 1 \<mapsto> A t')"
    using finality_commit [OF assms(1)] assms(2) by auto
  show b: "ledger_base I A l' = fst (exec_level I A l)"
    by (simp add: ledger_base_def t')
  have inv: "mi_inv I (ledger_base I A l) (finalityItems l)"
    using assms(1) by (simp add: finality_inv_def)
  have wfH: "\<forall>n m. H t' n = Some m \<longrightarrow> map_wf I m"
    using assms(1) t' by (auto simp: finality_inv_def simple_inv_def)
  have f: "finalityItems l' = memItems_refresh (finalityItems l)" and c: "cachedItems l' = memItems_reset (cachedItems l)"
    and t: "tree l' = t'"
    by (simp_all add: t'(1))
  show "finality_inv T I A H l'"
    using assms(1) mi_refresh(1) [OF inv] wfH t'(3)
    by (simp add: finality_inv_def simple_inv_def b f c t exec_level_def)
  show "exec_level I A l' = (fst (exec_level I A l), {})"
    using mi_refresh(2) [OF inv] unfolding exec_level_def [of _ _ l'] b f by (simp add: exec_level_def)
  show "check_level I A l' = (fst (exec_level I A l), {})"
    unfolding check_level_def b c by simp
qed

section \<open>Interpretations\<close>

interpretation execLevel: committing_level "finality_inv T I A H" "item_ok I" "Key I" "ledger_base I A"
  "exec_level I A" "FinalityLedger_GetFinality T I" "FinalityLedger_SetFinality I"
  "FinalityLedger_DelFinality T I" "FinalityLedger_Commit T I" "\<lambda>l. treeVersion T (tree l)"
  for T :: "'t treeOps" and I :: "'a itemOps" and A H
proof (unfold_locales, goal_cases)
  case (1 s k x)
  then show ?case
    using mi_level_key [of I "ledger_base I A s"] ledger_base_Key
    unfolding finality_inv_def exec_level_def by metis
next
  case (5 s k)
  then show ?case
    using finality_get(4) [OF 5, of k] by auto
next
  case (7 s x)
  then show ?case
    by (simp add: FinalityLedger_SetFinality_def finality_inv_def simple_inv_def mi_set(1))
next
  case (8 s x)
  then show ?case
    by (simp add: FinalityLedger_SetFinality_def exec_level_def finality_inv_def mi_set(2))
next
  case (13 s k)
  then show ?case
    using finality_del(5) [OF 13, of k] by (simp add: ledger_base_def)
next
  case (14 s)
  then show ?case
    using finality_commit [OF 14] by auto
next
  case (18 s)
  then show ?case
    using finality_commit [OF 18] by auto
qed (auto simp: FinalityLedger_SetFinality_def finality_get finality_del
      intro: finality_commit_inv [OF _ prod.collapse [symmetric]])

interpretation checkLevel: ledger_level "simple_inv T I A H" "item_ok I" "Key I" "ledger_base I A"
  "check_level I A" "SimpleLedger_Get T I" "SimpleLedger_Set I" "SimpleLedger_Del T I"
  for T :: "'t treeOps" and I :: "'a itemOps" and A H
proof (unfold_locales, goal_cases)
  case (1 s k x)
  then show ?case
    using mi_level_key [of I "ledger_base I A s"] ledger_base_Key
    unfolding simple_inv_def check_level_def by metis
next
  case (5 s k)
  then show ?case
    using simple_get(4) [OF 5, of k] by auto
next
  case (7 s x)
  then show ?case
    by (simp add: SimpleLedger_Set_def simple_inv_def mi_set(1))
next
  case (8 s x)
  then show ?case
    by (simp add: SimpleLedger_Set_def check_level_def simple_inv_def mi_set(2))
next
  case (13 s k)
  then show ?case
    using simple_del(4) [OF 13, of k] by auto
qed (auto simp: SimpleLedger_Set_def simple_get simple_del)

section \<open>The abstract ledger\<close>

record 'a ledgerSpec =
  sCommitted :: "ledgerKey \<rightharpoonup> 'a"
  sHistory :: "int \<rightharpoonup> (ledgerKey \<rightharpoonup> 'a)"
  sExec :: "'a levelSpec"
  sCheck :: "'a levelSpec"
  sVersion :: int

datatype 'a ledgerOp =
    OpGet ledgerKey | OpSet 'a | OpDel ledgerKey | OpCancelSet ledgerKey | OpCancelDel ledgerKey
  | OpGetFinality ledgerKey | OpSetFinality 'a | OpDelFinality ledgerKey
  | OpCancelSetFinality ledgerKey | OpCancelDelFinality ledgerKey
  | OpRead ledgerKey | OpCommit

datatype 'a ledgerOut = OutItem "'a res" | OutUnit "unit res" | OutVersion "int res"

primrec spec_op :: "('a \<Rightarrow> ledgerKey) \<Rightarrow> 'a ledgerOp \<Rightarrow> 'a ledgerSpec \<Rightarrow> 'a ledgerOut \<times> 'a ledgerSpec" where
  "spec_op key (OpGet k) s = (OutItem (of_option (level_get k (sCheck s))), s)"
| "spec_op key (OpSet x) s = (OutUnit (Inr ()), s\<lparr>sCheck := level_set (key x) x (sCheck s)\<rparr>)"
| "spec_op key (OpDel k) s =
     (OutItem (of_option (level_get k (sCheck s))), s\<lparr>sCheck := level_del k (sCheck s)\<rparr>)"
| "spec_op key (OpCancelSet k) s =
     (OutUnit (Inr ()), s\<lparr>sCheck := level_cancelSet (sCommitted s) k (sCheck s)\<rparr>)"
| "spec_op key (OpCancelDel k) s =
     (OutUnit (Inr ()), s\<lparr>sCheck := level_cancelDel (sCommitted s) k (sCheck s)\<rparr>)"
| "spec_op key (OpGetFinality k) s = (OutItem (of_option (level_get k (sExec s))), s)"
| "spec_op key (OpSetFinality x) s = (OutUnit (Inr ()), s\<lparr>sExec := level_set (key x) x (sExec s)\<rparr>)"
| "spec_op key (OpDelFinality k) s =
     (OutItem (of_option (level_get k (sExec s))),
      s\<lparr>sExec := level_del k (sExec s), sCheck := level_del k (sCheck s)\<rparr>)"
| "spec_op key (OpCancelSetFinality k) s =
     (OutUnit (Inr ()), s\<lparr>sExec := level_cancelSet (sCommitted s) k (sExec s)\<rparr>)"
| "spec_op key (OpCancelDelFinality k) s =
     (OutUnit (Inr ()), s\<lparr>sExec := level_cancelDel (sCommitted s) k (sExec s)\<rparr>)"
| "spec_op key (OpRead k) s = (OutItem (of_option (sCommitted s k)), s)"
| "spec_op key OpCommit s =
     (let m = fst (sExec s); v = sVersion s + 1 in
      (OutVersion (Inr v),
       \<lparr>sCommitted = m, sHistory = (sHistory s)(v \<mapsto> m), sExec = (m, {}), sCheck = (m, {}), sVersion = v\<rparr>))"

primrec ledger_op :: "'t treeOps \<Rightarrow> 'a itemOps \<Rightarrow> 'a ledgerOp \<Rightarrow> ('t, 'a) FinalityLedger \<Rightarrow> 'a ledgerOut \<times> ('t, 'a) FinalityLedger" where
  "ledger_op T I (OpGet k) l = map_prod OutItem id (SimpleLedger_Get T I k l)"
| "ledger_op T I (OpSet x) l = map_prod OutUnit id (SimpleLedger_Set I x l)"
| "ledger_op T I (OpDel k) l = map_prod OutItem id (SimpleLedger_Del T I k l)"
| "ledger_op T I (OpCancelSet k) l = map_prod OutUnit id (SimpleLedger_CancelSet k l)"
| "ledger_op T I (OpCancelDel k) l = map_prod OutUnit id (SimpleLedger_CancelDel k l)"
| "ledger_op T I (OpGetFinality k) l = map_prod OutItem id (FinalityLedger_GetFinality T I k l)"
| "ledger_op T I (OpSetFinality x) l = map_prod OutUnit id (FinalityLedger_SetFinality I x l)"
| "ledger_op T I (OpDelFinality k) l = map_prod OutItem id (FinalityLedger_DelFinality T I k l)"
| "ledger_op T I (OpCancelSetFinality k) l = map_prod OutUnit id (FinalityLedger_CancelSetFinality k l)"
| "ledger_op T I (OpCancelDelFinality k) l = map_prod OutUnit id (FinalityLedger_CancelDelFinality k l)"
| "ledger_op T I (OpRead k) l = (OutItem (SimpleLedger_Read T I k l), l)"
| "ledger_op T I OpCommit l = map_prod (OutVersion \<circ> map_sum id snd) id (FinalityLedger_Commit T I l)"

text \<open>The outputs of a sequence of operations, and the state it ends in.\<close>

fun run_ops :: "('o \<Rightarrow> 's \<Rightarrow> 'r \<times> 's) \<Rightarrow> 'o list \<Rightarrow> 's \<Rightarrow> 'r list \<times> 's" where
  "run_ops f [] s = ([], s)"
| "run_ops f (p # ps) s = (let (r, s') = f p s; (rs, s'') = run_ops f ps s' in (r # rs, s''))"

primrec op_ok :: "'a itemOps \<Rightarrow> 'a ledgerOp \<Rightarrow> bool" where
  "op_ok I (OpGet k) = True"
| "op_ok I (OpSet x) = item_ok I x"
| "op_ok I (OpDel k) = True"
| "op_ok I (OpCancelSet k) = True"
| "op_ok I (OpCancelDel k) = True"
| "op_ok I (OpGetFinality k) = True"
| "op_ok I (OpSetFinality x) = item_ok I x"
| "op_ok I (OpDelFinality k) = True"
| "op_ok I (OpCancelSetFinality k) = True"
| "op_ok I (OpCancelDelFinality k) = True"
| "op_ok I (OpRead k) = True"
| "op_ok I OpCommit = True"

definition ledger_abs ::
  "'t treeOps \<Rightarrow> 'a itemOps \<Rightarrow> ('t \<Rightarrow> bytes \<rightharpoonup> bytes) \<Rightarrow> ('t \<Rightarrow> int \<rightharpoonup> (bytes \<rightharpoonup> bytes)) \<Rightarrow> ('t, 'a) FinalityLedger \<Rightarrow> 'a ledgerSpec" where
  "ledger_abs T I A H l =
     \<lparr>sCommitted = ledger_base I A l, sHistory = (\<lambda>n. map_option (items I) (H (tree l) n)),
      sExec = exec_level I A l, sCheck = check_level I A l, sVersion = treeVersion T (tree l)\<rparr>"

lemma abs_sel [simp]:
  "sCommitted (ledger_abs T I A H l) = ledger_base I A l"
  "sExec (ledger_abs T I A H l) = exec_level I A l"
  "sCheck (ledger_abs T I A H l) = check_level I A l"
  "sVersion (ledger_abs T I A H l) = treeVersion T (tree l)"
  by (simp_all add: ledger_abs_def)

text \<open>The operations of the CheckTx level leave the execution level alone, and the other way
  round (\<^verbatim>\<open>DelFinality\<close> apart).\<close>

lemma finality_inv_cached:
  "finality_inv T I A H l \<Longrightarrow> mi_inv I (ledger_base I A l) m \<Longrightarrow> finality_inv T I A H (l\<lparr>cachedItems := m\<rparr>)"
  by (simp add: finality_inv_def simple_inv_def)

lemma finality_inv_finality:
  "finality_inv T I A H l \<Longrightarrow> mi_inv I (ledger_base I A l) m \<Longrightarrow> finality_inv T I A H (l\<lparr>finalityItems := m\<rparr>)"
  by (simp add: finality_inv_def simple_inv_def)

lemma abs_cached:
  "ledger_abs T I A H (l\<lparr>cachedItems := m\<rparr>) = (ledger_abs T I A H l)\<lparr>sCheck := mi_level (ledger_base I A l) m\<rparr>"
  by (simp add: ledger_abs_def exec_level_def check_level_def)

lemma abs_finality:
  "ledger_abs T I A H (l\<lparr>finalityItems := m\<rparr>) = (ledger_abs T I A H l)\<lparr>sExec := mi_level (ledger_base I A l) m\<rparr>"
  by (simp add: ledger_abs_def exec_level_def check_level_def)

definition refines :: "'t treeOps \<Rightarrow> 'a itemOps \<Rightarrow> ('t \<Rightarrow> bytes \<rightharpoonup> bytes) \<Rightarrow> ('t \<Rightarrow> int \<rightharpoonup> (bytes \<rightharpoonup> bytes)) \<Rightarrow>
    'r \<times> ('t, 'a) FinalityLedger \<Rightarrow> 'r \<times> 'a ledgerSpec \<Rightarrow> bool" where
  "refines T I A H c a \<longleftrightarrow> finality_inv T I A H (snd c) \<and> fst c = fst a \<and> ledger_abs T I A H (snd c) = snd a"

lemma refines_check:
  assumes inv: "finality_inv T I A H l"
  shows "refines T I A H (ledger_op T I (OpGet k) l) (spec_op (Key I) (OpGet k) (ledger_abs T I A H l))"
    and "item_ok I x \<Longrightarrow> refines T I A H (ledger_op T I (OpSet x) l) (spec_op (Key I) (OpSet x) (ledger_abs T I A H l))"
    and "refines T I A H (ledger_op T I (OpDel k) l) (spec_op (Key I) (OpDel k) (ledger_abs T I A H l))"
    and "refines T I A H (ledger_op T I (OpCancelSet k) l) (spec_op (Key I) (OpCancelSet k) (ledger_abs T I A H l))"
    and "refines T I A H (ledger_op T I (OpCancelDel k) l) (spec_op (Key I) (OpCancelDel k) (ledger_abs T I A H l))"
proof -
  have simp_l: "simple_inv T I A H l" and mi: "mi_inv I (ledger_base I A l) (cachedItems l)"
    using inv by (simp_all add: finality_inv_def simple_inv_def)
  obtain m where m: "snd (SimpleLedger_Get T I k l) = l\<lparr>cachedItems := m\<rparr>"
    using simple_get(4) [OF simp_l] by blast
  show "refines T I A H (ledger_op T I (OpGet k) l) (spec_op (Key I) (OpGet k) (ledger_abs T I A H l))"
    using simple_get(1-3) [OF simp_l, of k] inv
    by (simp add: refines_def m abs_cached finality_inv_def check_level_def)
  obtain m2 where m2: "snd (SimpleLedger_Del T I k l) = l\<lparr>cachedItems := m2\<rparr>"
    using simple_del(4) [OF simp_l] by blast
  show "refines T I A H (ledger_op T I (OpDel k) l) (spec_op (Key I) (OpDel k) (ledger_abs T I A H l))"
    using simple_del(1-3) [OF simp_l, of k] inv
    by (simp add: refines_def m2 abs_cached finality_inv_def check_level_def)
  show "item_ok I x \<Longrightarrow> refines T I A H (ledger_op T I (OpSet x) l) (spec_op (Key I) (OpSet x) (ledger_abs T I A H l))"
    using mi_set [OF mi, of x] finality_inv_cached [OF inv]
    by (simp add: refines_def SimpleLedger_Set_def abs_cached check_level_def)
  show "refines T I A H (ledger_op T I (OpCancelSet k) l) (spec_op (Key I) (OpCancelSet k) (ledger_abs T I A H l))"
    using mi_cancelSet [OF mi, of k] finality_inv_cached [OF inv]
    by (simp add: refines_def SimpleLedger_CancelSet_def abs_cached check_level_def)
  show "refines T I A H (ledger_op T I (OpCancelDel k) l) (spec_op (Key I) (OpCancelDel k) (ledger_abs T I A H l))"
    using mi_cancelDel [OF mi, of k] finality_inv_cached [OF inv]
    by (simp add: refines_def SimpleLedger_CancelDel_def abs_cached check_level_def)
qed

lemma refines_exec:
  assumes inv: "finality_inv T I A H l"
  shows "refines T I A H (ledger_op T I (OpGetFinality k) l) (spec_op (Key I) (OpGetFinality k) (ledger_abs T I A H l))"
    and "item_ok I x \<Longrightarrow> refines T I A H (ledger_op T I (OpSetFinality x) l) (spec_op (Key I) (OpSetFinality x) (ledger_abs T I A H l))"
    and "refines T I A H (ledger_op T I (OpDelFinality k) l) (spec_op (Key I) (OpDelFinality k) (ledger_abs T I A H l))"
    and "refines T I A H (ledger_op T I (OpCancelSetFinality k) l) (spec_op (Key I) (OpCancelSetFinality k) (ledger_abs T I A H l))"
    and "refines T I A H (ledger_op T I (OpCancelDelFinality k) l) (spec_op (Key I) (OpCancelDelFinality k) (ledger_abs T I A H l))"
proof -
  have mi: "mi_inv I (ledger_base I A l) (finalityItems l)"
    using inv by (simp add: finality_inv_def)
  obtain m where m: "snd (FinalityLedger_GetFinality T I k l) = l\<lparr>finalityItems := m\<rparr>"
    using finality_get(4) [OF inv] by blast
  show "refines T I A H (ledger_op T I (OpGetFinality k) l) (spec_op (Key I) (OpGetFinality k) (ledger_abs T I A H l))"
    using finality_get(1-3) [OF inv, of k]
    by (simp add: refines_def m abs_finality exec_level_def)
  show "refines T I A H (ledger_op T I (OpDelFinality k) l) (spec_op (Key I) (OpDelFinality k) (ledger_abs T I A H l))"
    using finality_del [OF inv, of k]
    by (simp add: refines_def) (simp add: ledger_abs_def ledger_base_def)
  show "item_ok I x \<Longrightarrow> refines T I A H (ledger_op T I (OpSetFinality x) l) (spec_op (Key I) (OpSetFinality x) (ledger_abs T I A H l))"
    using mi_set [OF mi, of x] finality_inv_finality [OF inv]
    by (simp add: refines_def FinalityLedger_SetFinality_def abs_finality exec_level_def)
  show "refines T I A H (ledger_op T I (OpCancelSetFinality k) l) (spec_op (Key I) (OpCancelSetFinality k) (ledger_abs T I A H l))"
    using mi_cancelSet [OF mi, of k] finality_inv_finality [OF inv]
    by (simp add: refines_def FinalityLedger_CancelSetFinality_def abs_finality exec_level_def)
  show "refines T I A H (ledger_op T I (OpCancelDelFinality k) l) (spec_op (Key I) (OpCancelDelFinality k) (ledger_abs T I A H l))"
    using mi_cancelDel [OF mi, of k] finality_inv_finality [OF inv]
    by (simp add: refines_def FinalityLedger_CancelDelFinality_def abs_finality exec_level_def)
qed

lemma refines_commit:
  assumes inv: "finality_inv T I A H l"
  shows "refines T I A H (ledger_op T I OpCommit l) (spec_op (Key I) OpCommit (ledger_abs T I A H l))"
proof -
  obtain h t' where c: "FinalityLedger_Commit T I l = (Inr (h, treeVersion T (tree l) + 1),
      l\<lparr>tree := t', cachedItems := memItems_reset (cachedItems l), finalityItems := memItems_refresh (finalityItems l)\<rparr>)"
    and t': "items I (A t') = fst (exec_level I A l)"
      "H t' = (H (tree l))(treeVersion T (tree l) + 1 \<mapsto> A t')" "treeVersion T t' = treeVersion T (tree l) + 1"
    using finality_commit [OF inv] by blast
  show ?thesis
    using finality_commit_inv [OF inv c] t'
    by (auto simp: refines_def c Let_def ledger_abs_def fun_eq_iff)
qed

lemma refines_op:
  assumes "finality_inv T I A H l" "op_ok I p"
  shows "refines T I A H (ledger_op T I p l) (spec_op (Key I) p (ledger_abs T I A H l))"
proof (cases p)
  case (OpRead k)
  have "SimpleLedger_Read T I k l = of_option (ledger_base I A l k)"
    by (rule read_base [of T I A H]) (use assms(1) in \<open>simp add: finality_inv_def\<close>)
  with OpRead assms(1) show ?thesis
    by (simp add: refines_def)
qed (use assms in \<open>simp_all only: refines_check refines_exec refines_commit op_ok.simps\<close>)

lemma refines_run:
  assumes "finality_inv T I A H l" "list_all (op_ok I) ops"
  shows "refines T I A H (run_ops (ledger_op T I) ops l) (run_ops (spec_op (Key I)) ops (ledger_abs T I A H l))"
  using assms
proof (induction ops arbitrary: l)
  case (Cons p ops)
  obtain r l1 where c: "ledger_op T I p l = (r, l1)"
    by force
  have "refines T I A H (ledger_op T I p l) (spec_op (Key I) p (ledger_abs T I A H l))"
    using Cons.prems by (intro refines_op) auto
  then have l1: "finality_inv T I A H l1" "spec_op (Key I) p (ledger_abs T I A H l) = (r, ledger_abs T I A H l1)"
    by (auto simp: refines_def c prod_eq_iff)
  then show ?case
    using Cons.IH [OF l1(1)] Cons.prems(2) by (auto simp: c refines_def split_beta)
qed (simp add: refines_def)

end
