(* ===== verification/Rigo_Instance.thy ===== *)
theory Rigo_Instance
  imports Rigo_LedgerRefine
begin

text \<open>
  Concrete instances of the parameters of the model, on which the properties that have hypotheses
  about them are shown to apply: a versioned tree that keeps its entries in an association list,
  and a plain item type. They stand for no code of the repository.
\<close>

section \<open>A versioned tree\<close>

type_synonym vmap = "(bytes \<times> bytes) list"

record vtree =
  vEntries :: vmap
  vVersion :: int
  vHistory :: "(int \<times> vmap) list"

definition entry_less :: "bytes \<times> bytes \<Rightarrow> bytes \<times> bytes \<Rightarrow> bool" where
  "entry_less a b \<longleftrightarrow> bytes_Compare (fst a) (fst b) < 0"

definition vtreeOps :: "vtree treeOps" where
  "vtreeOps =
     \<lparr>treeGet = (\<lambda>t k. Inr (map_of (vEntries t) k)),
      treeSet = (\<lambda>t k v. Inr (t\<lparr>vEntries := AList.update k v (vEntries t)\<rparr>)),
      treeRemove = (\<lambda>t k. Inr (t\<lparr>vEntries := AList.delete k (vEntries t)\<rparr>)),
      treeSaveVersion = (\<lambda>t. Inr ([], vVersion t + 1,
        t\<lparr>vVersion := vVersion t + 1, vHistory := AList.update (vVersion t + 1) (vEntries t) (vHistory t)\<rparr>)),
      treeVersion = vVersion,
      treeIterate = (\<lambda>t. Inr (go_sort entry_less (AList.clearjunk (vEntries t)))),
      treeLoad = (\<lambda>t n. let v = (if n = 0 then vVersion t else n) in
        case map_of (vHistory t) v of
          None \<Rightarrow> Inl ''version does not exist''
        | Some m \<Rightarrow> Inr \<lparr>vEntries = m, vVersion = v, vHistory = vHistory t\<rparr>)\<rparr>"

definition vMap :: "vtree \<Rightarrow> bytes \<rightharpoonup> bytes" where
  "vMap t = map_of (vEntries t)"

definition vHist :: "vtree \<Rightarrow> int \<rightharpoonup> (bytes \<rightharpoonup> bytes)" where
  "vHist t n = map_option map_of (map_of (vHistory t) n)"

definition emptyTree :: vtree where
  "emptyTree = \<lparr>vEntries = [], vVersion = 0, vHistory = []\<rparr>"

interpretation entryOrder: sort_interface entry_less fst
proof
  fix a b c :: "bytes \<times> bytes"
  show "entry_less a b \<Longrightarrow> \<not> entry_less b a"
    using bytes_Compare_antisym [of "fst a" "fst b"] by (simp add: entry_less_def)
  show "\<not> entry_less a b \<Longrightarrow> \<not> entry_less b c \<Longrightarrow> \<not> entry_less a c"
    unfolding entry_less_def
    using bytes_Compare_neg_trans bytes_Compare_less_total by metis
  show "fst a \<noteq> fst b \<Longrightarrow> entry_less a b \<or> entry_less b a"
    unfolding entry_less_def using bytes_Compare_less_total by blast
qed

lemma map_of_mset_eq:
  "distinct (map fst xs) \<Longrightarrow> mset ys = mset xs \<Longrightarrow> map_of ys = map_of xs"
  by (metis map_of_eqI map_of_inject_set mset_eq_imp_distinct_iff mset_eq_setD mset_map)

lemma vtree_iterate:
  "distinct (map fst (go_sort entry_less (AList.clearjunk m)))"
  "map_of (go_sort entry_less (AList.clearjunk m)) = map_of m"
  "sorted_wrt (\<lambda>a b. bytes_Compare a b < 0) (map fst (go_sort entry_less (AList.clearjunk m)))"
proof -
  show d: "distinct (map fst (go_sort entry_less (AList.clearjunk m)))"
    by simp
  show "map_of (go_sort entry_less (AList.clearjunk m)) = map_of m"
    using map_of_mset_eq [OF distinct_clearjunk mset_go_sort] by (simp add: map_of_clearjunk)
  have "sorted_wrt entry_less (go_sort entry_less (AList.clearjunk m))"
    by (rule entryOrder.strictly_sorted [OF d entryOrder.sorted_go_sort])
  then show "sorted_wrt (\<lambda>a b. bytes_Compare a b < 0) (map fst (go_sort entry_less (AList.clearjunk m)))"
    by (simp add: sorted_wrt_map entry_less_def [abs_def])
qed

lemma vtree_laws: "tree_laws vtreeOps vMap vHist"
proof -
  have "\<exists>t'. treeSaveVersion vtreeOps t = Inr ([], treeVersion vtreeOps t + 1, t') \<and> vMap t' = vMap t \<and>
      vHist t' = (vHist t)(treeVersion vtreeOps t + 1 \<mapsto> vMap t) \<and> treeVersion vtreeOps t' = treeVersion vtreeOps t + 1" for t
    by (auto simp: vtreeOps_def vMap_def vHist_def update_conv' fun_eq_iff)
  then show ?thesis
    unfolding tree_laws_def
    by (intro conjI allI)
       (auto simp: vtreeOps_def vMap_def vHist_def update_conv' delete_conv' fun_eq_iff vtree_iterate Let_def)
qed

section \<open>A plain item\<close>

definition plainItem :: "bytes itemOps" where
  "plainItem = \<lparr>Key = ToLedgerKey, Encode = Inr, Decode = Inr\<rparr>"

lemma plainItem_ok [simp]: "item_ok plainItem x"
  by (simp add: item_ok_def plainItem_def)

definition emptyLedger :: "(vtree, 'a) FinalityLedger" where
  "emptyLedger = \<lparr>tree = emptyTree, cachedItems = newMemItems, finalityItems = newMemItems\<rparr>"

lemma emptyLedger_inv [simp]: "finality_inv vtreeOps I vMap vHist emptyLedger"
  by (simp add: finality_inv_def simple_inv_def vtree_laws emptyLedger_def emptyTree_def vMap_def vHist_def
    map_wf_def)

lemma emptyLedger_level [simp]:
  "exec_level I vMap emptyLedger = (Map.empty, {})" "check_level I vMap emptyLedger = (Map.empty, {})"
  by (simp_all add: exec_level_def check_level_def emptyLedger_def ledger_base_def emptyTree_def vMap_def
    items_def fun_eq_iff)

end
