(* ===== verification/Rigo_LedgerProps.thy ===== *)
theory Rigo_LedgerProps
  imports Rigo_Instance
begin

text \<open>
  The properties of the ledger: the refinement of whole runs, the immutability of committed
  versions, the independence of the block execution from CheckTx, the independence of a commit
  from the iteration order of Go maps, and what happens to an item that is deleted and created
  again within a block.
\<close>

section \<open>Runs\<close>

text \<open>C1. Every sequence of ledger operations (both levels, cancellations, reads and commits) on a
  ledger that satisfies the invariant returns exactly what the abstract ledger returns, and ends
  in a ledger that satisfies the invariant and represents the abstract end state.\<close>

theorem FinalityLedger_run_refines:
  assumes "finality_inv T I A H l" "list_all (op_ok I) ops"
  shows "fst (run_ops (ledger_op T I) ops l) = fst (run_ops (spec_op (Key I)) ops (ledger_abs T I A H l)) \<and>
    finality_inv T I A H (snd (run_ops (ledger_op T I) ops l)) \<and>
    ledger_abs T I A H (snd (run_ops (ledger_op T I) ops l)) =
      snd (run_ops (spec_op (Key I)) ops (ledger_abs T I A H l))"
  using refines_run [OF assms] by (simp_all add: refines_def)

definition demo_ops :: "bytes ledgerOp list" where
  "demo_ops = [OpSetFinality [1], OpGetFinality (ToLedgerKey [1]), OpGet (ToLedgerKey [1]), OpCommit,
     OpDelFinality (ToLedgerKey [1]), OpSetFinality [1], OpGetFinality (ToLedgerKey [1]), OpCommit,
     OpRead (ToLedgerKey [1])]"

theorem FinalityLedger_run_refines_witness:
  "finality_inv vtreeOps plainItem vMap vHist emptyLedger \<and> list_all (op_ok plainItem) demo_ops \<and>
   fst (run_ops (ledger_op vtreeOps plainItem) demo_ops emptyLedger) =
     [OutUnit (Inr ()), OutItem (Inr [1]), OutItem (Inl (Error ErrNotFoundResult)), OutVersion (Inr 1),
      OutItem (Inr [1]), OutUnit (Inr ()), OutItem (Inl (Error ErrNotFoundResult)), OutVersion (Inr 2),
      OutItem (Inr [1])]"
proof (intro conjI)
  show ok: "list_all (op_ok plainItem) demo_ops"
    by (simp add: demo_ops_def)
  show "fst (run_ops (ledger_op vtreeOps plainItem) demo_ops emptyLedger) =
     [OutUnit (Inr ()), OutItem (Inr [1]), OutItem (Inl (Error ErrNotFoundResult)), OutVersion (Inr 1),
      OutItem (Inr [1]), OutUnit (Inr ()), OutItem (Inl (Error ErrNotFoundResult)), OutVersion (Inr 2),
      OutItem (Inr [1])]"
    unfolding FinalityLedger_run_refines [OF emptyLedger_inv ok, THEN conjunct1]
    by (simp add: demo_ops_def plainItem_def level_set_def level_get_def level_del_def Let_def ledger_abs_def)
       (simp add: emptyLedger_def emptyTree_def vtreeOps_def)
qed simp

section \<open>Versions\<close>

lemma spec_op_history:
  assumes "v \<le> sVersion s"
  shows "sHistory (snd (spec_op key p s)) v = sHistory s v" "sVersion s \<le> sVersion (snd (spec_op key p s))"
  using assms by (cases p; simp add: Let_def)+

lemma run_spec_history:
  "v \<le> sVersion s \<Longrightarrow> sHistory (snd (run_ops (spec_op key) ops s)) v = sHistory s v"
proof (induction ops arbitrary: s)
  case (Cons p ops)
  then show ?case
    using spec_op_history [OF Cons.prems, of key p] Cons.IH [of "snd (spec_op key p s)"]
    by (simp add: split_beta)
qed simp

lemma immutable_read:
  assumes "finality_inv T I A H l" "H (tree l) (if n = 0 then treeVersion T (tree l) else n) = Some m"
  shows "\<exists>l0. FinalityLedger_ImmutableLedgerAt T n l = Inr l0 \<and>
    (\<forall>k. SimpleLedger_Read T I k l0 = of_option (items I m k) \<and> fst (SimpleLedger_Get T I k l0) = of_option (items I m k))"
proof -
  have laws: "tree_laws T A H" and wf: "map_wf I m"
    using assms by (auto simp: finality_inv_def simple_inv_def split: if_splits)
  then obtain t' where t': "treeLoad T (tree l) n = Inr t'" "A t' = m"
    using assms(2) unfolding tree_laws_def by blast
  define l0 :: "('a, 'b) SimpleLedger" where "l0 = \<lparr>tree = t', cachedItems = newMemItems\<rparr>"
  have b: "SimpleLedger_Read T I k l0 = of_option (items I m k)" for k
    using laws t' map_wf_Some [OF wf, of k]
    by (cases "m k")
       (auto simp: SimpleLedger_Read_def l0_def tree_laws_def items_def)
  then have "fst (SimpleLedger_Get T I k l0) = of_option (items I m k)" for k
    by (cases "items I m k")
       (simp_all add: SimpleLedger_Get_def l0_def newMemItems_def memItems_isRemovedKey_def memItems_getGotItem_def)
  with b t' show ?thesis
    by (intro exI [of _ l0])
       (simp add: FinalityLedger_ImmutableLedgerAt_def SimpleLedger_ImmutableLedgerAt_def l0_def)
qed

text \<open>C9. A committed version is immutable. If \<^verbatim>\<open>Commit\<close> returns version \<open>v\<close>, then after any further
  operations, later commits included, \<^verbatim>\<open>ImmutableLedgerAt(v)\<close> succeeds, and reading any key from
  it, by \<^verbatim>\<open>Read\<close> or \<^verbatim>\<open>Get\<close>, gives the item the execution level held when \<^verbatim>\<open>Commit\<close> was called.\<close>

theorem FinalityLedger_version_immutable:
  assumes "finality_inv T I A H l" "FinalityLedger_Commit T I l = (Inr (h, v), l1)" "v > 0"
    and "list_all (op_ok I) ops" "run_ops (ledger_op T I) ops l1 = (outs, l2)"
  shows "\<exists>l0. FinalityLedger_ImmutableLedgerAt T v l2 = Inr l0 \<and>
    (\<forall>k. SimpleLedger_Read T I k l0 = of_option (fst (exec_level I A l) k) \<and>
         fst (SimpleLedger_Get T I k l0) = of_option (fst (exec_level I A l) k))"
proof -
  have inv1: "finality_inv T I A H l1"
    using finality_commit_inv [OF assms(1,2)] by blast
  obtain t' where t': "items I (A t') = fst (exec_level I A l)" "tree l1 = t'" "v = treeVersion T t'"
    "H t' v = Some (A t')"
    using finality_commit [OF assms(1)] assms(2) by auto
  have "sHistory (ledger_abs T I A H l1) v = Some (fst (exec_level I A l))"
    using t' by (simp add: ledger_abs_def)
  moreover have "ledger_abs T I A H l2 = snd (run_ops (spec_op (Key I)) ops (ledger_abs T I A H l1))"
    using refines_run [OF inv1 assms(4)] assms(5) by (simp add: refines_def)
  ultimately have "sHistory (ledger_abs T I A H l2) v = Some (fst (exec_level I A l))"
    using run_spec_history [of v "ledger_abs T I A H l1"] t' by simp
  then obtain m where m: "H (tree l2) v = Some m" "items I m = fst (exec_level I A l)"
    by (auto simp: ledger_abs_def)
  have "finality_inv T I A H l2"
    using refines_run [OF inv1 assms(4)] assms(5) by (simp add: refines_def)
  then show ?thesis
    using immutable_read [of T I A H l2 v m] m assms(3) by simp
qed

definition demo_l1 :: "(vtree, bytes) FinalityLedger" where
  "demo_l1 = snd (FinalityLedger_Commit vtreeOps plainItem (snd (FinalityLedger_SetFinality plainItem [1] emptyLedger)))"

lemma plainItem_key: "Key plainItem = ToLedgerKey"
  by (simp add: plainItem_def)

lemma demo_SetFinality:
  "finality_inv vtreeOps plainItem vMap vHist (snd (FinalityLedger_SetFinality plainItem [1] emptyLedger))"
  "exec_level plainItem vMap (snd (FinalityLedger_SetFinality plainItem [1] emptyLedger)) = ([ToLedgerKey [1] \<mapsto> [1]], {})"
  using execLevel.put_inv [OF emptyLedger_inv plainItem_ok] execLevel.put_level [OF emptyLedger_inv plainItem_ok]
  by (simp_all add: level_set_def plainItem_key)

theorem FinalityLedger_version_immutable_witness:
  "\<exists>l0. FinalityLedger_ImmutableLedgerAt vtreeOps 1 (snd (run_ops (ledger_op vtreeOps plainItem) demo_ops demo_l1)) = Inr l0 \<and>
     SimpleLedger_Read vtreeOps plainItem (ToLedgerKey [1]) l0 = Inr [1]"
proof -
  have c: "FinalityLedger_Commit vtreeOps plainItem (snd (FinalityLedger_SetFinality plainItem [1] emptyLedger)) = (Inr ([], 1), demo_l1)"
    by (simp add: demo_l1_def FinalityLedger_Commit_def FinalityLedger_SetFinality_def emptyLedger_def emptyTree_def
      memItems_defs vtreeOps_def plainItem_def)
  show ?thesis
    using FinalityLedger_version_immutable [OF demo_SetFinality(1) c, of demo_ops
      "fst (run_ops (ledger_op vtreeOps plainItem) demo_ops demo_l1)"
      "snd (run_ops (ledger_op vtreeOps plainItem) demo_ops demo_l1)"]
    unfolding demo_SetFinality(2) by (auto simp: demo_ops_def)
qed

section \<open>CheckTx does not disturb the block\<close>

primrec is_check :: "'a ledgerOp \<Rightarrow> bool" where
  "is_check (OpGet k) = True"
| "is_check (OpSet x) = True"
| "is_check (OpDel k) = True"
| "is_check (OpCancelSet k) = True"
| "is_check (OpCancelDel k) = True"
| "is_check (OpGetFinality k) = False"
| "is_check (OpSetFinality x) = False"
| "is_check (OpDelFinality k) = False"
| "is_check (OpCancelSetFinality k) = False"
| "is_check (OpCancelDelFinality k) = False"
| "is_check (OpRead k) = False"
| "is_check OpCommit = False"

definition same_exec :: "('t, 'a) FinalityLedger \<Rightarrow> ('t, 'a) FinalityLedger \<Rightarrow> bool" where
  "same_exec l l' \<longleftrightarrow> tree l = tree l' \<and> finalityItems l = finalityItems l'"

lemma same_exec_read: "same_exec l l' \<Longrightarrow> SimpleLedger_Read T I k l = SimpleLedger_Read T I k l'"
  by (simp add: same_exec_def SimpleLedger_Read_def)

lemma simple_Get_frame:
  "tree (snd (SimpleLedger_Get T I k l)) = tree l"
  "finalityItems (snd (SimpleLedger_Get T I k l)) = finalityItems l"
  by (simp_all add: SimpleLedger_Get_def split: option.split sum.split)

lemma simple_Del_frame:
  "tree (snd (SimpleLedger_Del T I k l)) = tree l"
  "finalityItems (snd (SimpleLedger_Del T I k l)) = finalityItems l"
  using simple_Get_frame [of T I k l]
  by (cases "SimpleLedger_Get T I k l"; cases "fst (SimpleLedger_Get T I k l)";
      simp add: SimpleLedger_Del_def)+

lemma is_check_frame: "is_check p \<Longrightarrow> same_exec l (snd (ledger_op T I p l))"
  by (cases p)
     (simp_all add: same_exec_def simple_Get_frame simple_Del_frame SimpleLedger_Set_def
        SimpleLedger_CancelSet_def SimpleLedger_CancelDel_def)

text \<open>The block's operations read the tree and the block's own cache only.\<close>

lemma get_finality_same:
  assumes "same_exec l l'"
  shows "fst (FinalityLedger_GetFinality T I k l) = fst (FinalityLedger_GetFinality T I k l')"
    and "same_exec (snd (FinalityLedger_GetFinality T I k l)) (snd (FinalityLedger_GetFinality T I k l'))"
  using assms same_exec_read [OF assms, of T I k]
  by (simp_all add: FinalityLedger_GetFinality_def same_exec_def split: option.split sum.split)

lemma del_finality_same:
  assumes "same_exec l l'"
  shows "fst (FinalityLedger_DelFinality T I k l) = fst (FinalityLedger_DelFinality T I k l')"
    and "same_exec (snd (FinalityLedger_DelFinality T I k l)) (snd (FinalityLedger_DelFinality T I k l'))"
proof -
  let ?d = "\<lambda>l. snd (SimpleLedger_Del T I k l)"
  have s: "same_exec (?d l) (?d l')"
    using assms by (simp add: same_exec_def simple_Del_frame)
  obtain r l1 where g1: "FinalityLedger_GetFinality T I k (?d l) = (r, l1)"
    by (rule prod.exhaust)
  obtain r' l1' where g2: "FinalityLedger_GetFinality T I k (?d l') = (r', l1')"
    by (rule prod.exhaust)
  have rr: "r = r'" "same_exec l1 l1'"
    using get_finality_same [OF s, of T I k] by (simp_all add: g1 g2)
  show "fst (FinalityLedger_DelFinality T I k l) = fst (FinalityLedger_DelFinality T I k l')"
    using rr by (cases r') (simp_all add: FinalityLedger_DelFinality_def g1 g2)
  show "same_exec (snd (FinalityLedger_DelFinality T I k l)) (snd (FinalityLedger_DelFinality T I k l'))"
    using rr by (cases r') (simp_all add: FinalityLedger_DelFinality_def g1 g2 same_exec_def)
qed

lemma commit_same:
  assumes "same_exec l l'"
  shows "fst (FinalityLedger_Commit T I l) = fst (FinalityLedger_Commit T I l')"
    and "same_exec (snd (FinalityLedger_Commit T I l)) (snd (FinalityLedger_Commit T I l'))"
  using assms
  by (simp_all add: FinalityLedger_Commit_def same_exec_def Let_def split: prod.split sum.split)

lemma exec_op_same:
  assumes "same_exec l l'" "\<not> is_check p"
  shows "fst (ledger_op T I p l) = fst (ledger_op T I p l') \<and>
    same_exec (snd (ledger_op T I p l)) (snd (ledger_op T I p l'))"
  using assms get_finality_same [OF assms(1), of T I] del_finality_same [OF assms(1), of T I]
    commit_same [OF assms(1), of T I] same_exec_read [OF assms(1), of T I]
  by (cases p)
     (simp_all add: FinalityLedger_SetFinality_def FinalityLedger_CancelSetFinality_def
        FinalityLedger_CancelDelFinality_def, simp_all add: same_exec_def)

lemma check_purge:
  assumes "same_exec l l'"
  shows "map snd (filter (\<lambda>(p, r). \<not> is_check p) (zip ops (fst (run_ops (ledger_op T I) ops l)))) =
      fst (run_ops (ledger_op T I) (filter (\<lambda>p. \<not> is_check p) ops) l') \<and>
    same_exec (snd (run_ops (ledger_op T I) ops l)) (snd (run_ops (ledger_op T I) (filter (\<lambda>p. \<not> is_check p) ops) l'))"
  using assms
proof (induction ops arbitrary: l l')
  case (Cons p ops)
  show ?case
  proof (cases "is_check p")
    case True
    then have "same_exec (snd (ledger_op T I p l)) l'"
      using is_check_frame [of p l T I] Cons.prems by (simp add: same_exec_def)
    with True show ?thesis
      using Cons.IH by (simp add: split_beta)
  next
    case False
    with exec_op_same [OF Cons.prems False, of T I] show ?thesis
      using Cons.IH [of "snd (ledger_op T I p l)" "snd (ledger_op T I p l')"] by (simp add: split_beta)
  qed
qed simp

text \<open>C10. Operations of the CheckTx level never change what block execution sees: removing all of
  them from any interleaving leaves every result of the other operations as it is (commits
  included), and the same tree and block cache at the end.\<close>

theorem FinalityLedger_check_noninterference:
  "map snd (filter (\<lambda>(p, r). \<not> is_check p) (zip ops (fst (run_ops (ledger_op T I) ops l)))) =
     fst (run_ops (ledger_op T I) (filter (\<lambda>p. \<not> is_check p) ops) l) \<and>
   tree (snd (run_ops (ledger_op T I) ops l)) =
     tree (snd (run_ops (ledger_op T I) (filter (\<lambda>p. \<not> is_check p) ops) l)) \<and>
   finalityItems (snd (run_ops (ledger_op T I) ops l)) =
     finalityItems (snd (run_ops (ledger_op T I) (filter (\<lambda>p. \<not> is_check p) ops) l))"
  using check_purge [of l l ops T I] by (simp add: same_exec_def)

section \<open>The order of Go maps\<close>

text \<open>C11. The iteration order of \<^verbatim>\<open>updatedItems\<close>, random in Go, has no influence on a commit: two
  ledgers that differ in that order only give the same result, root hash and version included,
  and the same tree.\<close>

theorem FinalityLedger_Commit_order_independent:
  assumes "distinct (map fst u)" "mset u' = mset u"
  shows "fst (FinalityLedger_Commit T I (l\<lparr>finalityItems := m\<lparr>updatedItems := u'\<rparr>\<rparr>)) =
      fst (FinalityLedger_Commit T I (l\<lparr>finalityItems := m\<lparr>updatedItems := u\<rparr>\<rparr>)) \<and>
    tree (snd (FinalityLedger_Commit T I (l\<lparr>finalityItems := m\<lparr>updatedItems := u'\<rparr>\<rparr>))) =
      tree (snd (FinalityLedger_Commit T I (l\<lparr>finalityItems := m\<lparr>updatedItems := u\<rparr>\<rparr>)))"
proof -
  have m: "map_of u' = map_of u"
    by (rule map_of_mset_eq [OF assms])
  have k: "go_sort LedgerKey_Less (map fst u') = go_sort LedgerKey_Less (map fst u)"
    using assms by (intro ledgerKeyOrder.go_sort_perm) (simp_all add: mset_map)
  have "commit_update T I u' ks t = commit_update T I u ks t" for ks t
    by (induction ks arbitrary: t) (simp_all add: m split: option.split sum.split)
  then show ?thesis
    by (simp add: FinalityLedger_Commit_def k Let_def split: prod.split sum.split)
qed

theorem FinalityLedger_Commit_order_independent_witness:
  "fst (FinalityLedger_Commit vtreeOps plainItem (emptyLedger\<lparr>finalityItems := newMemItems\<lparr>updatedItems := [([1], [1]), ([2], [2])]\<rparr>\<rparr>)) =
   fst (FinalityLedger_Commit vtreeOps plainItem (emptyLedger\<lparr>finalityItems := newMemItems\<lparr>updatedItems := [([2], [2]), ([1], [1])]\<rparr>\<rparr>))"
  using FinalityLedger_Commit_order_independent [of "[([2], [2]), ([1], [1])]" "[([1], [1]), ([2], [2])]"
    vtreeOps plainItem newMemItems emptyLedger]
  by simp

section \<open>Deleted and created again\<close>

text \<open>C12. An item deleted and then set again within a block cannot be read for the rest of the
  block: \<^verbatim>\<open>GetFinality\<close> answers that it does not exist, and \<^verbatim>\<open>DelFinality\<close> too, although the
  commit at the end of the block stores the new item.\<close>

theorem FinalityLedger_recreated_invisible:
  assumes "finality_inv T I A H l" "FinalityLedger_DelFinality T I k l = (Inr y, l1)"
    and "item_ok I x" "Key I x = k" "FinalityLedger_SetFinality I x l1 = (r, l2)"
    and "FinalityLedger_Commit T I l2 = (c, l3)"
  shows "fst (FinalityLedger_GetFinality T I k l2) = Inl (Error ErrNotFoundResult) \<and>
    fst (FinalityLedger_DelFinality T I k l2) = Inl (Error ErrNotFoundResult) \<and>
    fst (FinalityLedger_GetFinality T I k l3) = Inr x"
proof -
  note d = execLevel.delD [OF assms(2,1)]
  note p = execLevel.putD [OF assms(5) d(2) assms(3)]
  note c = finality_commit_inv [OF p(2) assms(6)]
  have "level_get k (exec_level I A l) = Some y"
    using d(1) by simp
  then have "k \<in> snd (exec_level I A l2)" "fst (exec_level I A l2) k = Some x"
    using d(3) p(3) assms(4) by (simp_all add: level_del_def level_set_def)
  then show ?thesis
    using execLevel.get_result [OF p(2), of k] execLevel.del_result [OF p(2), of k]
      execLevel.get_result [OF c(1), of k] c(2)
    by (simp add: level_get_def)
qed

theorem FinalityLedger_recreated_invisible_witness:
  "let l = snd (FinalityLedger_SetFinality plainItem [1] emptyLedger);
       l1 = snd (FinalityLedger_DelFinality vtreeOps plainItem (ToLedgerKey [1]) l);
       l2 = snd (FinalityLedger_SetFinality plainItem [1] l1)
   in fst (FinalityLedger_GetFinality vtreeOps plainItem (ToLedgerKey [1]) l2) = Inl (Error ErrNotFoundResult)"
proof -
  have d: "fst (FinalityLedger_DelFinality vtreeOps plainItem (ToLedgerKey [1])
      (snd (FinalityLedger_SetFinality plainItem [1] emptyLedger))) = Inr [1]"
    using execLevel.del_result [OF demo_SetFinality(1), of "ToLedgerKey [1]"]
    by (simp add: demo_SetFinality(2) level_get_def)
  show ?thesis
    unfolding Let_def
    using FinalityLedger_recreated_invisible [OF demo_SetFinality(1) _ _ _ prod.collapse [symmetric] prod.collapse [symmetric],
        of "ToLedgerKey [1]" "[1]" _ "[1]"] d
    by (metis plainItem_key plainItem_ok prod.collapse)
qed

end
