(* ===== verification/Rigo_Account.thy ===== *)
theory Rigo_Account
  imports Rigo_LedgerProps
begin

text \<open>
  Accounts: \<^verbatim>\<open>src/ctrlers/types/account.go\<close> and \<^verbatim>\<open>src/ctrlers/account/acct_codec.go\<close>. Balances are
  256-bit words that wrap; \<^verbatim>\<open>Sign()\<close> of \<^verbatim>\<open>uint256\<close> reads the top bit, so an amount of 2^255 or more
  counts as negative. A code that is nil is \<open>None\<close>. The protobuf library is a parameter.
\<close>

record Account =
  acctAddress :: bytes
  acctName :: string
  acctNonce :: u64
  acctBalance :: u256
  acctCode :: "bytes option"
  acctDocURL :: string

definition MAX_ACCT_NAME :: nat where "MAX_ACCT_NAME = 2048"
definition MAX_ACCT_DOCURL :: nat where "MAX_ACCT_DOCURL = 2048"

definition NewAccount :: "bytes \<Rightarrow> Account" where
  "NewAccount addr =
     \<lparr>acctAddress = addr, acctName = '''', acctNonce = 0, acctBalance = 0, acctCode = None, acctDocURL = ''''\<rparr>"

definition NewAccountWithName :: "bytes \<Rightarrow> string \<Rightarrow> Account" where
  "NewAccountWithName addr name = (NewAccount addr)\<lparr>acctName := name\<rparr>"

text \<open>\<^verbatim>\<open>Clone\<close> does not copy \<^verbatim>\<open>DocURL\<close>.\<close>

definition Account_Clone :: "Account \<Rightarrow> Account" where
  "Account_Clone acct =
     \<lparr>acctAddress = acctAddress acct, acctName = acctName acct, acctNonce = acctNonce acct,
      acctBalance = acctBalance acct, acctCode = acctCode acct, acctDocURL = ''''\<rparr>"

definition Account_SetName :: "string \<Rightarrow> Account \<Rightarrow> Account" where
  "Account_SetName s acct = acct\<lparr>acctName := s\<rparr>"

definition Account_SetDocURL :: "string \<Rightarrow> Account \<Rightarrow> Account" where
  "Account_SetDocURL s acct = acct\<lparr>acctDocURL := s\<rparr>"

definition Account_AddNonce :: "Account \<Rightarrow> Account" where
  "Account_AddNonce acct = acct\<lparr>acctNonce := acctNonce acct + 1\<rparr>"

definition Account_SetNonce :: "u64 \<Rightarrow> Account \<Rightarrow> Account" where
  "Account_SetNonce n acct = acct\<lparr>acctNonce := n\<rparr>"

definition Account_CheckNonce :: "Account \<Rightarrow> u64 \<Rightarrow> unit res" where
  "Account_CheckNonce acct n = (if acctNonce acct \<noteq> n then Inl (Error ErrInvalidNonce) else Inr ())"

definition Account_AddBalance :: "u256 \<Rightarrow> Account \<Rightarrow> unit res \<times> Account" where
  "Account_AddBalance amt acct =
     (if u256_Sign amt < 0 then (Inl (Error ErrInvalidAmount), acct)
      else (Inr (), acct\<lparr>acctBalance := acctBalance acct + amt\<rparr>))"

definition Account_SubBalance :: "u256 \<Rightarrow> Account \<Rightarrow> unit res \<times> Account" where
  "Account_SubBalance amt acct =
     (if u256_Sign amt < 0 then (Inl (Error ErrInvalidAmount), acct)
      else if u256_Cmp amt (acctBalance acct) > 0 then (Inl (Error ErrInsufficientFund), acct)
      else (Inr (), acct\<lparr>acctBalance := acctBalance acct - amt\<rparr>))"

definition Account_SetBalance :: "u256 \<Rightarrow> Account \<Rightarrow> Account" where
  "Account_SetBalance amt acct = acct\<lparr>acctBalance := amt\<rparr>"

definition Account_CheckBalance :: "Account \<Rightarrow> u256 \<Rightarrow> unit res" where
  "Account_CheckBalance acct amt =
     (if u256_Cmp amt (acctBalance acct) > 0 then Inl (Error ErrInsufficientFund) else Inr ())"

definition Account_SetCode :: "bytes option \<Rightarrow> Account \<Rightarrow> Account" where
  "Account_SetCode c acct = acct\<lparr>acctCode := c\<rparr>"

definition Account_Key :: "Account \<Rightarrow> ledgerKey" where
  "Account_Key acct = HexBytes_Array32 (acctAddress acct)"

section \<open>Encoding\<close>

record AcctProto =
  pmAddress :: bytes
  pmName :: string
  pmNonce :: u64
  pmXBalance :: bytes
  pmXCode :: "bytes option"
  pmDocUrl :: string

text \<open>\<^verbatim>\<open>proto.Marshal\<close> and \<^verbatim>\<open>proto.Unmarshal\<close> on \<^verbatim>\<open>AcctProto\<close>. Strings are UTF-8: marshalling another
  one is an error (\<open>V\<close> says which strings are valid), and an empty byte field is not sent, so it
  arrives as nil.\<close>

record acctProtoOps =
  acctMarshal :: "AcctProto \<Rightarrow> string + bytes"
  acctUnmarshal :: "bytes \<Rightarrow> string + AcctProto"

definition acctProto_valid :: "(string \<Rightarrow> bool) \<Rightarrow> AcctProto \<Rightarrow> bool" where
  "acctProto_valid V m \<longleftrightarrow> V (pmName m) \<and> V (pmDocUrl m) \<and> pmXCode m \<noteq> Some []"

definition acctProto_laws :: "acctProtoOps \<Rightarrow> (string \<Rightarrow> bool) \<Rightarrow> bool" where
  "acctProto_laws P V \<longleftrightarrow>
     (\<forall>m. acctProto_valid V m \<longrightarrow> (\<exists>bz. acctMarshal P m = Inr bz \<and> acctUnmarshal P bz = Inr m)) \<and>
     (\<forall>bz m. acctUnmarshal P bz = Inr m \<longrightarrow> acctProto_valid V m) \<and> V ''''"

definition Account_Encode :: "acctProtoOps \<Rightarrow> Account \<Rightarrow> bytes res" where
  "Account_Encode P acct =
     (case acctMarshal P
        \<lparr>pmAddress = acctAddress acct, pmName = acctName acct, pmNonce = acctNonce acct,
         pmXBalance = u256_Bytes (acctBalance acct), pmXCode = acctCode acct, pmDocUrl = acctDocURL acct\<rparr> of
        Inl err \<Rightarrow> Inl (Error (xerrors_NewOrdinary err))
      | Inr bz \<Rightarrow> Inr bz)"

definition Account_Decode :: "acctProtoOps \<Rightarrow> bytes \<Rightarrow> goerror + Account" where
  "Account_Decode P d =
     (case acctUnmarshal P d of
        Inl err \<Rightarrow> Inl (xerrors_NewOrdinary err)
      | Inr pm \<Rightarrow> Inr
          \<lparr>acctAddress = pmAddress pm, acctName = pmName pm, acctNonce = pmNonce pm,
           acctBalance = u256_SetBytes (pmXBalance pm), acctCode = pmXCode pm, acctDocURL = pmDocUrl pm\<rparr>)"

definition accountItem :: "acctProtoOps \<Rightarrow> Account itemOps" where
  "accountItem P = \<lparr>Key = Account_Key, Encode = Account_Encode P, Decode = Account_Decode P\<rparr>"

text \<open>The codec of the package \<^verbatim>\<open>account\<close>, which leaves \<^verbatim>\<open>DocURL\<close> out.\<close>

definition acct_ToProto :: "Account \<Rightarrow> AcctProto" where
  "acct_ToProto acct =
     \<lparr>pmAddress = acctAddress acct, pmName = acctName acct, pmNonce = acctNonce acct,
      pmXBalance = u256_Bytes (acctBalance acct), pmXCode = acctCode acct, pmDocUrl = ''''\<rparr>"

definition acct_FromProto :: "AcctProto \<Rightarrow> Account" where
  "acct_FromProto pm =
     \<lparr>acctAddress = pmAddress pm, acctName = pmName pm, acctNonce = pmNonce pm,
      acctBalance = u256_SetBytes (pmXBalance pm), acctCode = pmXCode pm, acctDocURL = ''''\<rparr>"

definition EncodeAccount :: "acctProtoOps \<Rightarrow> Account \<Rightarrow> string + bytes" where
  "EncodeAccount P acct = acctMarshal P (acct_ToProto acct)"

definition DecodeAccount :: "acctProtoOps \<Rightarrow> bytes \<Rightarrow> string + Account" where
  "DecodeAccount P bz = (case acctUnmarshal P bz of Inl err \<Rightarrow> Inl err | Inr pm \<Rightarrow> Inr (acct_FromProto pm))"

section \<open>AcctKey\<close>

definition ToAcctKey :: "bytes \<Rightarrow> bytes res" where
  "ToAcctKey addr =
     (if length addr < AddrSize then Inl (Panic ''slice bounds out of range'') else Inr (take AddrSize addr))"

definition AcctKey_Address :: "bytes \<Rightarrow> bytes" where
  "AcctKey_Address ak = take AddrSize ak"

definition AcctKey_String :: "bytes \<Rightarrow> string" where
  "AcctKey_String ak = hex_EncodeToString ak"

definition AcctKey_Less :: "bytes \<Rightarrow> bytes \<Rightarrow> bool" where
  "AcctKey_Less a b \<longleftrightarrow> bytes_Compare a b > 0"

interpretation acctKeyOrder: sort_interface AcctKey_Less "\<lambda>k. k"
  unfolding AcctKey_Less_def [abs_def] using ledgerKeyOrder.sort_interface_axioms
  by (simp add: LedgerKey_Less_def [abs_def])

section \<open>Facts\<close>

definition acct_valid :: "(string \<Rightarrow> bool) \<Rightarrow> Account \<Rightarrow> bool" where
  "acct_valid V a \<longleftrightarrow> V (acctName a) \<and> V (acctDocURL a) \<and> acctCode a \<noteq> Some []"

lemma acct_valid_simps [simp]:
  "acct_valid V (a\<lparr>acctBalance := b\<rparr>) = acct_valid V a"
  "acct_valid V (a\<lparr>acctNonce := n\<rparr>) = acct_valid V a"
  by (simp_all add: acct_valid_def)

lemma acct_valid_New [simp]: "V '''' \<Longrightarrow> acct_valid V (NewAccount addr)" "V '''' \<Longrightarrow> acct_valid V (NewAccountWithName addr '''')"
  by (simp_all add: acct_valid_def NewAccount_def NewAccountWithName_def)

lemma Account_Key_ToLedgerKey: "Account_Key a = ToLedgerKey (acctAddress a)"
  by (simp add: Account_Key_def HexBytes_Array32_ToLedgerKey)

lemma Account_Key_simps [simp]:
  "Account_Key (a\<lparr>acctBalance := b\<rparr>) = Account_Key a"
  "Account_Key (a\<lparr>acctNonce := n\<rparr>) = Account_Key a"
  "Account_Key (a\<lparr>acctName := s\<rparr>) = Account_Key a"
  "Account_Key (a\<lparr>acctDocURL := s\<rparr>) = Account_Key a"
  "Account_Key (a\<lparr>acctCode := c\<rparr>) = Account_Key a"
  by (simp_all add: Account_Key_def)

lemma accountItem_sel [simp]:
  "Key (accountItem P) = Account_Key" "Encode (accountItem P) = Account_Encode P" "Decode (accountItem P) = Account_Decode P"
  by (simp_all add: accountItem_def)

lemma Account_codec_roundtrip:
  assumes "acctProto_laws P V" "acct_valid V a"
  shows "\<exists>bz. Account_Encode P a = Inr bz \<and> Account_Decode P bz = Inr a"
proof -
  let ?m = "\<lparr>pmAddress = acctAddress a, pmName = acctName a, pmNonce = acctNonce a,
         pmXBalance = u256_Bytes (acctBalance a), pmXCode = acctCode a, pmDocUrl = acctDocURL a\<rparr>"
  have "acctProto_valid V ?m"
    using assms(2) by (simp add: acctProto_valid_def acct_valid_def)
  then obtain bz where "acctMarshal P ?m = Inr bz" "acctUnmarshal P bz = Inr ?m"
    using assms(1) unfolding acctProto_laws_def by blast
  then show ?thesis
    by (simp add: Account_Encode_def Account_Decode_def)
qed

lemma accountItem_ok: "acctProto_laws P V \<Longrightarrow> item_ok (accountItem P) a \<longleftrightarrow> acct_valid V a"
proof
  assume "acctProto_laws P V" "acct_valid V a"
  then show "item_ok (accountItem P) a"
    using Account_codec_roundtrip by (fastforce simp: item_ok_def)
next
  assume P: "acctProto_laws P V" "item_ok (accountItem P) a"
  then obtain bz where "Account_Decode P bz = Inr a"
    by (auto elim: item_okE)
  then show "acct_valid V a"
    using P(1) by (auto simp: Account_Decode_def acctProto_laws_def acctProto_valid_def acct_valid_def split: sum.splits)
qed

lemma Account_Decode_valid: "acctProto_laws P V \<Longrightarrow> Account_Decode P bz = Inr a \<Longrightarrow> acct_valid V a"
  by (auto simp: Account_Decode_def acctProto_laws_def acctProto_valid_def acct_valid_def split: sum.splits)

end
