(* ===== verification/Rigo_Trx.thy ===== *)
theory Rigo_Trx
  imports Rigo_Account
begin

text \<open>
  Transactions: \<^verbatim>\<open>src/ctrlers/types/trx.go\<close>, the payloads (\<^verbatim>\<open>trx_transfer.go\<close>, \<^verbatim>\<open>trx_staking.go\<close>,
  \<^verbatim>\<open>trx_withdraw.go\<close>, \<^verbatim>\<open>trx_proposal.go\<close>, \<^verbatim>\<open>trx_voting.go\<close>, \<^verbatim>\<open>trx_contract.go\<close>,
  \<^verbatim>\<open>trx_setdoc.go\<close>) and the contexts a transaction and a block are executed in (\<^verbatim>\<open>trx_ctx.go\<close>,
  \<^verbatim>\<open>block_ctx.go\<close>). The protobuf library and the recovery of the signer from a signature are
  parameters. \<^verbatim>\<open>int32\<close> and \<^verbatim>\<open>int64\<close> fields are \<open>int\<close>.
\<close>

section \<open>Payloads\<close>

definition TRX_TRANSFER :: int where "TRX_TRANSFER = 1"
definition TRX_STAKING :: int where "TRX_STAKING = 2"
definition TRX_UNSTAKING :: int where "TRX_UNSTAKING = 3"
definition TRX_PROPOSAL :: int where "TRX_PROPOSAL = 4"
definition TRX_VOTING :: int where "TRX_VOTING = 5"
definition TRX_CONTRACT :: int where "TRX_CONTRACT = 6"
definition TRX_SETDOC :: int where "TRX_SETDOC = 7"
definition TRX_WITHDRAW :: int where "TRX_WITHDRAW = 8"

lemmas trx_type_defs = TRX_TRANSFER_def TRX_STAKING_def TRX_UNSTAKING_def TRX_PROPOSAL_def TRX_VOTING_def
  TRX_CONTRACT_def TRX_SETDOC_def TRX_WITHDRAW_def

record TrxPayloadProposal =
  prMessage :: string
  prStartVotingHeight :: int
  prVotingPeriodBlocks :: int
  prApplyingHeight :: int
  prOptType :: int
  prOptions :: "bytes list"

datatype TrxPayload =
    TrxPayloadAssetTransfer
  | TrxPayloadStaking
  | TrxPayloadUnstaking (unstakeTxHash: bytes)
  | TrxPayloadWithdraw (withdrawReqAmt: u256)
  | PayloadProposal (payloadProposal: TrxPayloadProposal)
  | TrxPayloadVoting (votingTxHash: bytes) (votingChoice: int)
  | TrxPayloadContract (contractData: bytes)
  | TrxPayloadSetDoc (setDocName: string) (setDocURL: string)

primrec TrxPayload_Type :: "TrxPayload \<Rightarrow> int" where
  "TrxPayload_Type TrxPayloadAssetTransfer = TRX_TRANSFER"
| "TrxPayload_Type TrxPayloadStaking = TRX_STAKING"
| "TrxPayload_Type (TrxPayloadUnstaking h) = TRX_UNSTAKING"
| "TrxPayload_Type (TrxPayloadWithdraw a) = TRX_WITHDRAW"
| "TrxPayload_Type (PayloadProposal p) = TRX_PROPOSAL"
| "TrxPayload_Type (TrxPayloadVoting h c) = TRX_VOTING"
| "TrxPayload_Type (TrxPayloadContract d) = TRX_CONTRACT"
| "TrxPayload_Type (TrxPayloadSetDoc n u) = TRX_SETDOC"

text \<open>The loop over the options indexes the second list by the positions of the first.\<close>

fun options_Equal :: "bytes list \<Rightarrow> bytes list \<Rightarrow> bool" where
  "options_Equal [] ys = True"
| "options_Equal (x # xs) [] = True"
| "options_Equal (x # xs) (y # ys) = (if bytes_Compare x y \<noteq> 0 then False else options_Equal xs ys)"

definition TrxPayloadProposal_Equal :: "TrxPayloadProposal \<Rightarrow> TrxPayloadProposal \<Rightarrow> bool" where
  "TrxPayloadProposal_Equal tx tx0 =
     (if prMessage tx \<noteq> prMessage tx0 then False
      else if prStartVotingHeight tx \<noteq> prStartVotingHeight tx0 then False
      else if prVotingPeriodBlocks tx \<noteq> prVotingPeriodBlocks tx0 then False
      else if prApplyingHeight tx \<noteq> prApplyingHeight tx0 then False
      else if prOptType tx \<noteq> prOptType tx0 then False
      else if length (prOptions tx) \<noteq> length (prOptions tx0) then False
      else options_Equal (prOptions tx) (prOptions tx0))"

fun TrxPayload_Equal :: "TrxPayload \<Rightarrow> TrxPayload option \<Rightarrow> bool" where
  "TrxPayload_Equal TrxPayloadAssetTransfer p = True"
| "TrxPayload_Equal TrxPayloadStaking p = True"
| "TrxPayload_Equal (TrxPayloadUnstaking h) p =
     (case p of Some (TrxPayloadUnstaking h0) \<Rightarrow> bytes_Compare h h0 = 0 | _ \<Rightarrow> False)"
| "TrxPayload_Equal (TrxPayloadWithdraw a) p =
     (case p of Some (TrxPayloadWithdraw a0) \<Rightarrow> u256_Cmp a a0 = 0 | _ \<Rightarrow> False)"
| "TrxPayload_Equal (PayloadProposal x) p =
     (case p of Some (PayloadProposal x0) \<Rightarrow> TrxPayloadProposal_Equal x x0 | _ \<Rightarrow> False)"
| "TrxPayload_Equal (TrxPayloadVoting h c) p =
     (case p of Some (TrxPayloadVoting h0 c0) \<Rightarrow>
        (if bytes_Compare h h0 \<noteq> 0 then False else if c \<noteq> c0 then False else True) | _ \<Rightarrow> False)"
| "TrxPayload_Equal (TrxPayloadContract d) p =
     (case p of Some (TrxPayloadContract d0) \<Rightarrow> bytes_Compare d d0 = 0 | _ \<Rightarrow> False)"
| "TrxPayload_Equal (TrxPayloadSetDoc n u) p =
     (case p of Some (TrxPayloadSetDoc n0 u0) \<Rightarrow> n = n0 \<and> u = u0 | _ \<Rightarrow> False)"

section \<open>Trx\<close>

record Trx =
  txVersion :: "32 word"
  txTime :: int
  txNonce :: u64
  txFrom :: bytes
  txTo :: bytes
  txAmount :: u256
  txGas :: u64
  txGasPrice :: u256
  txType :: int
  txPayload :: "TrxPayload option"
  txSig :: bytes

definition NewTrx :: "32 word \<Rightarrow> bytes \<Rightarrow> bytes \<Rightarrow> u64 \<Rightarrow> u64 \<Rightarrow> u256 \<Rightarrow> u256 \<Rightarrow> TrxPayload \<Rightarrow> int \<Rightarrow> Trx" where
  "NewTrx ver from to nonce gas gasPrice amt payload now =
     \<lparr>txVersion = ver, txTime = now, txNonce = nonce, txFrom = from, txTo = to, txAmount = amt,
      txGas = gas, txGasPrice = gasPrice, txType = TrxPayload_Type payload, txPayload = Some payload, txSig = []\<rparr>"

definition Trx_Equal :: "Trx \<Rightarrow> Trx \<Rightarrow> bool" where
  "Trx_Equal tx tx0 =
     (if txVersion tx \<noteq> txVersion tx0 then False
      else if txTime tx \<noteq> txTime tx0 then False
      else if txNonce tx \<noteq> txNonce tx0 then False
      else if bytes_Compare (txFrom tx) (txFrom tx0) \<noteq> 0 then False
      else if bytes_Compare (txTo tx) (txTo tx0) \<noteq> 0 then False
      else if u256_Cmp (txAmount tx) (txAmount tx0) \<noteq> 0 then False
      else if txGas tx \<noteq> txGas tx0 then False
      else if u256_Cmp (txGasPrice tx) (txGasPrice tx0) \<noteq> 0 then False
      else if txType tx \<noteq> txType tx0 then False
      else if bytes_Compare (txSig tx) (txSig tx0) \<noteq> 0 then False
      else case txPayload tx of
             Some p \<Rightarrow> TrxPayload_Equal p (txPayload tx0)
           | None \<Rightarrow> (if txPayload tx0 \<noteq> None then False else True))"

definition Trx_TypeString :: "Trx \<Rightarrow> string" where
  "Trx_TypeString tx =
     (if txType tx = TRX_TRANSFER then ''transfer''
      else if txType tx = TRX_STAKING then ''staking''
      else if txType tx = TRX_UNSTAKING then ''unstaking''
      else if txType tx = TRX_WITHDRAW then ''withdraw''
      else if txType tx = TRX_PROPOSAL then ''proposal''
      else if txType tx = TRX_VOTING then ''voting''
      else if txType tx = TRX_CONTRACT then ''contract''
      else if txType tx = TRX_SETDOC then ''setdoc''
      else '''')"

section \<open>Protobuf\<close>

record TrxProto =
  tpVersion :: "32 word"
  tpTime :: int
  tpNonce :: u64
  tpFrom :: bytes
  tpTo :: bytes
  tpXAmount :: bytes
  tpGas :: u64
  tpXGasPrice :: bytes
  tpType :: int
  tpXPayload :: bytes
  tpSig :: bytes

text \<open>The marshalling functions of the generated messages. The messages of the payloads hold the
  fields of the payloads, the amount of a withdrawal as bytes.\<close>

record trxProtoOps =
  trxMarshal :: "TrxProto \<Rightarrow> string + bytes"
  trxUnmarshal :: "bytes \<Rightarrow> string + TrxProto"
  unstakingMarshal :: "bytes \<Rightarrow> string + bytes"
  unstakingUnmarshal :: "bytes \<Rightarrow> string + bytes"
  withdrawMarshal :: "bytes \<Rightarrow> string + bytes"
  withdrawUnmarshal :: "bytes \<Rightarrow> string + bytes"
  proposalMarshal :: "TrxPayloadProposal \<Rightarrow> string + bytes"
  proposalUnmarshal :: "bytes \<Rightarrow> string + TrxPayloadProposal"
  votingMarshal :: "bytes \<times> int \<Rightarrow> string + bytes"
  votingUnmarshal :: "bytes \<Rightarrow> string + bytes \<times> int"
  contractMarshal :: "bytes \<Rightarrow> string + bytes"
  contractUnmarshal :: "bytes \<Rightarrow> string + bytes"
  setDocMarshal :: "string \<times> string \<Rightarrow> string + bytes"
  setDocUnmarshal :: "bytes \<Rightarrow> string + string \<times> string"

definition fromErr :: "string + 'a \<Rightarrow> goerror + 'a" where
  "fromErr r = (case r of Inl err \<Rightarrow> Inl (xerrors_NewOrdinary err) | Inr a \<Rightarrow> Inr a)"

primrec TrxPayload_Encode :: "trxProtoOps \<Rightarrow> TrxPayload \<Rightarrow> goerror + bytes" where
  "TrxPayload_Encode P TrxPayloadAssetTransfer = Inr []"
| "TrxPayload_Encode P TrxPayloadStaking = Inr []"
| "TrxPayload_Encode P (TrxPayloadUnstaking h) = fromErr (unstakingMarshal P h)"
| "TrxPayload_Encode P (TrxPayloadWithdraw a) = fromErr (withdrawMarshal P (u256_Bytes a))"
| "TrxPayload_Encode P (PayloadProposal p) = fromErr (proposalMarshal P p)"
| "TrxPayload_Encode P (TrxPayloadVoting h c) = fromErr (votingMarshal P (h, c))"
| "TrxPayload_Encode P (TrxPayloadContract d) = fromErr (contractMarshal P d)"
| "TrxPayload_Encode P (TrxPayloadSetDoc n u) = fromErr (setDocMarshal P (n, u))"

text \<open>The \<^verbatim>\<open>Decode\<close> methods of the payloads, by the type of the transaction. A transfer and a staking
  carry no payload.\<close>

definition TrxPayload_Decode :: "trxProtoOps \<Rightarrow> int \<Rightarrow> bytes \<Rightarrow> goerror + TrxPayload option" where
  "TrxPayload_Decode P typ bz =
     (if typ = TRX_TRANSFER \<or> typ = TRX_STAKING then Inr None
      else if typ = TRX_UNSTAKING then map_sum id (\<lambda>h. Some (TrxPayloadUnstaking h)) (fromErr (unstakingUnmarshal P bz))
      else if typ = TRX_WITHDRAW then map_sum id (\<lambda>b. Some (TrxPayloadWithdraw (u256_SetBytes b))) (fromErr (withdrawUnmarshal P bz))
      else if typ = TRX_PROPOSAL then map_sum id (\<lambda>p. Some (PayloadProposal p)) (fromErr (proposalUnmarshal P bz))
      else if typ = TRX_VOTING then map_sum id (\<lambda>(h, c). Some (TrxPayloadVoting h c)) (fromErr (votingUnmarshal P bz))
      else if typ = TRX_CONTRACT then map_sum id (\<lambda>d. Some (TrxPayloadContract d)) (fromErr (contractUnmarshal P bz))
      else if typ = TRX_SETDOC then map_sum id (\<lambda>(n, u). Some (TrxPayloadSetDoc n u)) (fromErr (setDocUnmarshal P bz))
      else Inl ErrInvalidTrxPayloadType)"

definition Trx_fromProto :: "trxProtoOps \<Rightarrow> TrxProto \<Rightarrow> goerror + Trx" where
  "Trx_fromProto P pm =
     (case TrxPayload_Decode P (tpType pm) (tpXPayload pm) of
        Inl err \<Rightarrow> Inl err
      | Inr payload \<Rightarrow> Inr
          \<lparr>txVersion = tpVersion pm, txTime = tpTime pm, txNonce = tpNonce pm, txFrom = tpFrom pm, txTo = tpTo pm,
           txAmount = u256_SetBytes (tpXAmount pm), txGas = tpGas pm, txGasPrice = u256_SetBytes (tpXGasPrice pm),
           txType = tpType pm, txPayload = payload, txSig = tpSig pm\<rparr>)"

definition Trx_toProto :: "trxProtoOps \<Rightarrow> Trx \<Rightarrow> goerror + TrxProto" where
  "Trx_toProto P tx =
     (case (case txPayload tx of None \<Rightarrow> Inr [] | Some p \<Rightarrow> TrxPayload_Encode P p) of
        Inl err \<Rightarrow> Inl err
      | Inr payload \<Rightarrow> Inr
          \<lparr>tpVersion = txVersion tx, tpTime = txTime tx, tpNonce = txNonce tx, tpFrom = txFrom tx, tpTo = txTo tx,
           tpXAmount = u256_Bytes (txAmount tx), tpGas = txGas tx, tpXGasPrice = u256_Bytes (txGasPrice tx),
           tpType = txType tx, tpXPayload = payload, tpSig = txSig tx\<rparr>)"

definition Trx_Decode :: "trxProtoOps \<Rightarrow> bytes \<Rightarrow> goerror + Trx" where
  "Trx_Decode P bz =
     (case trxUnmarshal P bz of
        Inl err \<Rightarrow> Inl (xerrors_NewOrdinary err)
      | Inr pm \<Rightarrow> Trx_fromProto P pm)"

definition Trx_Encode :: "trxProtoOps \<Rightarrow> Trx \<Rightarrow> goerror + bytes" where
  "Trx_Encode P tx =
     (case Trx_toProto P tx of
        Inl err \<Rightarrow> Inl (xerrors_NewOrdinary (xerror_Error err))
      | Inr pm \<Rightarrow> fromErr (trxMarshal P pm))"

section \<open>Signatures\<close>

definition str_bytes :: "string \<Rightarrow> bytes" where
  "str_bytes s = map (\<lambda>c. word_of_nat (of_char c)) s"

text \<open>The text signed for the bytes \<open>bz\<close> of an unsigned transaction: the \<^verbatim>\<open>Sprintf\<close> of the chain id
  and the length, then the bytes.\<close>

definition signPrefix :: "string \<Rightarrow> nat \<Rightarrow> bytes" where
  "signPrefix chainId n =
     str_bytes ([CHR 0x19] @ ''RIGO('' @ chainId @ '') Signed Message:'' @ [CHR 0x0A] @ dec_digits n)"

definition PreImageToSignTrxProto :: "trxProtoOps \<Rightarrow> Trx \<Rightarrow> string \<Rightarrow> goerror + bytes" where
  "PreImageToSignTrxProto P tx chainId =
     (case Trx_Encode P (tx\<lparr>txSig := []\<rparr>) of
        Inl xerr \<Rightarrow> Inl xerr
      | Inr bz \<Rightarrow> Inr (signPrefix chainId (length bz) @ bz))"

text \<open>\<open>sig2Addr\<close> is \<^verbatim>\<open>crypto.Sig2Addr\<close>: the address and the public key recovered from a message and a
  signature.\<close>

definition VerifyTrxProto ::
  "(bytes \<Rightarrow> bytes \<Rightarrow> goerror + bytes \<times> bytes) \<Rightarrow> trxProtoOps \<Rightarrow> Trx \<Rightarrow> string \<Rightarrow> goerror + bytes \<times> bytes" where
  "VerifyTrxProto sig2Addr P tx chainId =
     (case PreImageToSignTrxProto P tx chainId of
        Inl xerr \<Rightarrow> Inl xerr
      | Inr preimg \<Rightarrow>
          (case sig2Addr preimg (txSig tx) of
             Inl xerr \<Rightarrow> Inl (xerror_Wrap ErrInvalidTrxSig xerr)
           | Inr (fromAddr, pubKey) \<Rightarrow>
               if bytes_Compare fromAddr (txFrom tx) \<noteq> 0
               then Inl (xerror_Wrap ErrInvalidTrxSig (PlainError ''wrong address or sig - expected: %v, actual: %v''))
               else Inr (fromAddr, pubKey)))"

end
