(* ===== verification/Rigo_TrxRLP.thy ===== *)
theory Rigo_TrxRLP
  imports Rigo_Trx
begin

text \<open>
  The RLP form of a transaction (\<^verbatim>\<open>EncodeRLP\<close>, \<^verbatim>\<open>DecodeRLP\<close> and the RLP signature of
  \<^verbatim>\<open>src/ctrlers/types/trx.go\<close> and the payload files), which has unsigned integers only, and the
  round trips of both forms. The RLP library is a parameter.
\<close>

section \<open>32-bit integers\<close>

definition i32 :: "int \<Rightarrow> int" where
  "i32 x = (x + 2 ^ 31) mod 2 ^ 32 - 2 ^ 31"

definition in_i32 :: "int \<Rightarrow> bool" where
  "in_i32 x \<longleftrightarrow> - (2 ^ 31) \<le> x \<and> x < 2 ^ 31"

text \<open>The conversions \<^verbatim>\<open>uint64(int32)\<close>, \<^verbatim>\<open>int32(uint64)\<close>, \<^verbatim>\<open>uint32(int32)\<close> and \<^verbatim>\<open>int32(uint32)\<close>.\<close>

definition i32_of_u64 :: "u64 \<Rightarrow> int" where "i32_of_u64 w = i32 (uint w)"
definition u32_of_i32 :: "int \<Rightarrow> 32 word" where "u32_of_i32 x = word_of_int x"
definition i32_of_u32 :: "32 word \<Rightarrow> int" where "i32_of_u32 w = sint w"

lemma i32_of_u64_of_i64: "in_i32 x \<Longrightarrow> i32_of_u64 (u64_of_i64 x) = x"
proof -
  assume "in_i32 x"
  then have r: "- (2 ^ 31) \<le> x" "x < 2 ^ 31"
    by (simp_all add: in_i32_def)
  have "uint (word_of_int x :: u64) mod 2 ^ 32 = x mod 2 ^ 32"
    by (simp add: uint_word_of_int mod_mod_cancel)
  then have "(uint (word_of_int x :: u64) + 2 ^ 31) mod 2 ^ 32 = (x + 2 ^ 31) mod 2 ^ 32"
    by (metis mod_add_left_eq)
  then show ?thesis
    using r by (simp add: i32_of_u64_def u64_of_i64_def i32_def)
qed

lemma i32_of_u32_of_i32: "in_i32 x \<Longrightarrow> i32_of_u32 (u32_of_i32 x) = x"
  by (simp add: i32_of_u32_def u32_of_i32_def in_i32_def sint_sbintrunc' signed_take_bit_int_eq_self)

lemma i64_of_u64_of_i64: "in_i64 x \<Longrightarrow> i64_of_u64 (u64_of_i64 x) = x"
  by (simp add: i64_of_u64_def u64_of_i64_def in_i64_def sint_sbintrunc' signed_take_bit_int_eq_self)

section \<open>RLP\<close>

record trxRPL =
  rlpVersion :: u64
  rlpTime :: u64
  rlpNonce :: u64
  rlpFrom :: bytes
  rlpTo :: bytes
  rlpAmount :: bytes
  rlpGas :: u64
  rlpGasPrice :: bytes
  rlpType :: u64
  rlpPayload :: bytes
  rlpSig :: bytes

record proposalRLP =
  rlpMessage :: string
  rlpStartVotingHeight :: u64
  rlpVotingPeriodBlocks :: u64
  rlpApplyingHeight :: u64
  rlpOptType :: "32 word"
  rlpOptions :: "bytes list"

text \<open>\<^verbatim>\<open>rlp.EncodeToBytes\<close> and \<^verbatim>\<open>rlp.DecodeBytes\<close> on the structures the code passes to them.\<close>

record rlpOps =
  encTrx :: "trxRPL \<Rightarrow> string + bytes"
  decTrx :: "bytes \<Rightarrow> string + trxRPL"
  encBytes :: "bytes \<Rightarrow> string + bytes"
  decBytes :: "bytes \<Rightarrow> string + bytes"
  encProposal :: "proposalRLP \<Rightarrow> string + bytes"
  decProposal :: "bytes \<Rightarrow> string + proposalRLP"
  encVoting :: "bytes \<times> 32 word \<Rightarrow> string + bytes"
  decVoting :: "bytes \<Rightarrow> string + bytes \<times> 32 word"
  encSetDoc :: "string \<times> string \<Rightarrow> string + bytes"
  decSetDoc :: "bytes \<Rightarrow> string + string \<times> string"

primrec TrxPayload_EncodeRLP :: "rlpOps \<Rightarrow> TrxPayload \<Rightarrow> string + bytes" where
  "TrxPayload_EncodeRLP R TrxPayloadAssetTransfer = Inr []"
| "TrxPayload_EncodeRLP R TrxPayloadStaking = Inr []"
| "TrxPayload_EncodeRLP R (TrxPayloadUnstaking h) = encBytes R h"
| "TrxPayload_EncodeRLP R (TrxPayloadWithdraw a) = encBytes R (u256_Bytes a)"
| "TrxPayload_EncodeRLP R (PayloadProposal p) = encProposal R
     \<lparr>rlpMessage = prMessage p, rlpStartVotingHeight = u64_of_i64 (prStartVotingHeight p),
      rlpVotingPeriodBlocks = u64_of_i64 (prVotingPeriodBlocks p), rlpApplyingHeight = u64_of_i64 (prApplyingHeight p),
      rlpOptType = u32_of_i32 (prOptType p), rlpOptions = prOptions p\<rparr>"
| "TrxPayload_EncodeRLP R (TrxPayloadVoting h c) = encVoting R (h, u32_of_i32 c)"
| "TrxPayload_EncodeRLP R (TrxPayloadContract d) = encBytes R d"
| "TrxPayload_EncodeRLP R (TrxPayloadSetDoc n u) = encSetDoc R (n, u)"

definition TrxPayload_DecodeRLP :: "rlpOps \<Rightarrow> int \<Rightarrow> bytes \<Rightarrow> goerror + TrxPayload" where
  "TrxPayload_DecodeRLP R typ bz =
     (let plain = (\<lambda>r. case r of Inl e \<Rightarrow> Inl (PlainError e) | Inr a \<Rightarrow> Inr a) in
      if typ = TRX_TRANSFER then Inr TrxPayloadAssetTransfer
      else if typ = TRX_STAKING then Inr TrxPayloadStaking
      else if typ = TRX_UNSTAKING then plain (map_sum id TrxPayloadUnstaking (decBytes R bz))
      else if typ = TRX_WITHDRAW then plain (map_sum id (\<lambda>b. TrxPayloadWithdraw (u256_SetBytes b)) (decBytes R bz))
      else if typ = TRX_PROPOSAL then plain (map_sum id (\<lambda>p. PayloadProposal
          \<lparr>prMessage = rlpMessage p, prStartVotingHeight = i64_of_u64 (rlpStartVotingHeight p),
           prVotingPeriodBlocks = i64_of_u64 (rlpVotingPeriodBlocks p),
           prApplyingHeight = i64_of_u64 (rlpApplyingHeight p), prOptType = i32_of_u32 (rlpOptType p),
           prOptions = rlpOptions p\<rparr>) (decProposal R bz))
      else if typ = TRX_VOTING then plain (map_sum id (\<lambda>(h, c). TrxPayloadVoting h (i32_of_u32 c)) (decVoting R bz))
      else if typ = TRX_CONTRACT then plain (map_sum id TrxPayloadContract (decBytes R bz))
      else if typ = TRX_SETDOC then plain (map_sum id (\<lambda>(n, u). TrxPayloadSetDoc n u) (decSetDoc R bz))
      else Inl ErrInvalidTrxPayloadType)"

definition Trx_EncodeRLP :: "rlpOps \<Rightarrow> Trx \<Rightarrow> string + bytes" where
  "Trx_EncodeRLP R tx =
     (case (case txPayload tx of None \<Rightarrow> Inr [] | Some p \<Rightarrow> TrxPayload_EncodeRLP R p) of
        Inl err \<Rightarrow> Inl err
      | Inr payload \<Rightarrow> encTrx R
          \<lparr>rlpVersion = ucast (txVersion tx), rlpTime = u64_of_i64 (txTime tx), rlpNonce = txNonce tx,
           rlpFrom = txFrom tx, rlpTo = txTo tx, rlpAmount = u256_Bytes (txAmount tx), rlpGas = txGas tx,
           rlpGasPrice = u256_Bytes (txGasPrice tx), rlpType = u64_of_i64 (txType tx), rlpPayload = payload,
           rlpSig = txSig tx\<rparr>)"

definition Trx_DecodeRLP :: "rlpOps \<Rightarrow> bytes \<Rightarrow> goerror + Trx" where
  "Trx_DecodeRLP R bz =
     (case decTrx R bz of
        Inl err \<Rightarrow> Inl (PlainError err)
      | Inr rtx \<Rightarrow>
          (let tx = \<lparr>txVersion = ucast (rlpVersion rtx), txTime = i64_of_u64 (rlpTime rtx), txNonce = rlpNonce rtx,
                     txFrom = rlpFrom rtx, txTo = rlpTo rtx, txAmount = u256_SetBytes (rlpAmount rtx),
                     txGas = rlpGas rtx, txGasPrice = u256_SetBytes (rlpGasPrice rtx),
                     txType = i32_of_u64 (rlpType rtx), txPayload = None, txSig = rlpSig rtx\<rparr>
           in if length (rlpPayload rtx) > 0
              then (case TrxPayload_DecodeRLP R (i32_of_u64 (rlpType rtx)) (rlpPayload rtx) of
                      Inl err \<Rightarrow> Inl err
                    | Inr p \<Rightarrow> Inr (tx\<lparr>txPayload := Some p\<rparr>))
              else Inr tx))"

definition PreImageToSignTrxRLP :: "rlpOps \<Rightarrow> Trx \<Rightarrow> string \<Rightarrow> goerror + bytes" where
  "PreImageToSignTrxRLP R tx chainId =
     (case Trx_EncodeRLP R (tx\<lparr>txSig := []\<rparr>) of
        Inl err \<Rightarrow> Inl (xerrors_NewOrdinary err)
      | Inr bz \<Rightarrow> Inr (signPrefix chainId (length bz) @ bz))"

definition VerifyTrxRLP ::
  "(bytes \<Rightarrow> bytes \<Rightarrow> goerror + bytes \<times> bytes) \<Rightarrow> rlpOps \<Rightarrow> Trx \<Rightarrow> string \<Rightarrow> goerror + bytes \<times> bytes" where
  "VerifyTrxRLP sig2Addr R tx chainId =
     (case PreImageToSignTrxRLP R tx chainId of
        Inl xerr \<Rightarrow> Inl xerr
      | Inr preimg \<Rightarrow>
          (case sig2Addr preimg (txSig tx) of
             Inl xerr \<Rightarrow> Inl (xerror_Wrap ErrInvalidTrxSig xerr)
           | Inr (fromAddr, pubKey) \<Rightarrow>
               if bytes_Compare fromAddr (txFrom tx) \<noteq> 0
               then Inl (xerror_Wrap ErrInvalidTrxSig (PlainError ''wrong address or sig - expected: %v, actual: %v''))
               else Inr (fromAddr, pubKey)))"

section \<open>Round trips\<close>

definition enc_dec :: "('a \<Rightarrow> string + bytes) \<Rightarrow> (bytes \<Rightarrow> string + 'a) \<Rightarrow> bool" where
  "enc_dec e d \<longleftrightarrow> (\<forall>a b. e a = Inr b \<longrightarrow> d b = Inr a)"

text \<open>What is relied on: what the libraries encode they decode back; an RLP item is never empty.\<close>

definition trxProto_laws :: "trxProtoOps \<Rightarrow> bool" where
  "trxProto_laws P \<longleftrightarrow>
     enc_dec (trxMarshal P) (trxUnmarshal P) \<and> enc_dec (unstakingMarshal P) (unstakingUnmarshal P) \<and>
     enc_dec (withdrawMarshal P) (withdrawUnmarshal P) \<and> enc_dec (proposalMarshal P) (proposalUnmarshal P) \<and>
     enc_dec (votingMarshal P) (votingUnmarshal P) \<and> enc_dec (contractMarshal P) (contractUnmarshal P) \<and>
     enc_dec (setDocMarshal P) (setDocUnmarshal P)"

definition rlp_laws :: "rlpOps \<Rightarrow> bool" where
  "rlp_laws R \<longleftrightarrow>
     enc_dec (encTrx R) (decTrx R) \<and> enc_dec (encBytes R) (decBytes R) \<and> enc_dec (encProposal R) (decProposal R) \<and>
     enc_dec (encVoting R) (decVoting R) \<and> enc_dec (encSetDoc R) (decSetDoc R) \<and>
     (\<forall>a. encBytes R a \<noteq> Inr []) \<and> (\<forall>a. encProposal R a \<noteq> Inr []) \<and> (\<forall>a. encVoting R a \<noteq> Inr []) \<and>
     (\<forall>a. encSetDoc R a \<noteq> Inr [])"

text \<open>A transaction as \<^verbatim>\<open>NewTrx\<close> makes it: the integers fit and the type is that of the payload.\<close>

primrec payload_wf :: "TrxPayload \<Rightarrow> bool" where
  "payload_wf TrxPayloadAssetTransfer = True"
| "payload_wf TrxPayloadStaking = True"
| "payload_wf (TrxPayloadUnstaking h) = True"
| "payload_wf (TrxPayloadWithdraw a) = True"
| "payload_wf (PayloadProposal p) =
     (in_i64 (prStartVotingHeight p) \<and> in_i64 (prVotingPeriodBlocks p) \<and> in_i64 (prApplyingHeight p) \<and> in_i32 (prOptType p))"
| "payload_wf (TrxPayloadVoting h c) = in_i32 c"
| "payload_wf (TrxPayloadContract d) = True"
| "payload_wf (TrxPayloadSetDoc n u) = True"

definition trx_wf :: "Trx \<Rightarrow> bool" where
  "trx_wf tx \<longleftrightarrow> in_i64 (txTime tx) \<and>
     (case txPayload tx of
        Some p \<Rightarrow> payload_wf p \<and> txType tx = TrxPayload_Type p
      | None \<Rightarrow> txType tx = TRX_TRANSFER \<or> txType tx = TRX_STAKING)"

definition trx_strip :: "Trx \<Rightarrow> Trx" where
  "trx_strip tx = (if txType tx = TRX_TRANSFER \<or> txType tx = TRX_STAKING then tx\<lparr>txPayload := None\<rparr> else tx)"

lemma fromErr_Inr [simp]: "fromErr r = Inr a \<longleftrightarrow> r = Inr a"
  by (simp add: fromErr_def split: sum.splits)

lemma trxProto_lawsD:
  assumes "trxProto_laws P"
  shows "trxMarshal P m = Inr bz \<Longrightarrow> trxUnmarshal P bz = Inr m"
    and "unstakingMarshal P h = Inr bz \<Longrightarrow> unstakingUnmarshal P bz = Inr h"
    and "withdrawMarshal P h = Inr bz \<Longrightarrow> withdrawUnmarshal P bz = Inr h"
    and "proposalMarshal P p = Inr bz \<Longrightarrow> proposalUnmarshal P bz = Inr p"
    and "votingMarshal P v = Inr bz \<Longrightarrow> votingUnmarshal P bz = Inr v"
    and "contractMarshal P h = Inr bz \<Longrightarrow> contractUnmarshal P bz = Inr h"
    and "setDocMarshal P d = Inr bz \<Longrightarrow> setDocUnmarshal P bz = Inr d"
  using assms unfolding trxProto_laws_def enc_dec_def by blast+

lemma rlp_lawsD:
  assumes "rlp_laws R"
  shows "encTrx R m = Inr bz \<Longrightarrow> decTrx R bz = Inr m"
    and "encBytes R h = Inr bz \<Longrightarrow> decBytes R bz = Inr h"
    and "encProposal R p = Inr bz \<Longrightarrow> decProposal R bz = Inr p"
    and "encVoting R v = Inr bz \<Longrightarrow> decVoting R bz = Inr v"
    and "encSetDoc R d = Inr bz \<Longrightarrow> decSetDoc R bz = Inr d"
    and "encBytes R h \<noteq> Inr []" "encProposal R p \<noteq> Inr []" "encVoting R v \<noteq> Inr []" "encSetDoc R d \<noteq> Inr []"
  using assms unfolding rlp_laws_def enc_dec_def by blast+

lemma payload_Decode_Encode:
  assumes "trxProto_laws P" "TrxPayload_Encode P p = Inr bz"
  shows "TrxPayload_Decode P (TrxPayload_Type p) bz =
    Inr (if TrxPayload_Type p = TRX_TRANSFER \<or> TrxPayload_Type p = TRX_STAKING then None else Some p)"
  using assms(2)
  by (cases p) (simp_all add: TrxPayload_Decode_def trx_type_defs trxProto_lawsD [OF assms(1)] fromErr_def split: sum.splits)

lemma Trx_fromProto_toProto:
  assumes "trxProto_laws P" "trx_wf tx" "Trx_toProto P tx = Inr pm"
  shows "Trx_fromProto P pm = Inr (trx_strip tx)"
proof (cases "txPayload tx")
  case None
  then have pm: "pm = \<lparr>tpVersion = txVersion tx, tpTime = txTime tx, tpNonce = txNonce tx, tpFrom = txFrom tx, tpTo = txTo tx,
      tpXAmount = u256_Bytes (txAmount tx), tpGas = txGas tx, tpXGasPrice = u256_Bytes (txGasPrice tx),
      tpType = txType tx, tpXPayload = [], tpSig = txSig tx\<rparr>"
    using assms(3) by (simp add: Trx_toProto_def)
  have "txType tx = TRX_TRANSFER \<or> txType tx = TRX_STAKING"
    using assms(2) None by (simp add: trx_wf_def)
  then show ?thesis
    by (simp add: pm Trx_fromProto_def TrxPayload_Decode_def trx_strip_def)
next
  case (Some p)
  with assms(3) obtain bp where bp: "TrxPayload_Encode P p = Inr bp"
    by (cases "TrxPayload_Encode P p") (simp_all add: Trx_toProto_def)
  have pm: "pm = \<lparr>tpVersion = txVersion tx, tpTime = txTime tx, tpNonce = txNonce tx, tpFrom = txFrom tx, tpTo = txTo tx,
      tpXAmount = u256_Bytes (txAmount tx), tpGas = txGas tx, tpXGasPrice = u256_Bytes (txGasPrice tx),
      tpType = txType tx, tpXPayload = bp, tpSig = txSig tx\<rparr>"
    using assms(3) Some bp by (simp add: Trx_toProto_def)
  have t: "txType tx = TrxPayload_Type p"
    using assms(2) Some by (simp add: trx_wf_def)
  show ?thesis
    using Some payload_Decode_Encode [OF assms(1) bp] by (simp add: pm t [symmetric] Trx_fromProto_def trx_strip_def)
qed

lemma Trx_proto_roundtrip:
  assumes "trxProto_laws P" "trx_wf tx" "Trx_Encode P tx = Inr bz"
  shows "Trx_Decode P bz = Inr (trx_strip tx)"
proof -
  obtain pm where pm: "Trx_toProto P tx = Inr pm" "trxMarshal P pm = Inr bz"
    using assms(3) by (cases "Trx_toProto P tx") (simp_all add: Trx_Encode_def)
  then show ?thesis
    using trxProto_lawsD(1) [OF assms(1) pm(2)] Trx_fromProto_toProto [OF assms(1,2) pm(1)]
    by (simp add: Trx_Decode_def)
qed

lemma payload_DecodeRLP_EncodeRLP:
  assumes "rlp_laws R" "payload_wf p" "TrxPayload_EncodeRLP R p = Inr bz"
    "TrxPayload_Type p \<noteq> TRX_TRANSFER" "TrxPayload_Type p \<noteq> TRX_STAKING"
  shows "TrxPayload_DecodeRLP R (TrxPayload_Type p) bz = Inr p" "bz \<noteq> []"
proof -
  show "bz \<noteq> []"
    using assms rlp_lawsD(6-9) [OF assms(1)] by (cases p) auto
  show "TrxPayload_DecodeRLP R (TrxPayload_Type p) bz = Inr p"
    using assms(2-5)
    by (cases p)
       (simp_all add: TrxPayload_DecodeRLP_def trx_type_defs i64_of_u64_of_i64 i32_of_u32_of_i32
          rlp_lawsD [OF assms(1)])
qed

lemma TrxPayload_Type_i32 [simp]: "in_i32 (TrxPayload_Type p)"
  by (cases p) (simp_all add: trx_type_defs in_i32_def)

lemma Trx_rlp_roundtrip:
  assumes "rlp_laws R" "trx_wf tx" "Trx_EncodeRLP R tx = Inr bz"
  shows "Trx_DecodeRLP R bz = Inr (trx_strip tx)"
proof -
  obtain bp where bp: "(case txPayload tx of None \<Rightarrow> Inr [] | Some p \<Rightarrow> TrxPayload_EncodeRLP R p) = Inr bp"
    using assms(3) by (cases "case txPayload tx of None \<Rightarrow> Inr [] | Some p \<Rightarrow> TrxPayload_EncodeRLP R p")
      (simp_all add: Trx_EncodeRLP_def)
  have d: "decTrx R bz = Inr
      \<lparr>rlpVersion = ucast (txVersion tx), rlpTime = u64_of_i64 (txTime tx), rlpNonce = txNonce tx,
       rlpFrom = txFrom tx, rlpTo = txTo tx, rlpAmount = u256_Bytes (txAmount tx), rlpGas = txGas tx,
       rlpGasPrice = u256_Bytes (txGasPrice tx), rlpType = u64_of_i64 (txType tx), rlpPayload = bp,
       rlpSig = txSig tx\<rparr>"
    using assms(3) bp by (intro rlp_lawsD(1) [OF assms(1)]) (simp add: Trx_EncodeRLP_def)
  have t: "in_i32 (txType tx)"
  proof (cases "txPayload tx")
    case None
    with assms(2) have "txType tx = 1 \<or> txType tx = 2"
      by (simp add: trx_wf_def TRX_TRANSFER_def TRX_STAKING_def)
    then show ?thesis
      by (auto simp: in_i32_def)
  qed (use assms(2) in \<open>simp add: trx_wf_def\<close>)
  have tm: "i64_of_u64 (u64_of_i64 (txTime tx)) = txTime tx"
    using assms(2) by (intro i64_of_u64_of_i64) (simp add: trx_wf_def)
  have v: "(ucast (ucast (txVersion tx) :: u64) :: 32 word) = txVersion tx"
    by (rule bit_word_eqI) (simp add: bit_simps)
  show ?thesis
  proof (cases "txType tx = TRX_TRANSFER \<or> txType tx = TRX_STAKING")
    case True
    then have "bp = []"
      using bp assms(2)
      by (cases "txPayload tx"; cases "the (txPayload tx)") (auto simp: trx_wf_def trx_type_defs)
    then show ?thesis
      using True d t tm v by (simp add: Trx_DecodeRLP_def trx_strip_def i32_of_u64_of_i64)
  next
    case False
    with assms(2) obtain p where p: "txPayload tx = Some p" "payload_wf p" "txType tx = TrxPayload_Type p"
      by (auto simp: trx_wf_def split: option.splits)
    have "TrxPayload_DecodeRLP R (txType tx) bp = Inr p" "bp \<noteq> []"
      using payload_DecodeRLP_EncodeRLP [OF assms(1) p(2), of bp] bp p False by auto
    then show ?thesis
      using False d t tm v p by (simp add: Trx_DecodeRLP_def trx_strip_def i32_of_u64_of_i64)
  qed
qed

end
