(* ===== verification/Rigo_Codec.thy ===== *)
theory Rigo_Codec
  imports Rigo_TrxRLP
begin

text \<open>
  A concrete message codec: a message is a sequence of fields, a field a byte string, and each
  byte is preceded by a 1, the field closed by a 0. It satisfies the laws asked of the protobuf
  and RLP parameters, so the properties that assume them apply to it. It is no part of the
  repository.
\<close>

section \<open>Fields\<close>

primrec enc_field :: "bytes \<Rightarrow> bytes" where
  "enc_field [] = [0]"
| "enc_field (b # bs) = 1 # b # enc_field bs"

fun dec_field :: "bytes \<Rightarrow> (bytes \<times> bytes) option" where
  "dec_field [] = None"
| "dec_field [b] = (if b = 0 then Some ([], []) else None)"
| "dec_field (b # c # r) =
     (if b = 0 then Some ([], c # r)
      else if b = 1 then map_option (\<lambda>(x, rest). (c # x, rest)) (dec_field r) else None)"

lemma dec_enc_field [simp]: "dec_field (enc_field x @ r) = Some (x, r)"
  by (induction x) (cases r; simp)+

definition enc_fields :: "bytes list \<Rightarrow> bytes" where
  "enc_fields fs = concat (map enc_field fs)"

primrec dec_fields :: "nat \<Rightarrow> bytes \<Rightarrow> bytes list option" where
  "dec_fields 0 bs = (if bs = [] then Some [] else None)"
| "dec_fields (Suc n) bs =
     (case dec_field bs of None \<Rightarrow> None | Some (x, r) \<Rightarrow> map_option (Cons x) (dec_fields n r))"

lemma dec_enc_fields [simp]: "dec_fields (length fs) (enc_fields fs) = Some fs"
  by (induction fs) (simp_all add: enc_fields_def)

lemma enc_fields_not_Nil: "fs \<noteq> [] \<Longrightarrow> enc_fields fs \<noteq> []"
proof -
  have "enc_field f \<noteq> []" for f
    by (cases f) simp_all
  then show "fs \<noteq> [] \<Longrightarrow> enc_fields fs \<noteq> []"
    by (cases fs) (simp_all add: enc_fields_def)
qed

section \<open>Values\<close>

definition be_nat :: "bytes \<Rightarrow> nat" where
  "be_nat bs = foldl (\<lambda>acc b. acc * 256 + unat b) 0 bs"

lemma be_nat_be_bytes [simp]: "be_nat (be_bytes n) = n"
proof (induction n rule: be_bytes.induct)
  case (1 n)
  have "unat (word_of_nat (n mod 256) :: byte) = n mod 256"
    by (simp add: unsigned_of_nat take_bit_eq_mod)
  then show ?case
    using "1.IH" by (cases "n = 0") (simp_all add: be_nat_def be_bytes.simps [of n] be_bytes.simps [of 0])
qed

definition int_field :: "int \<Rightarrow> bytes" where
  "int_field i = (if i < 0 then 1 else 0) # be_bytes (nat \<bar>i\<bar>)"

definition field_int :: "bytes \<Rightarrow> int" where
  "field_int bs = (if hd bs = 1 then - int (be_nat (tl bs)) else int (be_nat (tl bs)))"

lemma field_int_field [simp]: "field_int (int_field i) = i"
  by (simp add: int_field_def field_int_def)

definition word_field :: "'a::len word \<Rightarrow> bytes" where
  "word_field w = be_bytes (unat w)"

definition field_word :: "bytes \<Rightarrow> 'a::len word" where
  "field_word bs = word_of_nat (be_nat bs)"

lemma field_word_field [simp]: "field_word (word_field w) = w"
  by (simp add: field_word_def word_field_def)

definition field_str :: "bytes \<Rightarrow> string" where
  "field_str bs = map (\<lambda>b. char_of (unat b)) bs"

lemma field_str_bytes [simp]: "field_str (str_bytes s) = s"
proof -
  have "char_of (unat (word_of_nat (of_char c) :: byte)) = c" for c
    by (simp add: unsigned_of_nat take_bit_eq_mod)
  then show ?thesis
    by (simp add: field_str_def str_bytes_def map_idI)
qed

definition opt_field :: "bytes option \<Rightarrow> bytes" where
  "opt_field c = (case c of None \<Rightarrow> [] | Some b \<Rightarrow> b)"

definition field_opt :: "bytes \<Rightarrow> bytes option" where
  "field_opt b = (if b = [] then None else Some b)"

lemma field_opt_field [simp]: "c \<noteq> Some [] \<Longrightarrow> field_opt (opt_field c) = c"
  by (cases c) (simp_all add: field_opt_def opt_field_def)

text \<open>A message with a fixed number of fields.\<close>

definition dec_msg :: "nat \<Rightarrow> (bytes list \<Rightarrow> 'a) \<Rightarrow> bytes \<Rightarrow> string + 'a" where
  "dec_msg n f bz = (case dec_fields n bz of None \<Rightarrow> Inl ''proto: cannot parse invalid wire-format data'' | Some fs \<Rightarrow> Inr (f fs))"

lemma dec_msg_enc: "length fs = n \<Longrightarrow> dec_msg n f (enc_fields fs) = Inr (f fs)"
  by (auto simp: dec_msg_def)

section \<open>Instances\<close>

definition acctFields :: "AcctProto \<Rightarrow> bytes list" where
  "acctFields m = [pmAddress m, str_bytes (pmName m), word_field (pmNonce m), pmXBalance m, opt_field (pmXCode m), str_bytes (pmDocUrl m)]"

definition fieldsAcct :: "bytes list \<Rightarrow> AcctProto" where
  "fieldsAcct fs = \<lparr>pmAddress = fs ! 0, pmName = field_str (fs ! 1), pmNonce = field_word (fs ! 2), pmXBalance = fs ! 3,
     pmXCode = field_opt (fs ! 4), pmDocUrl = field_str (fs ! 5)\<rparr>"

definition demoAcctProto :: acctProtoOps where
  "demoAcctProto = \<lparr>acctMarshal = (\<lambda>m. Inr (enc_fields (acctFields m))), acctUnmarshal = dec_msg 6 fieldsAcct\<rparr>"

lemma demoAcctProto_laws [simp]: "acctProto_laws demoAcctProto (\<lambda>_. True)"
proof -
  have "fieldsAcct (acctFields m) = m" if "pmXCode m \<noteq> Some []" for m
    using that by (simp add: fieldsAcct_def acctFields_def)
  moreover have "pmXCode (fieldsAcct fs) \<noteq> Some []" for fs
    by (simp add: fieldsAcct_def field_opt_def)
  moreover have "length (acctFields m) = 6" for m
    by (simp add: acctFields_def)
  ultimately show ?thesis
    by (auto simp: acctProto_laws_def acctProto_valid_def demoAcctProto_def dec_msg_enc)
       (auto simp: dec_msg_def split: option.splits)
qed

definition trxFields :: "TrxProto \<Rightarrow> bytes list" where
  "trxFields m = [word_field (tpVersion m), int_field (tpTime m), word_field (tpNonce m), tpFrom m, tpTo m, tpXAmount m,
     word_field (tpGas m), tpXGasPrice m, int_field (tpType m), tpXPayload m, tpSig m]"

definition fieldsTrx :: "bytes list \<Rightarrow> TrxProto" where
  "fieldsTrx fs = \<lparr>tpVersion = field_word (fs ! 0), tpTime = field_int (fs ! 1), tpNonce = field_word (fs ! 2),
     tpFrom = fs ! 3, tpTo = fs ! 4, tpXAmount = fs ! 5, tpGas = field_word (fs ! 6), tpXGasPrice = fs ! 7,
     tpType = field_int (fs ! 8), tpXPayload = fs ! 9, tpSig = fs ! 10\<rparr>"

definition proposalFields :: "TrxPayloadProposal \<Rightarrow> bytes list" where
  "proposalFields p = [str_bytes (prMessage p), int_field (prStartVotingHeight p), int_field (prVotingPeriodBlocks p),
     int_field (prApplyingHeight p), int_field (prOptType p), be_bytes (length (prOptions p)), enc_fields (prOptions p)]"

definition fieldsProposal :: "bytes list \<Rightarrow> TrxPayloadProposal" where
  "fieldsProposal fs = \<lparr>prMessage = field_str (fs ! 0), prStartVotingHeight = field_int (fs ! 1),
     prVotingPeriodBlocks = field_int (fs ! 2), prApplyingHeight = field_int (fs ! 3), prOptType = field_int (fs ! 4),
     prOptions = the (dec_fields (be_nat (fs ! 5)) (fs ! 6))\<rparr>"

definition demoTrxProto :: trxProtoOps where
  "demoTrxProto =
     \<lparr>trxMarshal = (\<lambda>m. Inr (enc_fields (trxFields m))), trxUnmarshal = dec_msg 11 fieldsTrx,
      unstakingMarshal = Inr, unstakingUnmarshal = Inr, withdrawMarshal = Inr, withdrawUnmarshal = Inr,
      proposalMarshal = (\<lambda>p. Inr (enc_fields (proposalFields p))), proposalUnmarshal = dec_msg 7 fieldsProposal,
      votingMarshal = (\<lambda>(h, c). Inr (enc_fields [h, int_field c])),
      votingUnmarshal = dec_msg 2 (\<lambda>fs. (fs ! 0, field_int (fs ! 1))),
      contractMarshal = Inr, contractUnmarshal = Inr,
      setDocMarshal = (\<lambda>(n, u). Inr (enc_fields [str_bytes n, str_bytes u])),
      setDocUnmarshal = dec_msg 2 (\<lambda>fs. (field_str (fs ! 0), field_str (fs ! 1)))\<rparr>"

lemma fields_roundtrip:
  "fieldsTrx (trxFields m) = m" "length (trxFields m) = 11"
  "fieldsProposal (proposalFields p) = p" "length (proposalFields p) = 7"
  by (simp_all add: fieldsTrx_def trxFields_def fieldsProposal_def proposalFields_def)

lemma demoTrxProto_laws [simp]: "trxProto_laws demoTrxProto"
  by (auto simp: trxProto_laws_def enc_dec_def demoTrxProto_def dec_msg_enc fields_roundtrip)

end
