(* ===== verification/Rigo_TrxProps.thy ===== *)
theory Rigo_TrxProps
  imports Rigo_Codec
begin

text \<open>
  Properties of transactions: both wire forms decode to the transaction that was encoded, and the
  text that is signed determines every field of it.
\<close>

section \<open>An RLP instance\<close>

definition rlpTrxFields :: "trxRPL \<Rightarrow> bytes list" where
  "rlpTrxFields m = [word_field (rlpVersion m), word_field (rlpTime m), word_field (rlpNonce m), rlpFrom m, rlpTo m,
     rlpAmount m, word_field (rlpGas m), rlpGasPrice m, word_field (rlpType m), rlpPayload m, rlpSig m]"

definition fieldsRlpTrx :: "bytes list \<Rightarrow> trxRPL" where
  "fieldsRlpTrx fs = \<lparr>rlpVersion = field_word (fs ! 0), rlpTime = field_word (fs ! 1), rlpNonce = field_word (fs ! 2),
     rlpFrom = fs ! 3, rlpTo = fs ! 4, rlpAmount = fs ! 5, rlpGas = field_word (fs ! 6), rlpGasPrice = fs ! 7,
     rlpType = field_word (fs ! 8), rlpPayload = fs ! 9, rlpSig = fs ! 10\<rparr>"

definition rlpProposalFields :: "proposalRLP \<Rightarrow> bytes list" where
  "rlpProposalFields p = [str_bytes (rlpMessage p), word_field (rlpStartVotingHeight p), word_field (rlpVotingPeriodBlocks p),
     word_field (rlpApplyingHeight p), word_field (rlpOptType p), be_bytes (length (rlpOptions p)), enc_fields (rlpOptions p)]"

definition fieldsRlpProposal :: "bytes list \<Rightarrow> proposalRLP" where
  "fieldsRlpProposal fs = \<lparr>rlpMessage = field_str (fs ! 0), rlpStartVotingHeight = field_word (fs ! 1),
     rlpVotingPeriodBlocks = field_word (fs ! 2), rlpApplyingHeight = field_word (fs ! 3), rlpOptType = field_word (fs ! 4),
     rlpOptions = the (dec_fields (be_nat (fs ! 5)) (fs ! 6))\<rparr>"

definition demoRlp :: rlpOps where
  "demoRlp =
     \<lparr>encTrx = (\<lambda>m. Inr (enc_fields (rlpTrxFields m))), decTrx = dec_msg 11 fieldsRlpTrx,
      encBytes = (\<lambda>b. Inr (enc_fields [b])), decBytes = dec_msg 1 (\<lambda>fs. fs ! 0),
      encProposal = (\<lambda>p. Inr (enc_fields (rlpProposalFields p))), decProposal = dec_msg 7 fieldsRlpProposal,
      encVoting = (\<lambda>(h, c). Inr (enc_fields [h, word_field c])),
      decVoting = dec_msg 2 (\<lambda>fs. (fs ! 0, field_word (fs ! 1))),
      encSetDoc = (\<lambda>(n, u). Inr (enc_fields [str_bytes n, str_bytes u])),
      decSetDoc = dec_msg 2 (\<lambda>fs. (field_str (fs ! 0), field_str (fs ! 1)))\<rparr>"

lemma rlp_fields_roundtrip:
  "fieldsRlpTrx (rlpTrxFields m) = m" "length (rlpTrxFields m) = 11"
  "fieldsRlpProposal (rlpProposalFields p) = p" "length (rlpProposalFields p) = 7" "rlpProposalFields p \<noteq> []"
  by (simp_all add: fieldsRlpTrx_def rlpTrxFields_def fieldsRlpProposal_def rlpProposalFields_def)

lemma demoRlp_laws [simp]: "rlp_laws demoRlp"
  by (auto simp: rlp_laws_def enc_dec_def demoRlp_def dec_msg_enc rlp_fields_roundtrip enc_fields_not_Nil)

section \<open>Both forms decode to the same transaction\<close>

text \<open>A transaction that is sent, in either form, is received as it was, except that transfers and
  stakings lose their empty payload, which \<^verbatim>\<open>Equal\<close> does not tell apart.\<close>

text \<open>C13. What \<^verbatim>\<open>Encode\<close> or \<^verbatim>\<open>EncodeRLP\<close> makes of a well-formed transaction, \<^verbatim>\<open>Decode\<close> or \<^verbatim>\<open>DecodeRLP\<close>
  turns back into the same transaction (up to the empty payload of a transfer or a staking), and
  the sent transaction is \<^verbatim>\<open>Equal\<close> to the received one.\<close>

theorem Trx_codecs_agree:
  assumes "trxProto_laws P" "rlp_laws R" "trx_wf tx"
    and "Trx_Encode P tx = Inr bz" "Trx_EncodeRLP R tx = Inr rz"
  shows "Trx_Decode P bz = Inr (trx_strip tx) \<and> Trx_DecodeRLP R rz = Inr (trx_strip tx) \<and>
    Trx_Equal tx (trx_strip tx)"
proof -
  have refl: "options_Equal xs xs" for xs
    by (induction xs) simp_all
  have "TrxPayload_Equal p (Some p)" for p
    by (cases p) (simp_all add: TrxPayloadProposal_Equal_def refl)
  moreover have "txType tx = TRX_TRANSFER \<or> txType tx = TRX_STAKING \<Longrightarrow> txPayload tx = Some p \<Longrightarrow> TrxPayload_Equal p q" for p q
    using assms(3) by (cases p) (auto simp: trx_wf_def trx_type_defs)
  ultimately have "Trx_Equal tx (trx_strip tx)"
    by (simp add: Trx_Equal_def trx_strip_def split: option.split)
  then show ?thesis
    using Trx_proto_roundtrip [OF assms(1,3,4)] Trx_rlp_roundtrip [OF assms(2,3,5)] by blast
qed

definition demoTx :: Trx where
  "demoTx = NewTrx 1 [1] [2] 0 4000 5 0 (TrxPayloadVoting [7] (-1)) 9"

theorem Trx_codecs_agree_witness:
  "\<exists>bz rz. Trx_Encode demoTrxProto demoTx = Inr bz \<and> Trx_Decode demoTrxProto bz = Inr demoTx \<and>
     Trx_EncodeRLP demoRlp demoTx = Inr rz \<and> Trx_DecodeRLP demoRlp rz = Inr demoTx"
proof -
  obtain bz where bz: "Trx_Encode demoTrxProto demoTx = Inr bz"
    by (auto simp: demoTx_def NewTrx_def Trx_Encode_def Trx_toProto_def demoTrxProto_def fromErr_def)
  obtain rz where rz: "Trx_EncodeRLP demoRlp demoTx = Inr rz"
    by (auto simp: demoTx_def NewTrx_def Trx_EncodeRLP_def demoRlp_def)
  have wf: "trx_wf demoTx"
    by (simp add: demoTx_def NewTrx_def trx_wf_def in_i64_def in_i32_def)
  have s: "trx_strip demoTx = demoTx"
    by (simp add: demoTx_def NewTrx_def trx_strip_def trx_type_defs)
  show ?thesis
    using Trx_codecs_agree [OF demoTrxProto_laws demoRlp_laws wf bz rz] bz rz s by auto
qed

section \<open>The signed text\<close>

lemma length_dec_digits_mono: "m \<le> n \<Longrightarrow> length (dec_digits m) \<le> length (dec_digits n)"
proof (induction n arbitrary: m rule: dec_digits.induct)
  case (1 n)
  show ?case
  proof (cases "n < 10")
    case True
    then show ?thesis
      using "1.prems" by (simp add: dec_digits.simps [of m] dec_digits.simps [of n])
  next
    case False
    then show ?thesis
      using "1.IH" [of "m div 10"] "1.prems" div_le_mono [OF "1.prems", of 10]
      by (simp add: dec_digits.simps [of m] dec_digits.simps [of n])
  qed
qed

lemma signed_text_inj:
  assumes "signPrefix c (length a) @ a = signPrefix c (length b) @ b"
  shows "a = b"
proof -
  have len: "length (signPrefix c (length x) @ x) = 24 + length c + length (dec_digits (length x)) + length x" for x
    by (simp add: signPrefix_def str_bytes_def)
  have "length a = length b"
    using len [of a] len [of b] assms length_dec_digits_mono [of "length a" "length b"]
      length_dec_digits_mono [of "length b" "length a"] by simp linarith
  with assms show ?thesis
    by simp
qed

lemma Trx_Encode_inj:
  assumes "trxProto_laws P" "trx_wf tx" "trx_wf tx'" "Trx_Encode P tx = Inr bz" "Trx_Encode P tx' = Inr bz"
  shows "trx_strip tx = trx_strip tx'"
  using Trx_proto_roundtrip [OF assms(1,2,4)] Trx_proto_roundtrip [OF assms(1,3,5)] by simp

text \<open>C14. The text a signature is made over determines the transaction: two transactions with the
  same text to sign, for the same chain, agree in every field but the signature.\<close>

theorem PreImageToSignTrxProto_injective:
  assumes "trxProto_laws P" "trx_wf tx" "trx_wf tx'"
    and "PreImageToSignTrxProto P tx chainId = Inr m" "PreImageToSignTrxProto P tx' chainId = Inr m"
  shows "trx_strip (tx\<lparr>txSig := []\<rparr>) = trx_strip (tx'\<lparr>txSig := []\<rparr>)"
proof -
  obtain bz where bz: "Trx_Encode P (tx\<lparr>txSig := []\<rparr>) = Inr bz" "m = signPrefix chainId (length bz) @ bz"
    using assms(4) by (auto simp: PreImageToSignTrxProto_def split: sum.splits)
  obtain bz' where bz': "Trx_Encode P (tx'\<lparr>txSig := []\<rparr>) = Inr bz'" "m = signPrefix chainId (length bz') @ bz'"
    using assms(5) by (auto simp: PreImageToSignTrxProto_def split: sum.splits)
  have "bz = bz'"
    using signed_text_inj bz(2) bz'(2) by metis
  moreover have "trx_wf (tx\<lparr>txSig := []\<rparr>)" "trx_wf (tx'\<lparr>txSig := []\<rparr>)"
    using assms(2,3) by (simp_all add: trx_wf_def split: option.splits)
  ultimately show ?thesis
    using Trx_Encode_inj [OF assms(1)] bz(1) bz'(1) by blast
qed

theorem PreImageToSignTrxProto_injective_witness:
  "\<exists>m. PreImageToSignTrxProto demoTrxProto demoTx ''c'' = Inr m \<and>
     PreImageToSignTrxProto demoTrxProto (demoTx\<lparr>txSig := [1]\<rparr>) ''c'' = Inr m \<and>
     trx_strip (demoTx\<lparr>txSig := []\<rparr>) = trx_strip (demoTx\<lparr>txSig := [1], txSig := []\<rparr>)"
proof -
  have wf: "trx_wf demoTx" "trx_wf (demoTx\<lparr>txSig := [1]\<rparr>)"
    by (simp_all add: demoTx_def NewTrx_def trx_wf_def in_i64_def in_i32_def)
  obtain m where m: "PreImageToSignTrxProto demoTrxProto demoTx ''c'' = Inr m"
    by (auto simp: PreImageToSignTrxProto_def demoTx_def NewTrx_def Trx_Encode_def Trx_toProto_def demoTrxProto_def fromErr_def)
  moreover have m': "PreImageToSignTrxProto demoTrxProto (demoTx\<lparr>txSig := [1]\<rparr>) ''c'' = Inr m"
    using m by (simp add: PreImageToSignTrxProto_def)
  ultimately show ?thesis
    using PreImageToSignTrxProto_injective [OF demoTrxProto_laws wf m m'] by auto
qed

end
