(* ===== verification/Rigo_Ctx.thy ===== *)
theory Rigo_Ctx
  imports Rigo_Trx
begin

text \<open>
  The contexts of \<^verbatim>\<open>src/ctrlers/types/block_ctx.go\<close> and \<^verbatim>\<open>trx_ctx.go\<close>. Of the ABCI message
  \<^verbatim>\<open>RequestBeginBlock\<close> the fields the controllers read are kept. The handlers a context carries are
  the controllers themselves, which the operations take as arguments. \<open>ctxSender\<close> and
  \<open>ctxReceiver\<close> are pointers into the account cache of the level the transaction runs on
  (\<open>ctxExec\<close>): they are the ledger keys of the accounts, and reading through them reads the cache.
\<close>

type_synonym event = "string \<times> (bytes \<times> bytes \<times> bool) list"

record abciValidator =
  valAddress :: bytes
  valPower :: int

record voteInfo =
  viValidator :: abciValidator
  viSignedLastBlock :: bool

record evidence =
  evType :: nat
  evValidator :: abciValidator
  evHeight :: int
  evTotalVotingPower :: int

record blockInfo =
  biHeight :: int
  biTime :: int
  biProposerAddress :: "bytes option"
  biAppHash :: bytes
  biVotes :: "voteInfo list"
  biByzantineValidators :: "evidence list"

text \<open>A validator update of the ABCI: the public key bytes and the new power.\<close>

type_synonym validatorUpdate = "bytes \<times> int"

record BlockContext =
  bctxBlockInfo :: blockInfo
  bctxFeeSum :: u256
  bctxTxsCnt :: int
  bctxAppHash :: bytes
  bctxValUpdates :: "validatorUpdate list"

definition NewBlockContext :: "blockInfo \<Rightarrow> BlockContext" where
  "NewBlockContext bi =
     \<lparr>bctxBlockInfo = bi, bctxFeeSum = 0, bctxTxsCnt = 0, bctxAppHash = [], bctxValUpdates = []\<rparr>"

definition BlockContext_SetHeight :: "int \<Rightarrow> BlockContext \<Rightarrow> BlockContext" where
  "BlockContext_SetHeight h bctx = bctx\<lparr>bctxBlockInfo := (bctxBlockInfo bctx)\<lparr>biHeight := h\<rparr>\<rparr>"

definition BlockContext_Height :: "BlockContext \<Rightarrow> int" where
  "BlockContext_Height bctx = biHeight (bctxBlockInfo bctx)"

definition BlockContext_PreAppHash :: "BlockContext \<Rightarrow> bytes" where
  "BlockContext_PreAppHash bctx = biAppHash (bctxBlockInfo bctx)"

definition BlockContext_SetAppHash :: "bytes \<Rightarrow> BlockContext \<Rightarrow> BlockContext" where
  "BlockContext_SetAppHash hash bctx = bctx\<lparr>bctxAppHash := hash\<rparr>"

text \<open>The block time is kept in nanoseconds; \<^verbatim>\<open>Unix()\<close> rounds down.\<close>

definition BlockContext_TimeNano :: "BlockContext \<Rightarrow> int" where
  "BlockContext_TimeNano bctx = biTime (bctxBlockInfo bctx)"

definition BlockContext_TimeSeconds :: "BlockContext \<Rightarrow> int" where
  "BlockContext_TimeSeconds bctx = biTime (bctxBlockInfo bctx) div 1000000000"

definition BlockContext_SumFee :: "BlockContext \<Rightarrow> u256" where
  "BlockContext_SumFee bctx = bctxFeeSum bctx"

definition BlockContext_AddFee :: "u256 \<Rightarrow> BlockContext \<Rightarrow> BlockContext" where
  "BlockContext_AddFee fee bctx = bctx\<lparr>bctxFeeSum := bctxFeeSum bctx + fee\<rparr>"

definition BlockContext_AddTxsCnt :: "int \<Rightarrow> BlockContext \<Rightarrow> BlockContext" where
  "BlockContext_AddTxsCnt d bctx = bctx\<lparr>bctxTxsCnt := i64 (bctxTxsCnt bctx + d)\<rparr>"

definition BlockContext_SetValUpdates :: "validatorUpdate list \<Rightarrow> BlockContext \<Rightarrow> BlockContext" where
  "BlockContext_SetValUpdates ups bctx = bctx\<lparr>bctxValUpdates := ups\<rparr>"

record TrxContext =
  ctxHeight :: int
  ctxBlockTime :: int
  ctxTxHash :: bytes
  ctxTx :: Trx
  ctxTxIdx :: int
  ctxExec :: bool
  ctxSenderPubKey :: bytes
  ctxSender :: ledgerKey
  ctxReceiver :: ledgerKey
  ctxGasUsed :: u64
  ctxRetData :: bytes
  ctxEvents :: "event list"
  ctxChainID :: string

end
