(* ===== verification/Rigo_AcctCtrler.thy ===== *)
theory Rigo_AcctCtrler
  imports Rigo_Ctx Rigo_Codec
begin

text \<open>
  The account controller, \<^verbatim>\<open>src/ctrlers/account/ctrler.go\<close>, on the account ledger of a database
  directory. The two accounts of a transfer are pointers: when they are the account of one key they
  are one object, which \<open>AcctCtrler_transfer\<close> takes into account.
\<close>

record 't AcctCtrler =
  acctLedger :: "('t, Account) FinalityLedger"

definition AcctCtrler_ledgerGet :: "'t treeOps \<Rightarrow> acctProtoOps \<Rightarrow> bool \<Rightarrow> ledgerKey \<Rightarrow> 't AcctCtrler \<Rightarrow> Account res \<times> 't AcctCtrler" where
  "AcctCtrler_ledgerGet T P exec k c =
     (let (r, l) = (if exec then FinalityLedger_GetFinality T (accountItem P) k (acctLedger c)
                    else SimpleLedger_Get T (accountItem P) k (acctLedger c))
      in (r, c\<lparr>acctLedger := l\<rparr>))"

definition AcctCtrler_findAccount :: "'t treeOps \<Rightarrow> acctProtoOps \<Rightarrow> bytes \<Rightarrow> bool \<Rightarrow> 't AcctCtrler \<Rightarrow> Account option \<times> 't AcctCtrler" where
  "AcctCtrler_findAccount T P addr exec c =
     (case AcctCtrler_ledgerGet T P exec (ToLedgerKey addr) c of
        (Inl xerr, c) \<Rightarrow> (None, c)
      | (Inr acct, c) \<Rightarrow> (Some acct, c))"

definition AcctCtrler_setAccountCommittable :: "acctProtoOps \<Rightarrow> Account \<Rightarrow> bool \<Rightarrow> 't AcctCtrler \<Rightarrow> unit res \<times> 't AcctCtrler" where
  "AcctCtrler_setAccountCommittable P acct exec c =
     (let (r, l) = (if exec then FinalityLedger_SetFinality (accountItem P) acct (acctLedger c)
                    else SimpleLedger_Set (accountItem P) acct (acctLedger c))
      in (r, c\<lparr>acctLedger := l\<rparr>))"

definition AcctCtrler_FindOrNewAccount :: "'t treeOps \<Rightarrow> acctProtoOps \<Rightarrow> bytes \<Rightarrow> bool \<Rightarrow> 't AcctCtrler \<Rightarrow> Account \<times> 't AcctCtrler" where
  "AcctCtrler_FindOrNewAccount T P addr exec c =
     (case AcctCtrler_findAccount T P addr exec c of
        (Some acct, c) \<Rightarrow> (acct, c)
      | (None, c) \<Rightarrow>
          (let newAcct = NewAccountWithName addr ''''
           in (newAcct, snd (AcctCtrler_setAccountCommittable P newAcct exec c))))"

definition AcctCtrler_FindAccount :: "'t treeOps \<Rightarrow> acctProtoOps \<Rightarrow> bytes \<Rightarrow> bool \<Rightarrow> 't AcctCtrler \<Rightarrow> Account option \<times> 't AcctCtrler" where
  "AcctCtrler_FindAccount T P addr exec c = AcctCtrler_findAccount T P addr exec c"

definition AcctCtrler_ReadAccount :: "'t treeOps \<Rightarrow> acctProtoOps \<Rightarrow> bytes \<Rightarrow> 't AcctCtrler \<Rightarrow> Account" where
  "AcctCtrler_ReadAccount T P addr c =
     (case SimpleLedger_Read T (accountItem P) (HexBytes_Array32 addr) (acctLedger c) of
        Inl xerr \<Rightarrow> NewAccount addr
      | Inr acct \<Rightarrow> acct)"

text \<open>\<open>same\<close> says that the two pointers are one: then both results are that object.\<close>

definition AcctCtrler_transfer :: "bool \<Rightarrow> Account \<Rightarrow> Account \<Rightarrow> u256 \<Rightarrow> unit res \<times> Account \<times> Account" where
  "AcctCtrler_transfer same from to amt =
     (case Account_SubBalance amt from of
        (Inl err, from) \<Rightarrow> (Inl err, from, if same then from else to)
      | (Inr _, from) \<Rightarrow>
          (case Account_AddBalance amt (if same then from else to) of
             (Inl err, to) \<Rightarrow>
               (let from = snd (Account_AddBalance amt (if same then to else from))
                in (Inl err, from, if same then from else to))
           | (Inr _, to) \<Rightarrow> (Inr (), if same then to else from, to)))"

definition AcctCtrler_Transfer :: "'t treeOps \<Rightarrow> acctProtoOps \<Rightarrow> bytes \<Rightarrow> bytes \<Rightarrow> u256 \<Rightarrow> bool \<Rightarrow> 't AcctCtrler \<Rightarrow> unit res \<times> 't AcctCtrler" where
  "AcctCtrler_Transfer T P from to amt exec c =
     (case AcctCtrler_findAccount T P from exec c of
        (None, c) \<Rightarrow> (Inl (Error (xerror_Wrapf ErrNotFoundAccount ''Transfer - address: %v'')), c)
      | (Some acct0, c) \<Rightarrow>
          (let (o1, c) = AcctCtrler_findAccount T P to exec c;
               acct1 = (case o1 of None \<Rightarrow> NewAccountWithName to '''' | Some a \<Rightarrow> a)
           in case AcctCtrler_transfer (ToLedgerKey from = ToLedgerKey to) acct0 acct1 amt of
                (Inl xerr, _) \<Rightarrow> (Inl xerr, c)
              | (Inr _, acct0, acct1) \<Rightarrow>
                  bindE (AcctCtrler_setAccountCommittable P acct0 exec c) (\<lambda>_ c.
                    AcctCtrler_setAccountCommittable P acct1 exec c)))"

definition AcctCtrler_setDoc :: "string \<Rightarrow> string \<Rightarrow> Account \<Rightarrow> Account" where
  "AcctCtrler_setDoc name url acct = Account_SetDocURL url (Account_SetName name acct)"

definition AcctCtrler_SetCode :: "'t treeOps \<Rightarrow> acctProtoOps \<Rightarrow> bytes \<Rightarrow> bytes option \<Rightarrow> bool \<Rightarrow> 't AcctCtrler \<Rightarrow> unit res \<times> 't AcctCtrler" where
  "AcctCtrler_SetCode T P addr code exec c =
     (case AcctCtrler_findAccount T P addr exec c of
        (None, c) \<Rightarrow> (Inl (Error (xerror_Wrapf ErrNotFoundAccount ''SetCode - address: %v'')), c)
      | (Some acct0, c) \<Rightarrow> AcctCtrler_setAccountCommittable P (Account_SetCode code acct0) exec c)"

definition AcctCtrler_SetDoc :: "'t treeOps \<Rightarrow> acctProtoOps \<Rightarrow> bytes \<Rightarrow> string \<Rightarrow> string \<Rightarrow> bool \<Rightarrow> 't AcctCtrler \<Rightarrow> unit res \<times> 't AcctCtrler" where
  "AcctCtrler_SetDoc T P addr name url exec c =
     (case AcctCtrler_findAccount T P addr exec c of
        (None, c) \<Rightarrow> (Inl (Error (xerror_Wrapf ErrNotFoundAccount ''SetDoc - address: %v'')), c)
      | (Some acct0, c) \<Rightarrow> AcctCtrler_setAccountCommittable P (AcctCtrler_setDoc name url acct0) exec c)"

definition AcctCtrler_Reward :: "'t treeOps \<Rightarrow> acctProtoOps \<Rightarrow> bytes \<Rightarrow> u256 \<Rightarrow> bool \<Rightarrow> 't AcctCtrler \<Rightarrow> unit res \<times> 't AcctCtrler" where
  "AcctCtrler_Reward T P to amt exec c =
     (case AcctCtrler_findAccount T P to exec c of
        (None, c) \<Rightarrow> (Inl (Error (xerror_Wrapf ErrNotFoundAccount ''Reward - address: %v'')), c)
      | (Some acct, c) \<Rightarrow>
          (case Account_AddBalance amt acct of
             (Inl xerr, _) \<Rightarrow> (Inl xerr, c)
           | (Inr _, acct) \<Rightarrow> AcctCtrler_setAccountCommittable P acct exec c))"

text \<open>Reading and writing through a pointer the context holds.\<close>

definition AcctCtrler_at :: "bool \<Rightarrow> ledgerKey \<Rightarrow> 't AcctCtrler \<Rightarrow> Account option" where
  "AcctCtrler_at exec k c =
     memItems_getGotItem (if exec then finalityItems (acctLedger c) else cachedItems (acctLedger c)) k"

definition AcctCtrler_assign :: "acctProtoOps \<Rightarrow> bool \<Rightarrow> Account \<Rightarrow> 't AcctCtrler \<Rightarrow> 't AcctCtrler" where
  "AcctCtrler_assign P exec acct c =
     c\<lparr>acctLedger := (if exec
        then (acctLedger c)\<lparr>finalityItems := memItems_assign (accountItem P) acct (finalityItems (acctLedger c))\<rparr>
        else (acctLedger c)\<lparr>cachedItems := memItems_assign (accountItem P) acct (cachedItems (acctLedger c))\<rparr>)\<rparr>"

definition AcctCtrler_ValidateTrx :: "TrxContext \<Rightarrow> unit res" where
  "AcctCtrler_ValidateTrx ctx =
     (if txType (ctxTx ctx) = TRX_SETDOC then
        (case txPayload (ctxTx ctx) of
           Some (TrxPayloadSetDoc name url) \<Rightarrow>
             if length name > MAX_ACCT_NAME
             then Inl (Error (xerror_Wrapf ErrInvalidTrxPayloadParams ''too long name. it should be less than %d.''))
             else if length url > MAX_ACCT_DOCURL
             then Inl (Error (xerror_Wrapf ErrInvalidTrxPayloadParams ''too long url. it should be less than %d.''))
             else Inr ()
         | _ \<Rightarrow> Inl (Panic ''interface conversion''))
      else Inr ())"

text \<open>\<^verbatim>\<open>ExecuteTrx\<close>: the transfer or the document, then both accounts are marked for the commit.\<close>

definition AcctCtrler_ExecuteTrx :: "acctProtoOps \<Rightarrow> TrxContext \<Rightarrow> 't AcctCtrler \<Rightarrow> unit res \<times> 't AcctCtrler" where
  "AcctCtrler_ExecuteTrx P ctx c =
     (let exec = ctxExec ctx; tx = ctxTx ctx in
      bindE
        (if txType tx = TRX_TRANSFER then
           (case (AcctCtrler_at exec (ctxSender ctx) c, AcctCtrler_at exec (ctxReceiver ctx) c) of
              (Some sender, Some receiver) \<Rightarrow>
                (let (r, sender, receiver) =
                       AcctCtrler_transfer (ctxSender ctx = ctxReceiver ctx) sender receiver (txAmount tx)
                 in (r, AcctCtrler_assign P exec receiver (AcctCtrler_assign P exec sender c)))
            | _ \<Rightarrow> (Inl nilPointer, c))
         else if txType tx = TRX_SETDOC then
           (case (AcctCtrler_at exec (ctxSender ctx) c, txPayload tx) of
              (Some sender, Some (TrxPayloadSetDoc name url)) \<Rightarrow>
                (Inr (), AcctCtrler_assign P exec (AcctCtrler_setDoc name url sender) c)
            | (None, _) \<Rightarrow> (Inl nilPointer, c)
            | _ \<Rightarrow> (Inl (Panic ''interface conversion''), c))
         else (Inr (), c))
        (\<lambda>_ c. case AcctCtrler_at exec (ctxSender ctx) c of
           None \<Rightarrow> (Inl nilPointer, c)
         | Some sender \<Rightarrow>
             (let c = snd (AcctCtrler_setAccountCommittable P sender exec c) in
              case AcctCtrler_at exec (ctxReceiver ctx) c of
                None \<Rightarrow> (Inr (), c)
              | Some receiver \<Rightarrow> (Inr (), snd (AcctCtrler_setAccountCommittable P receiver exec c)))))"

text \<open>\<^verbatim>\<open>EndBlock\<close> gives the fees of the block to its proposer.\<close>

definition AcctCtrler_EndBlock :: "'t treeOps \<Rightarrow> acctProtoOps \<Rightarrow> BlockContext \<Rightarrow> 't AcctCtrler \<Rightarrow> unit res \<times> 't AcctCtrler" where
  "AcctCtrler_EndBlock T P ctx c =
     (case biProposerAddress (bctxBlockInfo ctx) of
        None \<Rightarrow> (Inr (), c)
      | Some proposer \<Rightarrow>
          if u256_Sign (BlockContext_SumFee ctx) > 0 then
            (let (o1, c) = AcctCtrler_findAccount T P proposer True c;
                 acct = (case o1 of None \<Rightarrow> NewAccount proposer | Some a \<Rightarrow> a)
             in case Account_AddBalance (BlockContext_SumFee ctx) acct of
                  (Inl xerr, _) \<Rightarrow> (Inl xerr, c)
                | (Inr _, acct) \<Rightarrow> AcctCtrler_setAccountCommittable P acct True c)
          else (Inr (), c))"

definition AcctCtrler_BeginBlock :: "BlockContext \<Rightarrow> 't AcctCtrler \<Rightarrow> unit res \<times> 't AcctCtrler" where
  "AcctCtrler_BeginBlock ctx c = (Inr (), c)"

definition AcctCtrler_Commit :: "'t treeOps \<Rightarrow> acctProtoOps \<Rightarrow> 't AcctCtrler \<Rightarrow> (bytes \<times> int) res \<times> 't AcctCtrler" where
  "AcctCtrler_Commit T P c =
     (let (r, l) = FinalityLedger_Commit T (accountItem P) (acctLedger c) in (r, c\<lparr>acctLedger := l\<rparr>))"

text \<open>\<^verbatim>\<open>InitLedger\<close>: one account for every asset holder of the genesis.\<close>

record GenesisAssetHolder =
  ghAddress :: bytes
  ghBalance :: u256

fun AcctCtrler_InitLedger :: "acctProtoOps \<Rightarrow> GenesisAssetHolder list \<Rightarrow> 't AcctCtrler \<Rightarrow> unit res \<times> 't AcctCtrler" where
  "AcctCtrler_InitLedger P [] c = (Inr (), c)"
| "AcctCtrler_InitLedger P (holder # holders) c =
     bindE (AcctCtrler_setAccountCommittable P ((NewAccount (ghAddress holder))\<lparr>acctBalance := ghBalance holder\<rparr>) True c)
       (\<lambda>_ c. AcctCtrler_InitLedger P holders c)"

section \<open>The immutable controller\<close>

text \<open>\<^verbatim>\<open>ImmuAcctCtrler\<close>: the account interface on the ledger of one version; it writes to the cache of
  that ledger only.\<close>

record 't ImmuAcctCtrler =
  immuLedger :: "('t, Account) SimpleLedger"

definition AcctCtrler_ImmutableAcctCtrlerAt :: "'t treeOps \<Rightarrow> int \<Rightarrow> 't AcctCtrler \<Rightarrow> 't ImmuAcctCtrler res" where
  "AcctCtrler_ImmutableAcctCtrlerAt T height c =
     (case FinalityLedger_ImmutableLedgerAt T height (acctLedger c) of
        Inl xerr \<Rightarrow> Inl xerr
      | Inr ledger0 \<Rightarrow> Inr \<lparr>immuLedger = ledger0\<rparr>)"

definition ImmuAcctCtrler_FindAccount :: "'t treeOps \<Rightarrow> acctProtoOps \<Rightarrow> bytes \<Rightarrow> 't ImmuAcctCtrler \<Rightarrow> Account option \<times> 't ImmuAcctCtrler" where
  "ImmuAcctCtrler_FindAccount T P addr c =
     (case SimpleLedger_Get T (accountItem P) (ToLedgerKey addr) (immuLedger c) of
        (Inl xerr, l) \<Rightarrow> (None, c\<lparr>immuLedger := l\<rparr>)
      | (Inr acct, l) \<Rightarrow> (Some acct, c\<lparr>immuLedger := l\<rparr>))"

definition ImmuAcctCtrler_SetAccountCommittable :: "acctProtoOps \<Rightarrow> Account \<Rightarrow> 't ImmuAcctCtrler \<Rightarrow> unit res \<times> 't ImmuAcctCtrler" where
  "ImmuAcctCtrler_SetAccountCommittable P acct c =
     (let (r, l) = SimpleLedger_Set (accountItem P) acct (immuLedger c) in (r, c\<lparr>immuLedger := l\<rparr>))"

definition ImmuAcctCtrler_FindOrNewAccount :: "'t treeOps \<Rightarrow> acctProtoOps \<Rightarrow> bytes \<Rightarrow> 't ImmuAcctCtrler \<Rightarrow> Account \<times> 't ImmuAcctCtrler" where
  "ImmuAcctCtrler_FindOrNewAccount T P addr c =
     (case ImmuAcctCtrler_FindAccount T P addr c of
        (Some acct, c) \<Rightarrow> (acct, c)
      | (None, c) \<Rightarrow>
          (let newAcct = NewAccountWithName addr ''''
           in (newAcct, snd (ImmuAcctCtrler_SetAccountCommittable P newAcct c))))"

definition ImmuAcctCtrler_Transfer :: "'t treeOps \<Rightarrow> acctProtoOps \<Rightarrow> bytes \<Rightarrow> bytes \<Rightarrow> u256 \<Rightarrow> 't ImmuAcctCtrler \<Rightarrow> unit res \<times> 't ImmuAcctCtrler" where
  "ImmuAcctCtrler_Transfer T P from to amt c =
     (case ImmuAcctCtrler_FindAccount T P from c of
        (None, c) \<Rightarrow> (Inl (Error (xerror_Wrapf ErrNotFoundAccount ''address: %v'')), c)
      | (Some acct0, c) \<Rightarrow>
          (let (o1, c) = ImmuAcctCtrler_FindAccount T P to c;
               acct1 = (case o1 of None \<Rightarrow> NewAccountWithName to '''' | Some a \<Rightarrow> a)
           in case AcctCtrler_transfer (ToLedgerKey from = ToLedgerKey to) acct0 acct1 amt of
                (Inl xerr, _) \<Rightarrow> (Inl xerr, c)
              | (Inr _, acct0, acct1) \<Rightarrow>
                  bindE (ImmuAcctCtrler_SetAccountCommittable P acct0 c) (\<lambda>_ c.
                    ImmuAcctCtrler_SetAccountCommittable P acct1 c)))"

definition ImmuAcctCtrler_Reward :: "'t treeOps \<Rightarrow> acctProtoOps \<Rightarrow> bytes \<Rightarrow> u256 \<Rightarrow> 't ImmuAcctCtrler \<Rightarrow> unit res \<times> 't ImmuAcctCtrler" where
  "ImmuAcctCtrler_Reward T P to amt c =
     (case ImmuAcctCtrler_FindAccount T P to c of
        (None, c) \<Rightarrow> (Inl (Error (xerror_Wrapf ErrNotFoundAccount ''address: %v'')), c)
      | (Some acct, c) \<Rightarrow>
          (case Account_AddBalance amt acct of
             (Inl xerr, _) \<Rightarrow> (Inl xerr, c)
           | (Inr _, acct) \<Rightarrow> ImmuAcctCtrler_SetAccountCommittable P acct c))"

end
