(* ===== verification/Rigo_AcctProps.thy ===== *)
theory Rigo_AcctProps
  imports Rigo_AcctCtrler
begin

text \<open>
  The account controller keeps the contract of a ledger store on either level, accounts are never
  deleted, and money moves but is neither made nor lost.
\<close>

section \<open>The account store\<close>

definition acct_level :: "acctProtoOps \<Rightarrow> ('t \<Rightarrow> bytes \<rightharpoonup> bytes) \<Rightarrow> bool \<Rightarrow> 't AcctCtrler \<Rightarrow> Account levelSpec" where
  "acct_level P A exec c =
     (if exec then exec_level (accountItem P) A (acctLedger c) else check_level (accountItem P) A (acctLedger c))"

definition acct_base :: "acctProtoOps \<Rightarrow> ('t \<Rightarrow> bytes \<rightharpoonup> bytes) \<Rightarrow> 't AcctCtrler \<Rightarrow> ledgerKey \<rightharpoonup> Account" where
  "acct_base P A c = ledger_base (accountItem P) A (acctLedger c)"

definition acct_inv ::
  "'t treeOps \<Rightarrow> acctProtoOps \<Rightarrow> ('t \<Rightarrow> bytes \<rightharpoonup> bytes) \<Rightarrow> ('t \<Rightarrow> int \<rightharpoonup> (bytes \<rightharpoonup> bytes)) \<Rightarrow> (string \<Rightarrow> bool) \<Rightarrow> 't AcctCtrler \<Rightarrow> bool" where
  "acct_inv T P A H V c \<longleftrightarrow>
     acctProto_laws P V \<and> finality_inv T (accountItem P) A H (acctLedger c) \<and>
     (\<forall>exec. snd (acct_level P A exec c) = {})"

lemma acct_get_refines:
  assumes "finality_inv T (accountItem P) A H (acctLedger c)" "AcctCtrler_ledgerGet T P exec k c = (r, c')"
  shows "r = of_option (level_get k (acct_level P A exec c)) \<and>
    finality_inv T (accountItem P) A H (acctLedger c') \<and>
    (\<forall>e. acct_level P A e c' = acct_level P A e c) \<and> acct_base P A c' = acct_base P A c"
proof -
  have "refines T (accountItem P) A H (ledger_op T (accountItem P) (if exec then OpGetFinality k else OpGet k) (acctLedger c))
      (spec_op (Key (accountItem P)) (if exec then OpGetFinality k else OpGet k) (ledger_abs T (accountItem P) A H (acctLedger c)))"
    using assms(1) by (intro refines_op) simp_all
  then show ?thesis
    using assms(2)
    by (cases exec)
       (auto simp: refines_def AcctCtrler_ledgerGet_def acct_level_def acct_base_def ledger_abs_def split: prod.splits)
qed

lemma acct_set_refines:
  assumes "acctProto_laws P V" "finality_inv T (accountItem P) A H (acctLedger c)" "acct_valid V a"
    "AcctCtrler_setAccountCommittable P a exec c = (r, c')"
  shows "r = Inr () \<and> finality_inv T (accountItem P) A H (acctLedger c') \<and>
    acct_level P A exec c' = level_set (Account_Key a) a (acct_level P A exec c) \<and>
    acct_level P A (\<not> exec) c' = acct_level P A (\<not> exec) c \<and> acct_base P A c' = acct_base P A c"
proof -
  have "item_ok (accountItem P) a"
    using accountItem_ok [OF assms(1)] assms(3) by simp
  then have "refines T (accountItem P) A H (ledger_op T (accountItem P) (if exec then OpSetFinality a else OpSet a) (acctLedger c))
      (spec_op (Key (accountItem P)) (if exec then OpSetFinality a else OpSet a) (ledger_abs T (accountItem P) A H (acctLedger c)))"
    using assms(2) by (intro refines_op) simp_all
  then show ?thesis
    using assms(4)
    by (cases exec)
       (auto simp: refines_def AcctCtrler_setAccountCommittable_def acct_level_def acct_base_def ledger_abs_def split: prod.splits)
qed

lemma acct_set_result: "fst (AcctCtrler_setAccountCommittable P a exec c) = Inr ()"
  by (simp add: AcctCtrler_setAccountCommittable_def FinalityLedger_SetFinality_def SimpleLedger_Set_def)

lemma acct_level_key:
  assumes "finality_inv T (accountItem P) A H (acctLedger c)" "level_get k (acct_level P A exec c) = Some a"
  shows "Account_Key a = k"
proof (cases exec)
  case True
  then show ?thesis
    using execLevel.level_key [OF assms(1), of k a] assms(2) by (simp add: acct_level_def)
next
  case False
  have "simple_inv T (accountItem P) A H (acctLedger c)"
    using assms(1) by (simp add: finality_inv_def)
  then show ?thesis
    using checkLevel.level_key [of T "accountItem P" A H "acctLedger c" k a] assms(2) False by (simp add: acct_level_def)
qed

lemma acct_get:
  assumes "acct_inv T P A H V c"
  shows "fst (AcctCtrler_ledgerGet T P exec k c) = of_option (level_get k (acct_level P A exec c))"
    and "acct_inv T P A H V (snd (AcctCtrler_ledgerGet T P exec k c))"
    and "acct_level P A e (snd (AcctCtrler_ledgerGet T P exec k c)) = acct_level P A e c"
    and "acct_base P A (snd (AcctCtrler_ledgerGet T P exec k c)) = acct_base P A c"
proof -
  have f: "finality_inv T (accountItem P) A H (acctLedger c)"
    using assms by (simp add: acct_inv_def)
  note r = acct_get_refines [OF f prod.collapse [symmetric], of exec k]
  show "fst (AcctCtrler_ledgerGet T P exec k c) = of_option (level_get k (acct_level P A exec c))"
    "acct_level P A e (snd (AcctCtrler_ledgerGet T P exec k c)) = acct_level P A e c"
    "acct_base P A (snd (AcctCtrler_ledgerGet T P exec k c)) = acct_base P A c"
    using r by simp_all
  show "acct_inv T P A H V (snd (AcctCtrler_ledgerGet T P exec k c))"
    using r assms unfolding acct_inv_def by simp
qed

lemma acct_set:
  assumes "acct_inv T P A H V c" "acct_valid V a"
  shows "acct_inv T P A H V (snd (AcctCtrler_setAccountCommittable P a exec c))"
    and "acct_level P A exec (snd (AcctCtrler_setAccountCommittable P a exec c)) =
      level_set (Account_Key a) a (acct_level P A exec c)"
    and "acct_level P A (\<not> exec) (snd (AcctCtrler_setAccountCommittable P a exec c)) = acct_level P A (\<not> exec) c"
    and "acct_base P A (snd (AcctCtrler_setAccountCommittable P a exec c)) = acct_base P A c"
proof -
  have f: "acctProto_laws P V" "finality_inv T (accountItem P) A H (acctLedger c)" "\<And>e. snd (acct_level P A e c) = {}"
    using assms(1) by (simp_all add: acct_inv_def)
  note r = acct_set_refines [OF f(1,2) assms(2) prod.collapse [symmetric], of exec]
  show l: "acct_level P A exec (snd (AcctCtrler_setAccountCommittable P a exec c)) =
      level_set (Account_Key a) a (acct_level P A exec c)"
    and o: "acct_level P A (\<not> exec) (snd (AcctCtrler_setAccountCommittable P a exec c)) = acct_level P A (\<not> exec) c"
    and "acct_base P A (snd (AcctCtrler_setAccountCommittable P a exec c)) = acct_base P A c"
    using r by simp_all
  have "snd (acct_level P A e (snd (AcctCtrler_setAccountCommittable P a exec c))) = {}" for e
    using l o f(3) by (cases "e = exec") auto
  then show "acct_inv T P A H V (snd (AcctCtrler_setAccountCommittable P a exec c))"
    using r f(1) by (simp add: acct_inv_def)
qed

interpretation acctStore: ledger_store "acct_inv T P A H V" "acct_valid V" Account_Key "acct_base P A"
  "acct_level P A exec" "AcctCtrler_ledgerGet T P exec" "\<lambda>a. AcctCtrler_setAccountCommittable P a exec"
  for T :: "'t treeOps" and P A H V exec
proof (unfold_locales, goal_cases)
  case (1 s k x)
  then show ?case
    using acct_level_key unfolding acct_inv_def by blast
qed (fact acct_get acct_set acct_set_result)+

section \<open>Balances\<close>

definition bal :: "Account levelSpec \<Rightarrow> ledgerKey \<Rightarrow> int" where
  "bal L k = (case level_get k L of None \<Rightarrow> 0 | Some a \<Rightarrow> uint (acctBalance a))"

lemma bal_bounds: "0 \<le> bal L k" "bal L k < 2 ^ 256"
  using uint_u256_bound by (auto simp: bal_def split: option.split)

lemma bal_set: "snd L = {} \<Longrightarrow> bal (level_set k a L) j = (if j = k then uint (acctBalance a) else bal L j)"
  by (auto simp: bal_def level_get_set_same)

lemma level_valid:
  assumes "acct_inv T P A H V c" "level_get k (acct_level P A exec c) = Some a"
  shows "acct_valid V a"
proof -
  let ?I = "accountItem P"
  let ?l = "acctLedger c"
  let ?m = "if exec then finalityItems ?l else cachedItems ?l"
  have laws: "acctProto_laws P V" and m: "mi_inv ?I (ledger_base ?I A ?l) ?m"
    and lv: "acct_level P A exec c = mi_level (ledger_base ?I A ?l) ?m"
    using assms(1) by (auto simp: acct_inv_def finality_inv_def simple_inv_def acct_level_def exec_level_def check_level_def)
  have b: "ledger_base ?I A ?l k = Some a \<Longrightarrow> acct_valid V a"
    by (auto simp: ledger_base_def items_def intro: Account_Decode_valid [OF laws] split: option.splits sum.splits if_splits)
  show ?thesis
  proof (cases "map_of (gotItems ?m) k")
    case None
    then show ?thesis
      using assms(2) b by (auto simp: lv level_get_mi split: if_splits)
  next
    case (Some a')
    then have a': "a' = a"
      using assms(2) by (simp add: lv level_get_mi split: if_splits)
    show ?thesis
    proof (cases "map_of (updatedItems ?m) k")
      case None
      then show ?thesis
        using mi_invD(7) [OF m Some None] b a' by simp
    next
      case (Some x)
      then show ?thesis
        using mi_invD(4,5) [OF m Some] \<open>map_of (gotItems ?m) k = Some a'\<close> a' accountItem_ok [OF laws] by simp
    qed
  qed
qed

lemma findAccount:
  assumes "acct_inv T P A H V c" "AcctCtrler_findAccount T P addr exec c = (r, c')"
  shows "r = level_get (ToLedgerKey addr) (acct_level P A exec c)" "acct_inv T P A H V c'"
    "acct_level P A e c' = acct_level P A e c"
proof -
  obtain c1 where g: "AcctCtrler_ledgerGet T P exec (ToLedgerKey addr) c =
      (of_option (level_get (ToLedgerKey addr) (acct_level P A exec c)), c1)"
    using acctStore.get_eq [OF assms(1)] by blast
  have f: "AcctCtrler_findAccount T P addr exec c = (level_get (ToLedgerKey addr) (acct_level P A exec c), c1)"
    by (cases "level_get (ToLedgerKey addr) (acct_level P A exec c)") (simp_all add: AcctCtrler_findAccount_def g)
  show "r = level_get (ToLedgerKey addr) (acct_level P A exec c)"
    using assms(2) f by simp
  have "c' = c1"
    using assms(2) f by simp
  then show "acct_inv T P A H V c'" "acct_level P A e c' = acct_level P A e c"
    using acct_get(2,3) [OF assms(1), where exec = exec and k = "ToLedgerKey addr"] g by simp_all
qed

lemma transfer_result:
  "AcctCtrler_transfer same a b amt =
     (if 2 ^ 255 \<le> uint amt then (Inl (Error ErrInvalidAmount), a, if same then a else b)
      else if uint (acctBalance a) < uint amt then (Inl (Error ErrInsufficientFund), a, if same then a else b)
      else if same then (Inr (), a, a)
      else (Inr (), a\<lparr>acctBalance := acctBalance a - amt\<rparr>, b\<lparr>acctBalance := acctBalance b + amt\<rparr>))"
  by (simp add: AcctCtrler_transfer_def Account_SubBalance_def Account_AddBalance_def u256_Sign_neg_iff Let_def
    word_less_def)

definition acct_or_new :: "bytes \<Rightarrow> Account levelSpec \<Rightarrow> Account" where
  "acct_or_new addr L = (case level_get (ToLedgerKey addr) L of None \<Rightarrow> NewAccountWithName addr '''' | Some a \<Rightarrow> a)"

text \<open>The whole behaviour of \<^verbatim>\<open>Transfer\<close>, by the outcome.\<close>

lemma Transfer_outcome:
  assumes inv: "acct_inv T P A H V c" and t: "AcctCtrler_Transfer T P from to amt exec c = (r, c')"
  defines "L \<equiv> acct_level P A exec c"
  shows "acct_inv T P A H V c' \<and> acct_level P A (\<not> exec) c' = acct_level P A (\<not> exec) c \<and>
    (case level_get (ToLedgerKey from) L of
       None \<Rightarrow> r = Inl (Error (xerror_Wrapf ErrNotFoundAccount ''Transfer - address: %v'')) \<and> acct_level P A exec c' = L
     | Some a \<Rightarrow>
         if 2 ^ 255 \<le> uint amt then r = Inl (Error ErrInvalidAmount) \<and> acct_level P A exec c' = L
         else if uint (acctBalance a) < uint amt then r = Inl (Error ErrInsufficientFund) \<and> acct_level P A exec c' = L
         else r = Inr () \<and> acct_level P A exec c' =
           (if ToLedgerKey from = ToLedgerKey to then level_set (ToLedgerKey from) a L
            else let b = acct_or_new to L in
              level_set (ToLedgerKey to) (b\<lparr>acctBalance := acctBalance b + amt\<rparr>)
                (level_set (ToLedgerKey from) (a\<lparr>acctBalance := acctBalance a - amt\<rparr>) L)))"
proof -
  obtain r1 c1 where f1: "AcctCtrler_findAccount T P from exec c = (r1, c1)"
    by (rule prod.exhaust)
  note f1' = findAccount [OF inv f1]
  obtain r2 c2 where f2: "AcctCtrler_findAccount T P to exec c1 = (r2, c2)"
    by (rule prod.exhaust)
  note f2' = findAccount [OF f1'(2) f2]
  have lv: "acct_level P A e c2 = acct_level P A e c" for e
    using f1'(3) f2'(3) by simp
  have r2: "r2 = level_get (ToLedgerKey to) L"
    using f2'(1) f1'(3) by (simp add: L_def)
  show ?thesis
  proof (cases r1)
    case None
    then show ?thesis
      using t f1 f1' by (simp add: AcctCtrler_Transfer_def L_def)
  next
    case (Some a)
    then have a: "level_get (ToLedgerKey from) L = Some a"
      using f1'(1) by (simp add: L_def)
    define b where "b = acct_or_new to L"
    define same where "same \<longleftrightarrow> ToLedgerKey from = ToLedgerKey to"
    have va: "acct_valid V a"
      using level_valid [OF inv] a by (simp add: L_def)
    have vn: "V ''''"
      using inv by (simp add: acct_inv_def acctProto_laws_def)
    have vb: "acct_valid V b"
      using level_valid [OF inv, of "ToLedgerKey to" exec] vn by (auto simp: b_def acct_or_new_def L_def split: option.split)
    have ka: "Account_Key a = ToLedgerKey from"
      using acctStore.level_key [OF inv] a by (simp add: L_def)
    have kb: "Account_Key b = ToLedgerKey to"
      using acctStore.level_key [OF inv, of "ToLedgerKey to" exec]
      by (auto simp: b_def acct_or_new_def L_def Account_Key_ToLedgerKey NewAccountWithName_def NewAccount_def split: option.split)
    have T1: "AcctCtrler_Transfer T P from to amt exec c =
        (case AcctCtrler_transfer same a b amt of
           (Inl xerr, _) \<Rightarrow> (Inl xerr, c2)
         | (Inr _, acct0, acct1) \<Rightarrow>
             bindE (AcctCtrler_setAccountCommittable P acct0 exec c2) (\<lambda>_ c.
               AcctCtrler_setAccountCommittable P acct1 exec c))"
      using f1 f2 Some r2 by (simp add: AcctCtrler_Transfer_def same_def b_def acct_or_new_def)
    show ?thesis
    proof (cases "2 ^ 255 \<le> uint amt \<or> uint (acctBalance a) < uint amt")
      case True
      then show ?thesis
        using t a lv f2'(2) by (auto simp: T1 transfer_result L_def)
    next
      case False
      define a' where "a' = (if same then a else a\<lparr>acctBalance := acctBalance a - amt\<rparr>)"
      define b' where "b' = (if same then a else b\<lparr>acctBalance := acctBalance b + amt\<rparr>)"
      have v': "acct_valid V a'" "acct_valid V b'" and k': "Account_Key a' = ToLedgerKey from" "Account_Key b' = ToLedgerKey to"
        using va vb ka kb by (auto simp: a'_def b'_def same_def)
      define c3 where "c3 = snd (AcctCtrler_setAccountCommittable P a' exec c2)"
      define c4 where "c4 = snd (AcctCtrler_setAccountCommittable P b' exec c3)"
      have i3: "acct_inv T P A H V c3" and l3: "acct_level P A exec c3 = level_set (ToLedgerKey from) a' L"
        and o3: "acct_level P A (\<not> exec) c3 = acct_level P A (\<not> exec) c"
        using acct_set(1-3) [OF f2'(2) v'(1), of exec] lv k' by (simp_all add: c3_def L_def)
      have i4: "acct_inv T P A H V c4" and l4: "acct_level P A exec c4 = level_set (ToLedgerKey to) b' (level_set (ToLedgerKey from) a' L)"
        and o4: "acct_level P A (\<not> exec) c4 = acct_level P A (\<not> exec) c"
        using acct_set(1-3) [OF i3 v'(2), of exec] k' l3 o3 by (simp_all add: c4_def)
      have "AcctCtrler_transfer same a b amt = (Inr (), a', b')"
        using False by (simp add: transfer_result a'_def b'_def)
      then have "r = Inr ()" "c' = c4"
        using t T1 acctStore.put_eq [of P a' exec c2] acctStore.put_eq [of P b' exec c3]
        by (simp_all add: c3_def [symmetric] c4_def [symmetric])
      then show ?thesis
        using False a i4 l4 o4 by (auto simp: a'_def b'_def same_def b_def Let_def)
    qed
  qed
qed

section \<open>Properties\<close>

text \<open>C7. \<^verbatim>\<open>Transfer\<close> succeeds exactly when the sender exists, the amount is below 2^255 and the
  sender's balance covers it. A failed transfer changes no account. A successful one takes the
  amount from the sender and adds it to the receiver (which is created if need be), leaves every
  other account as it is, and a transfer to oneself changes nothing. The other level is never
  touched, and the invariant holds afterwards.\<close>

theorem AcctCtrler_Transfer_correct:
  assumes "acct_inv T P A H V c" "AcctCtrler_Transfer T P from to amt exec c = (r, c')"
  defines "L \<equiv> acct_level P A exec c" and "L' \<equiv> acct_level P A exec c'"
    and "kf \<equiv> ToLedgerKey from" and "kt \<equiv> ToLedgerKey to"
  shows "acct_inv T P A H V c' \<and> acct_level P A (\<not> exec) c' = acct_level P A (\<not> exec) c \<and>
    (r = Inr () \<longleftrightarrow> level_get kf L \<noteq> None \<and> uint amt < 2 ^ 255 \<and> uint amt \<le> bal L kf) \<and>
    (r \<noteq> Inr () \<longrightarrow> L' = L) \<and>
    (r = Inr () \<longrightarrow>
       (\<forall>k. k \<noteq> kf \<longrightarrow> k \<noteq> kt \<longrightarrow> level_get k L' = level_get k L) \<and>
       (kf = kt \<longrightarrow> (\<forall>k. level_get k L' = level_get k L)) \<and>
       (kf \<noteq> kt \<longrightarrow> bal L' kf = bal L kf - uint amt \<and> bal L' kt = (bal L kt + uint amt) mod 2 ^ 256))"
proof (cases "level_get kf L")
  case None
  then show ?thesis
    using Transfer_outcome [OF assms(1,2)] by (simp add: L_def L'_def kf_def)
next
  case (Some a)
  have S: "snd L = {}"
    using assms(1) by (simp add: acct_inv_def L_def)
  have bl: "bal L kf = uint (acctBalance a)"
    using Some by (simp add: bal_def)
  have bt: "uint (acctBalance (acct_or_new to L)) = bal L kt"
    by (simp add: acct_or_new_def bal_def kt_def NewAccountWithName_def NewAccount_def split: option.split)
  note out = Transfer_outcome [OF assms(1,2), folded L_def L'_def kf_def kt_def, unfolded Some, simplified]
  show ?thesis
  proof (cases "2 ^ 255 \<le> uint amt \<or> uint (acctBalance a) < uint amt")
    case True
    then show ?thesis
      using out Some bl by (auto split: if_splits)
  next
    case False
    then have ok: "r = Inr ()" "uint amt < 2 ^ 255" "uint amt \<le> bal L kf"
      using out bl by (auto split: if_splits)
    show ?thesis
    proof (cases "kf = kt")
      case True
      then have "L' = level_set kf a L"
        using out False by simp
      then show ?thesis
        using ok out True Some S by (simp add: level_get_set_same) (metis level_get_set_other level_get_set_same empty_iff)
    next
      case neq: False
      then have L': "L' = level_set kt ((acct_or_new to L)\<lparr>acctBalance := acctBalance (acct_or_new to L) + amt\<rparr>)
          (level_set kf (a\<lparr>acctBalance := acctBalance a - amt\<rparr>) L)"
        using out False by (simp add: Let_def)
      have "bal L' kf = bal L kf - uint amt"
        using neq S ok(3) bl by (simp add: L' bal_set uint_u256_sub_int)
      moreover have "bal L' kt = (bal L kt + uint amt) mod 2 ^ 256"
        using S bt by (simp add: L' bal_set uint_u256_add_mod)
      ultimately show ?thesis
        using ok out neq Some by (simp add: L')
    qed
  qed
qed

section \<open>A concrete controller\<close>

definition emptyAcctCtrler :: "vtree AcctCtrler" where
  "emptyAcctCtrler = \<lparr>acctLedger = emptyLedger\<rparr>"

definition demoAcctCtrler :: "vtree AcctCtrler" where
  "demoAcctCtrler = snd (AcctCtrler_InitLedger demoAcctProto [\<lparr>ghAddress = [1], ghBalance = 100\<rparr>] emptyAcctCtrler)"

definition demoAccount :: Account where
  "demoAccount = (NewAccount [1])\<lparr>acctBalance := 100\<rparr>"

lemma emptyAcctCtrler_inv: "acct_inv vtreeOps demoAcctProto vMap vHist (\<lambda>_. True) emptyAcctCtrler"
  by (simp add: acct_inv_def emptyAcctCtrler_def acct_level_def)

lemma demoAccount_valid [simp]: "acct_valid (\<lambda>_. True) demoAccount" "Account_Key demoAccount = ToLedgerKey [1]"
  "acctBalance demoAccount = 100"
  by (simp_all add: demoAccount_def acct_valid_def NewAccount_def Account_Key_ToLedgerKey)

lemma demoAcctCtrler_set: "demoAcctCtrler = snd (AcctCtrler_setAccountCommittable demoAcctProto demoAccount True emptyAcctCtrler)"
proof -
  obtain c where "AcctCtrler_setAccountCommittable demoAcctProto demoAccount True emptyAcctCtrler = (Inr (), c)"
    using acctStore.put_eq [of demoAcctProto demoAccount True emptyAcctCtrler] by blast
  then show ?thesis
    by (simp add: demoAcctCtrler_def demoAccount_def)
qed

lemma demoAcctCtrler_inv: "acct_inv vtreeOps demoAcctProto vMap vHist (\<lambda>_. True) demoAcctCtrler"
  unfolding demoAcctCtrler_set by (rule acct_set(1) [OF emptyAcctCtrler_inv]) simp

lemma demoAcctCtrler_level: "acct_level demoAcctProto vMap True demoAcctCtrler = ([ToLedgerKey [1] \<mapsto> demoAccount], {})"
  unfolding demoAcctCtrler_set acct_set(2) [OF emptyAcctCtrler_inv demoAccount_valid(1)]
  by (simp add: acct_level_def emptyAcctCtrler_def level_set_def)

theorem AcctCtrler_Transfer_correct_witness:
  "\<exists>c'. AcctCtrler_Transfer vtreeOps demoAcctProto [1] [2] 30 True demoAcctCtrler = (Inr (), c') \<and>
     bal (acct_level demoAcctProto vMap True c') (ToLedgerKey [1]) = 70 \<and>
     bal (acct_level demoAcctProto vMap True c') (ToLedgerKey [2]) = 30"
proof -
  obtain r c' where t: "AcctCtrler_Transfer vtreeOps demoAcctProto [1] [2] 30 True demoAcctCtrler = (r, c')"
    by (rule prod.exhaust)
  have k: "ToLedgerKey [1] \<noteq> ToLedgerKey [2]"
    by (simp add: ToLedgerKey_short)
  have b: "bal ([ToLedgerKey [1] \<mapsto> demoAccount], {}) (ToLedgerKey [1]) = 100"
    "bal ([ToLedgerKey [1] \<mapsto> demoAccount], {}) (ToLedgerKey [2]) = 0"
    using k by (simp_all add: bal_def level_get_def)
  show ?thesis
    using AcctCtrler_Transfer_correct [OF demoAcctCtrler_inv t, unfolded demoAcctCtrler_level] k b t
    by (auto simp: level_get_def)
qed

text \<open>The sum of the balances of a set of accounts.\<close>

definition funds :: "Account levelSpec \<Rightarrow> ledgerKey set \<Rightarrow> int" where
  "funds L K = (\<Sum>k \<in> K. bal L k)"

lemma funds_change:
  assumes "finite K" "i \<in> K" "\<And>k. k \<noteq> i \<Longrightarrow> bal L' k = bal L k"
  shows "funds L' K = funds L K + (bal L' i - bal L i)"
proof -
  have "funds L' K = bal L' i + (\<Sum>k \<in> K - {i}. bal L' k)"
    using assms(1,2) by (simp add: funds_def sum.remove)
  also have "(\<Sum>k \<in> K - {i}. bal L' k) = (\<Sum>k \<in> K - {i}. bal L k)"
    using assms(3) by (intro sum.cong) auto
  also have "\<dots> = funds L K - bal L i"
    using assms(1,2) by (simp add: funds_def sum.remove)
  finally show ?thesis
    by simp
qed

lemma funds_two:
  assumes "finite K" "i \<in> K" "j \<in> K" "i \<noteq> j" "\<And>k. k \<noteq> i \<Longrightarrow> k \<noteq> j \<Longrightarrow> bal L' k = bal L k"
  shows "funds L' K = funds L K + (bal L' i - bal L i) + (bal L' j - bal L j)"
proof -
  have "funds L' K = bal L' i + (bal L' j + (\<Sum>k \<in> K - {i} - {j}. bal L' k))"
    using assms(1-4) by (simp add: funds_def sum.remove)
  also have "(\<Sum>k \<in> K - {i} - {j}. bal L' k) = (\<Sum>k \<in> K - {i} - {j}. bal L k)"
    using assms(5) by (intro sum.cong) auto
  also have "\<dots> = funds L K - bal L i - bal L j"
    using sum.remove [of K i "bal L"] sum.remove [of "K - {i}" j "bal L"] assms(1-4) by (simp add: funds_def)
  finally show ?thesis
    by simp
qed

lemma funds_pair_le:
  assumes "finite K" "i \<in> K" "j \<in> K" "i \<noteq> j"
  shows "bal L i + bal L j \<le> funds L K"
proof -
  have "funds L K = bal L i + (bal L j + (\<Sum>k \<in> K - {i} - {j}. bal L k))"
    using assms by (simp add: funds_def sum.remove)
  then show ?thesis
    using sum_nonneg [of "K - {i} - {j}" "bal L"] bal_bounds(1) by simp
qed

text \<open>C8. A transfer, successful or not, conserves the supply: over any finite set of accounts that
  holds both parties and whose balances together fit into 256 bits, the sum of the balances is the
  same before and after.\<close>

theorem AcctCtrler_Transfer_conserves:
  assumes "acct_inv T P A H V c" "AcctCtrler_Transfer T P from to amt exec c = (r, c')"
    and "finite K" "ToLedgerKey from \<in> K" "ToLedgerKey to \<in> K"
    and "funds (acct_level P A exec c) K < 2 ^ 256"
  shows "funds (acct_level P A exec c') K = funds (acct_level P A exec c) K"
proof -
  let ?L = "acct_level P A exec c"
  let ?L' = "acct_level P A exec c'"
  note tr = Transfer_outcome [OF assms(1,2)]
  have S: "snd ?L = {}"
    using assms(1) by (simp add: acct_inv_def)
  consider "?L' = ?L"
    | a where "level_get (ToLedgerKey from) ?L = Some a" "ToLedgerKey from = ToLedgerKey to" "?L' = level_set (ToLedgerKey from) a ?L"
    | a b where "level_get (ToLedgerKey from) ?L = Some a" "ToLedgerKey from \<noteq> ToLedgerKey to" "uint amt \<le> uint (acctBalance a)"
        "b = acct_or_new to ?L"
        "?L' = level_set (ToLedgerKey to) (b\<lparr>acctBalance := acctBalance b + amt\<rparr>)
           (level_set (ToLedgerKey from) (a\<lparr>acctBalance := acctBalance a - amt\<rparr>) ?L)"
    using tr by (auto simp: Let_def split: option.splits if_splits)
  then show ?thesis
  proof cases
    case (2 a)
    then have "bal ?L' = bal ?L"
      using S by (auto simp: bal_set fun_eq_iff) (simp add: bal_def)
    then show ?thesis
      by (simp add: funds_def)
  next
    case (3 a b)
    have b: "uint (acctBalance b) = bal ?L (ToLedgerKey to)" and a: "uint (acctBalance a) = bal ?L (ToLedgerKey from)"
      using 3 by (simp_all add: acct_or_new_def bal_def NewAccountWithName_def NewAccount_def split: option.split)
    have le: "bal ?L (ToLedgerKey from) + bal ?L (ToLedgerKey to) < 2 ^ 256"
      using funds_pair_le [OF assms(3-5) 3(2), of ?L] assms(6) by simp
    have "uint (acctBalance b + amt) = bal ?L (ToLedgerKey to) + uint amt"
      using le 3(3) a b by (subst uint_u256_add) auto
    moreover have "uint (acctBalance a - amt) = bal ?L (ToLedgerKey from) - uint amt"
      using 3(3) a by (simp add: uint_u256_sub_int)
    ultimately show ?thesis
      using funds_two [OF assms(3-5) 3(2), of ?L' ?L] S 3(2) by (simp add: 3(5) bal_set)
  qed simp
qed

theorem AcctCtrler_Transfer_conserves_witness:
  "funds (acct_level demoAcctProto vMap True (snd (AcctCtrler_Transfer vtreeOps demoAcctProto [1] [2] 30 True demoAcctCtrler)))
     {ToLedgerKey [1], ToLedgerKey [2]} = 100"
proof -
  have k: "ToLedgerKey [1] \<noteq> ToLedgerKey [2]"
    by (simp add: ToLedgerKey_short)
  have s: "funds (acct_level demoAcctProto vMap True demoAcctCtrler) {ToLedgerKey [1], ToLedgerKey [2]} = 100"
    unfolding demoAcctCtrler_level using k by (simp add: funds_def bal_def level_get_def)
  show ?thesis
    using AcctCtrler_Transfer_conserves [OF demoAcctCtrler_inv prod.collapse [symmetric], of "{ToLedgerKey [1], ToLedgerKey [2]}" "[1]" "[2]" True 30] s
    by simp
qed

end
