(* ===== verification/Rigo_GovParams.thy ===== *)
theory Rigo_GovParams
  imports Rigo_Codec
begin

text \<open>
  The governance parameters, \<^verbatim>\<open>src/ctrlers/types/gov_params.go\<close>: their codecs, the merge of a
  proposal into the active parameters, and the conversions between amounts, powers, gas and fees.
  A \<^verbatim>\<open>*uint256.Int\<close> field may be nil (\<open>None\<close>), and using a nil one panics. The JSON library, the
  protobuf library and the decimal parser of \<^verbatim>\<open>uint256\<close> are parameters.
\<close>

record GovParams =
  gp_version :: int
  gp_maxValidatorCnt :: int
  gp_minValidatorStake :: "u256 option"
  gp_minDelegatorStake :: "u256 option"
  gp_rewardPerPower :: "u256 option"
  gp_lazyRewardBlocks :: int
  gp_lazyApplyingBlocks :: int
  gp_gasPrice :: "u256 option"
  gp_minTrxGas :: u64
  gp_maxTrxGas :: u64
  gp_maxBlockGas :: u64
  gp_minVotingPeriodBlocks :: int
  gp_maxVotingPeriodBlocks :: int
  gp_minSelfStakeRatio :: int
  gp_maxUpdatableStakeRatio :: int
  gp_maxIndividualStakeRatio :: int
  gp_slashRatio :: int
  gp_signedBlocksWindow :: int
  gp_minSignedBlocks :: int

text \<open>The zero value, \<^verbatim>\<open>GovParams{}\<close>.\<close>

definition emptyGovParams :: GovParams where
  "emptyGovParams =
     \<lparr>gp_version = 0, gp_maxValidatorCnt = 0, gp_minValidatorStake = None,
      gp_minDelegatorStake = None, gp_rewardPerPower = None, gp_lazyRewardBlocks = 0,
      gp_lazyApplyingBlocks = 0, gp_gasPrice = None, gp_minTrxGas = 0,
      gp_maxTrxGas = 0, gp_maxBlockGas = 0, gp_minVotingPeriodBlocks = 0,
      gp_maxVotingPeriodBlocks = 0, gp_minSelfStakeRatio = 0, gp_maxUpdatableStakeRatio = 0,
      gp_maxIndividualStakeRatio = 0, gp_slashRatio = 0, gp_signedBlocksWindow = 0, gp_minSignedBlocks = 0\<rparr>"

definition MaxUint64 :: u64 where "MaxUint64 = - 1"

definition DefaultGovParams :: GovParams where
  "DefaultGovParams =
     \<lparr>gp_version = 1, gp_maxValidatorCnt = 21, gp_minValidatorStake = Some 7000000000000000000000000,
      gp_minDelegatorStake = Some 0, gp_rewardPerPower = Some 4756468797, gp_lazyRewardBlocks = 2592000,
      gp_lazyApplyingBlocks = 259200, gp_gasPrice = Some 250000000000, gp_minTrxGas = 4000,
      gp_maxTrxGas = 25000000, gp_maxBlockGas = MaxUint64, gp_minVotingPeriodBlocks = 259200,
      gp_maxVotingPeriodBlocks = 2592000, gp_minSelfStakeRatio = 50, gp_maxUpdatableStakeRatio = 33,
      gp_maxIndividualStakeRatio = 33, gp_slashRatio = 50, gp_signedBlocksWindow = 10000, gp_minSignedBlocks = 500\<rparr>"

definition Test1GovParams :: GovParams where
  "Test1GovParams =
     \<lparr>gp_version = 1, gp_maxValidatorCnt = 10, gp_minValidatorStake = Some 1000000000000000000,
      gp_minDelegatorStake = Some 0, gp_rewardPerPower = Some 2000000000, gp_lazyRewardBlocks = 10,
      gp_lazyApplyingBlocks = 10, gp_gasPrice = Some 10, gp_minTrxGas = 10,
      gp_maxTrxGas = MaxUint64, gp_maxBlockGas = MaxUint64, gp_minVotingPeriodBlocks = 10,
      gp_maxVotingPeriodBlocks = 10, gp_minSelfStakeRatio = 50, gp_maxUpdatableStakeRatio = 33,
      gp_maxIndividualStakeRatio = 33, gp_slashRatio = 50, gp_signedBlocksWindow = 30, gp_minSignedBlocks = 3\<rparr>"

definition Test2GovParams :: GovParams where
  "Test2GovParams =
     \<lparr>gp_version = 2, gp_maxValidatorCnt = 10, gp_minValidatorStake = Some 5000000000000000000,
      gp_minDelegatorStake = Some 0, gp_rewardPerPower = Some 2000000000, gp_lazyRewardBlocks = 30,
      gp_lazyApplyingBlocks = 40, gp_gasPrice = Some 20, gp_minTrxGas = 20,
      gp_maxTrxGas = MaxUint64, gp_maxBlockGas = MaxUint64, gp_minVotingPeriodBlocks = 50,
      gp_maxVotingPeriodBlocks = 60, gp_minSelfStakeRatio = 50, gp_maxUpdatableStakeRatio = 33,
      gp_maxIndividualStakeRatio = 33, gp_slashRatio = 50, gp_signedBlocksWindow = 10000, gp_minSignedBlocks = 5\<rparr>"

definition Test3GovParams :: GovParams where
  "Test3GovParams =
     \<lparr>gp_version = 4, gp_maxValidatorCnt = 13, gp_minValidatorStake = Some 0,
      gp_minDelegatorStake = Some 0, gp_rewardPerPower = Some 0, gp_lazyRewardBlocks = 20,
      gp_lazyApplyingBlocks = 0, gp_gasPrice = None, gp_minTrxGas = 0,
      gp_maxTrxGas = MaxUint64, gp_maxBlockGas = MaxUint64, gp_minVotingPeriodBlocks = 0,
      gp_maxVotingPeriodBlocks = 0, gp_minSelfStakeRatio = 0, gp_maxUpdatableStakeRatio = 10,
      gp_maxIndividualStakeRatio = 10, gp_slashRatio = 50, gp_signedBlocksWindow = 10000, gp_minSignedBlocks = 500\<rparr>"

definition Test4GovParams :: GovParams where
  "Test4GovParams =
     \<lparr>gp_version = 4, gp_maxValidatorCnt = 13, gp_minValidatorStake = Some 7000000000000000000000000,
      gp_minDelegatorStake = Some 0, gp_rewardPerPower = Some 4756468797, gp_lazyRewardBlocks = 20,
      gp_lazyApplyingBlocks = 259200, gp_gasPrice = Some 10000000000, gp_minTrxGas = 100000,
      gp_maxTrxGas = MaxUint64, gp_maxBlockGas = MaxUint64, gp_minVotingPeriodBlocks = 259200,
      gp_maxVotingPeriodBlocks = 2592000, gp_minSelfStakeRatio = 50, gp_maxUpdatableStakeRatio = 10,
      gp_maxIndividualStakeRatio = 10, gp_slashRatio = 50, gp_signedBlocksWindow = 10000, gp_minSignedBlocks = 500\<rparr>"

text \<open>The fields \<^verbatim>\<open>Test5GovParams\<close> does not name have Go's zero values.\<close>

definition Test5GovParams :: GovParams where
  "Test5GovParams =
     \<lparr>gp_version = 3, gp_maxValidatorCnt = 0, gp_minValidatorStake = Some 0,
      gp_minDelegatorStake = None, gp_rewardPerPower = None, gp_lazyRewardBlocks = 0,
      gp_lazyApplyingBlocks = 0, gp_gasPrice = None, gp_minTrxGas = 0,
      gp_maxTrxGas = 0, gp_maxBlockGas = 0, gp_minVotingPeriodBlocks = 0,
      gp_maxVotingPeriodBlocks = 0, gp_minSelfStakeRatio = 40, gp_maxUpdatableStakeRatio = 50,
      gp_maxIndividualStakeRatio = 50, gp_slashRatio = 60, gp_signedBlocksWindow = 0, gp_minSignedBlocks = 0\<rparr>"

definition Test6GovParams_NoStakeLimiter :: GovParams where
  "Test6GovParams_NoStakeLimiter =
     \<lparr>gp_version = 2, gp_maxValidatorCnt = 10, gp_minValidatorStake = Some 5000000000000000000,
      gp_minDelegatorStake = Some 0, gp_rewardPerPower = Some 2000000000, gp_lazyRewardBlocks = 30,
      gp_lazyApplyingBlocks = 40, gp_gasPrice = Some 20, gp_minTrxGas = 20,
      gp_maxTrxGas = MaxUint64, gp_maxBlockGas = MaxUint64, gp_minVotingPeriodBlocks = 50,
      gp_maxVotingPeriodBlocks = 60, gp_minSelfStakeRatio = 50, gp_maxUpdatableStakeRatio = 100,
      gp_maxIndividualStakeRatio = 10000000, gp_slashRatio = 50, gp_signedBlocksWindow = 10000, gp_minSignedBlocks = 5\<rparr>"

section \<open>Encoding\<close>

record GovParamsProto =
  gpmVersion :: int
  gpmMaxValidatorCnt :: int
  gpmXMinValidatorStake :: bytes
  gpmXMinDelegatorStake :: bytes
  gpmXRewardPerPower :: bytes
  gpmLazyRewardBlocks :: int
  gpmLazyApplyingBlocks :: int
  gpmXGasPrice :: bytes
  gpmMinTrxGas :: u64
  gpmMaxTrxGas :: u64
  gpmMaxBlockGas :: u64
  gpmMinVotingPeriodBlocks :: int
  gpmMaxVotingPeriodBlocks :: int
  gpmMinSelfStakeRatio :: int
  gpmMaxUpdatableStakeRatio :: int
  gpmMaxIndividualStakeRatio :: int
  gpmSlashRatio :: int
  gpmSignedBlocksWindow :: int
  gpmMinSignedBlocks :: int

record govProtoOps =
  govMarshal :: "GovParamsProto \<Rightarrow> string + bytes"
  govUnmarshal :: "bytes \<Rightarrow> string + GovParamsProto"

definition GovParams_Key :: "GovParams \<Rightarrow> ledgerKey" where
  "GovParams_Key r = ToLedgerKey (ZeroBytes 32)"

definition GovParams_fromProto :: "GovParamsProto \<Rightarrow> GovParams" where
  "GovParams_fromProto pm =
     \<lparr>gp_version = gpmVersion pm, gp_maxValidatorCnt = gpmMaxValidatorCnt pm,
      gp_minValidatorStake = Some (u256_SetBytes (gpmXMinValidatorStake pm)),
      gp_minDelegatorStake = Some (u256_SetBytes (gpmXMinDelegatorStake pm)),
      gp_rewardPerPower = Some (u256_SetBytes (gpmXRewardPerPower pm)),
      gp_lazyRewardBlocks = gpmLazyRewardBlocks pm, gp_lazyApplyingBlocks = gpmLazyApplyingBlocks pm,
      gp_gasPrice = Some (u256_SetBytes (gpmXGasPrice pm)), gp_minTrxGas = gpmMinTrxGas pm,
      gp_maxTrxGas = gpmMaxTrxGas pm, gp_maxBlockGas = gpmMaxBlockGas pm,
      gp_minVotingPeriodBlocks = gpmMinVotingPeriodBlocks pm, gp_maxVotingPeriodBlocks = gpmMaxVotingPeriodBlocks pm,
      gp_minSelfStakeRatio = gpmMinSelfStakeRatio pm, gp_maxUpdatableStakeRatio = gpmMaxUpdatableStakeRatio pm,
      gp_maxIndividualStakeRatio = gpmMaxIndividualStakeRatio pm, gp_slashRatio = gpmSlashRatio pm,
      gp_signedBlocksWindow = gpmSignedBlocksWindow pm, gp_minSignedBlocks = gpmMinSignedBlocks pm\<rparr>"

text \<open>\<^verbatim>\<open>toProto\<close> reads the bytes of the four amounts, which panics on a nil one.\<close>

definition GovParams_toProto :: "GovParams \<Rightarrow> GovParamsProto res" where
  "GovParams_toProto r =
     (case (gp_minValidatorStake r, gp_minDelegatorStake r, gp_rewardPerPower r, gp_gasPrice r) of
        (Some vs, Some ds, Some rw, Some pr) \<Rightarrow> Inr
          \<lparr>gpmVersion = gp_version r, gpmMaxValidatorCnt = gp_maxValidatorCnt r,
           gpmXMinValidatorStake = u256_Bytes vs, gpmXMinDelegatorStake = u256_Bytes ds,
           gpmXRewardPerPower = u256_Bytes rw, gpmLazyRewardBlocks = gp_lazyRewardBlocks r,
           gpmLazyApplyingBlocks = gp_lazyApplyingBlocks r, gpmXGasPrice = u256_Bytes pr,
           gpmMinTrxGas = gp_minTrxGas r, gpmMaxTrxGas = gp_maxTrxGas r, gpmMaxBlockGas = gp_maxBlockGas r,
           gpmMinVotingPeriodBlocks = gp_minVotingPeriodBlocks r, gpmMaxVotingPeriodBlocks = gp_maxVotingPeriodBlocks r,
           gpmMinSelfStakeRatio = gp_minSelfStakeRatio r, gpmMaxUpdatableStakeRatio = gp_maxUpdatableStakeRatio r,
           gpmMaxIndividualStakeRatio = gp_maxIndividualStakeRatio r, gpmSlashRatio = gp_slashRatio r,
           gpmSignedBlocksWindow = gp_signedBlocksWindow r, gpmMinSignedBlocks = gp_minSignedBlocks r\<rparr>
      | _ \<Rightarrow> Inl nilPointer)"

definition GovParams_Decode :: "govProtoOps \<Rightarrow> bytes \<Rightarrow> goerror + GovParams" where
  "GovParams_Decode G bz =
     (case govUnmarshal G bz of
        Inl err \<Rightarrow> Inl (xerrors_NewOrdinary err)
      | Inr pm \<Rightarrow> Inr (GovParams_fromProto pm))"

definition GovParams_Encode :: "govProtoOps \<Rightarrow> GovParams \<Rightarrow> bytes res" where
  "GovParams_Encode G r =
     (case GovParams_toProto r of
        Inl p \<Rightarrow> Inl p
      | Inr pm \<Rightarrow> (case govMarshal G pm of Inl err \<Rightarrow> Inl (Error (xerrors_NewOrdinary err)) | Inr bz \<Rightarrow> Inr bz))"

definition DecodeGovParams :: "govProtoOps \<Rightarrow> bytes \<Rightarrow> goerror + GovParams" where
  "DecodeGovParams G bz = GovParams_Decode G bz"

definition govParamsItem :: "govProtoOps \<Rightarrow> GovParams itemOps" where
  "govParamsItem G = \<lparr>Key = GovParams_Key, Encode = GovParams_Encode G, Decode = GovParams_Decode G\<rparr>"

section \<open>JSON\<close>

record GovParamsJSON =
  gpjVersion :: int
  gpjMaxValidatorCnt :: int
  gpjMinValidatorStake :: string
  gpjMinDelegatorStake :: string
  gpjRewardPerPower :: string
  gpjLazyRewardBlocks :: int
  gpjLazyApplyingBlocks :: int
  gpjGasPrice :: string
  gpjMinTrxGas :: u64
  gpjMaxTrxGas :: u64
  gpjMaxBlockGas :: u64
  gpjMinVotingBlocks :: int
  gpjMaxVotingBlocks :: int
  gpjMinSelfStakeRatio :: int
  gpjMaxUpdatableStakeRatio :: int
  gpjMaxIndividualStakeRatio :: int
  gpjSlashRatio :: int
  gpjSignedBlocksWindow :: int
  gpjMinSignedBlocks :: int

text \<open>\<open>dec\<close> and \<open>fromDecimal\<close> are \<^verbatim>\<open>Dec\<close> and \<^verbatim>\<open>FromDecimal\<close> of \<^verbatim>\<open>uint256\<close>; \<open>govJMarshal\<close> and
  \<open>govJUnmarshal\<close> are \<^verbatim>\<open>tmjson.Marshal\<close> and \<^verbatim>\<open>tmjson.Unmarshal\<close> on the structure.\<close>

record govJsonOps =
  u256_Dec :: "u256 \<Rightarrow> string"
  u256_FromDecimal :: "string \<Rightarrow> string + u256"
  govJMarshal :: "GovParamsJSON \<Rightarrow> string + bytes"
  govJUnmarshal :: "bytes \<Rightarrow> string + GovParamsJSON"

definition uint256ToString :: "govJsonOps \<Rightarrow> u256 option \<Rightarrow> string" where
  "uint256ToString J value = (case value of None \<Rightarrow> '''' | Some v \<Rightarrow> u256_Dec J v)"

definition stringToUint256 :: "govJsonOps \<Rightarrow> string \<Rightarrow> string + u256 option" where
  "stringToUint256 J value =
     (if value = '''' then Inr None
      else case u256_FromDecimal J value of Inl err \<Rightarrow> Inl err | Inr v \<Rightarrow> Inr (Some v))"

definition GovParams_MarshalJSON :: "govJsonOps \<Rightarrow> GovParams \<Rightarrow> string + bytes" where
  "GovParams_MarshalJSON J r = govJMarshal J
     \<lparr>gpjVersion = gp_version r, gpjMaxValidatorCnt = gp_maxValidatorCnt r,
      gpjMinValidatorStake = uint256ToString J (gp_minValidatorStake r),
      gpjMinDelegatorStake = uint256ToString J (gp_minDelegatorStake r),
      gpjRewardPerPower = uint256ToString J (gp_rewardPerPower r),
      gpjLazyRewardBlocks = gp_lazyRewardBlocks r, gpjLazyApplyingBlocks = gp_lazyApplyingBlocks r,
      gpjGasPrice = uint256ToString J (gp_gasPrice r), gpjMinTrxGas = gp_minTrxGas r,
      gpjMaxTrxGas = gp_maxTrxGas r, gpjMaxBlockGas = gp_maxBlockGas r,
      gpjMinVotingBlocks = gp_minVotingPeriodBlocks r, gpjMaxVotingBlocks = gp_maxVotingPeriodBlocks r,
      gpjMinSelfStakeRatio = gp_minSelfStakeRatio r, gpjMaxUpdatableStakeRatio = gp_maxUpdatableStakeRatio r,
      gpjMaxIndividualStakeRatio = gp_maxIndividualStakeRatio r, gpjSlashRatio = gp_slashRatio r,
      gpjSignedBlocksWindow = gp_signedBlocksWindow r, gpjMinSignedBlocks = gp_minSignedBlocks r\<rparr>"

definition GovParams_UnmarshalJSON :: "govJsonOps \<Rightarrow> bytes \<Rightarrow> string + GovParams" where
  "GovParams_UnmarshalJSON J bz =
     (case govJUnmarshal J bz of
        Inl err \<Rightarrow> Inl err
      | Inr tm \<Rightarrow>
     (case stringToUint256 J (gpjMinValidatorStake tm) of
        Inl err \<Rightarrow> Inl err
      | Inr vs \<Rightarrow>
     (case stringToUint256 J (gpjMinDelegatorStake tm) of
        Inl err \<Rightarrow> Inl err
      | Inr ds \<Rightarrow>
     (case stringToUint256 J (gpjRewardPerPower tm) of
        Inl err \<Rightarrow> Inl err
      | Inr rw \<Rightarrow>
     (case stringToUint256 J (gpjGasPrice tm) of
        Inl err \<Rightarrow> Inl err
      | Inr pr \<Rightarrow> Inr
          \<lparr>gp_version = gpjVersion tm, gp_maxValidatorCnt = gpjMaxValidatorCnt tm, gp_minValidatorStake = vs,
           gp_minDelegatorStake = (if ds = None then Some 0 else ds), gp_rewardPerPower = rw,
           gp_lazyRewardBlocks = gpjLazyRewardBlocks tm, gp_lazyApplyingBlocks = gpjLazyApplyingBlocks tm,
           gp_gasPrice = pr, gp_minTrxGas = gpjMinTrxGas tm, gp_maxTrxGas = gpjMaxTrxGas tm,
           gp_maxBlockGas = gpjMaxBlockGas tm, gp_minVotingPeriodBlocks = gpjMinVotingBlocks tm,
           gp_maxVotingPeriodBlocks = gpjMaxVotingBlocks tm, gp_minSelfStakeRatio = gpjMinSelfStakeRatio tm,
           gp_maxUpdatableStakeRatio = gpjMaxUpdatableStakeRatio tm,
           gp_maxIndividualStakeRatio = gpjMaxIndividualStakeRatio tm, gp_slashRatio = gpjSlashRatio tm,
           gp_signedBlocksWindow = gpjSignedBlocksWindow tm, gp_minSignedBlocks = gpjMinSignedBlocks tm\<rparr>)))))"

section \<open>Accessors and conversions\<close>

definition GovParams_Version :: "GovParams \<Rightarrow> int" where "GovParams_Version r = gp_version r"
definition GovParams_MaxValidatorCnt :: "GovParams \<Rightarrow> int" where "GovParams_MaxValidatorCnt r = gp_maxValidatorCnt r"
definition GovParams_MinValidatorStake :: "GovParams \<Rightarrow> u256 option" where "GovParams_MinValidatorStake r = gp_minValidatorStake r"
definition GovParams_LazyRewardBlocks :: "GovParams \<Rightarrow> int" where "GovParams_LazyRewardBlocks r = gp_lazyRewardBlocks r"
definition GovParams_LazyApplyingBlocks :: "GovParams \<Rightarrow> int" where "GovParams_LazyApplyingBlocks r = gp_lazyApplyingBlocks r"
definition GovParams_MinTrxGas :: "GovParams \<Rightarrow> u64" where "GovParams_MinTrxGas r = gp_minTrxGas r"
definition GovParams_MaxTrxGas :: "GovParams \<Rightarrow> u64" where "GovParams_MaxTrxGas r = gp_maxTrxGas r"
definition GovParams_MaxBlockGas :: "GovParams \<Rightarrow> u64" where "GovParams_MaxBlockGas r = gp_maxBlockGas r"
definition GovParams_MinVotingPeriodBlocks :: "GovParams \<Rightarrow> int" where "GovParams_MinVotingPeriodBlocks r = gp_minVotingPeriodBlocks r"
definition GovParams_MaxVotingPeriodBlocks :: "GovParams \<Rightarrow> int" where "GovParams_MaxVotingPeriodBlocks r = gp_maxVotingPeriodBlocks r"
definition GovParams_MinSelfStakeRatio :: "GovParams \<Rightarrow> int" where "GovParams_MinSelfStakeRatio r = gp_minSelfStakeRatio r"
definition GovParams_MaxUpdatableStakeRatio :: "GovParams \<Rightarrow> int" where "GovParams_MaxUpdatableStakeRatio r = gp_maxUpdatableStakeRatio r"
definition GovParams_MaxIndividualStakeRatio :: "GovParams \<Rightarrow> int" where "GovParams_MaxIndividualStakeRatio r = gp_maxIndividualStakeRatio r"
definition GovParams_SlashRatio :: "GovParams \<Rightarrow> int" where "GovParams_SlashRatio r = gp_slashRatio r"
definition GovParams_SignedBlocksWindow :: "GovParams \<Rightarrow> int" where "GovParams_SignedBlocksWindow r = gp_signedBlocksWindow r"
definition GovParams_MinSignedBlocks :: "GovParams \<Rightarrow> int" where "GovParams_MinSignedBlocks r = gp_minSignedBlocks r"

definition GovParams_MinDelegatorStake :: "GovParams \<Rightarrow> u256" where
  "GovParams_MinDelegatorStake r = (case gp_minDelegatorStake r of None \<Rightarrow> u256_NewInt 0 | Some v \<Rightarrow> v)"

definition GovParams_RewardPerPower :: "GovParams \<Rightarrow> u256 res" where
  "GovParams_RewardPerPower r = deref (gp_rewardPerPower r)"

definition GovParams_GasPrice :: "GovParams \<Rightarrow> u256 res" where
  "GovParams_GasPrice r = deref (gp_gasPrice r)"

definition GovParams_MinTrxFee :: "GovParams \<Rightarrow> u256 res" where
  "GovParams_MinTrxFee r = map_sum id (\<lambda>p. u256_NewInt (gp_minTrxGas r) * p) (deref (gp_gasPrice r))"

definition GovParams_MaxTrxFee :: "GovParams \<Rightarrow> u256 res" where
  "GovParams_MaxTrxFee r = map_sum id (\<lambda>p. u256_NewInt (gp_maxTrxGas r) * p) (deref (gp_gasPrice r))"

definition amountPerPower :: u256 where "amountPerPower = 1000000000000000000"

definition AmountPerPower :: u256 where "AmountPerPower = amountPerPower"

text \<open>\<^verbatim>\<open>tmtypes.MaxTotalVotingPower\<close> is \<^verbatim>\<open>math.MaxInt64 / 8\<close>.\<close>

definition MaxTotalPower :: int where "MaxTotalPower = (2 ^ 63 - 1) div 8"

definition AmountToPower :: "u256 \<Rightarrow> int res" where
  "AmountToPower amt =
     (let vp = i64_of_u64 (u256_Uint64 (amt div amountPerPower))
      in if vp < 0 then Inl (Panic ''voting power is negative: %v'') else Inr vp)"

definition PowerToAmount :: "int \<Rightarrow> u256" where
  "PowerToAmount pw = u256_NewInt (u64_of_i64 pw) * amountPerPower"

definition FeeToGas :: "u256 \<Rightarrow> u256 \<Rightarrow> u64" where
  "FeeToGas fee price = u256_Uint64 (if price = 0 then 0 else fee div price)"

definition GasToFee :: "u64 \<Rightarrow> u256 \<Rightarrow> u256" where
  "GasToFee gas price = u256_NewInt gas * price"

section \<open>Merging\<close>

definition merge_u256 :: "u256 option \<Rightarrow> u256 option \<Rightarrow> u256 option" where
  "merge_u256 old new = (if new = None \<or> new = Some 0 then old else new)"

definition merge_zero :: "'a::zero \<Rightarrow> 'a \<Rightarrow> 'a" where
  "merge_zero old new = (if new = 0 then old else new)"

definition MergeGovParams :: "GovParams \<Rightarrow> GovParams \<Rightarrow> GovParams" where
  "MergeGovParams oldParams newParams =
     \<lparr>gp_version = merge_zero (gp_version oldParams) (gp_version newParams),
      gp_maxValidatorCnt = merge_zero (gp_maxValidatorCnt oldParams) (gp_maxValidatorCnt newParams),
      gp_minValidatorStake = merge_u256 (gp_minValidatorStake oldParams) (gp_minValidatorStake newParams),
      gp_minDelegatorStake = merge_u256 (gp_minDelegatorStake oldParams) (gp_minDelegatorStake newParams),
      gp_rewardPerPower = merge_u256 (gp_rewardPerPower oldParams) (gp_rewardPerPower newParams),
      gp_lazyRewardBlocks = merge_zero (gp_lazyRewardBlocks oldParams) (gp_lazyRewardBlocks newParams),
      gp_lazyApplyingBlocks = merge_zero (gp_lazyApplyingBlocks oldParams) (gp_lazyApplyingBlocks newParams),
      gp_gasPrice = merge_u256 (gp_gasPrice oldParams) (gp_gasPrice newParams),
      gp_minTrxGas = merge_zero (gp_minTrxGas oldParams) (gp_minTrxGas newParams),
      gp_maxTrxGas = merge_zero (gp_maxTrxGas oldParams) (gp_maxTrxGas newParams),
      gp_maxBlockGas = merge_zero (gp_maxBlockGas oldParams) (gp_maxBlockGas newParams),
      gp_minVotingPeriodBlocks = merge_zero (gp_minVotingPeriodBlocks oldParams) (gp_minVotingPeriodBlocks newParams),
      gp_maxVotingPeriodBlocks = merge_zero (gp_maxVotingPeriodBlocks oldParams) (gp_maxVotingPeriodBlocks newParams),
      gp_minSelfStakeRatio = merge_zero (gp_minSelfStakeRatio oldParams) (gp_minSelfStakeRatio newParams),
      gp_maxUpdatableStakeRatio = merge_zero (gp_maxUpdatableStakeRatio oldParams) (gp_maxUpdatableStakeRatio newParams),
      gp_maxIndividualStakeRatio = merge_zero (gp_maxIndividualStakeRatio oldParams) (gp_maxIndividualStakeRatio newParams),
      gp_slashRatio = merge_zero (gp_slashRatio oldParams) (gp_slashRatio newParams),
      gp_signedBlocksWindow = merge_zero (gp_signedBlocksWindow oldParams) (gp_signedBlocksWindow newParams),
      gp_minSignedBlocks = merge_zero (gp_minSignedBlocks oldParams) (gp_minSignedBlocks newParams)\<rparr>"

end
