(* ===== verification/Rigo_GovParamsProps.thy ===== *)
theory Rigo_GovParamsProps
  imports Rigo_GovParams
begin

text \<open>
  The governance parameters survive both of their codecs; merging is associative, with the empty
  parameters as unit, and keeps complete parameters complete; and the conversions between amounts
  and powers, gas and fees are inverse to each other within their ranges.
\<close>

section \<open>Codecs\<close>

text \<open>Parameters in force have all four amounts.\<close>

definition gov_complete :: "GovParams \<Rightarrow> bool" where
  "gov_complete r \<longleftrightarrow> gp_minValidatorStake r \<noteq> None \<and> gp_minDelegatorStake r \<noteq> None \<and>
     gp_rewardPerPower r \<noteq> None \<and> gp_gasPrice r \<noteq> None"

lemma gov_fromProto_toProto: "GovParams_toProto r = Inr pm \<Longrightarrow> GovParams_fromProto pm = r"
  by (auto simp: GovParams_toProto_def GovParams_fromProto_def split: option.splits)

lemma gov_toProto_complete: "(\<exists>pm. GovParams_toProto r = Inr pm) \<longleftrightarrow> gov_complete r"
  by (auto simp: GovParams_toProto_def gov_complete_def split: option.splits)

lemma gov_codec_roundtrip:
  "enc_dec (govMarshal G) (govUnmarshal G) \<Longrightarrow> GovParams_Encode G r = Inr bz \<Longrightarrow> GovParams_Decode G bz = Inr r"
  by (auto simp: GovParams_Encode_def GovParams_Decode_def enc_dec_def gov_fromProto_toProto split: sum.splits)

definition decimal_laws :: "govJsonOps \<Rightarrow> bool" where
  "decimal_laws J \<longleftrightarrow> (\<forall>v. u256_Dec J v \<noteq> '''' \<and> u256_FromDecimal J (u256_Dec J v) = Inr v) \<and>
     enc_dec (govJMarshal J) (govJUnmarshal J)"

lemma string_roundtrip: "decimal_laws J \<Longrightarrow> stringToUint256 J (uint256ToString J v) = Inr v"
  by (auto simp: decimal_laws_def stringToUint256_def uint256ToString_def split: option.splits)

lemma gov_json_roundtrip:
  assumes "decimal_laws J" "GovParams_MarshalJSON J r = Inr bz"
  shows "GovParams_UnmarshalJSON J bz =
    Inr (if gp_minDelegatorStake r = None then r\<lparr>gp_minDelegatorStake := Some 0\<rparr> else r)"
proof -
  have d: "enc_dec (govJMarshal J) (govJUnmarshal J)"
    using assms(1) by (simp add: decimal_laws_def)
  show ?thesis
    using assms(2) d unfolding GovParams_MarshalJSON_def enc_dec_def
    by (auto simp: GovParams_UnmarshalJSON_def string_roundtrip [OF assms(1)])
qed

section \<open>Instances\<close>

definition govFields :: "GovParamsProto \<Rightarrow> bytes list" where
  "govFields m = [int_field (gpmVersion m), int_field (gpmMaxValidatorCnt m), gpmXMinValidatorStake m,
     gpmXMinDelegatorStake m, gpmXRewardPerPower m, int_field (gpmLazyRewardBlocks m), int_field (gpmLazyApplyingBlocks m),
     gpmXGasPrice m, word_field (gpmMinTrxGas m), word_field (gpmMaxTrxGas m), word_field (gpmMaxBlockGas m),
     int_field (gpmMinVotingPeriodBlocks m), int_field (gpmMaxVotingPeriodBlocks m), int_field (gpmMinSelfStakeRatio m),
     int_field (gpmMaxUpdatableStakeRatio m), int_field (gpmMaxIndividualStakeRatio m), int_field (gpmSlashRatio m),
     int_field (gpmSignedBlocksWindow m), int_field (gpmMinSignedBlocks m)]"

definition fieldsGov :: "bytes list \<Rightarrow> GovParamsProto" where
  "fieldsGov fs = \<lparr>gpmVersion = field_int (fs ! 0), gpmMaxValidatorCnt = field_int (fs ! 1), gpmXMinValidatorStake = fs ! 2,
     gpmXMinDelegatorStake = fs ! 3, gpmXRewardPerPower = fs ! 4, gpmLazyRewardBlocks = field_int (fs ! 5),
     gpmLazyApplyingBlocks = field_int (fs ! 6), gpmXGasPrice = fs ! 7, gpmMinTrxGas = field_word (fs ! 8),
     gpmMaxTrxGas = field_word (fs ! 9), gpmMaxBlockGas = field_word (fs ! 10),
     gpmMinVotingPeriodBlocks = field_int (fs ! 11), gpmMaxVotingPeriodBlocks = field_int (fs ! 12),
     gpmMinSelfStakeRatio = field_int (fs ! 13), gpmMaxUpdatableStakeRatio = field_int (fs ! 14),
     gpmMaxIndividualStakeRatio = field_int (fs ! 15), gpmSlashRatio = field_int (fs ! 16),
     gpmSignedBlocksWindow = field_int (fs ! 17), gpmMinSignedBlocks = field_int (fs ! 18)\<rparr>"

definition demoGovProto :: govProtoOps where
  "demoGovProto = \<lparr>govMarshal = (\<lambda>m. Inr (enc_fields (govFields m))), govUnmarshal = dec_msg 19 fieldsGov\<rparr>"

lemma govFields_roundtrip: "fieldsGov (govFields m) = m" "length (govFields m) = 19"
  by (simp_all add: fieldsGov_def govFields_def)

lemma demoGovProto_laws: "enc_dec (govMarshal demoGovProto) (govUnmarshal demoGovProto)"
  by (simp add: enc_dec_def demoGovProto_def dec_msg_enc govFields_roundtrip)

text \<open>A JSON instance: the structure as a sequence of fields, an amount as the word in unary, closed by a mark.\<close>

definition gjFields :: "GovParamsJSON \<Rightarrow> bytes list" where
  "gjFields m = [int_field (gpjVersion m), int_field (gpjMaxValidatorCnt m), str_bytes (gpjMinValidatorStake m),
     str_bytes (gpjMinDelegatorStake m), str_bytes (gpjRewardPerPower m), int_field (gpjLazyRewardBlocks m), int_field (gpjLazyApplyingBlocks m),
     str_bytes (gpjGasPrice m), word_field (gpjMinTrxGas m), word_field (gpjMaxTrxGas m), word_field (gpjMaxBlockGas m),
     int_field (gpjMinVotingBlocks m), int_field (gpjMaxVotingBlocks m), int_field (gpjMinSelfStakeRatio m),
     int_field (gpjMaxUpdatableStakeRatio m), int_field (gpjMaxIndividualStakeRatio m), int_field (gpjSlashRatio m),
     int_field (gpjSignedBlocksWindow m), int_field (gpjMinSignedBlocks m)]"

definition fieldsGj :: "bytes list \<Rightarrow> GovParamsJSON" where
  "fieldsGj fs = \<lparr>gpjVersion = field_int (fs ! 0), gpjMaxValidatorCnt = field_int (fs ! 1), gpjMinValidatorStake = field_str (fs ! 2),
     gpjMinDelegatorStake = field_str (fs ! 3), gpjRewardPerPower = field_str (fs ! 4), gpjLazyRewardBlocks = field_int (fs ! 5),
     gpjLazyApplyingBlocks = field_int (fs ! 6), gpjGasPrice = field_str (fs ! 7), gpjMinTrxGas = field_word (fs ! 8),
     gpjMaxTrxGas = field_word (fs ! 9), gpjMaxBlockGas = field_word (fs ! 10),
     gpjMinVotingBlocks = field_int (fs ! 11), gpjMaxVotingBlocks = field_int (fs ! 12),
     gpjMinSelfStakeRatio = field_int (fs ! 13), gpjMaxUpdatableStakeRatio = field_int (fs ! 14),
     gpjMaxIndividualStakeRatio = field_int (fs ! 15), gpjSlashRatio = field_int (fs ! 16),
     gpjSignedBlocksWindow = field_int (fs ! 17), gpjMinSignedBlocks = field_int (fs ! 18)\<rparr>"

definition demoGovJson :: govJsonOps where
  "demoGovJson = \<lparr>u256_Dec = (\<lambda>v. CHR ''n'' # field_str (u256_Bytes v)),
     u256_FromDecimal = (\<lambda>s. Inr (u256_SetBytes (str_bytes (tl s)))),
     govJMarshal = (\<lambda>m. Inr (enc_fields (gjFields m))), govJUnmarshal = dec_msg 19 fieldsGj\<rparr>"

lemma str_bytes_field_str: "str_bytes (field_str bs) = bs"
proof -
  have "word_of_nat (of_char (char_of (unat b) :: char)) = (b :: byte)" for b
    using unsigned_less [of b, where 'a = nat] by simp
  then show ?thesis
    by (simp add: str_bytes_def field_str_def map_idI)
qed

lemma gjFields_roundtrip: "fieldsGj (gjFields m) = m" "length (gjFields m) = 19"
  by (simp_all add: fieldsGj_def gjFields_def)

lemma demoGovJson_laws: "decimal_laws demoGovJson"
  by (simp add: decimal_laws_def enc_dec_def demoGovJson_def dec_msg_enc gjFields_roundtrip str_bytes_field_str)

section \<open>Properties\<close>

text \<open>C15. Parameters that can be encoded are exactly those with all amounts present (encoding others
  panics), and what is encoded decodes to the same parameters. Their JSON form reads back as the
  same parameters, a missing minimum delegator stake as 0.\<close>

theorem GovParams_roundtrip:
  assumes "enc_dec (govMarshal G) (govUnmarshal G)" "decimal_laws J"
  shows "(gov_complete r \<longleftrightarrow> GovParams_Encode G r \<noteq> Inl nilPointer) \<and>
    (GovParams_Encode G r = Inr bz \<longrightarrow> GovParams_Decode G bz = Inr r) \<and>
    (GovParams_MarshalJSON J r = Inr js \<longrightarrow> GovParams_UnmarshalJSON J js =
       Inr (if gp_minDelegatorStake r = None then r\<lparr>gp_minDelegatorStake := Some 0\<rparr> else r))"
proof (intro conjI impI)
  show "gov_complete r \<longleftrightarrow> GovParams_Encode G r \<noteq> Inl nilPointer"
    by (auto simp: GovParams_Encode_def GovParams_toProto_def gov_complete_def nilPointer_def split: option.splits sum.splits)
qed (use gov_codec_roundtrip [OF assms(1)] gov_json_roundtrip [OF assms(2)] in auto)

theorem GovParams_roundtrip_witness:
  "\<exists>bz js. GovParams_Encode demoGovProto DefaultGovParams = Inr bz \<and> GovParams_Decode demoGovProto bz = Inr DefaultGovParams \<and>
     GovParams_MarshalJSON demoGovJson Test5GovParams = Inr js \<and>
     GovParams_UnmarshalJSON demoGovJson js = Inr (Test5GovParams\<lparr>gp_minDelegatorStake := Some 0\<rparr>)"
proof -
  obtain bz where bz: "GovParams_Encode demoGovProto DefaultGovParams = Inr bz"
    by (auto simp: GovParams_Encode_def GovParams_toProto_def demoGovProto_def DefaultGovParams_def)
  obtain js where js: "GovParams_MarshalJSON demoGovJson Test5GovParams = Inr js"
    by (auto simp: GovParams_MarshalJSON_def demoGovJson_def)
  show ?thesis
    using GovParams_roundtrip [OF demoGovProto_laws demoGovJson_laws, of DefaultGovParams bz]
      GovParams_roundtrip [OF demoGovProto_laws demoGovJson_laws, of Test5GovParams _ js] bz js
    by (auto simp: Test5GovParams_def)
qed

lemma merge_laws:
  "merge_u256 (merge_u256 a b) c = merge_u256 a (merge_u256 b c)" "merge_u256 a None = a" "merge_u256 a a = a"
  "merge_zero (merge_zero i j) k = merge_zero i (merge_zero j k)" "merge_zero i 0 = i" "merge_zero i i = i"
  "a \<noteq> None \<Longrightarrow> merge_u256 a b \<noteq> None"
  by (auto simp: merge_u256_def merge_zero_def)



section \<open>Amounts and powers\<close>

lemma sint_64: "sint (w :: u64) = (if uint w < 2 ^ 63 then uint w else uint w - 2 ^ 64)"
proof -
  have r: "0 \<le> uint w" "uint w < 2 ^ 64"
    using uint_lt2p [of w] by simp_all
  show ?thesis
  proof (cases "uint w < 2 ^ 63")
    case True
    have "- (2 ^ 63) \<le> uint w"
      using r(1) by (rule order_trans [rotated]) simp
    with True show ?thesis
      by (simp add: sint_uint signed_take_bit_int_eq_self)
  next
    case False
    have "(uint w + 2 ^ 63) mod 2 ^ 64 = (uint w - 2 ^ 63) mod 2 ^ 64"
      using mod_add_self2 [of "uint w - 2 ^ 63" "2 ^ 64"] by (simp add: algebra_simps)
    also have "\<dots> = uint w - 2 ^ 63"
      using False r by (intro mod_pos_pos_trivial) simp_all
    finally show ?thesis
      using False by (simp add: sint_uint signed_take_bit_eq_take_bit_shift take_bit_eq_mod)
  qed
qed

lemma AmountToPower_eq:
  "AmountToPower amt =
     (let q = uint amt div 10 ^ 18 mod 2 ^ 64 in
      if 2 ^ 63 \<le> q then Inl (Panic ''voting power is negative: %v'') else Inr q)"
proof -
  define q where "q = uint amt div 10 ^ 18 mod 2 ^ 64"
  have d: "uint (amt div amountPerPower) = uint amt div 10 ^ 18"
    by (simp add: uint_div amountPerPower_def)
  have u: "uint (u256_Uint64 (amt div amountPerPower)) = q"
    using d by (simp add: u256_Uint64_def q_def unsigned_ucast_eq take_bit_eq_mod)
  have s: "i64_of_u64 (u256_Uint64 (amt div amountPerPower)) = (if q < 2 ^ 63 then q else q - 2 ^ 64)"
    unfolding i64_of_u64_def sint_64 u by simp
  have "0 \<le> q" "q < 2 ^ 64"
    by (simp_all add: q_def)
  then show ?thesis
    unfolding AmountToPower_def Let_def s q_def [symmetric] by simp
qed

lemma uint_PowerToAmount:
  assumes "0 \<le> p" "p < 2 ^ 63"
  shows "uint (PowerToAmount p) = p * 10 ^ 18"
proof -
  have "uint (u64_of_i64 p) = p"
    using assms by (simp add: u64_of_i64_def uint_word_of_int)
  then have u: "uint (u256_NewInt (u64_of_i64 p)) = p"
    using assms by (simp add: u256_NewInt_def unsigned_ucast_eq take_bit_eq_mod)
  have "p * 10 ^ 18 < 2 ^ 63 * 10 ^ 18"
    using assms(2) by simp
  then have "p * 10 ^ 18 < 2 ^ 256"
    by simp
  then show ?thesis
    using assms(1) by (simp add: PowerToAmount_def uint_word_ariths u amountPerPower_def)
qed

text \<open>C24. For amounts below 2^63 coins the power is the number of whole coins: it is not negative, the
  amount of that power is at most the amount and less than one coin below it, and a power in range
  comes back from its amount. From 2^63 to 2^64 coins the conversion panics.\<close>

theorem AmountToPower_bounds:
  assumes "uint amt < 2 ^ 63 * 10 ^ 18" "0 \<le> p" "p < 2 ^ 63"
  shows "(\<exists>vp. AmountToPower amt = Inr vp \<and> 0 \<le> vp \<and> vp < 2 ^ 63 \<and>
      uint (PowerToAmount vp) \<le> uint amt \<and> uint amt < uint (PowerToAmount vp) + 10 ^ 18) \<and>
    AmountToPower (PowerToAmount p) = Inr p"
proof -
  let ?q = "uint amt div 10 ^ 18"
  have q: "0 \<le> ?q" "?q < 2 ^ 63"
    using assms(1) by (simp_all add: div_less_iff_less_mult pos_imp_zdiv_nonneg_iff)
  then have "AmountToPower amt = Inr ?q"
    by (simp add: AmountToPower_eq Let_def)
  moreover have "?q * 10 ^ 18 \<le> uint amt" "uint amt < ?q * 10 ^ 18 + 10 ^ 18"
    by (simp_all add: minus_mod_eq_div_mult [symmetric])
  moreover have "AmountToPower (PowerToAmount p) = Inr p"
    using assms(2,3) uint_PowerToAmount [OF assms(2,3)] by (simp add: AmountToPower_eq Let_def)
  ultimately show ?thesis
    using uint_PowerToAmount [OF q] q by auto
qed

theorem AmountToPower_bounds_witness:
  "AmountToPower (PowerToAmount 7000000) = Inr 7000000 \<and> (\<exists>vp. AmountToPower 2500000000000000000 = Inr vp)"
  using AmountToPower_bounds [of 2500000000000000000 7000000] by auto

text \<open>C25. The power of an amount is truncated to 64 bits before it is used: an amount of 2^64 coins (or of
  any multiple) has power 0, although it is paid in full.\<close>

theorem AmountToPower_truncates:
  assumes "0 \<le> n" "n * 2 ^ 64 * 10 ^ 18 < 2 ^ 256"
  shows "AmountToPower (word_of_int (n * 2 ^ 64 * 10 ^ 18)) = Inr 0"
proof -
  have "uint (word_of_int (n * 2 ^ 64 * 10 ^ 18) :: u256) = n * 2 ^ 64 * 10 ^ 18"
    by (subst uint_word_of_int) (rule mod_pos_pos_trivial, use assms in simp_all)
  then have "uint (word_of_int (n * 2 ^ 64 * 10 ^ 18) :: u256) div 10 ^ 18 = n * 2 ^ 64"
    by simp
  then show ?thesis
    by (simp add: AmountToPower_eq)
qed

theorem AmountToPower_truncates_witness:
  "AmountToPower (word_of_int (1 * 2 ^ 64 * 10 ^ 18)) = Inr 0"
  by (rule AmountToPower_truncates) simp_all

section \<open>Gas and fees\<close>

lemma uint_GasToFee:
  assumes "uint price < 2 ^ 192"
  shows "uint (GasToFee gas price) = uint gas * uint price"
proof -
  have g: "uint (u256_NewInt gas) = uint gas" "uint gas < 2 ^ 64" "0 \<le> uint gas" "0 \<le> uint price"
    using uint_lt2p [of gas] by (simp_all add: u256_NewInt_def unsigned_ucast_eq take_bit_eq_mod)
  have "uint gas * uint price \<le> (2 ^ 64 - 1) * (2 ^ 192 - 1)"
    using assms g by (intro mult_mono) simp_all
  then have "uint gas * uint price < 2 ^ 256"
    by simp
  then show ?thesis
    using g by (simp add: GasToFee_def uint_word_ariths)
qed

text \<open>C26. As long as the gas price is below 2^192, the fee of an amount of gas is the exact product, so no
  fee wraps around, it grows with the gas, and the gas is recovered from the fee.\<close>

theorem GasToFee_exact:
  assumes "0 < uint price" "uint price < 2 ^ 192"
  shows "uint (GasToFee gas price) = uint gas * uint price \<and> FeeToGas (GasToFee gas price) price = gas \<and>
    (gas \<le> gas' \<longleftrightarrow> GasToFee gas price \<le> GasToFee gas' price)"
proof -
  note f = uint_GasToFee [OF assms(2)]
  have "uint (GasToFee gas price div price) = uint gas"
    using assms(1) by (simp add: uint_div f)
  then have "u256_Uint64 (GasToFee gas price div price) = gas"
    using uint_lt2p [of gas] by (simp add: u256_Uint64_def word_uint_eq_iff unsigned_ucast_eq take_bit_eq_mod)
  moreover have "price \<noteq> 0"
    using assms(1) by auto
  ultimately have "FeeToGas (GasToFee gas price) price = gas"
    by (simp add: FeeToGas_def)
  then show ?thesis
    using assms(1) f by (simp add: word_le_def)
qed

theorem GasToFee_exact_witness:
  "FeeToGas (GasToFee 4000 250000000000) 250000000000 = 4000"
  using GasToFee_exact [of 250000000000 4000] by simp

end
