(* ===== verification/Rigo_Stake.thy ===== *)
theory Rigo_Stake
  imports Rigo_GovParams
begin

text \<open>
  Stakes, the marks of missed blocks and delegatees: \<^verbatim>\<open>src/ctrlers/stake/stake.go\<close>,
  \<^verbatim>\<open>block_marker.go\<close> and \<^verbatim>\<open>delegatee.go\<close>. A delegatee owns its stakes (pointers nothing else holds
  while they are bonded), so they are values of its record. The JSON library is the parameter
  \<open>jsonOps\<close> of the item types.
\<close>

record 'a jsonOps =
  jsonMarshal :: "'a \<Rightarrow> string + bytes"
  jsonUnmarshal :: "bytes \<Rightarrow> string + 'a"

section \<open>Stakes\<close>

record Stake =
  stFrom :: bytes
  stTo :: bytes
  stTxHash :: bytes
  stStartHeight :: int
  stRefundHeight :: int
  stPower :: int

definition Stake_Key :: "Stake \<Rightarrow> ledgerKey" where
  "Stake_Key s = ToLedgerKey (stTxHash s)"

definition Stake_Encode :: "Stake jsonOps \<Rightarrow> Stake \<Rightarrow> bytes res" where
  "Stake_Encode J s =
     (case jsonMarshal J s of Inl err \<Rightarrow> Inl (Error (xerrors_NewOrdinary err)) | Inr bz \<Rightarrow> Inr bz)"

definition Stake_Decode :: "Stake jsonOps \<Rightarrow> bytes \<Rightarrow> goerror + Stake" where
  "Stake_Decode J d = fromErr (jsonUnmarshal J d)"

definition stakeItem :: "Stake jsonOps \<Rightarrow> Stake itemOps" where
  "stakeItem J = \<lparr>Key = Stake_Key, Encode = Stake_Encode J, Decode = Stake_Decode J\<rparr>"

definition NewStakeWithPower :: "bytes \<Rightarrow> bytes \<Rightarrow> int \<Rightarrow> int \<Rightarrow> bytes \<Rightarrow> Stake" where
  "NewStakeWithPower owner to pw startHeight txhash =
     \<lparr>stFrom = owner, stTo = to, stTxHash = txhash, stStartHeight = startHeight, stRefundHeight = 0, stPower = pw\<rparr>"

definition NewStakeWithAmount :: "bytes \<Rightarrow> bytes \<Rightarrow> u256 \<Rightarrow> int \<Rightarrow> bytes \<Rightarrow> Stake res" where
  "NewStakeWithAmount owner to amt startHeight txhash =
     map_sum id (\<lambda>pw. NewStakeWithPower owner to pw startHeight txhash) (AmountToPower amt)"

text \<open>\<^verbatim>\<open>Equal\<close> does not look at the refund height.\<close>

definition Stake_Equal :: "Stake \<Rightarrow> Stake \<Rightarrow> bool" where
  "Stake_Equal s o1 \<longleftrightarrow> bytes_Compare (stFrom s) (stFrom o1) = 0 \<and> bytes_Compare (stTo s) (stTo o1) = 0 \<and>
     bytes_Compare (stTxHash s) (stTxHash o1) = 0 \<and> stStartHeight s = stStartHeight o1 \<and> stPower s = stPower o1"

definition Stake_Clone :: "Stake \<Rightarrow> Stake" where
  "Stake_Clone s = \<lparr>stFrom = stFrom s @ [], stTo = stTo s @ [], stTxHash = stTxHash s @ [],
     stStartHeight = stStartHeight s, stRefundHeight = stRefundHeight s, stPower = stPower s\<rparr>"

definition Stake_IsSelfStake :: "Stake \<Rightarrow> bool" where
  "Stake_IsSelfStake s \<longleftrightarrow> bytes_Compare (stFrom s) (stTo s) = 0"

definition startHeightOrder_Less :: "Stake \<Rightarrow> Stake \<Rightarrow> bool" where
  "startHeightOrder_Less a b \<longleftrightarrow> stStartHeight a < stStartHeight b"

definition refundHeightOrder_Less :: "Stake \<Rightarrow> Stake \<Rightarrow> bool" where
  "refundHeightOrder_Less a b \<longleftrightarrow> stRefundHeight a < stRefundHeight b"

interpretation startOrder: sort_interface startHeightOrder_Less stStartHeight
  by unfold_locales (auto simp: startHeightOrder_Less_def)

interpretation refundOrder: sort_interface refundHeightOrder_Less stRefundHeight
  by unfold_locales (auto simp: refundHeightOrder_Less_def)

section \<open>Marked blocks\<close>

record BlockMarker =
  bmBlockHeights :: "int list"

definition BlockMarker_Mark :: "int \<Rightarrow> BlockMarker \<Rightarrow> unit res \<times> BlockMarker" where
  "BlockMarker_Mark height bm =
     (let hs = bmBlockHeights bm in
      if hs \<noteq> [] \<and> last hs \<ge> height
      then (Inl (Error (xerrors_NewOrdinary ''height must bigger than last marked height'')), bm)
      else (Inr (), bm\<lparr>bmBlockHeights := hs @ [height]\<rparr>))"

text \<open>The loop of \<^verbatim>\<open>CountInWindow\<close>: \<open>i\<close> is the index of the head of the list.\<close>

fun countLoop :: "int \<Rightarrow> int \<Rightarrow> int \<Rightarrow> int list \<Rightarrow> int \<Rightarrow> int \<Rightarrow> int \<times> int" where
  "countLoop h0 h1 i [] cnt preIdx = (cnt, preIdx)"
| "countLoop h0 h1 i (h # hs) cnt preIdx =
     (let preIdx = (if h < h0 then i else preIdx);
          cnt = (if h \<ge> h0 \<and> h \<le> h1 then cnt + 1 else cnt)
      in if h \<ge> h1 then (cnt, preIdx) else countLoop h0 h1 (i + 1) hs cnt preIdx)"

definition BlockMarker_CountInWindow :: "int \<Rightarrow> int \<Rightarrow> bool \<Rightarrow> BlockMarker \<Rightarrow> int \<times> BlockMarker" where
  "BlockMarker_CountInWindow h0 h1 rewin bm =
     (if h0 > h1 then (0, bm)
      else let (cnt, preIdx) = countLoop h0 h1 0 (bmBlockHeights bm) 0 (- 1)
           in (cnt, if rewin \<and> preIdx > 0
                      then bm\<lparr>bmBlockHeights := drop (nat (preIdx + 1)) (bmBlockHeights bm)\<rparr> else bm))"

section \<open>Delegatees\<close>

text \<open>\<open>dgNotSignedHeights\<close> is the object \<^verbatim>\<open>NewDelegatee\<close> makes; it is never nil in a ledger.\<close>

record Delegatee =
  dgAddr :: bytes
  dgPubKey :: bytes
  dgSelfPower :: int
  dgTotalPower :: int
  dgSlashedPower :: int
  dgStakes :: "Stake list"
  dgNotSignedHeights :: BlockMarker

definition Delegatee_Key :: "Delegatee \<Rightarrow> ledgerKey" where
  "Delegatee_Key d = ToLedgerKey (dgAddr d)"

definition Delegatee_Encode :: "Delegatee jsonOps \<Rightarrow> Delegatee \<Rightarrow> bytes res" where
  "Delegatee_Encode J d =
     (case jsonMarshal J d of Inl err \<Rightarrow> Inl (Error (xerrors_NewOrdinary err)) | Inr bz \<Rightarrow> Inr bz)"

definition Delegatee_Decode :: "Delegatee jsonOps \<Rightarrow> bytes \<Rightarrow> goerror + Delegatee" where
  "Delegatee_Decode J d = fromErr (jsonUnmarshal J d)"

definition delegateeItem :: "Delegatee jsonOps \<Rightarrow> Delegatee itemOps" where
  "delegateeItem J = \<lparr>Key = Delegatee_Key, Encode = Delegatee_Encode J, Decode = Delegatee_Decode J\<rparr>"

definition NewDelegatee :: "bytes \<Rightarrow> bytes \<Rightarrow> Delegatee" where
  "NewDelegatee addr pubKey =
     \<lparr>dgAddr = addr, dgPubKey = pubKey, dgSelfPower = 0, dgTotalPower = 0, dgSlashedPower = 0, dgStakes = [],
      dgNotSignedHeights = \<lparr>bmBlockHeights = []\<rparr>\<rparr>"

definition Delegatee_GetAddress :: "Delegatee \<Rightarrow> bytes" where
  "Delegatee_GetAddress d = dgAddr d"

definition addStakePower :: "Stake \<Rightarrow> Delegatee \<Rightarrow> Delegatee" where
  "addStakePower s d =
     (let d = (if Stake_IsSelfStake s then d\<lparr>dgSelfPower := i64 (dgSelfPower d + stPower s)\<rparr> else d)
      in d\<lparr>dgTotalPower := i64 (dgTotalPower d + stPower s)\<rparr>)"

definition Delegatee_addStake :: "Stake list \<Rightarrow> Delegatee \<Rightarrow> Delegatee" where
  "Delegatee_addStake stakes d = fold addStakePower stakes (d\<lparr>dgStakes := dgStakes d @ stakes\<rparr>)"

definition Delegatee_AddStake :: "Stake list \<Rightarrow> Delegatee \<Rightarrow> unit res \<times> Delegatee" where
  "Delegatee_AddStake stakes d = (Inr (), Delegatee_addStake stakes d)"

text \<open>\<^verbatim>\<open>findStake\<close>: the index of the first stake of the transaction, or -1 and nil.\<close>

fun findStakeLoop :: "bytes \<Rightarrow> int \<Rightarrow> Stake list \<Rightarrow> int \<times> Stake option" where
  "findStakeLoop txhash i [] = (- 1, None)"
| "findStakeLoop txhash i (s # ss) =
     (if bytes_Compare txhash (stTxHash s) = 0 then (i, Some s) else findStakeLoop txhash (i + 1) ss)"

definition Delegatee_findStake :: "bytes \<Rightarrow> Delegatee \<Rightarrow> int \<times> Stake option" where
  "Delegatee_findStake txhash d = findStakeLoop txhash 0 (dgStakes d)"

definition Delegatee_FindStake :: "bytes \<Rightarrow> Delegatee \<Rightarrow> int \<times> Stake option" where
  "Delegatee_FindStake txhash d = Delegatee_findStake txhash d"

definition indexPanic :: fault where
  "indexPanic = Panic ''runtime error: index out of range''"

definition Delegatee_delStakeByIdx :: "int \<Rightarrow> Delegatee \<Rightarrow> Stake option res \<times> Delegatee" where
  "Delegatee_delStakeByIdx idx d =
     (if idx \<ge> int (length (dgStakes d)) then (Inr None, d)
      else if idx < 0 then (Inl indexPanic, d)
      else (Inr (Some (dgStakes d ! nat idx)),
            d\<lparr>dgStakes := take (nat idx) (dgStakes d) @ drop (nat idx + 1) (dgStakes d)\<rparr>))"

definition Delegatee_delStakeByHash :: "bytes \<Rightarrow> Delegatee \<Rightarrow> Stake option res \<times> Delegatee" where
  "Delegatee_delStakeByHash txhash d =
     (let (i, s0) = Delegatee_findStake txhash d
      in if i < 0 \<or> s0 = None then (Inr None, d) else Delegatee_delStakeByIdx i d)"

text \<open>The powers after a stake was taken out.\<close>

definition subStakePower :: "Stake option \<Rightarrow> Delegatee \<Rightarrow> Delegatee" where
  "subStakePower o1 d =
     (case o1 of
        None \<Rightarrow> d
      | Some s \<Rightarrow>
          (let d = (if Stake_IsSelfStake s then d\<lparr>dgSelfPower := i64 (dgSelfPower d - stPower s)\<rparr> else d)
           in d\<lparr>dgTotalPower := i64 (dgTotalPower d - stPower s)\<rparr>))"

definition Delegatee_DelStake :: "bytes \<Rightarrow> Delegatee \<Rightarrow> Stake option res \<times> Delegatee" where
  "Delegatee_DelStake txhash d =
     bindE (Delegatee_delStakeByHash txhash d) (\<lambda>s d. (Inr s, subStakePower s d))"

definition Delegatee_DelStakeByIdx :: "int \<Rightarrow> Delegatee \<Rightarrow> Stake option res \<times> Delegatee" where
  "Delegatee_DelStakeByIdx idx d =
     bindE (Delegatee_delStakeByIdx idx d) (\<lambda>s d. (Inr s, subStakePower s d))"

text \<open>\<^verbatim>\<open>DelAllStakes\<close> takes the powers off the total power only.\<close>

definition Delegatee_DelAllStakes :: "Delegatee \<Rightarrow> Stake list \<times> Delegatee" where
  "Delegatee_DelAllStakes d =
     (dgStakes d,
      fold (\<lambda>s d. d\<lparr>dgTotalPower := i64 (dgTotalPower d - stPower s)\<rparr>) (dgStakes d) (d\<lparr>dgStakes := []\<rparr>))"

definition Delegatee_GetAllStakes :: "Delegatee \<Rightarrow> Stake list" where
  "Delegatee_GetAllStakes d = dgStakes d"

definition Delegatee_getStake :: "int \<Rightarrow> Delegatee \<Rightarrow> Stake option res" where
  "Delegatee_getStake idx d =
     (if idx \<ge> int (length (dgStakes d)) then Inr None
      else if idx < 0 then Inl indexPanic else Inr (Some (dgStakes d ! nat idx)))"

definition Delegatee_GetStake :: "int \<Rightarrow> Delegatee \<Rightarrow> Stake option res" where
  "Delegatee_GetStake idx d = Delegatee_getStake idx d"

definition Delegatee_StakesOf :: "bytes \<Rightarrow> Delegatee \<Rightarrow> Stake list" where
  "Delegatee_StakesOf addr d = filter (\<lambda>s. bytes_Compare addr (stFrom s) = 0) (dgStakes d)"

definition Delegatee_StakesLen :: "Delegatee \<Rightarrow> int" where
  "Delegatee_StakesLen d = int (length (dgStakes d))"

definition Delegatee_GetSelfPower :: "Delegatee \<Rightarrow> int" where
  "Delegatee_GetSelfPower d = dgSelfPower d"

definition Delegatee_GetTotalPower :: "Delegatee \<Rightarrow> int" where
  "Delegatee_GetTotalPower d = dgTotalPower d"

definition Delegatee_SelfStakeRatio :: "int \<Rightarrow> Delegatee \<Rightarrow> int res" where
  "Delegatee_SelfStakeRatio added d = go_quo (i64 (dgSelfPower d * 100)) (i64 (dgTotalPower d + added))"

definition Delegatee_ProcessNotSignedBlock :: "int \<Rightarrow> Delegatee \<Rightarrow> unit res \<times> Delegatee" where
  "Delegatee_ProcessNotSignedBlock height d =
     (let (r, bm) = BlockMarker_Mark height (dgNotSignedHeights d) in (r, d\<lparr>dgNotSignedHeights := bm\<rparr>))"

definition Delegatee_GetNotSignedBlockCount :: "int \<Rightarrow> int \<Rightarrow> Delegatee \<Rightarrow> int \<times> Delegatee" where
  "Delegatee_GetNotSignedBlockCount h0 h1 d =
     (let (n, bm) = BlockMarker_CountInWindow h0 h1 True (dgNotSignedHeights d)
      in (n, d\<lparr>dgNotSignedHeights := bm\<rparr>))"

text \<open>\<^verbatim>\<open>sumPowerOf\<close>: \<open>None\<close> is the nil address, which selects every stake.\<close>

definition Delegatee_sumPowerOf :: "bytes option \<Rightarrow> Delegatee \<Rightarrow> int" where
  "Delegatee_sumPowerOf addr d =
     fold (\<lambda>s pw. if (case addr of None \<Rightarrow> True | Some a \<Rightarrow> bytes_Compare a (stFrom s) = 0)
                  then i64 (pw + stPower s) else pw) (dgStakes d) 0"

definition Delegatee_SumPower :: "Delegatee \<Rightarrow> int" where
  "Delegatee_SumPower d = Delegatee_sumPowerOf None d"

definition Delegatee_SumPowerOf :: "bytes \<Rightarrow> Delegatee \<Rightarrow> int" where
  "Delegatee_SumPowerOf addr d = Delegatee_sumPowerOf (Some addr) d"

text \<open>The first loop of \<^verbatim>\<open>doSlashAll\<close>: the stakes with their powers reduced, the stakes to remove and
  the sum of the powers slashed. A stake too small for its slash to count is removed and left out of
  the sum.\<close>

definition slashedOf :: "int \<Rightarrow> Stake \<Rightarrow> int" where
  "slashedOf ratio s = go_div (i64 (stPower s * ratio)) 100"

fun slashLoop :: "int \<Rightarrow> Stake list \<Rightarrow> Stake list \<times> Stake list \<times> int" where
  "slashLoop ratio [] = ([], [], 0)"
| "slashLoop ratio (s # ss) =
     (let (kept, removing, sum) = slashLoop ratio ss; slashed = slashedOf ratio s
      in if slashed < 1 then (s # kept, s # removing, sum)
         else (s\<lparr>stPower := i64 (stPower s - slashed)\<rparr> # kept, removing, i64 (slashed + sum)))"

definition Delegatee_doSlashAll :: "int \<Rightarrow> Delegatee \<Rightarrow> int \<times> Delegatee" where
  "Delegatee_doSlashAll ratio d =
     (let (stakes, removingStakes, sumSlashedPower) = slashLoop ratio (dgStakes d);
          d = fold (\<lambda>s1 d. snd (Delegatee_delStakeByHash (stTxHash s1) d)) removingStakes (d\<lparr>dgStakes := stakes\<rparr>);
          d = d\<lparr>dgSelfPower := Delegatee_sumPowerOf (Some (dgAddr d)) d\<rparr>
      in (sumSlashedPower, d\<lparr>dgTotalPower := Delegatee_sumPowerOf None d\<rparr>))"

definition Delegatee_DoSlash :: "int \<Rightarrow> Delegatee \<Rightarrow> int \<times> Delegatee" where
  "Delegatee_DoSlash ratio d = Delegatee_doSlashAll ratio d"

section \<open>Arrays of delegatees\<close>

definition DelegateeArray_SumTotalPower :: "Delegatee list \<Rightarrow> int" where
  "DelegateeArray_SumTotalPower delgs = fold (\<lambda>d pw. i64 (pw + dgTotalPower d)) delgs 0"

fun delegateeFind :: "bytes \<Rightarrow> int \<Rightarrow> Delegatee list \<Rightarrow> int \<times> Delegatee option" where
  "delegateeFind addr i [] = (- 1, None)"
| "delegateeFind addr i (d # ds) =
     (if bytes_Compare addr (dgAddr d) = 0 then (i, Some d) else delegateeFind addr (i + 1) ds)"

definition DelegateeArray_Find :: "bytes \<Rightarrow> Delegatee list \<Rightarrow> int \<times> Delegatee option" where
  "DelegateeArray_Find addr delgs = delegateeFind addr 0 delgs"

definition PowerOrderDelegatees_Less :: "Delegatee \<Rightarrow> Delegatee \<Rightarrow> bool" where
  "PowerOrderDelegatees_Less a b =
     (if dgTotalPower a \<noteq> dgTotalPower b then dgTotalPower a > dgTotalPower b
      else if length (dgStakes a) \<noteq> length (dgStakes b) then length (dgStakes a) > length (dgStakes b)
      else bytes_Compare (dgAddr a) (dgAddr b) > 0)"

definition AddressOrderDelegatees_Less :: "Delegatee \<Rightarrow> Delegatee \<Rightarrow> bool" where
  "AddressOrderDelegatees_Less a b \<longleftrightarrow> bytes_Compare (dgAddr a) (dgAddr b) < 0"

interpretation powerOrder: sort_interface PowerOrderDelegatees_Less dgAddr
  using sort_interface_desc [OF sort_interface_desc [OF sort_interface_key [OF sort_interface_Compare_desc, of dgAddr]],
      of dgTotalPower "\<lambda>d. length (dgStakes d)"]
  unfolding PowerOrderDelegatees_Less_def by simp

interpretation addressOrder: sort_interface AddressOrderDelegatees_Less dgAddr
  using sort_interface_key [OF sort_interface_Compare_asc, of dgAddr]
  unfolding AddressOrderDelegatees_Less_def .

end
