(* ===== verification/Rigo_Reward.thy ===== *)
theory Rigo_Reward
  imports Rigo_Stake
begin

text \<open>
  The reward object, \<^verbatim>\<open>src/ctrlers/stake/reward.go\<close>, and the limiter of stake changes,
  \<^verbatim>\<open>src/ctrlers/stake/limiter.go\<close>. The field \<^verbatim>\<open>handledAddrs\<close> of the limiter is never used by the code
  and is left out.
\<close>

section \<open>Rewards\<close>

record Reward =
  rwAddress :: bytes
  rwIssued :: u256
  rwWithdrawn :: u256
  rwSlashed :: u256
  rwCumulated :: u256
  rwHeight :: int

definition NewReward :: "bytes \<Rightarrow> Reward" where
  "NewReward addr =
     \<lparr>rwAddress = addr, rwIssued = 0, rwWithdrawn = 0, rwSlashed = 0, rwCumulated = 0, rwHeight = 0\<rparr>"

definition rewardHeightPanic :: fault where
  "rewardHeightPanic = Panic ''the Reward::height(%v) is not same current height(%v)''"

definition Reward_Issue :: "u256 \<Rightarrow> int \<Rightarrow> Reward \<Rightarrow> unit res \<times> Reward" where
  "Reward_Issue r h rwd =
     bindE
       (if rwHeight rwd < h then (Inr (), rwd\<lparr>rwIssued := r, rwHeight := h\<rparr>)
        else if rwHeight rwd = h then (Inr (), rwd\<lparr>rwIssued := rwIssued rwd + r\<rparr>)
        else (Inl rewardHeightPanic, rwd))
       (\<lambda>_ rwd. (Inr (), rwd\<lparr>rwCumulated := rwCumulated rwd + r\<rparr>))"

definition Reward_Withdraw :: "u256 \<Rightarrow> int \<Rightarrow> Reward \<Rightarrow> unit res \<times> Reward" where
  "Reward_Withdraw r h rwd =
     bindE
       (if rwHeight rwd < h then (Inr (), rwd\<lparr>rwWithdrawn := r, rwHeight := h\<rparr>)
        else if rwHeight rwd = h then (Inr (), rwd\<lparr>rwWithdrawn := rwWithdrawn rwd + r\<rparr>)
        else (Inl rewardHeightPanic, rwd))
       (\<lambda>_ rwd. (Inr (), rwd\<lparr>rwCumulated := rwCumulated rwd - r\<rparr>))"

definition Reward_Slash :: "u256 \<Rightarrow> int \<Rightarrow> Reward \<Rightarrow> unit res \<times> Reward" where
  "Reward_Slash r h rwd =
     bindE
       (if rwHeight rwd < h then (Inr (), rwd\<lparr>rwSlashed := r, rwHeight := h\<rparr>)
        else if rwHeight rwd = h then (Inr (), rwd\<lparr>rwSlashed := rwSlashed rwd + r\<rparr>)
        else (Inl rewardHeightPanic, rwd))
       (\<lambda>_ rwd. (Inr (), rwd\<lparr>rwCumulated := rwCumulated rwd - r\<rparr>))"

definition Reward_Key :: "Reward \<Rightarrow> ledgerKey" where
  "Reward_Key rwd = ToLedgerKey (rwAddress rwd)"

record RewardProto =
  rpAddress :: bytes
  rpXIssued :: bytes
  rpXWithdrawn :: bytes
  rpXSlashed :: bytes
  rpXCumulated :: bytes
  rpHeight :: int

record rewardProtoOps =
  rewardMarshal :: "RewardProto \<Rightarrow> string + bytes"
  rewardUnmarshal :: "bytes \<Rightarrow> string + RewardProto"

definition Reward_Encode :: "rewardProtoOps \<Rightarrow> Reward \<Rightarrow> bytes res" where
  "Reward_Encode R rwd =
     (case rewardMarshal R
        \<lparr>rpAddress = rwAddress rwd, rpXIssued = u256_Bytes (rwIssued rwd), rpXWithdrawn = u256_Bytes (rwWithdrawn rwd),
         rpXSlashed = u256_Bytes (rwSlashed rwd), rpXCumulated = u256_Bytes (rwCumulated rwd), rpHeight = rwHeight rwd\<rparr> of
        Inl err \<Rightarrow> Inl (Error (xerrors_NewOrdinary err))
      | Inr bz \<Rightarrow> Inr bz)"

definition Reward_Decode :: "rewardProtoOps \<Rightarrow> bytes \<Rightarrow> goerror + Reward" where
  "Reward_Decode R d =
     (case rewardUnmarshal R d of
        Inl err \<Rightarrow> Inl (xerrors_NewOrdinary err)
      | Inr m \<Rightarrow> Inr
          \<lparr>rwAddress = rpAddress m, rwIssued = u256_SetBytes (rpXIssued m), rwWithdrawn = u256_SetBytes (rpXWithdrawn m),
           rwSlashed = u256_SetBytes (rpXSlashed m), rwCumulated = u256_SetBytes (rpXCumulated m), rwHeight = rpHeight m\<rparr>)"

definition rewardItem :: "rewardProtoOps \<Rightarrow> Reward itemOps" where
  "rewardItem R = \<lparr>Key = Reward_Key, Encode = Reward_Encode R, Decode = Reward_Decode R\<rparr>"

text \<open>The JSON form: the amounts are decimal strings. \<open>rjDec\<close> and \<open>rjFromDecimal\<close> are \<^verbatim>\<open>Dec\<close> and
  \<^verbatim>\<open>MustFromDecimal\<close> of \<^verbatim>\<open>uint256\<close>; the latter panics on what is no number.\<close>

record RewardJSON =
  rjAddress :: bytes
  rjIssued :: string
  rjWithdrawn :: string
  rjSlashed :: string
  rjCumulated :: string
  rjHeight :: int

record rewardJsonOps =
  rjDec :: "u256 \<Rightarrow> string"
  rjFromDecimal :: "string \<Rightarrow> u256 option"
  rjMarshal :: "RewardJSON \<Rightarrow> string + bytes"
  rjUnmarshal :: "bytes \<Rightarrow> string + RewardJSON"

definition Reward_MarshalJSON :: "rewardJsonOps \<Rightarrow> Reward \<Rightarrow> string + bytes" where
  "Reward_MarshalJSON J rwd = rjMarshal J
     \<lparr>rjAddress = rwAddress rwd, rjIssued = rjDec J (rwIssued rwd), rjWithdrawn = rjDec J (rwWithdrawn rwd),
      rjSlashed = rjDec J (rwSlashed rwd), rjCumulated = rjDec J (rwCumulated rwd), rjHeight = rwHeight rwd\<rparr>"

definition Reward_UnmarshalJSON :: "rewardJsonOps \<Rightarrow> bytes \<Rightarrow> Reward res" where
  "Reward_UnmarshalJSON J d =
     (case rjUnmarshal J d of
        Inl err \<Rightarrow> Inl (Error (PlainError err))
      | Inr tm \<Rightarrow>
          (case (rjFromDecimal J (rjIssued tm), rjFromDecimal J (rjWithdrawn tm),
                 rjFromDecimal J (rjSlashed tm), rjFromDecimal J (rjCumulated tm)) of
             (Some i, Some w, Some s, Some c) \<Rightarrow>
               Inr \<lparr>rwAddress = rjAddress tm, rwIssued = i, rwWithdrawn = w, rwSlashed = s, rwCumulated = c,
                    rwHeight = rjHeight tm\<rparr>
           | _ \<Rightarrow> Inl (Panic ''MustFromDecimal'')))"

definition Reward_Address :: "Reward \<Rightarrow> bytes" where "Reward_Address rwd = rwAddress rwd"
definition Reward_GetIssued :: "Reward \<Rightarrow> u256" where "Reward_GetIssued rwd = rwIssued rwd"
definition Reward_GetWithdrawn :: "Reward \<Rightarrow> u256" where "Reward_GetWithdrawn rwd = rwWithdrawn rwd"
definition Reward_GetSlashed :: "Reward \<Rightarrow> u256" where "Reward_GetSlashed rwd = rwSlashed rwd"
definition Reward_GetCumulated :: "Reward \<Rightarrow> u256" where "Reward_GetCumulated rwd = rwCumulated rwd"
definition Reward_Height :: "Reward \<Rightarrow> int" where "Reward_Height rwd = rwHeight rwd"

section \<open>The limiter\<close>

record powerObj =
  poAddr :: bytes
  poPower :: int

definition orderedPowerObj_Less :: "powerObj \<Rightarrow> powerObj \<Rightarrow> bool" where
  "orderedPowerObj_Less a b =
     (if poPower a \<noteq> poPower b then poPower a > poPower b else bytes_Compare (poAddr a) (poAddr b) > 0)"

interpretation powerObjOrder: sort_interface orderedPowerObj_Less poAddr
  using sort_interface_desc [OF sort_interface_key [OF sort_interface_Compare_desc, of poAddr], of poPower]
  unfolding orderedPowerObj_Less_def .

record StakeLimiter =
  slIndividualLimitRatio :: int
  slUpdatableLimitRatio :: int
  slMaxValidatorCnt :: int
  slPowerObjs :: "powerObj list"
  slBaseTotalPower :: int
  slUpdatedPower :: int

text \<open>The base: the total power of the first \<open>maxValCnt\<close> delegatees.\<close>

fun basePower :: "int \<Rightarrow> int \<Rightarrow> Delegatee list \<Rightarrow> int \<Rightarrow> int" where
  "basePower maxValCnt i [] base = base"
| "basePower maxValCnt i (d # ds) base =
     basePower maxValCnt (i + 1) ds (if i < maxValCnt then i64 (base + dgTotalPower d) else base)"

definition StakeLimiter_reset :: "Delegatee list \<Rightarrow> int \<Rightarrow> int \<Rightarrow> int \<Rightarrow> StakeLimiter \<Rightarrow> StakeLimiter" where
  "StakeLimiter_reset delgs maxValCnt indiLimitRatio upLimitRatio sl =
     sl\<lparr>slPowerObjs := map (\<lambda>d. \<lparr>poAddr = dgAddr d, poPower = dgTotalPower d\<rparr>) delgs,
        slBaseTotalPower := basePower maxValCnt 0 delgs 0,
        slIndividualLimitRatio := indiLimitRatio,
        slUpdatableLimitRatio := upLimitRatio,
        slMaxValidatorCnt := maxValCnt,
        slUpdatedPower := 0\<rparr>"

definition StakeLimiter_Reset :: "Delegatee list \<Rightarrow> int \<Rightarrow> int \<Rightarrow> int \<Rightarrow> StakeLimiter \<Rightarrow> StakeLimiter" where
  "StakeLimiter_Reset vals maxValCnt indiLimitRatio upLimitRatio sl =
     StakeLimiter_reset vals maxValCnt indiLimitRatio upLimitRatio sl"

definition NewStakeLimiter :: "Delegatee list \<Rightarrow> int \<Rightarrow> int \<Rightarrow> int \<Rightarrow> StakeLimiter" where
  "NewStakeLimiter vals maxValCnt indiLimitRatio upLimitRatio =
     StakeLimiter_Reset vals maxValCnt indiLimitRatio upLimitRatio
       \<lparr>slIndividualLimitRatio = 0, slUpdatableLimitRatio = 0, slMaxValidatorCnt = 0, slPowerObjs = [],
        slBaseTotalPower = 0, slUpdatedPower = 0\<rparr>"

fun findPowerObjLoop :: "bytes \<Rightarrow> int \<Rightarrow> powerObj list \<Rightarrow> int \<times> powerObj option" where
  "findPowerObjLoop addr i [] = (- 1, None)"
| "findPowerObjLoop addr i (p # ps) =
     (if bytes_Compare (poAddr p) addr = 0 then (i, Some p) else findPowerObjLoop addr (i + 1) ps)"

definition StakeLimiter_findPowerObj :: "bytes \<Rightarrow> StakeLimiter \<Rightarrow> int \<times> powerObj option" where
  "StakeLimiter_findPowerObj addr sl = findPowerObjLoop addr 0 (slPowerObjs sl)"

definition StakeLimiter_checkIndividualPowerLimit :: "Delegatee \<Rightarrow> int \<Rightarrow> StakeLimiter \<Rightarrow> unit res" where
  "StakeLimiter_checkIndividualPowerLimit delg diffPower sl =
     (if diffPower \<le> 0 then Inr ()
      else case go_quo (i64 (i64 (dgTotalPower delg + diffPower) * 100)) (i64 (slBaseTotalPower sl + diffPower)) of
             Inl e \<Rightarrow> Inl e
           | Inr individualRatio \<Rightarrow>
               if individualRatio > slIndividualLimitRatio sl
               then Inl (Error (xerrors_NewOrdinary ''StakeLimiter error: exceeding individual power limit - delegatee(%v), power(%v), diff:%v, base(%v), ratio(%v), limit(%v)''))
               else Inr ())"

text \<open>The power that counts as updated: an un-staking validator that falls behind the first
  candidate leaves with its whole power, a newcomer replaces the last validator. The index of the
  last validator is out of range when the maximum is 0.\<close>

definition updatedPowerBy :: "int \<Rightarrow> powerObj \<Rightarrow> int \<Rightarrow> StakeLimiter \<Rightarrow> int res" where
  "updatedPowerBy ridx powObj diffPower sl =
     (let objs = slPowerObjs sl; n = int (length objs); maxCnt = slMaxValidatorCnt sl;
          up = slUpdatedPower sl;
          up = (if ridx \<ge> 0 \<and> ridx < maxCnt \<and> diffPower < 0 then
                  if n > maxCnt \<and> i64 (poPower powObj + diffPower) < poPower (objs ! nat maxCnt)
                  then i64 (up + poPower powObj) else i64 (up + i64 (- 1 * diffPower))
                else up)
      in if (ridx < 0 \<or> ridx \<ge> maxCnt) \<and> diffPower > 0 \<and> n \<ge> maxCnt then
           if maxCnt - 1 < 0 then Inl indexPanic
           else if i64 (poPower powObj + diffPower) > poPower (objs ! nat (maxCnt - 1))
           then Inr (i64 (up + poPower (objs ! nat (maxCnt - 1)))) else Inr up
         else Inr up)"

text \<open>A power object that is found is changed in place, a new one is not kept. The power is changed
  before the last check, so its failure leaves it changed.\<close>

definition StakeLimiter_checkUpdatablePowerLimit :: "Delegatee \<Rightarrow> int \<Rightarrow> StakeLimiter \<Rightarrow> unit res \<times> StakeLimiter" where
  "StakeLimiter_checkUpdatablePowerLimit delg diffPower sl =
     (let (ridx, o1) = StakeLimiter_findPowerObj (dgAddr delg) sl;
          powObj = (case o1 of None \<Rightarrow> \<lparr>poAddr = dgAddr delg, poPower = dgTotalPower delg\<rparr> | Some p \<Rightarrow> p)
      in if poPower powObj \<noteq> dgTotalPower delg
         then (Inl (Error (xerrors_NewOrdinary ''StakeLimiter's power(%v) object is not equal to delegatee's power(%v). delegatee: %v'')), sl)
         else case updatedPowerBy ridx powObj diffPower sl of
                Inl e \<Rightarrow> (Inl e, sl)
              | Inr updatedPower \<Rightarrow>
                  (case go_quo (i64 (updatedPower * 100)) (slBaseTotalPower sl) of
                     Inl e \<Rightarrow> (Inl e, sl)
                   | Inr ratio \<Rightarrow>
                       if slUpdatableLimitRatio sl < ratio
                       then (Inl (Error (xerrors_NewOrdinary ''StakeLimiter error: Exceeding the updatable power limit. updated(%v), base(%v), ratio(%v), limit(%v)'')), sl)
                       else
                         (let pw = i64 (poPower powObj + diffPower);
                              sl = (if ridx < 0 then sl
                                    else sl\<lparr>slPowerObjs := (slPowerObjs sl)[nat ridx := powObj\<lparr>poPower := pw\<rparr>]\<rparr>)
                          in if pw < 0
                             then (Inl (Error (xerrors_NewOrdinary ''StakeLimiter error: power(%v) of %v is negative'')), sl)
                             else (Inr (), sl\<lparr>slUpdatedPower := updatedPower,
                                              slPowerObjs := go_sort orderedPowerObj_Less (slPowerObjs sl)\<rparr>))))"

definition StakeLimiter_CheckLimit :: "Delegatee \<Rightarrow> int \<Rightarrow> StakeLimiter \<Rightarrow> unit res \<times> StakeLimiter" where
  "StakeLimiter_CheckLimit delg changePower sl =
     (if slPowerObjs sl = [] then (Inr (), sl)
      else case StakeLimiter_checkIndividualPowerLimit delg changePower sl of
             Inl e \<Rightarrow> (Inl e, sl)
           | Inr _ \<Rightarrow> StakeLimiter_checkUpdatablePowerLimit delg changePower sl)"

end
