(* ===== verification/Rigo_StakeProps.thy ===== *)
theory Rigo_StakeProps
  imports Rigo_Reward
begin

text \<open>
  The objects of the stake package: the marks of missed blocks count what they should, the powers
  of a delegatee are the sums of its stakes after any sequence of its operations, what slashing
  takes, and what the limiter lets through.
\<close>

section \<open>Marked blocks\<close>

definition marked :: "BlockMarker \<Rightarrow> bool" where
  "marked bm \<longleftrightarrow> sorted_wrt (<) (bmBlockHeights bm)"

definition inWindow :: "int \<Rightarrow> int \<Rightarrow> BlockMarker \<Rightarrow> int" where
  "inWindow h0 h1 bm = int (length (filter (\<lambda>h. h0 \<le> h \<and> h \<le> h1) (bmBlockHeights bm)))"

lemma sorted_last: "sorted_wrt (<) xs \<Longrightarrow> xs \<noteq> [] \<Longrightarrow> x \<in> set xs \<Longrightarrow> x \<le> last (xs :: int list)"
  by (induction xs) (auto split: if_splits intro: less_imp_le)

lemma Mark_marked: "marked bm \<Longrightarrow> marked (snd (BlockMarker_Mark h bm))"
  by (auto simp: marked_def BlockMarker_Mark_def Let_def sorted_wrt_append dest: sorted_last)

lemma filter_above: "\<forall>x \<in> set xs. h1 < x \<Longrightarrow> filter (\<lambda>h. h0 \<le> h \<and> h \<le> h1) xs = ([] :: int list)"
  by (simp add: filter_empty_conv not_le)

text \<open>The loop on a sorted list: the count, and the index of the last height before the window.\<close>

lemma countLoop_correct:
  assumes "sorted_wrt (<) hs" "h0 \<le> h1"
  shows "countLoop h0 h1 i hs c p =
    (c + int (length (filter (\<lambda>h. h0 \<le> h \<and> h \<le> h1) hs)),
     if filter (\<lambda>h. h < h0) hs = [] then p else i + int (length (filter (\<lambda>h. h < h0) hs)) - 1)"
  using assms(1)
proof (induction hs arbitrary: i c p)
  case (Cons h hs)
  then have above: "\<forall>x \<in> set hs. h < x"
    by simp
  show ?case
  proof (cases "h1 \<le> h")
    case True
    have "filter (\<lambda>h. h0 \<le> h \<and> h \<le> h1) hs = []" "filter (\<lambda>h. h < h0) hs = []"
      using above True assms(2) by (auto simp: filter_empty_conv)
    then show ?thesis
      using True assms(2) by (simp add: Let_def)
  next
    case False
    have IH: "countLoop h0 h1 (i + 1) hs c' p' =
        (c' + int (length (filter (\<lambda>h. h0 \<le> h \<and> h \<le> h1) hs)),
         if filter (\<lambda>h. h < h0) hs = [] then p' else i + 1 + int (length (filter (\<lambda>h. h < h0) hs)) - 1)" for c' p'
      using Cons by simp
    have "h0 \<le> h \<Longrightarrow> filter (\<lambda>h. h < h0) hs = []"
      using above by (auto simp: filter_empty_conv)
    then show ?thesis
      using False by (cases "h < h0") (simp_all add: Let_def IH)
  qed
qed simp

lemma sorted_drop_stale:
  "sorted_wrt (<) hs \<Longrightarrow> drop (length (filter (\<lambda>h. h < h0) hs)) hs = filter (\<lambda>h. h0 \<le> (h :: int)) hs"
proof (induction hs)
  case (Cons h hs)
  show ?case
  proof (cases "h < h0")
    case False
    then have "filter (\<lambda>h. h < h0) hs = []" "filter (\<lambda>h. h0 \<le> h) hs = hs"
      using Cons.prems by (auto simp: filter_empty_conv filter_id_conv)
    then show ?thesis
      using False by simp
  qed (use Cons in simp)
qed simp

lemma CountInWindow_eq:
  assumes "marked bm" "h0 \<le> h1"
  shows "BlockMarker_CountInWindow h0 h1 rewin bm =
    (inWindow h0 h1 bm,
     if rewin \<and> length (filter (\<lambda>h. h < h0) (bmBlockHeights bm)) \<ge> 2
     then bm\<lparr>bmBlockHeights := filter (\<lambda>h. h0 \<le> h) (bmBlockHeights bm)\<rparr> else bm)"
proof -
  let ?hs = "bmBlockHeights bm"
  let ?n = "length (filter (\<lambda>h. h < h0) ?hs)"
  note loop = countLoop_correct [OF assms(1) [unfolded marked_def] assms(2), of 0 0 "- 1"]
  have "(0 < (if filter (\<lambda>h. h < h0) ?hs = [] then - 1 else 0 + int ?n - 1)) = (?n \<ge> 2)"
    by (cases "filter (\<lambda>h. h < h0) ?hs") (auto simp: Suc_le_eq)
  moreover have "drop ?n ?hs = filter (\<lambda>h. h0 \<le> h) ?hs"
    using assms(1) by (simp add: marked_def sorted_drop_stale)
  ultimately show ?thesis
    using assms(2) by (cases "?n \<ge> 2") (auto simp: BlockMarker_CountInWindow_def loop inWindow_def)
qed

text \<open>C19. \<^verbatim>\<open>BlockMarker\<close> (\<^verbatim>\<open>block_marker.go\<close>): the marked heights stay strictly increasing under
  \<^verbatim>\<open>Mark\<close>, which rejects exactly the heights that are not above the last mark, and under
  \<^verbatim>\<open>CountInWindow\<close>. The loop with its early exit returns the number of marks in the closed window,
  and rewinding loses no mark of this or of any later window. Two or more marks before the window
  are all removed; one alone is kept.\<close>

theorem BlockMarker_CountInWindow_correct:
  assumes "marked bm" "h0 \<le> h1"
  shows "marked (snd (BlockMarker_Mark h bm)) \<and>
    (fst (BlockMarker_Mark h bm) = Inr () \<longleftrightarrow> (\<forall>m \<in> set (bmBlockHeights bm). m < h)) \<and>
    fst (BlockMarker_CountInWindow h0 h1 rewin bm) = inWindow h0 h1 bm \<and>
    marked (snd (BlockMarker_CountInWindow h0 h1 rewin bm)) \<and>
    (\<forall>k0 k1. h0 \<le> k0 \<longrightarrow> inWindow k0 k1 (snd (BlockMarker_CountInWindow h0 h1 rewin bm)) = inWindow k0 k1 bm) \<and>
    filter (\<lambda>m. m < h0) (bmBlockHeights (snd (BlockMarker_CountInWindow h0 h1 True bm))) =
      (if length (filter (\<lambda>m. m < h0) (bmBlockHeights bm)) = 1
       then filter (\<lambda>m. m < h0) (bmBlockHeights bm) else [])"
proof (intro conjI allI impI)
  note eq = CountInWindow_eq [OF assms]
  show "marked (snd (BlockMarker_Mark h bm))"
    using assms(1) by (rule Mark_marked)
  show "(fst (BlockMarker_Mark h bm) = Inr ()) = (\<forall>m \<in> set (bmBlockHeights bm). m < h)"
  proof (cases "bmBlockHeights bm = []")
    case False
    have "(last (bmBlockHeights bm) < h) = (\<forall>m \<in> set (bmBlockHeights bm). m < h)"
      using assms(1) sorted_last [of "bmBlockHeights bm"] last_in_set [OF False] False
      unfolding marked_def by (meson le_less_trans)
    moreover have "(fst (BlockMarker_Mark h bm) = Inr ()) = (last (bmBlockHeights bm) < h)"
      using False by (auto simp: BlockMarker_Mark_def Let_def)
    ultimately show ?thesis
      by simp
  qed (simp add: BlockMarker_Mark_def Let_def)
  show "fst (BlockMarker_CountInWindow h0 h1 rewin bm) = inWindow h0 h1 bm"
    by (simp add: eq)
  show "marked (snd (BlockMarker_CountInWindow h0 h1 rewin bm))"
    using assms(1) by (simp add: eq marked_def sorted_wrt_filter)
  show "inWindow k0 k1 (snd (BlockMarker_CountInWindow h0 h1 rewin bm)) = inWindow k0 k1 bm" if "h0 \<le> k0" for k0 k1
    using that by (simp add: eq inWindow_def) (intro impI arg_cong [of _ _ length] filter_cong, auto)
  show "filter (\<lambda>m. m < h0) (bmBlockHeights (snd (BlockMarker_CountInWindow h0 h1 True bm))) =
      (if length (filter (\<lambda>m. m < h0) (bmBlockHeights bm)) = 1
       then filter (\<lambda>m. m < h0) (bmBlockHeights bm) else [])"
    by (cases "filter (\<lambda>m. m < h0) (bmBlockHeights bm)") (auto simp: eq filter_empty_conv Suc_le_eq)
qed

theorem BlockMarker_CountInWindow_correct_witness:
  "fst (BlockMarker_CountInWindow 5 9 True \<lparr>bmBlockHeights = [1, 3, 6, 9]\<rparr>) = 2 \<and>
   bmBlockHeights (snd (BlockMarker_CountInWindow 5 9 True \<lparr>bmBlockHeights = [1, 3, 6, 9]\<rparr>)) = [6, 9] \<and>
   filter (\<lambda>m. m < 5) (bmBlockHeights (snd (BlockMarker_CountInWindow 5 9 True \<lparr>bmBlockHeights = [3, 6, 9]\<rparr>))) = [3]"
proof -
  have "marked \<lparr>bmBlockHeights = [1, 3, 6, 9]\<rparr>" "marked \<lparr>bmBlockHeights = [3, 6, 9]\<rparr>"
    by (simp_all add: marked_def)
  then show ?thesis
    using BlockMarker_CountInWindow_correct [of "\<lparr>bmBlockHeights = [1, 3, 6, 9]\<rparr>" 5 9 10 True]
      BlockMarker_CountInWindow_correct [of "\<lparr>bmBlockHeights = [3, 6, 9]\<rparr>" 5 9 10 True]
    by (simp add: inWindow_def) (simp add: BlockMarker_CountInWindow_def)
qed

section \<open>The powers of a delegatee\<close>

definition sumPow :: "(Stake \<Rightarrow> bool) \<Rightarrow> Stake list \<Rightarrow> int" where
  "sumPow f ss = sum_list (map stPower (filter f ss))"

lemma sumPow_simps [simp]:
  "sumPow f [] = 0"
  "sumPow f (s # ss) = (if f s then stPower s else 0) + sumPow f ss"
  "sumPow f (ss @ ts) = sumPow f ss + sumPow f ts"
  by (simp_all add: sumPow_def)

lemma sumPow_cong: "(\<And>s. s \<in> set ss \<Longrightarrow> f s = g s) \<Longrightarrow> sumPow f ss = sumPow g ss"
  unfolding sumPow_def by (metis (mono_tags, lifting) filter_cong)

lemma sumPow_nonneg: "\<forall>s \<in> set ss. 0 \<le> stPower s \<Longrightarrow> 0 \<le> sumPow f ss"
  by (induction ss) auto

text \<open>The invariant: every stake is delegated to this delegatee, and the powers are the (wrapped)
  sums over the stakes.\<close>

definition delegatee_inv :: "Delegatee \<Rightarrow> bool" where
  "delegatee_inv d \<longleftrightarrow> (\<forall>s \<in> set (dgStakes d). stTo s = dgAddr d) \<and>
     dgTotalPower d = i64 (sumPow (\<lambda>_. True) (dgStakes d)) \<and>
     dgSelfPower d = i64 (sumPow Stake_IsSelfStake (dgStakes d))"

lemma delegatee_invD:
  assumes "delegatee_inv d"
  shows "s \<in> set (dgStakes d) \<Longrightarrow> stTo s = dgAddr d"
    and "dgTotalPower d = i64 (sumPow (\<lambda>_. True) (dgStakes d))"
    and "dgSelfPower d = i64 (sumPow Stake_IsSelfStake (dgStakes d))"
  using assms by (simp_all add: delegatee_inv_def)

lemma addStakePower_sel [simp]:
  "dgStakes (addStakePower s d) = dgStakes d" "dgAddr (addStakePower s d) = dgAddr d"
  "dgPubKey (addStakePower s d) = dgPubKey d" "dgNotSignedHeights (addStakePower s d) = dgNotSignedHeights d"
  by (simp_all add: addStakePower_def Let_def)

lemma addFold:
  "dgTotalPower d = i64 t \<Longrightarrow> dgTotalPower (fold addStakePower ss d) = i64 (t + sumPow (\<lambda>_. True) ss)"
  "dgSelfPower d = i64 p \<Longrightarrow> dgSelfPower (fold addStakePower ss d) = i64 (p + sumPow Stake_IsSelfStake ss)"
  by (induction ss arbitrary: d t p) (simp_all add: addStakePower_def Let_def add.assoc)

lemma addFold_sel [simp]:
  "dgStakes (fold addStakePower ss d) = dgStakes d" "dgAddr (fold addStakePower ss d) = dgAddr d"
  "dgPubKey (fold addStakePower ss d) = dgPubKey d"
  "dgNotSignedHeights (fold addStakePower ss d) = dgNotSignedHeights d"
  by (induction ss arbitrary: d) simp_all

lemma addStake_sel [simp]:
  "dgStakes (Delegatee_addStake ss d) = dgStakes d @ ss" "dgAddr (Delegatee_addStake ss d) = dgAddr d"
  "dgPubKey (Delegatee_addStake ss d) = dgPubKey d"
  "dgNotSignedHeights (Delegatee_addStake ss d) = dgNotSignedHeights d"
  by (simp_all add: Delegatee_addStake_def)

lemma addStake_powers:
  assumes "delegatee_inv d"
  shows "dgTotalPower (Delegatee_addStake ss d) = i64 (sumPow (\<lambda>_. True) (dgStakes d @ ss))"
    "dgSelfPower (Delegatee_addStake ss d) = i64 (sumPow Stake_IsSelfStake (dgStakes d @ ss))"
  using addFold(1,2) [of "d\<lparr>dgStakes := dgStakes d @ ss\<rparr>"] delegatee_invD(2,3) [OF assms]
  unfolding Delegatee_addStake_def by simp_all

lemma addStake_inv:
  assumes "delegatee_inv d" "\<forall>s \<in> set ss. stTo s = dgAddr d"
  shows "delegatee_inv (Delegatee_addStake ss d)"
  unfolding delegatee_inv_def
  using addStake_powers [OF assms(1)] delegatee_invD(1) [OF assms(1)] assms(2) by auto

text \<open>Taking out the first stake of a transaction.\<close>

fun remHash :: "bytes \<Rightarrow> Stake list \<Rightarrow> Stake list" where
  "remHash h [] = []"
| "remHash h (s # ss) = (if stTxHash s = h then ss else s # remHash h ss)"

lemma findStakeLoop_eq:
  "findStakeLoop h i ss =
     (case List.find (\<lambda>s. stTxHash s = h) ss of
        None \<Rightarrow> (- 1, None)
      | Some s \<Rightarrow> (i + int (length (takeWhile (\<lambda>s. stTxHash s \<noteq> h) ss)), Some s))"
  by (induction ss arbitrary: i) (auto split: option.split)

lemma find_nth:
  "List.find (\<lambda>s. stTxHash s = h) ss = Some s \<Longrightarrow>
   length (takeWhile (\<lambda>s. stTxHash s \<noteq> h) ss) < length ss \<and> ss ! length (takeWhile (\<lambda>s. stTxHash s \<noteq> h) ss) = s"
  by (induction ss) (auto split: if_splits)

lemma remHash_eq: "remHash h ss = takeWhile (\<lambda>s. stTxHash s \<noteq> h) ss @ drop (length (takeWhile (\<lambda>s. stTxHash s \<noteq> h) ss) + 1) ss"
  by (induction ss) auto

lemma remHash_None: "List.find (\<lambda>s. stTxHash s = h) ss = None \<Longrightarrow> remHash h ss = ss"
  by (induction ss) (auto split: if_splits)

lemma set_remHash: "set (remHash h ss) \<subseteq> set ss"
  by (induction ss) auto

lemma delStakeByHash_eq:
  "Delegatee_delStakeByHash h d =
     (Inr (List.find (\<lambda>s. stTxHash s = h) (dgStakes d)), d\<lparr>dgStakes := remHash h (dgStakes d)\<rparr>)"
proof (cases "List.find (\<lambda>s. stTxHash s = h) (dgStakes d)")
  case None
  then show ?thesis
    by (simp add: Delegatee_delStakeByHash_def Delegatee_findStake_def findStakeLoop_eq remHash_None)
next
  case (Some s)
  let ?n = "length (takeWhile (\<lambda>s. stTxHash s \<noteq> h) (dgStakes d))"
  have "?n < length (dgStakes d)" "dgStakes d ! ?n = s"
    using find_nth [OF Some] by simp_all
  moreover have "take ?n (dgStakes d) = takeWhile (\<lambda>s. stTxHash s \<noteq> h) (dgStakes d)"
    by (metis takeWhile_eq_take)
  ultimately show ?thesis
    using Some
    by (simp add: Delegatee_delStakeByHash_def Delegatee_findStake_def findStakeLoop_eq Delegatee_delStakeByIdx_def remHash_eq)
qed

lemma sumPow_remHash:
  "List.find (\<lambda>s. stTxHash s = h) ss = Some s \<Longrightarrow> sumPow f (remHash h ss) = sumPow f ss - (if f s then stPower s else 0)"
  by (induction ss) (auto split: if_splits)

lemma subStakePower_sel [simp]:
  "dgStakes (subStakePower s d) = dgStakes d" "dgAddr (subStakePower s d) = dgAddr d"
  "dgPubKey (subStakePower s d) = dgPubKey d" "dgNotSignedHeights (subStakePower s d) = dgNotSignedHeights d"
  by (simp_all add: subStakePower_def Let_def split: option.split)

lemma subStakePower_powers:
  assumes "dgTotalPower d = i64 t" "dgSelfPower d = i64 p"
  shows "dgTotalPower (subStakePower (Some s) d) = i64 (t - stPower s)"
    "dgSelfPower (subStakePower (Some s) d) = i64 (p - (if Stake_IsSelfStake s then stPower s else 0))"
  using assms by (simp_all add: subStakePower_def Let_def)

lemma DelStake_eq:
  "Delegatee_DelStake h d =
     (Inr (List.find (\<lambda>s. stTxHash s = h) (dgStakes d)),
      subStakePower (List.find (\<lambda>s. stTxHash s = h) (dgStakes d)) (d\<lparr>dgStakes := remHash h (dgStakes d)\<rparr>))"
  by (simp add: Delegatee_DelStake_def delStakeByHash_eq)

lemma DelStake_inv:
  assumes "delegatee_inv d"
  shows "delegatee_inv (snd (Delegatee_DelStake h d))"
proof (cases "List.find (\<lambda>s. stTxHash s = h) (dgStakes d)")
  case None
  then show ?thesis
    using assms by (simp add: DelStake_eq remHash_None subStakePower_def)
next
  case (Some s)
  show ?thesis
    unfolding delegatee_inv_def DelStake_eq Some
    using subStakePower_powers [of "d\<lparr>dgStakes := remHash h (dgStakes d)\<rparr>", OF _ _, of _ _ s]
      delegatee_invD [OF assms] sumPow_remHash [OF Some] set_remHash [of h "dgStakes d"]
    by auto
qed

lemma delStakeByIdx_eq:
  assumes "0 \<le> idx" "idx < int (length (dgStakes d))"
  shows "Delegatee_delStakeByIdx idx d = (Inr (Some (dgStakes d ! nat idx)),
    d\<lparr>dgStakes := take (nat idx) (dgStakes d) @ drop (nat idx + 1) (dgStakes d)\<rparr>)"
  using assms by (simp add: Delegatee_delStakeByIdx_def)

lemma sumPow_idx:
  "n < length ss \<Longrightarrow> sumPow f (take n ss @ drop (n + 1) ss) = sumPow f ss - (if f (ss ! n) then stPower (ss ! n) else 0)"
  by (subst (3) id_take_nth_drop [of n ss]) simp_all

lemma DelStakeByIdx_inv:
  assumes "delegatee_inv d"
  shows "delegatee_inv (snd (Delegatee_DelStakeByIdx idx d))"
proof (cases "0 \<le> idx \<and> idx < int (length (dgStakes d))")
  case True
  then have n: "nat idx < length (dgStakes d)"
    by linarith
  let ?d = "d\<lparr>dgStakes := take (nat idx) (dgStakes d) @ drop (nat idx + 1) (dgStakes d)\<rparr>"
  have "snd (Delegatee_DelStakeByIdx idx d) = subStakePower (Some (dgStakes d ! nat idx)) ?d"
    using True by (simp add: Delegatee_DelStakeByIdx_def delStakeByIdx_eq)
  then show ?thesis
    unfolding delegatee_inv_def
    using subStakePower_powers [of ?d, OF _ _, of _ _ "dgStakes d ! nat idx"] delegatee_invD [OF assms]
      sumPow_idx [OF n] in_set_takeD [of _ "nat idx" "dgStakes d"] in_set_dropD [of _ "nat idx + 1" "dgStakes d"]
    by auto
next
  case False
  then have "snd (Delegatee_DelStakeByIdx idx d) = d"
    by (auto simp: Delegatee_DelStakeByIdx_def Delegatee_delStakeByIdx_def subStakePower_def)
  then show ?thesis
    using assms by simp
qed

lemma delAllFold:
  fixes d :: Delegatee
  shows "dgTotalPower d = i64 t \<Longrightarrow>
      dgTotalPower (fold (\<lambda>s d. d\<lparr>dgTotalPower := i64 (dgTotalPower d - stPower s)\<rparr>) ss d) = i64 (t - sumPow (\<lambda>_. True) ss)"
    "dgSelfPower (fold (\<lambda>s d. d\<lparr>dgTotalPower := i64 (dgTotalPower d - stPower s)\<rparr>) ss d) = dgSelfPower d"
    "dgStakes (fold (\<lambda>s d. d\<lparr>dgTotalPower := i64 (dgTotalPower d - stPower s)\<rparr>) ss d) = dgStakes d"
    "dgAddr (fold (\<lambda>s d. d\<lparr>dgTotalPower := i64 (dgTotalPower d - stPower s)\<rparr>) ss d) = dgAddr d"
    "dgNotSignedHeights (fold (\<lambda>s d. d\<lparr>dgTotalPower := i64 (dgTotalPower d - stPower s)\<rparr>) ss d) = dgNotSignedHeights d"
  by (induction ss arbitrary: d t) (simp_all add: diff_diff_eq)

lemma DelAllStakes_sel:
  assumes "delegatee_inv d"
  shows "fst (Delegatee_DelAllStakes d) = dgStakes d" "dgStakes (snd (Delegatee_DelAllStakes d)) = []"
    "dgTotalPower (snd (Delegatee_DelAllStakes d)) = 0"
    "dgSelfPower (snd (Delegatee_DelAllStakes d)) = dgSelfPower d"
    "dgAddr (snd (Delegatee_DelAllStakes d)) = dgAddr d"
    "dgNotSignedHeights (snd (Delegatee_DelAllStakes d)) = dgNotSignedHeights d"
  using delAllFold(1) [of "d\<lparr>dgStakes := []\<rparr>", OF _, of "sumPow (\<lambda>_. True) (dgStakes d)"] delegatee_invD(2) [OF assms]
  by (simp_all add: Delegatee_DelAllStakes_def delAllFold(2-))

text \<open>\<^verbatim>\<open>DelAllStakes\<close> leaves the self power as it was: the powers stay right only if it is zero.\<close>

lemma DelAllStakes_inv:
  "delegatee_inv d \<Longrightarrow> delegatee_inv (snd (Delegatee_DelAllStakes d)) \<longleftrightarrow> dgSelfPower d = 0"
  by (simp add: delegatee_inv_def [of "snd (Delegatee_DelAllStakes d)"] DelAllStakes_sel)

lemma sumPowerOf_fold:
  "fold (\<lambda>s pw. if P s then i64 (pw + stPower s) else pw) ss (i64 t) = i64 (t + sumPow P ss)"
  by (induction ss arbitrary: t) (auto simp: add.assoc)

lemma sumPowerOf_eq:
  "Delegatee_sumPowerOf addr d =
     i64 (sumPow (\<lambda>s. case addr of None \<Rightarrow> True | Some a \<Rightarrow> a = stFrom s) (dgStakes d))"
  using sumPowerOf_fold [of "\<lambda>s. case addr of None \<Rightarrow> True | Some a \<Rightarrow> a = stFrom s" "dgStakes d" 0]
  by (cases addr) (simp_all add: Delegatee_sumPowerOf_def)

lemma sumPowerOf_self:
  assumes "\<forall>s \<in> set (dgStakes d). stTo s = dgAddr d"
  shows "Delegatee_sumPowerOf (Some (dgAddr d)) d = i64 (sumPow Stake_IsSelfStake (dgStakes d))"
  unfolding sumPowerOf_eq using assms
  by (intro arg_cong [of _ _ i64] sumPow_cong) (auto simp: Stake_IsSelfStake_def)

lemma slashLoop_fst:
  "fst (slashLoop ratio ss) = map (\<lambda>s. if slashedOf ratio s < 1 then s else s\<lparr>stPower := i64 (stPower s - slashedOf ratio s)\<rparr>) ss"
  "fst (snd (slashLoop ratio ss)) = filter (\<lambda>s. slashedOf ratio s < 1) ss"
  "snd (snd (slashLoop ratio ss)) = i64 (sum_list (map (slashedOf ratio) (filter (\<lambda>s. \<not> slashedOf ratio s < 1) ss)))"
  by (induction ss) (auto simp: Let_def split: prod.splits)

lemma slashLoop_eq:
  "slashLoop ratio ss =
     (map (\<lambda>s. if slashedOf ratio s < 1 then s else s\<lparr>stPower := i64 (stPower s - slashedOf ratio s)\<rparr>) ss,
      filter (\<lambda>s. slashedOf ratio s < 1) ss,
      i64 (sum_list (map (slashedOf ratio) (filter (\<lambda>s. \<not> slashedOf ratio s < 1) ss))))"
  by (simp add: prod_eq_iff slashLoop_fst)

lemma delFold:
  "fold (\<lambda>s1 d. snd (Delegatee_delStakeByHash (stTxHash s1) d)) rs d = d\<lparr>dgStakes := fold (\<lambda>s. remHash (stTxHash s)) rs (dgStakes d)\<rparr>"
  by (induction rs arbitrary: d) (simp_all add: delStakeByHash_eq)

definition slashedStakes :: "int \<Rightarrow> Stake list \<Rightarrow> Stake list" where
  "slashedStakes ratio ss =
     fold (\<lambda>s. remHash (stTxHash s)) (filter (\<lambda>s. slashedOf ratio s < 1) ss)
       (map (\<lambda>s. if slashedOf ratio s < 1 then s else s\<lparr>stPower := i64 (stPower s - slashedOf ratio s)\<rparr>) ss)"

lemma doSlashAll_eq:
  "Delegatee_doSlashAll ratio d =
     (i64 (sum_list (map (slashedOf ratio) (filter (\<lambda>s. \<not> slashedOf ratio s < 1) (dgStakes d)))),
      let d = d\<lparr>dgStakes := slashedStakes ratio (dgStakes d)\<rparr>
      in d\<lparr>dgSelfPower := Delegatee_sumPowerOf (Some (dgAddr d)) d, dgTotalPower := Delegatee_sumPowerOf None d\<rparr>)"
  by (simp add: Delegatee_doSlashAll_def slashLoop_eq delFold slashedStakes_def Let_def sumPowerOf_eq)

lemma set_fold_remHash: "set (fold (\<lambda>s. remHash (stTxHash s)) rs ss) \<subseteq> set ss"
  by (induction rs arbitrary: ss) (use set_remHash in fastforce)+

lemma DoSlash_inv:
  assumes "delegatee_inv d"
  shows "delegatee_inv (snd (Delegatee_DoSlash ratio d))"
proof -
  have to: "\<forall>s \<in> set (slashedStakes ratio (dgStakes d)). stTo s = dgAddr d"
    unfolding slashedStakes_def
    using set_fold_remHash delegatee_invD(1) [OF assms] by (fastforce split: if_splits)
  let ?d = "d\<lparr>dgStakes := slashedStakes ratio (dgStakes d)\<rparr>"
  have "Delegatee_sumPowerOf (Some (dgAddr ?d)) ?d = i64 (sumPow Stake_IsSelfStake (dgStakes ?d))"
    by (rule sumPowerOf_self) (use to in simp)
  then show ?thesis
    using to by (simp add: delegatee_inv_def Delegatee_DoSlash_def doSlashAll_eq Let_def sumPowerOf_eq)
qed

text \<open>The delegatees the operations make, starting with a new one. \<^verbatim>\<open>DelAllStakes\<close> is called when the
  self power is zero (\<^verbatim>\<open>exeUnstaking\<close>); \<^verbatim>\<open>BeginBlock\<close> calls it on a delegatee it then deletes.\<close>

inductive delegatee_reach :: "Delegatee \<Rightarrow> bool" where
  new: "delegatee_reach (NewDelegatee addr pubKey)"
| add: "delegatee_reach d \<Longrightarrow> \<forall>s \<in> set ss. stTo s = dgAddr d \<Longrightarrow> delegatee_reach (snd (Delegatee_AddStake ss d))"
| del: "delegatee_reach d \<Longrightarrow> delegatee_reach (snd (Delegatee_DelStake h d))"
| delIdx: "delegatee_reach d \<Longrightarrow> delegatee_reach (snd (Delegatee_DelStakeByIdx i d))"
| delAll: "delegatee_reach d \<Longrightarrow> dgSelfPower d = 0 \<Longrightarrow> delegatee_reach (snd (Delegatee_DelAllStakes d))"
| slash: "delegatee_reach d \<Longrightarrow> delegatee_reach (snd (Delegatee_DoSlash ratio d))"
| missed: "delegatee_reach d \<Longrightarrow> delegatee_reach (snd (Delegatee_ProcessNotSignedBlock h d))"
| window: "delegatee_reach d \<Longrightarrow> delegatee_reach (snd (Delegatee_GetNotSignedBlockCount h0 h1 d))"

lemma delegatee_inv_marks [simp]: "delegatee_inv (d\<lparr>dgNotSignedHeights := bm\<rparr>) = delegatee_inv d"
  by (simp add: delegatee_inv_def)

lemma CountInWindow_marked: "marked bm \<Longrightarrow> marked (snd (BlockMarker_CountInWindow h0 h1 rewin bm))"
  by (cases "h0 \<le> h1") (auto simp: CountInWindow_eq marked_def sorted_wrt_filter, simp add: BlockMarker_CountInWindow_def)

lemma marks_kept:
  "dgNotSignedHeights (snd (Delegatee_DelStake h d)) = dgNotSignedHeights d"
  "dgNotSignedHeights (snd (Delegatee_DelStakeByIdx i d)) = dgNotSignedHeights d"
  "dgNotSignedHeights (snd (Delegatee_DelAllStakes d)) = dgNotSignedHeights d"
  "dgNotSignedHeights (snd (Delegatee_DoSlash r d)) = dgNotSignedHeights d"
  by (simp_all add: DelStake_eq Delegatee_DelStakeByIdx_def Delegatee_delStakeByIdx_def Delegatee_DelAllStakes_def delAllFold
    Delegatee_DoSlash_def doSlashAll_eq Let_def)

lemma delegatee_reach_inv: "delegatee_reach d \<Longrightarrow> delegatee_inv d \<and> marked (dgNotSignedHeights d)"
proof (induction rule: delegatee_reach.induct)
  case (new addr pubKey)
  then show ?case
    by (simp add: NewDelegatee_def delegatee_inv_def marked_def)
qed (simp_all add: marks_kept Delegatee_AddStake_def addStake_inv DelStake_inv DelStakeByIdx_inv DelAllStakes_inv DoSlash_inv
    Delegatee_ProcessNotSignedBlock_def Delegatee_GetNotSignedBlockCount_def case_prod_beta Mark_marked CountInWindow_marked)

text \<open>C17. \<^verbatim>\<open>Delegatee\<close> (\<^verbatim>\<open>delegatee.go\<close>): after any sequence of its operations, the powers it stores
  and updates incrementally are the sums the code recomputes from its stakes, \<^verbatim>\<open>TotalPower\<close> the sum of
  all of them and \<^verbatim>\<open>SelfPower\<close> the sum of the delegatee's own, and the missed blocks are in order.\<close>

theorem Delegatee_powers_are_sums:
  assumes "delegatee_reach d"
  shows "dgTotalPower d = Delegatee_SumPower d \<and> dgSelfPower d = Delegatee_SumPowerOf (dgAddr d) d \<and>
    (\<forall>s \<in> set (dgStakes d). stTo s = dgAddr d) \<and> marked (dgNotSignedHeights d)"
  using delegatee_reach_inv [OF assms] sumPowerOf_self [of d]
  by (auto simp: delegatee_inv_def Delegatee_SumPower_def Delegatee_SumPowerOf_def sumPowerOf_eq [of None])

definition demoStake :: "bytes \<Rightarrow> bytes \<Rightarrow> int \<Rightarrow> Stake" where
  "demoStake from hash pw = NewStakeWithPower from [1] pw 5 hash"

theorem Delegatee_powers_are_sums_witness:
  "let d = snd (Delegatee_DelStake [8] (snd (Delegatee_DoSlash 50
             (snd (Delegatee_AddStake [demoStake [1] [7] 10, demoStake [2] [8] 20, demoStake [2] [9] 30] (NewDelegatee [1] []))))))
   in dgTotalPower d = 20 \<and> dgSelfPower d = 5 \<and> Delegatee_SumPower d = 20 \<and> Delegatee_SumPowerOf [1] d = 5"
proof -
  let ?start = "snd (Delegatee_AddStake [demoStake [1] [7] 10, demoStake [2] [8] 20, demoStake [2] [9] 30] (NewDelegatee [1] []))"
  let ?d = "snd (Delegatee_DelStake [8] (snd (Delegatee_DoSlash 50 ?start)))"
  have "delegatee_reach ?start"
    by (rule delegatee_reach.add [OF delegatee_reach.new]) (simp add: demoStake_def NewStakeWithPower_def NewDelegatee_def)
  from delegatee_reach.del [OF delegatee_reach.slash [OF this]] have "delegatee_reach ?d" .
  moreover have "dgAddr ?d = [1]" "dgTotalPower ?d = 20" "dgSelfPower ?d = 5"
    by (simp_all add: DelStake_eq Delegatee_DoSlash_def doSlashAll_eq Let_def Delegatee_AddStake_def NewDelegatee_def
      slashedStakes_def demoStake_def NewStakeWithPower_def slashedOf_def go_div_def i64_def sumPowerOf_eq subStakePower_def
      Stake_IsSelfStake_def)
  ultimately show ?thesis
    using Delegatee_powers_are_sums [of ?d] by (simp add: Let_def)
qed

section \<open>Slashing\<close>

lemma remHash_notin: "h \<notin> stTxHash ` set ss \<Longrightarrow> remHash h ss = ss"
  by (induction ss) auto

lemma remHash_filter:
  "distinct (map stTxHash ss) \<Longrightarrow> remHash h ss = filter (\<lambda>s. stTxHash s \<noteq> h) ss"
proof (induction ss)
  case (Cons s ss)
  have "h = stTxHash s \<Longrightarrow> filter (\<lambda>s. stTxHash s \<noteq> h) ss = ss"
    using Cons.prems by (auto simp: filter_id_conv intro: rev_image_eqI)
  with Cons show ?case
    by auto
qed simp

lemma fold_remHash:
  "distinct (map stTxHash ss) \<Longrightarrow>
   fold (\<lambda>s. remHash (stTxHash s)) rs ss = filter (\<lambda>s. stTxHash s \<notin> stTxHash ` set rs) ss"
proof (induction rs arbitrary: ss)
  case (Cons r rs)
  have "distinct (map stTxHash (remHash (stTxHash r) ss))"
    using Cons.prems by (simp add: remHash_filter distinct_map_filter)
  then show ?case
    using Cons.IH [of "remHash (stTxHash r) ss"] Cons.prems
    by (simp add: remHash_filter)
qed simp

lemma slashedOf_pos:
  assumes "0 \<le> stPower s" "0 \<le> ratio" "stPower s * ratio < 2 ^ 63"
  shows "slashedOf ratio s = stPower s * ratio div 100"
proof -
  have "0 \<le> stPower s * ratio"
    using assms by simp
  then show ?thesis
    using assms by (simp add: slashedOf_def i64_nonneg go_div_nonneg)
qed

definition slashable :: "int \<Rightarrow> Delegatee \<Rightarrow> bool" where
  "slashable ratio d \<longleftrightarrow> distinct (map stTxHash (dgStakes d)) \<and> 0 \<le> ratio \<and> ratio \<le> 100 \<and>
     (\<forall>s \<in> set (dgStakes d). 0 \<le> stPower s \<and> stPower s * ratio < 2 ^ 63) \<and> sumPow (\<lambda>_. True) (dgStakes d) < 2 ^ 63"

lemma slashable_stake:
  assumes "slashable ratio d" "s \<in> set (dgStakes d)"
  shows "slashedOf ratio s = stPower s * ratio div 100" "slashedOf ratio s < 1 \<longleftrightarrow> stPower s * ratio < 100"
    "0 \<le> slashedOf ratio s" "slashedOf ratio s \<le> stPower s"
proof -
  have p: "0 \<le> stPower s" "0 \<le> ratio" "stPower s * ratio < 2 ^ 63" "ratio \<le> 100"
    using assms by (simp_all add: slashable_def)
  show e: "slashedOf ratio s = stPower s * ratio div 100"
    using p by (simp add: slashedOf_pos)
  show "slashedOf ratio s < 1 \<longleftrightarrow> stPower s * ratio < 100"
    unfolding e by linarith
  show "0 \<le> slashedOf ratio s"
    unfolding e using p by (simp add: pos_imp_zdiv_nonneg_iff)
  have "stPower s * ratio \<le> stPower s * 100"
    using p by (simp add: mult_left_mono)
  then show "slashedOf ratio s \<le> stPower s"
    unfolding e by simp
qed

lemma slashedStakes_eq:
  assumes "slashable ratio d"
  shows "slashedStakes ratio (dgStakes d) =
    map (\<lambda>s. s\<lparr>stPower := i64 (stPower s - slashedOf ratio s)\<rparr>) (filter (\<lambda>s. \<not> slashedOf ratio s < 1) (dgStakes d))"
proof -
  let ?ss = "dgStakes d"
  let ?g = "\<lambda>s. if slashedOf ratio s < 1 then s else s\<lparr>stPower := i64 (stPower s - slashedOf ratio s)\<rparr>"
  have dist: "distinct (map stTxHash ?ss)"
    using assms by (simp add: slashable_def)
  have hash: "stTxHash (?g s) = stTxHash s" for s
    by simp
  have "slashedStakes ratio ?ss =
      filter (\<lambda>s. stTxHash s \<notin> stTxHash ` set (filter (\<lambda>s. slashedOf ratio s < 1) ?ss)) (map ?g ?ss)"
    unfolding slashedStakes_def using dist by (intro fold_remHash) (simp add: comp_def hash cong: map_cong)
  also have "\<dots> = map ?g (filter (\<lambda>s. \<not> slashedOf ratio s < 1) ?ss)"
    unfolding filter_map comp_def hash
    using dist by (intro arg_cong [of _ _ "map ?g"] filter_cong) (auto dest: inj_onD simp: distinct_map)
  also have "\<dots> = map (\<lambda>s. s\<lparr>stPower := i64 (stPower s - slashedOf ratio s)\<rparr>) (filter (\<lambda>s. \<not> slashedOf ratio s < 1) ?ss)"
    by (rule map_cong) auto
  finally show ?thesis .
qed

lemma sumPow_split:
  "sumPow (\<lambda>_. True) ss = sumPow P ss + sumPow (\<lambda>s. \<not> P s) ss"
  by (induction ss) auto

lemma sumPow_le: "\<forall>s \<in> set ss. 0 \<le> stPower s \<Longrightarrow> sumPow P ss \<le> sumPow (\<lambda>_. True) ss"
  using sumPow_nonneg [of ss "\<lambda>s. \<not> P s"] sumPow_split [of ss P] by simp

lemma sum_list_slashed:
  "sumPow (\<lambda>_. True) (map (\<lambda>s. s\<lparr>stPower := stPower s - f s\<rparr>) ss) = sumPow (\<lambda>_. True) ss - sum_list (map f ss)"
  by (induction ss) auto

lemma sumPow_member: "\<forall>s \<in> set ss. 0 \<le> stPower s \<Longrightarrow> s \<in> set ss \<Longrightarrow> stPower s \<le> sumPow (\<lambda>_. True) ss"
proof (induction ss)
  case (Cons t ss)
  then have "0 \<le> sumPow (\<lambda>_. True) ss"
    by (intro sumPow_nonneg) simp
  with Cons show ?case
    by auto
qed simp

text \<open>C20. \<^verbatim>\<open>DoSlash\<close> (\<^verbatim>\<open>delegatee.go\<close>): every stake whose slash is at least one unit of power loses it;
  a smaller stake is removed altogether. The reported amount is what the kept stakes lost: the power
  of the removed stakes is gone too and is in no account of the result.\<close>

theorem Delegatee_DoSlash_accounting:
  assumes "delegatee_inv d" "slashable ratio d"
  shows "dgStakes (snd (Delegatee_DoSlash ratio d)) =
      map (\<lambda>s. s\<lparr>stPower := stPower s - stPower s * ratio div 100\<rparr>) (filter (\<lambda>s. 100 \<le> stPower s * ratio) (dgStakes d)) \<and>
    fst (Delegatee_DoSlash ratio d) =
      sum_list (map (\<lambda>s. stPower s * ratio div 100) (filter (\<lambda>s. 100 \<le> stPower s * ratio) (dgStakes d))) \<and>
    dgTotalPower (snd (Delegatee_DoSlash ratio d)) =
      dgTotalPower d - fst (Delegatee_DoSlash ratio d) - sumPow (\<lambda>s. stPower s * ratio < 100) (dgStakes d)"
proof -
  let ?ss = "dgStakes d"
  let ?kept = "filter (\<lambda>s. 100 \<le> stPower s * ratio) ?ss"
  let ?cut = "sum_list (map (\<lambda>s. stPower s * ratio div 100) ?kept)"
  note st = slashable_stake [OF assms(2)]
  have pos: "\<forall>s \<in> set ?ss. 0 \<le> stPower s" and total: "sumPow (\<lambda>_. True) ?ss < 2 ^ 63"
    using assms(2) by (simp_all add: slashable_def)
  have kept: "filter (\<lambda>s. \<not> slashedOf ratio s < 1) ?ss = ?kept"
    by (rule filter_cong) (simp_all add: st(2) not_less)
  have pw: "i64 (stPower s - slashedOf ratio s) = stPower s - stPower s * ratio div 100" if "s \<in> set ?ss" for s
    using st [OF that] sumPow_member [OF pos that] total by (subst i64_nonneg) simp_all
  have stakes: "slashedStakes ratio ?ss = map (\<lambda>s. s\<lparr>stPower := stPower s - stPower s * ratio div 100\<rparr>) ?kept"
    unfolding slashedStakes_eq [OF assms(2)] kept by (rule map_cong) (simp_all add: pw)
  have cut: "sum_list (map (slashedOf ratio) ?kept) = ?cut"
    by (rule arg_cong [of _ _ sum_list], rule map_cong) (simp_all add: st(1))
  have split: "sumPow (\<lambda>_. True) ?ss = sumPow (\<lambda>_. True) ?kept + sumPow (\<lambda>s. stPower s * ratio < 100) ?ss"
    using sumPow_split [of ?ss "\<lambda>s. 100 \<le> stPower s * ratio"] by (simp add: sumPow_def not_le)
  have small: "0 \<le> sumPow (\<lambda>s. stPower s * ratio < 100) ?ss"
    using pos by (rule sumPow_nonneg)
  have cut0: "0 \<le> ?cut" "?cut \<le> sumPow (\<lambda>_. True) ?kept"
    using st(1,3,4) unfolding sumPow_def by (auto intro!: sum_list_nonneg sum_list_mono)
  show ?thesis
    using total split small cut0 delegatee_invD(2) [OF assms(1)]
    by (simp add: Delegatee_DoSlash_def doSlashAll_eq Let_def kept cut stakes sumPowerOf_eq sum_list_slashed i64_nonneg)
qed

theorem Delegatee_DoSlash_accounting_witness:
  "let d = Delegatee_addStake [demoStake [1] [7] 10, demoStake [2] [8] 1] (NewDelegatee [1] [])
   in fst (Delegatee_DoSlash 50 d) = 5 \<and> dgTotalPower d = 11 \<and> dgTotalPower (snd (Delegatee_DoSlash 50 d)) = 5"
proof -
  let ?e = "Delegatee_addStake [demoStake [1] [7] 10, demoStake [2] [8] 1] (NewDelegatee [1] [])"
  have "delegatee_inv ?e"
    by (rule addStake_inv) (simp_all add: NewDelegatee_def delegatee_inv_def demoStake_def NewStakeWithPower_def)
  moreover have "slashable 50 ?e"
    by (simp add: slashable_def NewDelegatee_def demoStake_def NewStakeWithPower_def)
  moreover have "dgTotalPower ?e = 11"
    by (simp add: Delegatee_addStake_def addStakePower_def NewDelegatee_def demoStake_def NewStakeWithPower_def
      Stake_IsSelfStake_def i64_def)
  ultimately show ?thesis
    using Delegatee_DoSlash_accounting [of ?e 50]
    by (simp add: Let_def NewDelegatee_def demoStake_def NewStakeWithPower_def)
qed

end
