(* ===== verification/Rigo_LimiterProps.thy ===== *)
theory Rigo_LimiterProps
  imports Rigo_StakeProps
begin

text \<open>The stake limiter and the reward object.\<close>

section \<open>The limiter\<close>

lemma findPowerObjLoop_eq:
  "findPowerObjLoop addr i ps =
     (case List.find (\<lambda>p. poAddr p = addr) ps of
        None \<Rightarrow> (- 1, None)
      | Some p \<Rightarrow> (i + int (length (takeWhile (\<lambda>p. poAddr p \<noteq> addr) ps)), Some p))"
  by (induction ps arbitrary: i) (auto split: option.split)

lemma find_powerObj_nth:
  "List.find (\<lambda>p. poAddr p = addr) ps = Some p \<Longrightarrow>
   length (takeWhile (\<lambda>p. poAddr p \<noteq> addr) ps) < length ps \<and>
   ps ! length (takeWhile (\<lambda>p. poAddr p \<noteq> addr) ps) = p \<and> poAddr p = addr"
  by (induction ps) (auto split: if_splits)

lemma mset_addr_update:
  "n < length ps \<Longrightarrow> ps ! n = p \<Longrightarrow> map poAddr (ps[n := p\<lparr>poPower := w\<rparr>]) = map poAddr ps"
  by (simp add: map_update list_update_same_conv)

text \<open>The second check either rejects and changes nothing, or the ratio is within the limit and the
  power of the object is changed, which is rejected when it gets negative.\<close>

definition limiterObj :: "powerObj option \<Rightarrow> Delegatee \<Rightarrow> powerObj" where
  "limiterObj o1 delg = (case o1 of None \<Rightarrow> \<lparr>poAddr = dgAddr delg, poPower = dgTotalPower delg\<rparr> | Some p \<Rightarrow> p)"

definition limiterObjs :: "int \<Rightarrow> powerObj \<Rightarrow> int \<Rightarrow> StakeLimiter \<Rightarrow> powerObj list" where
  "limiterObjs ridx powObj pw sl =
     (if ridx < 0 then slPowerObjs sl else (slPowerObjs sl)[nat ridx := powObj\<lparr>poPower := pw\<rparr>])"

lemma checkUpdatable_steps:
  assumes "StakeLimiter_findPowerObj (dgAddr delg) sl = (ridx, o1)"
  shows "(\<exists>e. StakeLimiter_checkUpdatablePowerLimit delg diff sl = (Inl e, sl)) \<or>
    (\<exists>up. poPower (limiterObj o1 delg) = dgTotalPower delg \<and> slBaseTotalPower sl \<noteq> 0 \<and>
       go_div (i64 (up * 100)) (slBaseTotalPower sl) \<le> slUpdatableLimitRatio sl \<and>
       StakeLimiter_checkUpdatablePowerLimit delg diff sl =
         (let pw = i64 (dgTotalPower delg + diff);
              ps = limiterObjs ridx (limiterObj o1 delg) pw sl
          in if pw < 0 then (Inl (Error (xerrors_NewOrdinary ''StakeLimiter error: power(%v) of %v is negative'')), sl\<lparr>slPowerObjs := ps\<rparr>)
             else (Inr (), sl\<lparr>slUpdatedPower := up, slPowerObjs := go_sort orderedPowerObj_Less ps\<rparr>)))"
proof -
  let ?o = "limiterObj o1 delg"
  note d = StakeLimiter_checkUpdatablePowerLimit_def assms Let_def limiterObj_def [symmetric]
  show ?thesis
  proof (cases "poPower ?o = dgTotalPower delg")
    case False
    then show ?thesis
      by (intro disjI1) (simp add: d)
  next
    case True
    note same = True
    show ?thesis
    proof (cases "updatedPowerBy ridx ?o diff sl")
      case (Inl e)
      then show ?thesis
        using same by (intro disjI1) (simp add: d)
    next
      case (Inr up)
      show ?thesis
      proof (cases "slBaseTotalPower sl = 0 \<or> slUpdatableLimitRatio sl < go_div (i64 (up * 100)) (slBaseTotalPower sl)")
        case True
        then show ?thesis
          using same Inr by (intro disjI1) (auto simp: d go_quo_def)
      next
        case False
        then show ?thesis
          using same Inr by (intro disjI2 exI [of _ up]) (simp add: d go_quo_def not_less limiterObjs_def)
      qed
    qed
  qed
qed

lemma limiterObjs_found:
  assumes "StakeLimiter_findPowerObj (dgAddr delg) sl = (ridx, o1)"
  shows "map poAddr (limiterObjs ridx (limiterObj o1 delg) pw sl) = map poAddr (slPowerObjs sl)"
    and "distinct (map poAddr (slPowerObjs sl)) \<Longrightarrow> p \<in> set (limiterObjs ridx (limiterObj o1 delg) pw sl) \<Longrightarrow>
      poAddr p = dgAddr delg \<Longrightarrow> poPower p = pw"
proof -
  let ?ps = "slPowerObjs sl"
  have "map poAddr (limiterObjs ridx (limiterObj o1 delg) pw sl) = map poAddr ?ps \<and>
      (distinct (map poAddr ?ps) \<longrightarrow> p \<in> set (limiterObjs ridx (limiterObj o1 delg) pw sl) \<longrightarrow>
        poAddr p = dgAddr delg \<longrightarrow> poPower p = pw)"
  proof (cases "List.find (\<lambda>p. poAddr p = dgAddr delg) ?ps")
    case None
    then have "ridx = - 1"
      using assms by (simp add: StakeLimiter_findPowerObj_def findPowerObjLoop_eq)
    then show ?thesis
      using None by (auto simp: limiterObjs_def find_None_iff)
  next
    case (Some q)
    define n where "n = length (takeWhile (\<lambda>p. poAddr p \<noteq> dgAddr delg) ?ps)"
    have n: "n < length ?ps" "?ps ! n = q" "poAddr q = dgAddr delg"
      using find_powerObj_nth [OF Some] by (simp_all add: n_def)
    have e: "limiterObjs ridx (limiterObj o1 delg) pw sl = ?ps[n := q\<lparr>poPower := pw\<rparr>]"
    proof -
      have "ridx = int n" "o1 = Some q"
        using assms Some by (simp_all add: StakeLimiter_findPowerObj_def findPowerObjLoop_eq n_def)
      then show ?thesis
        by (simp add: limiterObjs_def limiterObj_def)
    qed
    have "poPower p = pw" if dist: "distinct (map poAddr ?ps)" and p: "p \<in> set (?ps[n := q\<lparr>poPower := pw\<rparr>])" "poAddr p = dgAddr delg"
    proof -
      obtain m where m: "m < length ?ps" "p = ?ps[n := q\<lparr>poPower := pw\<rparr>] ! m"
        using p(1) by (auto simp: in_set_conv_nth)
      have "poAddr (?ps ! m) = poAddr (?ps ! n)"
        using m n p(2) by (cases "m = n") simp_all
      then have "m = n"
        using dist m(1) n(1) by (simp add: distinct_conv_nth) metis
      then show ?thesis
        using m by simp
    qed
    then show ?thesis
      using mset_addr_update [OF n(1,2), of pw] by (simp add: e)
  qed
  then show "map poAddr (limiterObjs ridx (limiterObj o1 delg) pw sl) = map poAddr ?ps"
    "distinct (map poAddr ?ps) \<Longrightarrow> p \<in> set (limiterObjs ridx (limiterObj o1 delg) pw sl) \<Longrightarrow>
      poAddr p = dgAddr delg \<Longrightarrow> poPower p = pw"
    by blast+
qed

text \<open>A sequence of checks, accepted or not: CheckTx and DeliverTx share the limiter.\<close>

definition limiter_run :: "(Delegatee \<times> int) list \<Rightarrow> StakeLimiter \<Rightarrow> StakeLimiter" where
  "limiter_run calls sl = fold (\<lambda>(delg, diff) sl. snd (StakeLimiter_CheckLimit delg diff sl)) calls sl"

definition limiter_inv :: "Delegatee list \<Rightarrow> int \<Rightarrow> int \<Rightarrow> StakeLimiter \<Rightarrow> bool" where
  "limiter_inv delgs base limit sl \<longleftrightarrow>
     slBaseTotalPower sl = base \<and> slUpdatableLimitRatio sl = limit \<and>
     mset (map poAddr (slPowerObjs sl)) = mset (map dgAddr delgs) \<and>
     (base \<noteq> 0 \<longrightarrow> go_div (i64 (slUpdatedPower sl * 100)) base \<le> limit)"

lemma limiter_inv_check:
  assumes "limiter_inv delgs base limit sl"
  shows "limiter_inv delgs base limit (snd (StakeLimiter_CheckLimit delg diff sl))"
proof -
  obtain ridx o1 where f: "StakeLimiter_findPowerObj (dgAddr delg) sl = (ridx, o1)"
    by (rule prod.exhaust)
  have addrs: "mset (map poAddr (limiterObjs ridx (limiterObj o1 delg) pw sl)) = mset (map dgAddr delgs)" for pw
    using limiterObjs_found(1) [OF f] assms unfolding limiter_inv_def by metis
  have "limiter_inv delgs base limit (snd (StakeLimiter_checkUpdatablePowerLimit delg diff sl))"
    using checkUpdatable_steps [OF f, of diff]
  proof (elim disjE exE conjE)
    fix up
    let ?pw = "i64 (dgTotalPower delg + diff)"
    assume a: "go_div (i64 (up * 100)) (slBaseTotalPower sl) \<le> slUpdatableLimitRatio sl"
      and eq: "StakeLimiter_checkUpdatablePowerLimit delg diff sl =
         (let pw = ?pw; ps = limiterObjs ridx (limiterObj o1 delg) pw sl
          in if pw < 0 then (Inl (Error (xerrors_NewOrdinary ''StakeLimiter error: power(%v) of %v is negative'')), sl\<lparr>slPowerObjs := ps\<rparr>)
             else (Inr (), sl\<lparr>slUpdatedPower := up, slPowerObjs := go_sort orderedPowerObj_Less ps\<rparr>))"
    show ?thesis
      using assms addrs [of ?pw] a unfolding eq Let_def limiter_inv_def
      by (cases "?pw < 0") simp_all
  qed (use assms in simp)
  then show ?thesis
    using assms by (simp add: StakeLimiter_CheckLimit_def split: sum.split)
qed

lemma limiter_run_inv: "limiter_inv delgs base limit sl \<Longrightarrow> limiter_inv delgs base limit (limiter_run calls sl)"
  unfolding limiter_run_def
  by (induction calls arbitrary: sl) (auto intro: limiter_inv_check)

lemma basePower_eq:
  "basePower n i ds (i64 t) = i64 (t + sum_list (map dgTotalPower (take (nat (n - i)) ds)))"
proof (induction ds arbitrary: i t)
  case (Cons d ds)
  show ?case
  proof (cases "i < n")
    case True
    then have "nat (n - i) = Suc (nat (n - (i + 1)))"
      by simp
    then show ?thesis
      using True Cons.IH [of "i + 1" "t + dgTotalPower d"] by (simp add: add.assoc)
  next
    case False
    then show ?thesis
      using Cons.IH [of "i + 1" t] by simp
  qed
qed simp

lemma reset_inv:
  assumes "0 \<le> limit"
  shows "limiter_inv delgs (i64 (sum_list (map dgTotalPower (take (nat maxCnt) delgs)))) limit
    (StakeLimiter_Reset delgs maxCnt indi limit sl)"
  using assms basePower_eq [of maxCnt 0 delgs 0]
  by (simp add: limiter_inv_def StakeLimiter_Reset_def StakeLimiter_reset_def comp_def go_div_def)


definition demoDelg :: "byte \<Rightarrow> int \<Rightarrow> Delegatee" where
  "demoDelg a pw = (NewDelegatee [a] [a])\<lparr>dgTotalPower := pw\<rparr>"

lemma demoDelg_sel [simp]: "dgAddr (demoDelg a pw) = [a]" "dgTotalPower (demoDelg a pw) = pw"
  by (simp_all add: demoDelg_def NewDelegatee_def)


section \<open>Rewards\<close>

datatype rewardOp = OpIssue u256 | OpWithdraw u256 | OpSlash u256

fun reward_op :: "int \<Rightarrow> rewardOp \<Rightarrow> Reward \<Rightarrow> unit res \<times> Reward" where
  "reward_op h (OpIssue r) rwd = Reward_Issue r h rwd"
| "reward_op h (OpWithdraw r) rwd = Reward_Withdraw r h rwd"
| "reward_op h (OpSlash r) rwd = Reward_Slash r h rwd"

fun reward_run :: "(int \<times> rewardOp) list \<Rightarrow> Reward \<Rightarrow> unit res \<times> Reward" where
  "reward_run [] rwd = (Inr (), rwd)"
| "reward_run ((h, p) # ps) rwd = bindE (reward_op h p rwd) (\<lambda>_ rwd. reward_run ps rwd)"

text \<open>What the operations should leave to withdraw, as integers, and that no operation takes more
  than there is.\<close>

fun reward_left :: "int \<Rightarrow> (int \<times> rewardOp) list \<Rightarrow> int option" where
  "reward_left c [] = Some c"
| "reward_left c ((h, OpIssue r) # ps) = (if c + uint r < 2 ^ 256 then reward_left (c + uint r) ps else None)"
| "reward_left c ((h, OpWithdraw r) # ps) = (if uint r \<le> c then reward_left (c - uint r) ps else None)"
| "reward_left c ((h, OpSlash r) # ps) = (if uint r \<le> c then reward_left (c - uint r) ps else None)"

lemma reward_op_ok:
  assumes "rwHeight rwd \<le> h"
  shows "\<exists>rwd'. reward_op h p rwd = (Inr (), rwd') \<and> rwHeight rwd' = h \<and> rwAddress rwd' = rwAddress rwd \<and>
    rwCumulated rwd' = (case p of OpIssue r \<Rightarrow> rwCumulated rwd + r | OpWithdraw r \<Rightarrow> rwCumulated rwd - r | OpSlash r \<Rightarrow> rwCumulated rwd - r)"
  using assms by (cases p) (auto simp: Reward_Issue_def Reward_Withdraw_def Reward_Slash_def)

lemma reward_op_panics: "h < rwHeight rwd \<Longrightarrow> reward_op h p rwd = (Inl rewardHeightPanic, rwd)"
  by (cases p) (simp_all add: Reward_Issue_def Reward_Withdraw_def Reward_Slash_def)

text \<open>C21. \<^verbatim>\<open>Reward\<close> (\<^verbatim>\<open>reward.go\<close>): a sequence of operations at heights that never go back runs to its
  end without a panic and leaves exactly what was issued minus what was withdrawn and slashed,
  provided no operation takes more than there is; an operation at an earlier height panics and
  changes nothing.\<close>

theorem Reward_accounting:
  assumes "sorted (rwHeight rwd # map fst ps)" "reward_left (uint (rwCumulated rwd)) ps = Some c"
  shows "\<exists>rwd'. reward_run ps rwd = (Inr (), rwd') \<and> uint (rwCumulated rwd') = c \<and> rwAddress rwd' = rwAddress rwd \<and>
    rwHeight rwd' = last (rwHeight rwd # map fst ps) \<and>
    (\<forall>h p. h < rwHeight rwd' \<longrightarrow> reward_op h p rwd' = (Inl rewardHeightPanic, rwd'))"
  using assms
proof (induction ps arbitrary: rwd)
  case Nil
  then show ?case
    by (auto simp: reward_op_panics)
next
  case (Cons a ps)
  obtain h p where a: "a = (h, p)"
    by (rule prod.exhaust)
  obtain rwd1 where op: "reward_op h p rwd = (Inr (), rwd1)" "rwHeight rwd1 = h" "rwAddress rwd1 = rwAddress rwd"
    "rwCumulated rwd1 = (case p of OpIssue r \<Rightarrow> rwCumulated rwd + r | OpWithdraw r \<Rightarrow> rwCumulated rwd - r | OpSlash r \<Rightarrow> rwCumulated rwd - r)"
    using reward_op_ok [of rwd h p] Cons.prems(1) a by auto
  have "reward_left (uint (rwCumulated rwd1)) ps = Some c"
    using Cons.prems(2) op(4)
    by (cases p) (simp_all add: a uint_u256_add uint_u256_sub_int split: if_splits)
  moreover have "sorted (rwHeight rwd1 # map fst ps)"
    using Cons.prems(1) by (simp add: a op(2))
  ultimately show ?case
    using Cons.IH [of rwd1] op by (simp add: a)
qed

theorem Reward_accounting_witness:
  "\<exists>rwd'. reward_run [(5, OpIssue 10), (5, OpWithdraw 4), (6, OpIssue 3)] (NewReward [1]) = (Inr (), rwd') \<and>
     uint (rwCumulated rwd') = 9 \<and> rwHeight rwd' = 6"
proof -
  have "sorted (rwHeight (NewReward [1]) # map fst [(5 :: int, OpIssue 10), (5, OpWithdraw 4), (6, OpIssue 3)])"
    "reward_left (uint (rwCumulated (NewReward [1]))) [(5, OpIssue 10), (5, OpWithdraw 4), (6, OpIssue 3)] = Some 9"
    by (simp_all add: NewReward_def)
  from Reward_accounting [OF this] show ?thesis
    by auto
qed

text \<open>C22. \<^verbatim>\<open>Reward\<close> (\<^verbatim>\<open>reward.go\<close>): \<^verbatim>\<open>issued\<close>, \<^verbatim>\<open>withdrawn\<close> and \<^verbatim>\<open>slashed\<close> are amounts of the block
  \<^verbatim>\<open>height\<close>, but they share that one height. Once \<^verbatim>\<open>Issue\<close> has moved it, as it does at the begin of
  every block, a withdrawal of the block is added to the amount of an earlier block.\<close>

theorem Reward_withdrawn_stale:
  assumes "rwHeight rwd < h"
  shows "(let rwd' = snd (reward_run [(h, OpIssue r), (h, OpWithdraw w)] rwd)
          in rwHeight rwd' = h \<and> rwIssued rwd' = r \<and> rwWithdrawn rwd' = rwWithdrawn rwd + w) \<and>
    rwWithdrawn (snd (Reward_Withdraw w h rwd)) = w"
  using assms by (simp add: Reward_Issue_def Reward_Withdraw_def Let_def)

theorem Reward_withdrawn_stale_witness:
  "rwWithdrawn (snd (reward_run [(5, OpIssue 10), (5, OpWithdraw 4), (6, OpIssue 3), (6, OpWithdraw 2)] (NewReward [1]))) = 6"
  using Reward_withdrawn_stale [of "snd (reward_run [(5, OpIssue 10), (5, OpWithdraw 4)] (NewReward [1]))" 6 3 2]
  by (simp add: Reward_Issue_def Reward_Withdraw_def NewReward_def Let_def)

end
