(* ===== verification/Rigo_MetaDB.thy ===== *)
theory Rigo_MetaDB
  imports Rigo_Ctx Rigo_Codec
begin

text \<open>
  The store of the node's own records, \<^verbatim>\<open>src/ctrlers/types/meta_db.go\<close>: a cache in front of a
  key-value database. The database is not part of the repository: it is the record \<open>dbOps\<close> of the
  operations used, and \<open>db_laws\<close> is what a database that does not fail does. A nil slice is \<open>None\<close>.
\<close>

record 'd dbOps =
  dbGet :: "'d \<Rightarrow> bytes \<Rightarrow> string + bytes option"
  dbSetSync :: "'d \<Rightarrow> bytes \<Rightarrow> bytes \<Rightarrow> string + 'd"

definition db_laws :: "'d dbOps \<Rightarrow> ('d \<Rightarrow> bytes \<rightharpoonup> bytes) \<Rightarrow> bool" where
  "db_laws D A \<longleftrightarrow> (\<forall>d k. dbGet D d k = Inr (A d k)) \<and>
     (\<forall>d k v. \<exists>d'. dbSetSync D d k v = Inr d' \<and> A d' = (A d)(k \<mapsto> v))"

definition keyChainID :: string where "keyChainID = ''ci''"
definition keyBlockHeight :: string where "keyBlockHeight = ''bh''"
definition keyBlockContext :: string where "keyBlockContext = ''bc''"
definition keyBlockAppHash :: string where "keyBlockAppHash = ''ah''"
definition keyRewardHash :: string where "keyRewardHash = ''rh''"

record 'd MetaDB =
  mdb :: 'd
  mdbCache :: "(string \<times> bytes option) list"

definition OpenMetaDB :: "'d \<Rightarrow> 'd MetaDB" where
  "OpenMetaDB db = \<lparr>mdb = db, mdbCache = []\<rparr>"

definition MetaDB_putCache :: "string \<Rightarrow> bytes option \<Rightarrow> 'd MetaDB \<Rightarrow> 'd MetaDB" where
  "MetaDB_putCache k v stdb = stdb\<lparr>mdbCache := AList.update k v (mdbCache stdb)\<rparr>"

definition MetaDB_getCache :: "string \<Rightarrow> 'd MetaDB \<Rightarrow> bytes option" where
  "MetaDB_getCache k stdb = (case map_of (mdbCache stdb) k of None \<Rightarrow> None | Some v \<Rightarrow> v)"

definition MetaDB_get :: "'d dbOps \<Rightarrow> string \<Rightarrow> 'd MetaDB \<Rightarrow> bytes option \<times> 'd MetaDB" where
  "MetaDB_get D k stdb =
     (case MetaDB_getCache k stdb of
        Some v \<Rightarrow> (Some v, stdb)
      | None \<Rightarrow>
          (case dbGet D (mdb stdb) (str_bytes k) of
             Inr v \<Rightarrow> (v, MetaDB_putCache k v stdb)
           | Inl err \<Rightarrow> (None, stdb)))"

definition MetaDB_put :: "'d dbOps \<Rightarrow> string \<Rightarrow> bytes \<Rightarrow> 'd MetaDB \<Rightarrow> unit res \<times> 'd MetaDB" where
  "MetaDB_put D k v stdb =
     (case dbSetSync D (mdb stdb) (str_bytes k) v of
        Inl err \<Rightarrow> (Inl (Error (PlainError err)), stdb)
      | Inr db \<Rightarrow> (Inr (), MetaDB_putCache k (Some v) (stdb\<lparr>mdb := db\<rparr>)))"

definition MetaDB_ChainID :: "'d dbOps \<Rightarrow> 'd MetaDB \<Rightarrow> string \<times> 'd MetaDB" where
  "MetaDB_ChainID D stdb =
     (let (v, stdb) = MetaDB_get D keyChainID stdb in (case v of None \<Rightarrow> '''' | Some b \<Rightarrow> field_str b, stdb))"

definition MetaDB_PutChainID :: "'d dbOps \<Rightarrow> string \<Rightarrow> 'd MetaDB \<Rightarrow> unit res \<times> 'd MetaDB" where
  "MetaDB_PutChainID D chainId stdb = MetaDB_put D keyChainID (str_bytes chainId) stdb"

text \<open>\<^verbatim>\<open>binary.BigEndian\<close>: eight bytes; reading a shorter slice panics, the rest of a longer one is
  not read.\<close>

definition PutUint64 :: "u64 \<Rightarrow> bytes" where
  "PutUint64 w = map (\<lambda>i. word_of_int (uint w div 256 ^ (7 - i))) [0..<8]"

definition BE_Uint64 :: "bytes \<Rightarrow> u64 res" where
  "BE_Uint64 b =
     (if length b < 8 then Inl (Panic ''runtime error: index out of range'')
      else Inr (word_of_int (foldl (\<lambda>acc x. acc * 256 + uint x) 0 (take 8 b))))"

lemma be_digits:
  fixes x :: int
  assumes "n \<le> 8"
  shows "foldl (\<lambda>acc b. acc * 256 + uint b) 0 (map (\<lambda>i. word_of_int (x div 256 ^ (7 - i)) :: byte) [0..<n]) =
    x div 256 ^ (8 - n) mod 256 ^ n"
  using assms
proof (induction n)
  case (Suc n)
  let ?y = "x div 256 ^ (7 - n)"
  have "x div 256 ^ (8 - n) = ?y div 256"
    using Suc.prems by (simp add: zdiv_zmult2_eq [symmetric] power_Suc2 [symmetric] Suc_diff_le flip: Suc_diff_Suc)
  moreover have "?y mod 256 ^ Suc n = (?y div 256 mod 256 ^ n) * 256 + ?y mod 256"
    by (simp add: zmod_zmult2_eq mult.commute)
  moreover have "uint (word_of_int ?y :: byte) = ?y mod 256"
    by (simp add: uint_word_of_int)
  ultimately show ?case
    using Suc by simp
qed simp

lemma BE_Uint64_Put: "BE_Uint64 (PutUint64 w) = Inr w"
proof -
  have "uint w < 256 ^ 8"
    using uint_lt2p [of w] by simp
  then have "uint w mod 256 ^ 8 = uint w"
    by (intro mod_pos_pos_trivial) simp_all
  then show ?thesis
    using be_digits [of 8 "uint w"] by (simp add: BE_Uint64_def PutUint64_def del: upt_rec_numeral)
qed

definition MetaDB_LastBlockHeight :: "'d dbOps \<Rightarrow> 'd MetaDB \<Rightarrow> int res \<times> 'd MetaDB" where
  "MetaDB_LastBlockHeight D stdb =
     (let (v, stdb) = MetaDB_get D keyBlockHeight stdb
      in (case v of None \<Rightarrow> Inr 0 | Some b \<Rightarrow> map_sum id i64_of_u64 (BE_Uint64 b), stdb))"

definition MetaDB_PutLastBlockHeight :: "'d dbOps \<Rightarrow> int \<Rightarrow> 'd MetaDB \<Rightarrow> unit res \<times> 'd MetaDB" where
  "MetaDB_PutLastBlockHeight D bh stdb = MetaDB_put D keyBlockHeight (PutUint64 (u64_of_i64 bh)) stdb"

definition MetaDB_LastBlockAppHash :: "'d dbOps \<Rightarrow> 'd MetaDB \<Rightarrow> bytes option \<times> 'd MetaDB" where
  "MetaDB_LastBlockAppHash D stdb = MetaDB_get D keyBlockAppHash stdb"

definition MetaDB_PutLastBlockAppHash :: "'d dbOps \<Rightarrow> bytes \<Rightarrow> 'd MetaDB \<Rightarrow> unit res \<times> 'd MetaDB" where
  "MetaDB_PutLastBlockAppHash D v stdb = MetaDB_put D keyBlockAppHash v stdb"

definition MetaDB_LastRewardHash :: "'d dbOps \<Rightarrow> 'd MetaDB \<Rightarrow> bytes option \<times> 'd MetaDB" where
  "MetaDB_LastRewardHash D stdb = MetaDB_get D keyRewardHash stdb"

definition MetaDB_PutLastRewardHash :: "'d dbOps \<Rightarrow> bytes \<Rightarrow> 'd MetaDB \<Rightarrow> unit res \<times> 'd MetaDB" where
  "MetaDB_PutLastRewardHash D v stdb = MetaDB_put D keyRewardHash v stdb"

text \<open>The JSON form of the block context is a parameter: \<open>J\<close> marshals, \<open>U\<close> unmarshals.\<close>

definition MetaDB_LastBlockContext :: "'d dbOps \<Rightarrow> (bytes \<Rightarrow> string + BlockContext) \<Rightarrow> 'd MetaDB \<Rightarrow> BlockContext option \<times> 'd MetaDB" where
  "MetaDB_LastBlockContext D U stdb =
     (let (bz, stdb) = MetaDB_get D keyBlockContext stdb
      in (case bz of None \<Rightarrow> None | Some b \<Rightarrow> (case U b of Inl err \<Rightarrow> None | Inr ret \<Rightarrow> Some ret), stdb))"

definition MetaDB_PutLastBlockContext :: "'d dbOps \<Rightarrow> (BlockContext \<Rightarrow> string + bytes) \<Rightarrow> BlockContext \<Rightarrow> 'd MetaDB \<Rightarrow> unit res \<times> 'd MetaDB" where
  "MetaDB_PutLastBlockContext D J ctx stdb =
     (case J ctx of
        Inl err \<Rightarrow> (Inl (Error (PlainError err)), stdb)
      | Inr bz \<Rightarrow> MetaDB_put D keyBlockContext bz stdb)"

section \<open>The cache and the database\<close>

text \<open>The cached values are those of the database, so reading gives what was put last.\<close>

definition mdb_inv :: "'d dbOps \<Rightarrow> ('d \<Rightarrow> bytes \<rightharpoonup> bytes) \<Rightarrow> 'd MetaDB \<Rightarrow> bool" where
  "mdb_inv D A stdb \<longleftrightarrow> db_laws D A \<and>
     (\<forall>k v. map_of (mdbCache stdb) k = Some (Some v) \<longrightarrow> A (mdb stdb) (str_bytes k) = Some v)"

lemma str_bytes_inj: "str_bytes a = str_bytes b \<longleftrightarrow> a = b"
  by (metis field_str_bytes)

lemma mdb_get:
  assumes "mdb_inv D A stdb"
  shows "fst (MetaDB_get D k stdb) = A (mdb stdb) (str_bytes k)" "mdb_inv D A (snd (MetaDB_get D k stdb))"
    "mdb (snd (MetaDB_get D k stdb)) = mdb stdb"
proof -
  have g: "dbGet D (mdb stdb) (str_bytes k) = Inr (A (mdb stdb) (str_bytes k))"
    using assms by (simp add: mdb_inv_def db_laws_def)
  show "fst (MetaDB_get D k stdb) = A (mdb stdb) (str_bytes k)" "mdb_inv D A (snd (MetaDB_get D k stdb))"
    "mdb (snd (MetaDB_get D k stdb)) = mdb stdb"
    using assms g
    by (auto simp: MetaDB_get_def MetaDB_getCache_def MetaDB_putCache_def mdb_inv_def update_conv' split: option.splits if_splits)
qed

lemma mdb_put:
  assumes "mdb_inv D A stdb"
  shows "fst (MetaDB_put D k v stdb) = Inr ()" "mdb_inv D A (snd (MetaDB_put D k v stdb))"
    "A (mdb (snd (MetaDB_put D k v stdb))) = (A (mdb stdb))(str_bytes k \<mapsto> v)"
proof -
  obtain d' where d: "dbSetSync D (mdb stdb) (str_bytes k) v = Inr d'" "A d' = (A (mdb stdb))(str_bytes k \<mapsto> v)"
    using assms unfolding mdb_inv_def db_laws_def by blast
  show "fst (MetaDB_put D k v stdb) = Inr ()" "A (mdb (snd (MetaDB_put D k v stdb))) = (A (mdb stdb))(str_bytes k \<mapsto> v)"
    using d by (simp_all add: MetaDB_put_def MetaDB_putCache_def)
  show "mdb_inv D A (snd (MetaDB_put D k v stdb))"
    using assms d by (auto simp: mdb_inv_def MetaDB_put_def MetaDB_putCache_def update_conv' str_bytes_inj)
qed

lemma i64_u64_roundtrip: "in_i64 h \<Longrightarrow> i64_of_u64 (u64_of_i64 h) = h"
  by (simp add: i64_of_u64_def u64_of_i64_def in_i64_def sint_sbintrunc' signed_take_bit_int_eq_self)

lemma mdb_open: "db_laws D A \<Longrightarrow> mdb_inv D A (OpenMetaDB d)" "mdb (OpenMetaDB d) = d"
  by (simp_all add: mdb_inv_def OpenMetaDB_def)

lemmas mdb_keys = keyChainID_def keyBlockHeight_def keyBlockAppHash_def keyRewardHash_def keyBlockContext_def

text \<open>What the readers return is determined by the contents of the database.\<close>

lemma mdb_readers:
  assumes "mdb_inv D A stdb"
  shows "fst (MetaDB_ChainID D stdb) = (case A (mdb stdb) (str_bytes keyChainID) of None \<Rightarrow> '''' | Some b \<Rightarrow> field_str b)"
    "fst (MetaDB_LastBlockHeight D stdb) =
       (case A (mdb stdb) (str_bytes keyBlockHeight) of None \<Rightarrow> Inr 0 | Some b \<Rightarrow> map_sum id i64_of_u64 (BE_Uint64 b))"
    "fst (MetaDB_LastBlockAppHash D stdb) = A (mdb stdb) (str_bytes keyBlockAppHash)"
    "fst (MetaDB_LastRewardHash D stdb) = A (mdb stdb) (str_bytes keyRewardHash)"
  using mdb_get(1) [OF assms]
  by (simp_all add: MetaDB_ChainID_def MetaDB_LastBlockHeight_def MetaDB_LastBlockAppHash_def MetaDB_LastRewardHash_def case_prod_beta)

definition MetaDB_putAll :: "'d dbOps \<Rightarrow> string \<Rightarrow> int \<Rightarrow> bytes \<Rightarrow> bytes \<Rightarrow> 'd MetaDB \<Rightarrow> 'd MetaDB" where
  "MetaDB_putAll D chainId h appHash rwdHash stdb =
     snd (MetaDB_PutLastBlockAppHash D appHash (snd (MetaDB_PutLastBlockHeight D h
       (snd (MetaDB_PutLastRewardHash D rwdHash (snd (MetaDB_PutChainID D chainId stdb)))))))"

lemma mdb_putAll:
  assumes "mdb_inv D A stdb"
  shows "mdb_inv D A (MetaDB_putAll D chainId h appHash rwdHash stdb)"
    "A (mdb (MetaDB_putAll D chainId h appHash rwdHash stdb)) =
      (A (mdb stdb))(str_bytes keyChainID \<mapsto> str_bytes chainId, str_bytes keyRewardHash \<mapsto> rwdHash,
        str_bytes keyBlockHeight \<mapsto> PutUint64 (u64_of_i64 h), str_bytes keyBlockAppHash \<mapsto> appHash)"
  using assms
  unfolding MetaDB_putAll_def MetaDB_PutLastBlockAppHash_def MetaDB_PutLastBlockHeight_def
    MetaDB_PutLastRewardHash_def MetaDB_PutChainID_def
  by (simp add: mdb_put(2), simp only: mdb_put(2,3))

text \<open>C23. \<^verbatim>\<open>MetaDB\<close> (\<^verbatim>\<open>meta_db.go\<close>): the records put are the records read, through the cache as well as
  after the database was opened again with an empty cache, for every 64-bit height.\<close>

theorem MetaDB_roundtrip:
  assumes "mdb_inv D A stdb" "in_i64 h"
    and "db = MetaDB_putAll D chainId h appHash rwdHash stdb \<or> db = OpenMetaDB (mdb (MetaDB_putAll D chainId h appHash rwdHash stdb))"
  shows "fst (MetaDB_ChainID D db) = chainId \<and> fst (MetaDB_LastBlockHeight D db) = Inr h \<and>
    fst (MetaDB_LastBlockAppHash D db) = Some appHash \<and> fst (MetaDB_LastRewardHash D db) = Some rwdHash"
proof -
  have laws: "db_laws D A"
    using assms(1) by (simp add: mdb_inv_def)
  have inv: "mdb_inv D A db" and same: "A (mdb db) = A (mdb (MetaDB_putAll D chainId h appHash rwdHash stdb))"
    using assms(3) mdb_putAll(1) [OF assms(1)] mdb_open(1) [OF laws] mdb_open(2) by metis+
  show ?thesis
    unfolding mdb_readers [OF inv] same mdb_putAll(2) [OF assms(1)]
    using i64_u64_roundtrip [OF assms(2)] by (simp add: str_bytes_inj mdb_keys BE_Uint64_Put)
qed

definition demoDb :: "(bytes \<rightharpoonup> bytes) dbOps" where
  "demoDb = \<lparr>dbGet = (\<lambda>d k. Inr (d k)), dbSetSync = (\<lambda>d k v. Inr (d(k \<mapsto> v)))\<rparr>"

lemma demoDb_laws [simp]: "db_laws demoDb id"
  by (simp add: db_laws_def demoDb_def)

theorem MetaDB_roundtrip_witness:
  "fst (MetaDB_LastBlockHeight demoDb (OpenMetaDB (mdb (MetaDB_putAll demoDb ''c'' (- 7) [1] [2] (OpenMetaDB Map.empty))))) = Inr (- 7)"
  using MetaDB_roundtrip [of demoDb id "OpenMetaDB Map.empty" "- 7" _ "''c''" "[1]" "[2]"] mdb_open(1) [OF demoDb_laws]
  by (simp add: in_i64_def)

end
