(* ===== verification/Rigo_StakeCtrler.thy ===== *)
theory Rigo_StakeCtrler
  imports Rigo_Reward Rigo_AcctCtrler Rigo_MetaDB
begin

text \<open>
  The stake controller, \<^verbatim>\<open>src/ctrlers/stake/ctrler.go\<close> and \<^verbatim>\<open>query.go\<close>. It keeps three ledgers: the
  delegatees with their bonded stakes, the frozen stakes that wait for their refund, and the rewards.
  The governance parameters (the handler \<^verbatim>\<open>govParams\<close>, which is also \<^verbatim>\<open>ctx.GovHandler\<close>) are an argument;
  the accounts are the state of the account controller, passed where the code calls
  \<^verbatim>\<open>ctx.AcctHandler\<close>. Logging is left out. What is not in the repository is a field of \<open>stakeEnv\<close>: the
  tree, the codecs, the names tendermint gives to the kinds of evidence, the decimal text of an amount
  and the hash function.

  A delegatee the ledger returned is the object its cache holds; every operation below puts it back
  after changing it, so the change of the object and the update of the cache are one step, except
  where the code changes an object it has already put (\<open>FinalityLedger_assign\<close>).
\<close>

record 't stakeEnv =
  seTree :: "'t treeOps"
  seDelegatees :: "Delegatee jsonOps"
  seStakes :: "Stake jsonOps"
  seRewards :: rewardProtoOps
  seAccts :: acctProtoOps
  seDec :: "u256 \<Rightarrow> string"
  seEvidenceName :: "nat \<Rightarrow> string"
  seDefaultHash :: "bytes list \<Rightarrow> bytes"

record ('t, 'd) StakeCtrler =
  scRwdHashDB :: "'d MetaDB"
  scAllDelegatees :: "Delegatee list"
  scLastValidators :: "Delegatee list"
  scDelegateeLedger :: "('t, Delegatee) FinalityLedger"
  scFrozenLedger :: "('t, Stake) FinalityLedger"
  scRewardLedger :: "('t, Reward) FinalityLedger"
  scRwdLedgUpInterval :: int
  scLastRwdHash :: bytes
  scStakeLimiter :: StakeLimiter

record InitStake =
  isPubKeys :: bytes
  isStakes :: "Stake list"

definition FinalityLedger_assign :: "'a itemOps \<Rightarrow> 'a \<Rightarrow> ('t, 'a) FinalityLedger \<Rightarrow> ('t, 'a) FinalityLedger" where
  "FinalityLedger_assign I item l = l\<lparr>finalityItems := memItems_assign I item (finalityItems l)\<rparr>"

section \<open>The ledgers at the level of a transaction\<close>

definition StakeCtrler_getDelegatee :: "'t stakeEnv \<Rightarrow> bool \<Rightarrow> ledgerKey \<Rightarrow> ('t, 'd) StakeCtrler \<Rightarrow> Delegatee res \<times> ('t, 'd) StakeCtrler" where
  "StakeCtrler_getDelegatee E exec k c =
     (let (r, l) = (if exec then FinalityLedger_GetFinality (seTree E) (delegateeItem (seDelegatees E)) k (scDelegateeLedger c)
                    else SimpleLedger_Get (seTree E) (delegateeItem (seDelegatees E)) k (scDelegateeLedger c))
      in (r, c\<lparr>scDelegateeLedger := l\<rparr>))"

definition StakeCtrler_setDelegatee :: "'t stakeEnv \<Rightarrow> bool \<Rightarrow> Delegatee \<Rightarrow> ('t, 'd) StakeCtrler \<Rightarrow> unit res \<times> ('t, 'd) StakeCtrler" where
  "StakeCtrler_setDelegatee E exec d c =
     (let (r, l) = (if exec then FinalityLedger_SetFinality (delegateeItem (seDelegatees E)) d (scDelegateeLedger c)
                    else SimpleLedger_Set (delegateeItem (seDelegatees E)) d (scDelegateeLedger c))
      in (r, c\<lparr>scDelegateeLedger := l\<rparr>))"

definition StakeCtrler_delDelegatee :: "'t stakeEnv \<Rightarrow> bool \<Rightarrow> ledgerKey \<Rightarrow> ('t, 'd) StakeCtrler \<Rightarrow> Delegatee res \<times> ('t, 'd) StakeCtrler" where
  "StakeCtrler_delDelegatee E exec k c =
     (let (r, l) = (if exec then FinalityLedger_DelFinality (seTree E) (delegateeItem (seDelegatees E)) k (scDelegateeLedger c)
                    else SimpleLedger_Del (seTree E) (delegateeItem (seDelegatees E)) k (scDelegateeLedger c))
      in (r, c\<lparr>scDelegateeLedger := l\<rparr>))"

definition StakeCtrler_setFrozen :: "'t stakeEnv \<Rightarrow> bool \<Rightarrow> Stake \<Rightarrow> ('t, 'd) StakeCtrler \<Rightarrow> unit res \<times> ('t, 'd) StakeCtrler" where
  "StakeCtrler_setFrozen E exec s c =
     (let (r, l) = (if exec then FinalityLedger_SetFinality (stakeItem (seStakes E)) s (scFrozenLedger c)
                    else SimpleLedger_Set (stakeItem (seStakes E)) s (scFrozenLedger c))
      in (r, c\<lparr>scFrozenLedger := l\<rparr>))"

definition StakeCtrler_getReward :: "'t stakeEnv \<Rightarrow> bool \<Rightarrow> ledgerKey \<Rightarrow> ('t, 'd) StakeCtrler \<Rightarrow> Reward res \<times> ('t, 'd) StakeCtrler" where
  "StakeCtrler_getReward E exec k c =
     (let (r, l) = (if exec then FinalityLedger_GetFinality (seTree E) (rewardItem (seRewards E)) k (scRewardLedger c)
                    else SimpleLedger_Get (seTree E) (rewardItem (seRewards E)) k (scRewardLedger c))
      in (r, c\<lparr>scRewardLedger := l\<rparr>))"

definition StakeCtrler_setReward :: "'t stakeEnv \<Rightarrow> bool \<Rightarrow> Reward \<Rightarrow> ('t, 'd) StakeCtrler \<Rightarrow> unit res \<times> ('t, 'd) StakeCtrler" where
  "StakeCtrler_setReward E exec rwd c =
     (let (r, l) = (if exec then FinalityLedger_SetFinality (rewardItem (seRewards E)) rwd (scRewardLedger c)
                    else SimpleLedger_Set (rewardItem (seRewards E)) rwd (scRewardLedger c))
      in (r, c\<lparr>scRewardLedger := l\<rparr>))"

definition StakeCtrler_cancelSetReward :: "bool \<Rightarrow> ledgerKey \<Rightarrow> ('t, 'd) StakeCtrler \<Rightarrow> unit res \<times> ('t, 'd) StakeCtrler" where
  "StakeCtrler_cancelSetReward exec k c =
     (let (r, l) = (if exec then FinalityLedger_CancelSetFinality k (scRewardLedger c)
                    else SimpleLedger_CancelSet k (scRewardLedger c))
      in (r, c\<lparr>scRewardLedger := l\<rparr>))"

section \<open>Genesis\<close>

text \<open>\<^verbatim>\<open>InitLedger\<close>: one delegatee for every stake of the genesis.\<close>

fun initStakesLoop :: "'t stakeEnv \<Rightarrow> bytes \<Rightarrow> Stake list \<Rightarrow> ('t, 'd) StakeCtrler \<Rightarrow> unit res \<times> ('t, 'd) StakeCtrler" where
  "initStakesLoop E pubKeys [] c = (Inr (), c)"
| "initStakesLoop E pubKeys (s0 # ss) c =
     (case Delegatee_AddStake [s0] (NewDelegatee (stTo s0) pubKeys) of
        (Inl xerr, d) \<Rightarrow> (Inl xerr, c)
      | (Inr _, d) \<Rightarrow> bindE (StakeCtrler_setDelegatee E True d c) (\<lambda>_ c. initStakesLoop E pubKeys ss c))"

fun StakeCtrler_InitLedger :: "'t stakeEnv \<Rightarrow> InitStake list \<Rightarrow> ('t, 'd) StakeCtrler \<Rightarrow> unit res \<times> ('t, 'd) StakeCtrler" where
  "StakeCtrler_InitLedger E [] c = (Inr (), c)"
| "StakeCtrler_InitLedger E (initS0 # initStakes) c =
     bindE (initStakesLoop E (isPubKeys initS0) (isStakes initS0) c) (\<lambda>_ c. StakeCtrler_InitLedger E initStakes c)"

section \<open>Punishment and rewards\<close>

definition StakeCtrler_doPunish :: "'t stakeEnv \<Rightarrow> evidence \<Rightarrow> int \<Rightarrow> ('t, 'd) StakeCtrler \<Rightarrow> int res \<times> ('t, 'd) StakeCtrler" where
  "StakeCtrler_doPunish E evi slashRatio c =
     bindE (StakeCtrler_getDelegatee E True (ToLedgerKey (valAddress (evValidator evi))) c) (\<lambda>delegatee c.
       let (slashed, delegatee) = Delegatee_DoSlash slashRatio delegatee
       in (Inr slashed, snd (StakeCtrler_setDelegatee E True delegatee c)))"

definition StakeCtrler_DoPunish :: "'t stakeEnv \<Rightarrow> evidence \<Rightarrow> int \<Rightarrow> ('t, 'd) StakeCtrler \<Rightarrow> int res \<times> ('t, 'd) StakeCtrler" where
  "StakeCtrler_DoPunish E evi slashRatio c = StakeCtrler_doPunish E evi slashRatio c"

text \<open>The reward object of an owner: a new one when there is none; any other error skips the stake.\<close>

definition issueTo :: "'t stakeEnv \<Rightarrow> GovParams \<Rightarrow> Stake \<Rightarrow> int \<Rightarrow> Reward \<Rightarrow> ('t, 'd) StakeCtrler \<Rightarrow> u256 res \<times> ('t, 'd) StakeCtrler" where
  "issueTo E gov s0 height rwdObj c =
     (case GovParams_RewardPerPower gov of
        Inl e \<Rightarrow> (Inl e, c)
      | Inr rpp \<Rightarrow>
          (let rwd = u256_NewInt (u64_of_i64 (stPower s0)) * rpp in
           case Reward_Issue rwd height rwdObj of
             (Inl e, _) \<Rightarrow> (Inl e, c)
           | (Inr _, rwdObj) \<Rightarrow>
               (case StakeCtrler_setReward E True rwdObj c of
                  (Inl xerr, c) \<Rightarrow> (Inr 0, c)
                | (Inr _, c) \<Rightarrow> (Inr rwd, c))))"

fun doRewardLoop :: "'t stakeEnv \<Rightarrow> GovParams \<Rightarrow> Stake list \<Rightarrow> int \<Rightarrow> u256 \<Rightarrow> ('t, 'd) StakeCtrler \<Rightarrow> u256 res \<times> ('t, 'd) StakeCtrler" where
  "doRewardLoop E gov [] height issuedReward c = (Inr issuedReward, c)"
| "doRewardLoop E gov (s0 # ss) height issuedReward c =
     (case StakeCtrler_getReward E True (ToLedgerKey (stFrom s0)) c of
        (Inr rwdObj, c) \<Rightarrow>
          bindE (issueTo E gov s0 height rwdObj c) (\<lambda>rwd c. doRewardLoop E gov ss height (issuedReward + rwd) c)
      | (Inl (Panic p), c) \<Rightarrow> (Inl (Panic p), c)
      | (Inl (Error xerr), c) \<Rightarrow>
          if xerr = ErrNotFoundResult
          then bindE (issueTo E gov s0 height (NewReward (stFrom s0)) c) (\<lambda>rwd c. doRewardLoop E gov ss height (issuedReward + rwd) c)
          else doRewardLoop E gov ss height issuedReward c)"

definition StakeCtrler_doRewardTo :: "'t stakeEnv \<Rightarrow> GovParams \<Rightarrow> Delegatee \<Rightarrow> int \<Rightarrow> ('t, 'd) StakeCtrler \<Rightarrow> u256 res \<times> ('t, 'd) StakeCtrler" where
  "StakeCtrler_doRewardTo E gov delegatee height c = doRewardLoop E gov (dgStakes delegatee) height 0 c"

text \<open>\<^verbatim>\<open>DoReward\<close>; the votes of the last commit, the version \<open>height - 4\<close> of the delegatees.\<close>

fun doRewardVotes :: "'t stakeEnv \<Rightarrow> GovParams \<Rightarrow> int \<Rightarrow> voteInfo list \<Rightarrow> u256 \<Rightarrow> ('t, Delegatee) SimpleLedger \<Rightarrow> ('t, 'd) StakeCtrler \<Rightarrow> u256 res \<times> ('t, 'd) StakeCtrler" where
  "doRewardVotes E gov height [] issuedReward immu c = (Inr issuedReward, c)"
| "doRewardVotes E gov height (vote # votes) issuedReward immu c =
     (if viSignedLastBlock vote then
        (case SimpleLedger_Get (seTree E) (delegateeItem (seDelegatees E)) (ToLedgerKey (valAddress (viValidator vote))) immu of
           (Inl (Panic p), immu) \<Rightarrow> (Inl (Panic p), c)
         | (Inl (Error xerr), immu) \<Rightarrow> doRewardVotes E gov height votes issuedReward immu c
         | (Inr delegatee, immu) \<Rightarrow>
             if dgTotalPower delegatee \<noteq> valPower (viValidator vote)
             then (Inl (Panic ''delegatee(%v)'s power(%v) is not same as the power(%v) of VoteInfo at block[%v]''), c)
             else bindE (StakeCtrler_doRewardTo E gov delegatee height c) (\<lambda>issued c.
                    doRewardVotes E gov height votes (issuedReward + issued) immu c))
      else doRewardVotes E gov height votes issuedReward immu c)"

definition StakeCtrler_DoReward :: "'t stakeEnv \<Rightarrow> GovParams \<Rightarrow> int \<Rightarrow> voteInfo list \<Rightarrow> ('t, 'd) StakeCtrler \<Rightarrow> u256 option res \<times> ('t, 'd) StakeCtrler" where
  "StakeCtrler_DoReward E gov height votes c =
     (if votes = [] then (Inr None, c)
      else
        let heightForReward = i64 (height - 4);
            heightForReward = (if heightForReward \<le> 0 then 1 else heightForReward)
        in case FinalityLedger_ImmutableLedgerAt (seTree E) heightForReward (scDelegateeLedger c) of
             Inl xerr \<Rightarrow> (Inl xerr, c)
           | Inr immu \<Rightarrow> bindE (doRewardVotes E gov height votes 0 immu c) (\<lambda>issued c. (Inr (Some issued), c)))"

section \<open>BeginBlock\<close>

text \<open>The delegatees that were committed and have deposited enough to become validators.\<close>

definition StakeCtrler_loadDelegatees :: "'t stakeEnv \<Rightarrow> GovParams \<Rightarrow> ('t, 'd) StakeCtrler \<Rightarrow> unit res \<times> Delegatee list" where
  "StakeCtrler_loadDelegatees E gov c =
     FinalityLedger_IterateReadAllFinalityItems (seTree E) (delegateeItem (seDelegatees E))
       (\<lambda>d ds. case GovParams_MinValidatorStake gov of
                 None \<Rightarrow> (Inl nilPointer, ds)
               | Some stake \<Rightarrow>
                   (case AmountToPower stake of
                      Inl e \<Rightarrow> (Inl e, ds)
                    | Inr minPower \<Rightarrow> (Inr (), if dgSelfPower d \<ge> minPower then ds @ [d] else ds)))
       (scDelegateeLedger c) []"

definition eventAttr :: "string \<Rightarrow> string \<Rightarrow> bool \<Rightarrow> bytes \<times> bytes \<times> bool" where
  "eventAttr key val idx = (str_bytes key, str_bytes val, idx)"

fun punishLoop :: "'t stakeEnv \<Rightarrow> GovParams \<Rightarrow> evidence list \<Rightarrow> event list \<Rightarrow> ('t, 'd) StakeCtrler \<Rightarrow> event list res \<times> ('t, 'd) StakeCtrler" where
  "punishLoop E gov [] evts c = (Inr evts, c)"
| "punishLoop E gov (evi # byzantines) evts c =
     (case StakeCtrler_doPunish E evi (GovParams_SlashRatio gov) c of
        (Inl (Panic p), c) \<Rightarrow> (Inl (Panic p), c)
      | (Inl (Error xerr), c) \<Rightarrow> punishLoop E gov byzantines evts c
      | (Inr slashed, c) \<Rightarrow>
          punishLoop E gov byzantines
            (evts @ [(''punishment.stake'',
               [eventAttr ''byzantine'' (HexBytes_String (valAddress (evValidator evi))) True,
                eventAttr ''type'' (seEvidenceName E (evType evi)) False,
                eventAttr ''height'' (strconv_FormatInt (evHeight evi)) False,
                eventAttr ''slashed'' (strconv_FormatInt slashed) False])]) c)"

text \<open>A validator that signs too few blocks is stopped: its stakes are frozen and it is deleted.\<close>

definition stopValidator :: "'t stakeEnv \<Rightarrow> GovParams \<Rightarrow> int \<Rightarrow> Delegatee \<Rightarrow> ('t, 'd) StakeCtrler \<Rightarrow> ('t, 'd) StakeCtrler" where
  "stopValidator E gov height delegatee c =
     (let (stakes, delegatee) = Delegatee_DelAllStakes delegatee;
          c = c\<lparr>scDelegateeLedger := FinalityLedger_assign (delegateeItem (seDelegatees E)) delegatee (scDelegateeLedger c)\<rparr>;
          c = fold (\<lambda>s0 c. snd (StakeCtrler_setFrozen E True
                 (s0\<lparr>stRefundHeight := i64 (height + GovParams_LazyRewardBlocks gov)\<rparr>) c)) stakes c
      in snd (StakeCtrler_delDelegatee E True (Delegatee_Key delegatee) c))"

definition notSignedBlock :: "'t stakeEnv \<Rightarrow> GovParams \<Rightarrow> int \<Rightarrow> bytes \<Rightarrow> ('t, 'd) StakeCtrler \<Rightarrow> unit res \<times> ('t, 'd) StakeCtrler" where
  "notSignedBlock E gov height addr c =
     (let signedHeight = i64 (height - 1) in
      case StakeCtrler_getDelegatee E True (ToLedgerKey addr) c of
        (Inl (Panic p), c) \<Rightarrow> (Inl (Panic p), c)
      | (Inl (Error xerr), c) \<Rightarrow> (Inr (), c)
      | (Inr delegatee, c) \<Rightarrow>
          (let delegatee = snd (Delegatee_ProcessNotSignedBlock signedHeight delegatee);
               c = snd (StakeCtrler_setDelegatee E True delegatee c);
               s = i64 (signedHeight - GovParams_SignedBlocksWindow gov);
               s = (if s < 0 then 0 else s);
               (notSigned, delegatee) = Delegatee_GetNotSignedBlockCount s signedHeight delegatee;
               c = c\<lparr>scDelegateeLedger := FinalityLedger_assign (delegateeItem (seDelegatees E)) delegatee (scDelegateeLedger c)\<rparr>
           in (Inr (), if i64 (GovParams_SignedBlocksWindow gov - notSigned) < GovParams_MinSignedBlocks gov
                       then stopValidator E gov height delegatee c else c)))"

fun votesLoop :: "'t stakeEnv \<Rightarrow> GovParams \<Rightarrow> int \<Rightarrow> voteInfo list \<Rightarrow> u256 \<Rightarrow> ('t, Delegatee) SimpleLedger \<Rightarrow> ('t, 'd) StakeCtrler \<Rightarrow> u256 res \<times> ('t, 'd) StakeCtrler" where
  "votesLoop E gov height [] issuedReward immu c = (Inr issuedReward, c)"
| "votesLoop E gov height (vote # votes) issuedReward immu c =
     (if viSignedLastBlock vote then
        (case SimpleLedger_Get (seTree E) (delegateeItem (seDelegatees E)) (ToLedgerKey (valAddress (viValidator vote))) immu of
           (Inl (Panic p), immu) \<Rightarrow> (Inl (Panic p), c)
         | (Inl (Error xerr), immu) \<Rightarrow> votesLoop E gov height votes issuedReward immu c
         | (Inr delegatee, immu) \<Rightarrow>
             if dgTotalPower delegatee \<noteq> valPower (viValidator vote)
             then votesLoop E gov height votes issuedReward immu c
             else bindE (StakeCtrler_doRewardTo E gov delegatee height c) (\<lambda>issued c.
                    votesLoop E gov height votes (issuedReward + issued) immu c))
      else bindE (notSignedBlock E gov height (valAddress (viValidator vote)) c) (\<lambda>_ c.
             votesLoop E gov height votes issuedReward immu c))"

definition heightOfPower :: "int \<Rightarrow> int" where
  "heightOfPower height = (let h = i64 (height - 4) in if h < 0 then 1 else h)"

definition StakeCtrler_BeginBlock :: "'t stakeEnv \<Rightarrow> GovParams \<Rightarrow> BlockContext \<Rightarrow> ('t, 'd) StakeCtrler \<Rightarrow> event list res \<times> ('t, 'd) StakeCtrler" where
  "StakeCtrler_BeginBlock E gov blockCtx c =
     (case StakeCtrler_loadDelegatees E gov c of
        (Inl (Panic p), ds) \<Rightarrow> (Inl (Panic p), c\<lparr>scAllDelegatees := ds\<rparr>)
      | (_, ds) \<Rightarrow>
          (let ds = go_sort PowerOrderDelegatees_Less ds;
               c = c\<lparr>scAllDelegatees := ds,
                     scStakeLimiter := StakeLimiter_Reset ds (GovParams_MaxValidatorCnt gov)
                       (GovParams_MaxIndividualStakeRatio gov) (GovParams_MaxUpdatableStakeRatio gov) (scStakeLimiter c)\<rparr>;
               bi = bctxBlockInfo blockCtx
           in bindE (punishLoop E gov (biByzantineValidators bi) [] c) (\<lambda>evts c.
                if biVotes bi = [] then (Inr [], c)
                else case FinalityLedger_ImmutableLedgerAt (seTree E) (heightOfPower (BlockContext_Height blockCtx)) (scDelegateeLedger c) of
                       Inl xerr \<Rightarrow> (Inl xerr, c)
                     | Inr immu \<Rightarrow>
                         bindE (votesLoop E gov (BlockContext_Height blockCtx) (biVotes bi) 0 immu c) (\<lambda>issuedReward c.
                           (Inr (evts @ [(''reward'', [eventAttr ''issued'' (seDec E issuedReward) False])]), c)))))"

section \<open>Transactions\<close>

definition payloadPanic :: fault where
  "payloadPanic = Panic ''interface conversion''"

text \<open>The end of the validation of a stake: the limiter, once there are three validators.\<close>

definition checkLimiter :: "Delegatee \<Rightarrow> int \<Rightarrow> ('t, 'd) StakeCtrler \<Rightarrow> unit res \<times> ('t, 'd) StakeCtrler" where
  "checkLimiter delg diffPower c =
     (if length (scLastValidators c) \<ge> 3 then
        (case StakeLimiter_CheckLimit delg diffPower (scStakeLimiter c) of
           (Inl (Error xerr), sl) \<Rightarrow> (Inl (Error (xerror_Wrap ErrUpdatableStakeRatio xerr)), c\<lparr>scStakeLimiter := sl\<rparr>)
         | (r, sl) \<Rightarrow> (r, c\<lparr>scStakeLimiter := sl\<rparr>))
      else (Inr (), c))"

text \<open>The minimum of the own stake of a validator, and the ratio a delegation must leave. Both return
  the total power of the delegatee.\<close>

definition validateSelfStaking :: "GovParams \<Rightarrow> int \<Rightarrow> Delegatee option \<Rightarrow> int res" where
  "validateSelfStaking gov txPower delegatee =
     (let selfPower = (case delegatee of None \<Rightarrow> txPower | Some d \<Rightarrow> i64 (txPower + Delegatee_GetSelfPower d));
          totalPower = (case delegatee of None \<Rightarrow> 0 | Some d \<Rightarrow> Delegatee_GetTotalPower d)
      in case GovParams_MinValidatorStake gov of
           None \<Rightarrow> Inl nilPointer
         | Some stake \<Rightarrow>
             (case AmountToPower stake of
                Inl e \<Rightarrow> Inl e
              | Inr minPower \<Rightarrow>
                  if selfPower < minPower
                  then Inl (Error (xerror_Wrapf ErrInvalidTrx ''too small stake to become validator: a minimum is %v''))
                  else Inr totalPower))"

definition validateDelegating :: "GovParams \<Rightarrow> int \<Rightarrow> Delegatee option \<Rightarrow> int res" where
  "validateDelegating gov txPower delegatee =
     (case delegatee of
        None \<Rightarrow> Inl (Error (xerror_Wrapf ErrNotFoundDelegatee ''address(%v)''))
      | Some d \<Rightarrow>
          (case AmountToPower (GovParams_MinDelegatorStake gov) of
             Inl e \<Rightarrow> Inl e
           | Inr minDelegatorPower \<Rightarrow>
               if minDelegatorPower > 0 \<and> minDelegatorPower > txPower
               then Inl (Error (xerror_Wrapf ErrInvalidTrx ''too small stake to become delegator: a minimum is %v''))
               else (case Delegatee_SelfStakeRatio txPower d of
                       Inl e \<Rightarrow> Inl e
                     | Inr selfRatio \<Rightarrow>
                         if selfRatio < GovParams_MinSelfStakeRatio gov
                         then Inl (Error (xerrors_NewOrdinary ''not enough self power - validator: %v, self power: %v, total power: %v''))
                         else Inr (Delegatee_GetTotalPower d))))"

definition StakeCtrler_validateStaking :: "'t stakeEnv \<Rightarrow> GovParams \<Rightarrow> TrxContext \<Rightarrow> ('t, 'd) StakeCtrler \<Rightarrow> unit res \<times> ('t, 'd) StakeCtrler" where
  "StakeCtrler_validateStaking E gov ctx c =
     (let tx = ctxTx ctx; q = txAmount tx div AmountPerPower; r = txAmount tx mod AmountPerPower in
      if u256_Sign q \<le> 0 then (Inl (Error (xerror_Wrapf ErrInvalidTrx ''wrong amount: it should be greater than %v'')), c)
      else if u256_Sign r \<noteq> 0 then (Inl (Error (xerror_Wrapf ErrInvalidTrx ''wrong amount: it should be multiple of %v'')), c)
      else case AmountToPower (txAmount tx) of
             Inl e \<Rightarrow> (Inl e, c)
           | Inr txPower \<Rightarrow>
               (let (found, c) = StakeCtrler_getDelegatee E (ctxExec ctx) (ToLedgerKey (txTo tx)) c in
                if (case found of Inl e \<Rightarrow> e \<noteq> Error ErrNotFoundResult | Inr _ \<Rightarrow> False) then (map_sum id (\<lambda>_. ()) found, c)
                else
                  let delegatee = (case found of Inl _ \<Rightarrow> None | Inr d \<Rightarrow> Some d) in
                  case (if bytes_Compare (txFrom tx) (txTo tx) = 0 then validateSelfStaking gov txPower delegatee
                        else validateDelegating gov txPower delegatee) of
                    Inl e \<Rightarrow> (Inl e, c)
                  | Inr totalPower \<Rightarrow>
                      if i64 (totalPower + txPower) \<le> 0 then (Inl (Panic ''delegatee power overflow occurs.''), c)
                      else checkLimiter (case delegatee of None \<Rightarrow> NewDelegatee (txTo tx) [] | Some d \<Rightarrow> d) txPower c))"

definition StakeCtrler_validateUnstaking :: "'t stakeEnv \<Rightarrow> TrxContext \<Rightarrow> ('t, 'd) StakeCtrler \<Rightarrow> unit res \<times> ('t, 'd) StakeCtrler" where
  "StakeCtrler_validateUnstaking E ctx c =
     (let tx = ctxTx ctx in
      bindE (StakeCtrler_getDelegatee E (ctxExec ctx) (ToLedgerKey (txTo tx)) c) (\<lambda>delegatee c.
        case txPayload tx of
          Some (TrxPayloadUnstaking txhash) \<Rightarrow>
            if length txhash \<noteq> 32 then (Inl (Error ErrInvalidTrxPayloadParams), c)
            else (case snd (Delegatee_FindStake txhash delegatee) of
                    None \<Rightarrow> (Inl (Error ErrNotFoundStake), c)
                  | Some s0 \<Rightarrow>
                      if bytes_Compare (txFrom tx) (stFrom s0) \<noteq> 0
                      then (Inl (Error (xerror_Wrapf ErrNotFoundStake ''you not stake owner'')), c)
                      else checkLimiter delegatee (i64 (- 1 * stPower s0)) c)
        | _ \<Rightarrow> (Inl payloadPanic, c)))"

definition StakeCtrler_validateWithdraw :: "'t stakeEnv \<Rightarrow> TrxContext \<Rightarrow> ('t, 'd) StakeCtrler \<Rightarrow> unit res \<times> ('t, 'd) StakeCtrler" where
  "StakeCtrler_validateWithdraw E ctx c =
     (let tx = ctxTx ctx in
      if u256_Sign (txAmount tx) \<noteq> 0 then (Inl (Error (xerror_Wrapf ErrInvalidTrx ''amount must be 0'')), c)
      else case txPayload tx of
             Some (TrxPayloadWithdraw reqAmt) \<Rightarrow>
               bindE (StakeCtrler_getReward E (ctxExec ctx) (ToLedgerKey (txFrom tx)) c) (\<lambda>rwd c.
                 if u256_Cmp reqAmt (rwCumulated rwd) > 0
                 then (Inl (Error (xerror_Wrapf ErrInvalidTrx ''insufficient reward'')), c)
                 else (Inr (), c))
           | _ \<Rightarrow> (Inl (Error ErrInvalidTrxPayloadType), c))"

definition StakeCtrler_ValidateTrx :: "'t stakeEnv \<Rightarrow> GovParams \<Rightarrow> TrxContext \<Rightarrow> ('t, 'd) StakeCtrler \<Rightarrow> unit res \<times> ('t, 'd) StakeCtrler" where
  "StakeCtrler_ValidateTrx E gov ctx c =
     (if txType (ctxTx ctx) = TRX_STAKING then StakeCtrler_validateStaking E gov ctx c
      else if txType (ctxTx ctx) = TRX_UNSTAKING then StakeCtrler_validateUnstaking E ctx c
      else if txType (ctxTx ctx) = TRX_WITHDRAW then StakeCtrler_validateWithdraw E ctx c
      else (Inl (Error ErrUnknownTrxType), c))"

text \<open>The state of the execution: this controller and the accounts.\<close>

definition StakeCtrler_exeStaking :: "'t stakeEnv \<Rightarrow> TrxContext \<Rightarrow> ('t, 'd) StakeCtrler \<times> 't AcctCtrler \<Rightarrow> unit res \<times> ('t, 'd) StakeCtrler \<times> 't AcctCtrler" where
  "StakeCtrler_exeStaking E ctx s =
     (let (c, ac) = s; tx = ctxTx ctx; exec = ctxExec ctx;
          (found, c) = StakeCtrler_getDelegatee E exec (ToLedgerKey (txTo tx)) c
      in if (case found of Inl e \<Rightarrow> e \<noteq> Error ErrNotFoundResult | Inr _ \<Rightarrow> False) then (map_sum id (\<lambda>_. ()) found, c, ac)
         else
           let delegatee = (case found of
                  Inr d \<Rightarrow> Some d
                | Inl _ \<Rightarrow> if bytes_Compare (txFrom tx) (txTo tx) = 0 then Some (NewDelegatee (txFrom tx) (ctxSenderPubKey ctx)) else None)
           in case delegatee of
                None \<Rightarrow> (Inl (Error (xerror_Wrapf ErrNotFoundDelegatee ''address(%v)'')), c, ac)
              | Some delegatee \<Rightarrow>
                  (case AcctCtrler_at exec (ctxSender ctx) ac of
                     None \<Rightarrow> (Inl nilPointer, c, ac)
                   | Some sender \<Rightarrow>
                       (case Account_SubBalance (txAmount tx) sender of
                          (Inl xerr, sender) \<Rightarrow> (Inl xerr, c, AcctCtrler_assign (seAccts E) exec sender ac)
                        | (Inr _, sender) \<Rightarrow>
                            (let ac = AcctCtrler_assign (seAccts E) exec sender ac;
                                 ac = snd (AcctCtrler_setAccountCommittable (seAccts E) sender exec ac)
                             in case AmountToPower (txAmount tx) of
                                  Inl e \<Rightarrow> (Inl e, c, ac)
                                | Inr pw \<Rightarrow>
                                    (let s0 = NewStakeWithPower (txFrom tx) (txTo tx) pw (i64 (ctxHeight ctx + 1)) (ctxTxHash ctx)
                                     in case Delegatee_AddStake [s0] delegatee of
                                          (Inl xerr, _) \<Rightarrow> (Inl xerr, c, ac)
                                        | (Inr _, delegatee) \<Rightarrow>
                                            (let (r, c) = StakeCtrler_setDelegatee E exec delegatee c in (r, c, ac)))))))"

text \<open>Freezing stakes: the refund is due \<^verbatim>\<open>LazyRewardBlocks\<close> later.\<close>

definition freeze :: "'t stakeEnv \<Rightarrow> GovParams \<Rightarrow> TrxContext \<Rightarrow> Stake \<Rightarrow> ('t, 'd) StakeCtrler \<Rightarrow> ('t, 'd) StakeCtrler" where
  "freeze E gov ctx s0 c =
     snd (StakeCtrler_setFrozen E (ctxExec ctx) (s0\<lparr>stRefundHeight := i64 (ctxHeight ctx + GovParams_LazyRewardBlocks gov)\<rparr>) c)"

text \<open>Of the stake that was found only the delegatee's list loses it; when the deletion below fails
  nothing is changed, which cannot happen since the delegatee was found.\<close>

definition StakeCtrler_exeUnstaking :: "'t stakeEnv \<Rightarrow> GovParams \<Rightarrow> TrxContext \<Rightarrow> ('t, 'd) StakeCtrler \<Rightarrow> unit res \<times> ('t, 'd) StakeCtrler" where
  "StakeCtrler_exeUnstaking E gov ctx c =
     (let tx = ctxTx ctx; exec = ctxExec ctx in
      bindE (StakeCtrler_getDelegatee E exec (ToLedgerKey (txTo tx)) c) (\<lambda>delegatee c.
        case txPayload tx of
          Some (TrxPayloadUnstaking txhash) \<Rightarrow>
            if length txhash \<noteq> 32 then (Inl (Error ErrInvalidTrxPayloadParams), c)
            else (case snd (Delegatee_FindStake txhash delegatee) of
                    None \<Rightarrow> (Inl (Error ErrNotFoundStake), c)
                  | Some s0 \<Rightarrow>
                      if bytes_Compare (txFrom tx) (stFrom s0) \<noteq> 0
                      then (Inl (Error (xerror_Wrapf ErrNotFoundStake ''you not stake owner'')), c)
                      else
                        let delegatee = snd (Delegatee_DelStake txhash delegatee);
                            c = freeze E gov ctx s0 c;
                            (stakes, delegatee) = (if dgSelfPower delegatee = 0 then Delegatee_DelAllStakes delegatee else ([], delegatee));
                            c = fold (freeze E gov ctx) stakes c
                        in if dgTotalPower delegatee = 0
                           then bindE (StakeCtrler_delDelegatee E exec (Delegatee_Key delegatee) c) (\<lambda>_ c. (Inr (), c))
                           else StakeCtrler_setDelegatee E exec delegatee c)
        | _ \<Rightarrow> (Inl payloadPanic, c)))"

definition StakeCtrler_exeWithdraw :: "'t stakeEnv \<Rightarrow> TrxContext \<Rightarrow> ('t, 'd) StakeCtrler \<times> 't AcctCtrler \<Rightarrow> unit res \<times> ('t, 'd) StakeCtrler \<times> 't AcctCtrler" where
  "StakeCtrler_exeWithdraw E ctx s =
     (let (c, ac) = s; tx = ctxTx ctx; exec = ctxExec ctx in
      case txPayload tx of
        Some (TrxPayloadWithdraw reqAmt) \<Rightarrow>
          (case StakeCtrler_getReward E exec (ToLedgerKey (txFrom tx)) c of
             (Inl xerr, c) \<Rightarrow> (Inl xerr, c, ac)
           | (Inr rwd, c) \<Rightarrow>
               (case Reward_Withdraw reqAmt (ctxHeight ctx) rwd of
                  (Inl xerr, _) \<Rightarrow> (Inl xerr, c, ac)
                | (Inr _, rwd) \<Rightarrow>
                    (case StakeCtrler_setReward E exec rwd c of
                       (Inl xerr, c) \<Rightarrow> (Inl xerr, c, ac)
                     | (Inr _, c) \<Rightarrow>
                         (case AcctCtrler_at exec (ctxSender ctx) ac of
                            None \<Rightarrow> (Inl nilPointer, c, ac)
                          | Some sender \<Rightarrow>
                              (case AcctCtrler_Reward (seTree E) (seAccts E) (acctAddress sender) reqAmt exec ac of
                                 (Inl xerr, ac) \<Rightarrow> (Inl xerr, snd (StakeCtrler_cancelSetReward exec (Reward_Key rwd) c), ac)
                               | (Inr _, ac) \<Rightarrow> (Inr (), c, ac))))))
      | _ \<Rightarrow> (Inl (Error ErrInvalidTrxPayloadType), c, ac))"

definition StakeCtrler_ExecuteTrx :: "'t stakeEnv \<Rightarrow> GovParams \<Rightarrow> TrxContext \<Rightarrow> ('t, 'd) StakeCtrler \<times> 't AcctCtrler \<Rightarrow> unit res \<times> ('t, 'd) StakeCtrler \<times> 't AcctCtrler" where
  "StakeCtrler_ExecuteTrx E gov ctx s =
     (if txType (ctxTx ctx) = TRX_STAKING then StakeCtrler_exeStaking E ctx s
      else if txType (ctxTx ctx) = TRX_UNSTAKING then
        (let (r, c) = StakeCtrler_exeUnstaking E gov ctx (fst s) in (r, c, snd s))
      else if txType (ctxTx ctx) = TRX_WITHDRAW then StakeCtrler_exeWithdraw E ctx s
      else (Inl (Error ErrUnknownTrxType), s))"

section \<open>EndBlock\<close>

text \<open>The committed frozen stakes whose time has come are paid back and deleted.\<close>

definition unfreezeStake :: "'t stakeEnv \<Rightarrow> int \<Rightarrow> Stake \<Rightarrow> ('t, 'd) StakeCtrler \<times> 't AcctCtrler \<Rightarrow> unit res \<times> ('t, 'd) StakeCtrler \<times> 't AcctCtrler" where
  "unfreezeStake E height s0 s =
     (let (c, ac) = s in
      if stRefundHeight s0 \<le> height then
        (case AcctCtrler_Reward (seTree E) (seAccts E) (stFrom s0) (PowerToAmount (stPower s0)) True ac of
           (Inl xerr, ac) \<Rightarrow> (Inl xerr, c, ac)
         | (Inr _, ac) \<Rightarrow>
             (let (r, l) = FinalityLedger_DelFinality (seTree E) (stakeItem (seStakes E)) (ToLedgerKey (stTxHash s0)) (scFrozenLedger c)
              in (Inr (), c\<lparr>scFrozenLedger := l\<rparr>, ac)))
      else (Inr (), s))"

definition StakeCtrler_unfreezingStakes :: "'t stakeEnv \<Rightarrow> int \<Rightarrow> ('t, 'd) StakeCtrler \<times> 't AcctCtrler \<Rightarrow> unit res \<times> ('t, 'd) StakeCtrler \<times> 't AcctCtrler" where
  "StakeCtrler_unfreezingStakes E height s =
     FinalityLedger_IterateReadAllFinalityItems (seTree E) (stakeItem (seStakes E))
       (unfreezeStake E height) (scFrozenLedger (fst s)) s"

fun validatorUpdates :: "Delegatee list \<Rightarrow> Delegatee list \<Rightarrow> validatorUpdate list" where
  "validatorUpdates [] newers = map (\<lambda>d. (dgPubKey d, dgTotalPower d)) newers"
| "validatorUpdates (e # existing) [] = map (\<lambda>d. (dgPubKey d, 0)) (e # existing)"
| "validatorUpdates (e # existing) (n # newers) =
     (let ret = bytes_Compare (dgAddr e) (dgAddr n) in
      if ret < 0 then (dgPubKey e, 0) # validatorUpdates existing (n # newers)
      else if ret = 0 then
        (if dgTotalPower e \<noteq> dgTotalPower n then (dgPubKey n, dgTotalPower n) # validatorUpdates existing newers
         else validatorUpdates existing newers)
      else (dgPubKey n, dgTotalPower n) # validatorUpdates (e # existing) newers)"

definition selectValidators :: "Delegatee list \<Rightarrow> int \<Rightarrow> Delegatee list res" where
  "selectValidators delegatees maxVals =
     (let n = min (int (length delegatees)) maxVals
      in if n < 0 then Inl (Panic ''runtime error: slice bounds out of range'') else Inr (take (nat n) delegatees))"

text \<open>The selected validators are the front of the array of all delegatees, so sorting them sorts that
  part of the array: by address for the comparison, then by power again.\<close>

definition StakeCtrler_updateValidators :: "int \<Rightarrow> ('t, 'd) StakeCtrler \<Rightarrow> validatorUpdate list res \<times> ('t, 'd) StakeCtrler" where
  "StakeCtrler_updateValidators maxVals c =
     (case selectValidators (scAllDelegatees c) maxVals of
        Inl e \<Rightarrow> (Inl e, c)
      | Inr newValidators \<Rightarrow>
          (let upVals = validatorUpdates (go_sort AddressOrderDelegatees_Less (scLastValidators c))
                          (go_sort AddressOrderDelegatees_Less newValidators);
               newValidators = go_sort PowerOrderDelegatees_Less (go_sort AddressOrderDelegatees_Less newValidators)
           in (Inr upVals, c\<lparr>scLastValidators := newValidators,
                              scAllDelegatees := newValidators @ drop (length newValidators) (scAllDelegatees c)\<rparr>)))"

definition StakeCtrler_UpdateValidators :: "int \<Rightarrow> ('t, 'd) StakeCtrler \<Rightarrow> validatorUpdate list res \<times> ('t, 'd) StakeCtrler" where
  "StakeCtrler_UpdateValidators maxVals c = StakeCtrler_updateValidators maxVals c"

definition StakeCtrler_EndBlock :: "'t stakeEnv \<Rightarrow> GovParams \<Rightarrow> BlockContext \<Rightarrow> ('t, 'd) StakeCtrler \<times> 't AcctCtrler \<Rightarrow>
    BlockContext res \<times> ('t, 'd) StakeCtrler \<times> 't AcctCtrler" where
  "StakeCtrler_EndBlock E gov ctx s =
     bindE (StakeCtrler_unfreezingStakes E (BlockContext_Height ctx) s) (\<lambda>_ (c, ac).
       let (r, c) = StakeCtrler_updateValidators (GovParams_MaxValidatorCnt gov) c
       in (map_sum id (\<lambda>ups. BlockContext_SetValUpdates ups ctx) r, c, ac))"

section \<open>Commit\<close>

text \<open>\<^verbatim>\<open>NewStakeCtrler\<close>, given the opened databases.\<close>

definition NewStakeCtrler :: "'d dbOps \<Rightarrow> GovParams \<Rightarrow> 'd MetaDB \<Rightarrow> ('t, Delegatee) FinalityLedger \<Rightarrow> ('t, Stake) FinalityLedger \<Rightarrow>
    ('t, Reward) FinalityLedger \<Rightarrow> ('t, 'd) StakeCtrler res" where
  "NewStakeCtrler D gov rwdHashDB delegateeLedger frozenLedger rewardLedger =
     (let (h, rwdHashDB) = MetaDB_LastRewardHash D rwdHashDB;
          (r, c) = StakeCtrler_UpdateValidators (GovParams_MaxValidatorCnt gov)
            \<lparr>scRwdHashDB = rwdHashDB, scAllDelegatees = [], scLastValidators = [],
             scDelegateeLedger = delegateeLedger, scFrozenLedger = frozenLedger, scRewardLedger = rewardLedger,
             scRwdLedgUpInterval = 10, scLastRwdHash = (case h of None \<Rightarrow> [] | Some b \<Rightarrow> b),
             scStakeLimiter = NewStakeLimiter [] (GovParams_MaxValidatorCnt gov) (GovParams_MaxIndividualStakeRatio gov)
               (GovParams_MaxUpdatableStakeRatio gov)\<rparr>
      in map_sum id (\<lambda>_. c) r)"

definition StakeCtrler_Commit :: "'t stakeEnv \<Rightarrow> 'd dbOps \<Rightarrow> ('t, 'd) StakeCtrler \<Rightarrow> (bytes \<times> int) res \<times> ('t, 'd) StakeCtrler" where
  "StakeCtrler_Commit E D c =
     (let (r0, l0) = FinalityLedger_Commit (seTree E) (delegateeItem (seDelegatees E)) (scDelegateeLedger c);
          c = c\<lparr>scDelegateeLedger := l0\<rparr>
      in case r0 of
           Inl xerr \<Rightarrow> (Inl xerr, c)
         | Inr (h0, v0) \<Rightarrow>
             (let (r1, l1) = FinalityLedger_Commit (seTree E) (stakeItem (seStakes E)) (scFrozenLedger c);
                  c = c\<lparr>scFrozenLedger := l1\<rparr>
              in case r1 of
                   Inl xerr \<Rightarrow> (Inl xerr, c)
                 | Inr (h1, v1) \<Rightarrow>
                     (let (r2, l2) = FinalityLedger_Commit (seTree E) (rewardItem (seRewards E)) (scRewardLedger c);
                          c = c\<lparr>scRewardLedger := l2\<rparr>
                      in case r2 of
                           Inl xerr \<Rightarrow> (Inl xerr, c)
                         | Inr (h2, v2) \<Rightarrow>
                             if v0 \<noteq> v1 \<or> v1 \<noteq> v2
                             then (Inl (Error (xerror_Wrapf ErrCommit ''error: StakeCtrler.Commit() has wrong version number - v0:%v, v1:%v, v2:%v'')), c)
                             else
                               let c = (if v0 mod scRwdLedgUpInterval c = 0
                                        then c\<lparr>scRwdHashDB := snd (MetaDB_PutLastRewardHash D h2 (scRwdHashDB c)), scLastRwdHash := h2\<rparr>
                                        else c)
                               in (Inr (seDefaultHash E [h0, h1, scLastRwdHash c], v0), c))))"

section \<open>The handler interface\<close>

definition StakeCtrler_Validators :: "('t, 'd) StakeCtrler \<Rightarrow> abciValidator list \<times> int" where
  "StakeCtrler_Validators c =
     (map (\<lambda>v. \<lparr>valAddress = dgAddr v, valPower = dgTotalPower v\<rparr>) (scLastValidators c),
      fold (\<lambda>v totalPower. i64 (totalPower + dgTotalPower v)) (scLastValidators c) 0)"

definition StakeCtrler_IsValidator :: "bytes \<Rightarrow> ('t, 'd) StakeCtrler \<Rightarrow> bool" where
  "StakeCtrler_IsValidator addr c \<longleftrightarrow> (\<exists>v \<in> set (scLastValidators c). bytes_Compare (dgAddr v) addr = 0)"

definition StakeCtrler_Delegatee :: "'t stakeEnv \<Rightarrow> bytes \<Rightarrow> ('t, 'd) StakeCtrler \<Rightarrow> Delegatee option \<times> ('t, 'd) StakeCtrler" where
  "StakeCtrler_Delegatee E addr c =
     (let (r, c) = StakeCtrler_getDelegatee E True (ToLedgerKey addr) c
      in (case r of Inl _ \<Rightarrow> None | Inr delegatee \<Rightarrow> Some delegatee, c))"

definition StakeCtrler_TotalPowerOf :: "'t stakeEnv \<Rightarrow> bytes \<Rightarrow> ('t, 'd) StakeCtrler \<Rightarrow> int \<times> ('t, 'd) StakeCtrler" where
  "StakeCtrler_TotalPowerOf E addr c =
     (let (r, c) = StakeCtrler_getDelegatee E True (ToLedgerKey addr) c
      in (case r of Inl _ \<Rightarrow> 0 | Inr delegatee \<Rightarrow> dgTotalPower delegatee, c))"

definition StakeCtrler_SelfPowerOf :: "'t stakeEnv \<Rightarrow> bytes \<Rightarrow> ('t, 'd) StakeCtrler \<Rightarrow> int \<times> ('t, 'd) StakeCtrler" where
  "StakeCtrler_SelfPowerOf E addr c =
     (let (r, c) = StakeCtrler_getDelegatee E True (ToLedgerKey addr) c
      in (case r of Inl _ \<Rightarrow> 0 | Inr delegatee \<Rightarrow> dgSelfPower delegatee, c))"

definition StakeCtrler_DelegatedPowerOf :: "'t stakeEnv \<Rightarrow> bytes \<Rightarrow> ('t, 'd) StakeCtrler \<Rightarrow> int \<times> ('t, 'd) StakeCtrler" where
  "StakeCtrler_DelegatedPowerOf E addr c =
     (let (r, c) = StakeCtrler_getDelegatee E True (ToLedgerKey addr) c
      in (case r of Inl _ \<Rightarrow> 0 | Inr delegatee \<Rightarrow> i64 (dgTotalPower delegatee - dgSelfPower delegatee), c))"

definition StakeCtrler_ReadTotalAmount :: "'t stakeEnv \<Rightarrow> ('t, 'd) StakeCtrler \<Rightarrow> u256" where
  "StakeCtrler_ReadTotalAmount E c =
     snd (FinalityLedger_IterateReadAllFinalityItems (seTree E) (delegateeItem (seDelegatees E))
       (\<lambda>d ret. (Inr (), ret + PowerToAmount (dgTotalPower d))) (scDelegateeLedger c) 0)"

definition StakeCtrler_ReadTotalPower :: "'t stakeEnv \<Rightarrow> ('t, 'd) StakeCtrler \<Rightarrow> int" where
  "StakeCtrler_ReadTotalPower E c =
     snd (FinalityLedger_IterateReadAllFinalityItems (seTree E) (delegateeItem (seDelegatees E))
       (\<lambda>d ret. (Inr (), i64 (ret + Delegatee_GetTotalPower d))) (scDelegateeLedger c) 0)"

definition StakeCtrler_ReadFrozenStakes :: "'t stakeEnv \<Rightarrow> ('t, 'd) StakeCtrler \<Rightarrow> Stake list" where
  "StakeCtrler_ReadFrozenStakes E c =
     snd (FinalityLedger_IterateReadAllFinalityItems (seTree E) (stakeItem (seStakes E))
       (\<lambda>s0 ret. (Inr (), ret @ [s0])) (scFrozenLedger c) [])"

definition StakeCtrler_RewardOf :: "'t stakeEnv \<Rightarrow> bytes \<Rightarrow> ('t, 'd) StakeCtrler \<Rightarrow> Reward option \<times> ('t, 'd) StakeCtrler" where
  "StakeCtrler_RewardOf E addr c =
     (let (r, c) = StakeCtrler_getReward E True (ToLedgerKey addr) c
      in (case r of Inl _ \<Rightarrow> None | Inr rwd \<Rightarrow> Some rwd, c))"

definition StakeCtrler_ReadRewardOf :: "'t stakeEnv \<Rightarrow> bytes \<Rightarrow> ('t, 'd) StakeCtrler \<Rightarrow> Reward option" where
  "StakeCtrler_ReadRewardOf E addr c =
     (case SimpleLedger_Read (seTree E) (rewardItem (seRewards E)) (ToLedgerKey addr) (scRewardLedger c) of
        Inl _ \<Rightarrow> None | Inr rwd \<Rightarrow> Some rwd)"

section \<open>Queries\<close>

text \<open>The request: path, height and data; the JSON text of the answers is a parameter.\<close>

record requestQuery =
  rqPath :: string
  rqHeight :: int
  rqData :: bytes

record stakeQueryOps =
  sqReward :: "Reward \<Rightarrow> string + bytes"
  sqStakes :: "Stake list \<Rightarrow> string + bytes"
  sqDelegatee :: "Delegatee \<Rightarrow> string + bytes"

definition queryWrap :: "fault \<Rightarrow> fault" where
  "queryWrap f = (case f of Panic p \<Rightarrow> Panic p | Error e \<Rightarrow> Error (xerror_Wrap ErrQuery e))"

definition queryJson :: "string + bytes \<Rightarrow> bytes res" where
  "queryJson r = (case r of Inl err \<Rightarrow> Inl (Error (xerror_Wrap ErrQuery (PlainError err))) | Inr bz \<Rightarrow> Inr bz)"

definition StakeCtrler_Query :: "'t stakeEnv \<Rightarrow> stakeQueryOps \<Rightarrow> GovParams \<Rightarrow> requestQuery \<Rightarrow> ('t, 'd) StakeCtrler \<Rightarrow> bytes res" where
  "StakeCtrler_Query E Q gov req c =
     (let T = seTree E; D = delegateeItem (seDelegatees E) in
      if rqPath req = ''reward'' then
        (case FinalityLedger_ImmutableLedgerAt T (rqHeight req) (scRewardLedger c) of
           Inl xerr \<Rightarrow> Inl (queryWrap xerr)
         | Inr atledger \<Rightarrow>
             (case SimpleLedger_Read T (rewardItem (seRewards E)) (ToLedgerKey (rqData req)) atledger of
                Inl xerr \<Rightarrow> Inl (queryWrap xerr)
              | Inr rwd \<Rightarrow> queryJson (sqReward Q rwd)))
      else if rqPath req = ''stakes'' then
        (case FinalityLedger_ImmutableLedgerAt T (rqHeight req) (scDelegateeLedger c) of
           Inl xerr \<Rightarrow> Inl (queryWrap xerr)
         | Inr atledger \<Rightarrow>
             (case SimpleLedger_IterateReadAllItems T D
                     (\<lambda>d stakes. (Inr (), stakes @ filter (\<lambda>s0. bytes_Compare (stFrom s0) (rqData req) = 0) (dgStakes d))) atledger [] of
                (Inl err, _) \<Rightarrow> Inl (queryWrap err)
              | (Inr _, stakes) \<Rightarrow> queryJson (sqStakes Q stakes)))
      else if rqPath req = ''delegatee'' then
        (case FinalityLedger_ImmutableLedgerAt T (rqHeight req) (scDelegateeLedger c) of
           Inl xerr \<Rightarrow> Inl (queryWrap xerr)
         | Inr atledger \<Rightarrow>
             (case SimpleLedger_Read T D (ToLedgerKey (rqData req)) atledger of
                Inl xerr \<Rightarrow> Inl (if xerr = Error ErrNotFoundResult then Error (xerror_Wrap ErrQuery ErrNotFoundDelegatee) else queryWrap xerr)
              | Inr delegatee \<Rightarrow> queryJson (sqDelegatee Q delegatee)))
      else if rqPath req = ''stakes/total_power'' then
        (case FinalityLedger_ImmutableLedgerAt T (rqHeight req) (scDelegateeLedger c) of
           Inl xerr \<Rightarrow> Inl (queryWrap xerr)
         | Inr atledger \<Rightarrow>
             (case SimpleLedger_IterateReadAllItems T D (\<lambda>d retPower. (Inr (), i64 (retPower + dgTotalPower d))) atledger 0 of
                (Inl xerr, _) \<Rightarrow> Inl (queryWrap xerr)
              | (Inr _, retPower) \<Rightarrow> Inr (str_bytes (strconv_FormatInt retPower))))
      else if rqPath req = ''stakes/voting_power'' then
        (case FinalityLedger_ImmutableLedgerAt T (rqHeight req) (scDelegateeLedger c) of
           Inl xerr \<Rightarrow> Inl (queryWrap xerr)
         | Inr atledger \<Rightarrow>
             (case SimpleLedger_IterateReadAllItems T D
                     (\<lambda>d ds. case GovParams_MinValidatorStake gov of
                               None \<Rightarrow> (Inl nilPointer, ds)
                             | Some stake \<Rightarrow>
                                 (case AmountToPower stake of
                                    Inl e \<Rightarrow> (Inl e, ds)
                                  | Inr minPower \<Rightarrow> (Inr (), if dgSelfPower d \<ge> minPower then ds @ [d] else ds))) atledger [] of
                (Inl xerr, _) \<Rightarrow> Inl (queryWrap xerr)
              | (Inr _, ds) \<Rightarrow>
                  (case selectValidators (go_sort PowerOrderDelegatees_Less ds) (GovParams_MaxValidatorCnt gov) of
                     Inl e \<Rightarrow> Inl e
                   | Inr validators \<Rightarrow> Inr (str_bytes (strconv_FormatInt (DelegateeArray_SumTotalPower validators))))))
      else Inl (Error (xerror_Wrapf ErrQuery ''unknown query path'')))"

end
