(* ===== verification/Rigo_ValidatorProps.thy ===== *)
theory Rigo_ValidatorProps
  imports Rigo_StakeCtrler Rigo_Instance
begin

text \<open>
  The validator set: the updates reported to the consensus engine turn the old set into the new one,
  and the new set is the delegatees of greatest power.
\<close>

section \<open>Applying updates\<close>

text \<open>The validator set of the engine maps public keys to powers; an update with power 0 removes.\<close>

definition apply_update :: "validatorUpdate \<Rightarrow> (bytes \<rightharpoonup> int) \<Rightarrow> bytes \<rightharpoonup> int" where
  "apply_update u m = m(fst u := (if snd u = 0 then None else Some (snd u)))"

definition validator_set :: "Delegatee list \<Rightarrow> bytes \<rightharpoonup> int" where
  "validator_set ds = map_of (map (\<lambda>d. (dgPubKey d, dgTotalPower d)) ds)"

text \<open>Public keys and addresses determine each other.\<close>

definition keys_ok :: "Delegatee list \<Rightarrow> bool" where
  "keys_ok ds \<longleftrightarrow> (\<forall>a \<in> set ds. \<forall>b \<in> set ds. dgPubKey a = dgPubKey b \<longleftrightarrow> dgAddr a = dgAddr b)"

lemma apply_updates:
  assumes "distinct (map fst ups)"
  shows "fold apply_update ups m k =
    (case map_of ups k of None \<Rightarrow> m k | Some pw \<Rightarrow> if pw = 0 then None else Some pw)"
  using assms
proof (induction ups arbitrary: m)
  case (Cons u ups)
  have "k = fst u \<Longrightarrow> map_of ups k = None"
    using Cons.prems by (auto simp: map_of_eq_None_iff)
  then show ?case
    using Cons by (auto simp: apply_update_def split: option.split)
qed simp

section \<open>The merge\<close>

definition addr_sorted :: "Delegatee list \<Rightarrow> bool" where
  "addr_sorted ds \<longleftrightarrow> sorted_wrt AddressOrderDelegatees_Less ds"

lemma addr_sorted_Cons: "addr_sorted (d # ds) \<longleftrightarrow> (\<forall>x \<in> set ds. bytes_Compare (dgAddr d) (dgAddr x) < 0) \<and> addr_sorted ds"
  by (simp add: addr_sorted_def AddressOrderDelegatees_Less_def)

lemma bytes_Compare_self [simp]: "bytes_Compare a a = 0"
  by simp

lemma addr_sorted_head: "addr_sorted (d # ds) \<Longrightarrow> dgAddr d \<notin> dgAddr ` set ds"
  by (auto simp: addr_sorted_Cons)

lemma addr_sorted_distinct: "addr_sorted ds \<Longrightarrow> distinct (map dgAddr ds)"
proof (induction ds)
  case (Cons d ds)
  then show ?case
    using addr_sorted_head [of d ds] by (simp add: addr_sorted_Cons)
qed simp

lemma addr_less_notin:
  assumes "bytes_Compare a (dgAddr d) < 0" "addr_sorted (d # ds)"
  shows "a \<notin> dgAddr ` set (d # ds)"
proof
  assume "a \<in> dgAddr ` set (d # ds)"
  then obtain x where x: "x \<in> set (d # ds)" "a = dgAddr x"
    by blast
  have "x = d \<or> bytes_Compare (dgAddr d) (dgAddr x) < 0"
    using x(1) assms(2) by (auto simp: addr_sorted_Cons)
  then show False
    using assms(1) bytes_Compare_antisym [of a "dgAddr d"] x(2) by auto
qed

text \<open>Which updates the merge gives: the removed validators, and those that are new or whose power
  changed.\<close>

definition is_update :: "Delegatee list \<Rightarrow> Delegatee list \<Rightarrow> validatorUpdate \<Rightarrow> bool" where
  "is_update existing newers u \<longleftrightarrow>
     (\<exists>e \<in> set existing. u = (dgPubKey e, 0) \<and> dgAddr e \<notin> dgAddr ` set newers) \<or>
     (\<exists>n \<in> set newers. u = (dgPubKey n, dgTotalPower n) \<and>
        (\<forall>e \<in> set existing. dgAddr e = dgAddr n \<longrightarrow> dgTotalPower e \<noteq> dgTotalPower n))"

lemma is_update_left:
  assumes "dgAddr e \<notin> dgAddr ` set newers"
  shows "is_update (e # existing) newers u \<longleftrightarrow> u = (dgPubKey e, 0) \<or> is_update existing newers u"
proof -
  have "(\<exists>n \<in> set newers. u = (dgPubKey n, dgTotalPower n) \<and>
        (\<forall>x \<in> set (e # existing). dgAddr x = dgAddr n \<longrightarrow> dgTotalPower x \<noteq> dgTotalPower n)) \<longleftrightarrow>
      (\<exists>n \<in> set newers. u = (dgPubKey n, dgTotalPower n) \<and>
        (\<forall>x \<in> set existing. dgAddr x = dgAddr n \<longrightarrow> dgTotalPower x \<noteq> dgTotalPower n))"
    by (rule bex_cong [OF refl]) (use assms in auto)
  then show ?thesis
    using assms unfolding is_update_def by simp
qed

lemma is_update_right:
  assumes "dgAddr n \<notin> dgAddr ` set existing"
  shows "is_update existing (n # newers) u \<longleftrightarrow> u = (dgPubKey n, dgTotalPower n) \<or> is_update existing newers u"
proof -
  have ex: "\<forall>e \<in> set existing. dgAddr e \<noteq> dgAddr n"
    using assms by (metis imageI)
  have "(\<exists>e \<in> set existing. u = (dgPubKey e, 0) \<and> dgAddr e \<notin> dgAddr ` set (n # newers)) \<longleftrightarrow>
      (\<exists>e \<in> set existing. u = (dgPubKey e, 0) \<and> dgAddr e \<notin> dgAddr ` set newers)"
    by (rule bex_cong [OF refl]) (use ex in simp)
  moreover have "\<forall>e \<in> set existing. dgAddr e = dgAddr n \<longrightarrow> dgTotalPower e \<noteq> dgTotalPower n"
    using ex by simp
  ultimately show ?thesis
    unfolding is_update_def by (simp only: list.set(2) [of n] bex_simps) blast
qed

lemma is_update_both:
  assumes "dgAddr e = dgAddr n" "dgAddr n \<notin> dgAddr ` set existing" "dgAddr n \<notin> dgAddr ` set newers"
  shows "is_update (e # existing) (n # newers) u \<longleftrightarrow>
    u = (dgPubKey n, dgTotalPower n) \<and> dgTotalPower e \<noteq> dgTotalPower n \<or> is_update existing newers u"
proof -
  have ex: "\<forall>x \<in> set existing. dgAddr x \<noteq> dgAddr n" and nw: "\<forall>y \<in> set newers. dgAddr y \<noteq> dgAddr n"
    using assms(2,3) by (metis imageI)+
  have "(\<exists>x \<in> set (e # existing). u = (dgPubKey x, 0) \<and> dgAddr x \<notin> dgAddr ` set (n # newers)) \<longleftrightarrow>
      (\<exists>x \<in> set existing. u = (dgPubKey x, 0) \<and> dgAddr x \<notin> dgAddr ` set newers)"
    using assms(1) ex by simp
  moreover have "(\<forall>x \<in> set (e # existing). dgAddr x = dgAddr n \<longrightarrow> dgTotalPower x \<noteq> dgTotalPower n) \<longleftrightarrow> dgTotalPower e \<noteq> dgTotalPower n"
    using assms(1) ex by simp
  moreover have "(\<exists>y \<in> set newers. u = (dgPubKey y, dgTotalPower y) \<and>
        (\<forall>x \<in> set (e # existing). dgAddr x = dgAddr y \<longrightarrow> dgTotalPower x \<noteq> dgTotalPower y)) \<longleftrightarrow>
      (\<exists>y \<in> set newers. u = (dgPubKey y, dgTotalPower y) \<and>
        (\<forall>x \<in> set existing. dgAddr x = dgAddr y \<longrightarrow> dgTotalPower x \<noteq> dgTotalPower y))"
    by (rule bex_cong [OF refl]) (use assms(1) nw in auto)
  ultimately show ?thesis
    unfolding is_update_def by (simp only: list.set(2)[of n] bex_simps) blast
qed

lemma set_validatorUpdates:
  "addr_sorted existing \<Longrightarrow> addr_sorted newers \<Longrightarrow> u \<in> set (validatorUpdates existing newers) \<longleftrightarrow> is_update existing newers u"
proof (induction existing newers rule: validatorUpdates.induct)
  case (3 e existing n newers)
  have ex: "addr_sorted existing" and nw: "addr_sorted newers"
    using "3.prems" by (simp_all add: addr_sorted_Cons)
  have ea: "dgAddr e \<notin> dgAddr ` set existing" and na: "dgAddr n \<notin> dgAddr ` set newers"
    using "3.prems" by (simp_all only: addr_sorted_head not_False_eq_True)
  consider (lt) "bytes_Compare (dgAddr e) (dgAddr n) < 0" | (eq) "dgAddr e = dgAddr n"
    | (gt) "bytes_Compare (dgAddr n) (dgAddr e) < 0"
    using bytes_Compare_less_total by blast
  then show ?case
  proof cases
    case lt
    then show ?thesis
      using is_update_left [OF addr_less_notin [OF lt "3.prems"(2)]] "3.IH"(1) [OF refl lt ex "3.prems"(2)]
      by (simp add: Let_def)
  next
    case eq
    then show ?thesis
      using is_update_both [OF eq _ na] ea "3.IH"(2,3) [OF refl _ _ _ ex nw] by (simp add: Let_def)
  next
    case gt
    have c: "\<not> bytes_Compare (dgAddr e) (dgAddr n) < 0" "bytes_Compare (dgAddr e) (dgAddr n) \<noteq> 0"
      using gt bytes_Compare_antisym [of "dgAddr n" "dgAddr e"] by auto
    then show ?thesis
      using is_update_right [OF addr_less_notin [OF gt "3.prems"(1)]] "3.IH"(4) [OF refl c "3.prems"(1) nw]
      by (simp add: Let_def)
  qed
qed (auto simp: is_update_def)

lemma validatorUpdates_origin: "u \<in> set (validatorUpdates xs ys) \<Longrightarrow> fst u \<in> dgPubKey ` set xs \<union> dgPubKey ` set ys"
proof (induction xs ys rule: validatorUpdates.induct)
  case (3 e existing n newers)
  then show ?case
    by (cases "bytes_Compare (dgAddr e) (dgAddr n) < 0"; cases "bytes_Compare (dgAddr e) (dgAddr n) = 0")
       (auto simp: Let_def split: if_splits)
qed auto

lemma validatorUpdates_other:
  assumes "k \<notin> dgPubKey ` set xs" "k \<notin> dgPubKey ` set ys"
  shows "map_of (validatorUpdates xs ys) k = None"
proof (cases "map_of (validatorUpdates xs ys) k")
  case (Some pw)
  then have "k \<in> dgPubKey ` set xs \<union> dgPubKey ` set ys"
    using validatorUpdates_origin [OF map_of_SomeD] by fastforce
  with assms show ?thesis
    by simp
qed

lemma validatorUpdates_fresh:
  assumes "keys_ok zs" "d \<in> set zs" "set xs \<subseteq> set zs" "set ys \<subseteq> set zs"
    and "dgAddr d \<notin> dgAddr ` set xs" "dgAddr d \<notin> dgAddr ` set ys"
  shows "dgPubKey d \<notin> fst ` set (validatorUpdates xs ys)"
proof
  assume "dgPubKey d \<in> fst ` set (validatorUpdates xs ys)"
  then obtain u where u: "u \<in> set (validatorUpdates xs ys)" "dgPubKey d = fst u"
    by (rule imageE) simp
  obtain x where x: "dgPubKey d = dgPubKey x" "x \<in> set xs \<union> set ys"
    using validatorUpdates_origin [OF u(1)] u(2) by auto
  have "x \<in> set zs"
    using x(2) assms(3,4) by auto
  with assms(1,2) x(1) have "dgAddr d = dgAddr x"
    by (simp add: keys_ok_def)
  with x(2) assms(5,6) show False
    by auto
qed

lemma distinct_keys:
  assumes "addr_sorted ds" "keys_ok ds"
  shows "distinct (map dgPubKey ds)"
proof -
  have "distinct ds" "inj_on dgAddr (set ds)"
    using addr_sorted_distinct [OF assms(1)] by (simp_all add: distinct_map)
  moreover have "inj_on dgPubKey (set ds)"
    using assms(2) \<open>inj_on dgAddr (set ds)\<close> unfolding inj_on_def keys_ok_def by simp
  ultimately show ?thesis
    by (simp add: distinct_map)
qed

lemma distinct_validatorUpdates:
  "addr_sorted existing \<Longrightarrow> addr_sorted newers \<Longrightarrow> keys_ok (existing @ newers) \<Longrightarrow> distinct (map fst (validatorUpdates existing newers))"
proof (induction existing newers rule: validatorUpdates.induct)
  case (3 e existing n newers)
  have ex: "addr_sorted existing" and nw: "addr_sorted newers"
    using "3.prems" by (simp_all add: addr_sorted_Cons)
  have keys: "keys_ok (existing @ n # newers)" "keys_ok (existing @ newers)" "keys_ok ((e # existing) @ newers)"
    using "3.prems"(3) by (auto simp: keys_ok_def)
  consider (lt) "bytes_Compare (dgAddr e) (dgAddr n) < 0" | (eq) "dgAddr e = dgAddr n"
    | (gt) "bytes_Compare (dgAddr n) (dgAddr e) < 0"
    using bytes_Compare_less_total by blast
  then show ?case
  proof cases
    case lt
    have "dgPubKey e \<notin> fst ` set (validatorUpdates existing (n # newers))"
      using addr_less_notin [OF lt "3.prems"(2)] addr_sorted_head [OF "3.prems"(1)]
      by (intro validatorUpdates_fresh [OF "3.prems"(3)]) auto
    then show ?thesis
      using lt "3.IH"(1) [OF refl lt ex "3.prems"(2) keys(1)] by (simp add: Let_def)
  next
    case eq
    have "dgPubKey n \<notin> fst ` set (validatorUpdates existing newers)"
      using eq addr_sorted_head [OF "3.prems"(1)] addr_sorted_head [OF "3.prems"(2)]
      by (intro validatorUpdates_fresh [OF "3.prems"(3)]) auto
    then show ?thesis
      using eq "3.IH"(2,3) [OF refl _ _ _ ex nw keys(2)] by (auto simp: Let_def)
  next
    case gt
    have "\<not> bytes_Compare (dgAddr e) (dgAddr n) < 0" "bytes_Compare (dgAddr e) (dgAddr n) \<noteq> 0"
      using gt bytes_Compare_antisym [of "dgAddr n" "dgAddr e"] by auto
    moreover have "dgPubKey n \<notin> fst ` set (validatorUpdates (e # existing) newers)"
      using addr_less_notin [OF gt "3.prems"(1)] addr_sorted_head [OF "3.prems"(2)]
      by (intro validatorUpdates_fresh [OF "3.prems"(3)]) auto
    ultimately show ?thesis
      using "3.IH"(4) [OF refl _ _ "3.prems"(1) nw keys(3)] by (simp add: Let_def)
  qed
next
  case (2 e existing)
  then have "distinct (map dgPubKey (e # existing))"
    by (intro distinct_keys) simp_all
  then show ?case
    by (simp add: comp_def)
qed (simp add: comp_def distinct_keys)

section \<open>The updates are right\<close>

lemma validator_set_Some:
  assumes "distinct (map dgPubKey ds)"
  shows "validator_set ds k = Some pw \<longleftrightarrow> (\<exists>d \<in> set ds. dgPubKey d = k \<and> dgTotalPower d = pw)"
proof -
  have "distinct (map fst (map (\<lambda>d. (dgPubKey d, dgTotalPower d)) ds))"
    using assms by (simp add: comp_def)
  then show ?thesis
    unfolding validator_set_def by (simp add: map_of_eq_Some_iff image_iff) (metis (no_types))
qed

lemma validator_set_None: "validator_set ds k = None \<longleftrightarrow> k \<notin> dgPubKey ` set ds"
  unfolding validator_set_def by (simp add: map_of_eq_None_iff image_comp comp_def)

text \<open>What the updates say about the key of a validator.\<close>

lemma updates_lookup:
  assumes sorted: "addr_sorted existing" "addr_sorted newers" and keys: "keys_ok (existing @ newers)"
  defines "ups \<equiv> validatorUpdates existing newers"
  shows changed: "n \<in> set newers \<Longrightarrow> \<forall>e \<in> set existing. dgAddr e = dgAddr n \<longrightarrow> dgTotalPower e \<noteq> dgTotalPower n \<Longrightarrow>
      map_of ups (dgPubKey n) = Some (dgTotalPower n)"
    and removed: "e \<in> set existing \<Longrightarrow> dgAddr e \<notin> dgAddr ` set newers \<Longrightarrow> map_of ups (dgPubKey e) = Some 0"
    and same: "n \<in> set newers \<Longrightarrow> e \<in> set existing \<Longrightarrow> dgAddr e = dgAddr n \<Longrightarrow> dgTotalPower e = dgTotalPower n \<Longrightarrow>
      map_of ups (dgPubKey n) = None"
proof -
  have dist: "distinct (map fst ups)"
    unfolding ups_def by (rule distinct_validatorUpdates [OF sorted keys])
  have mem: "map_of ups k = Some pw \<longleftrightarrow> is_update existing newers (k, pw)" for k pw
    using dist set_validatorUpdates [OF sorted] by (simp add: ups_def map_of_eq_Some_iff)
  show "map_of ups (dgPubKey n) = Some (dgTotalPower n)"
    if "n \<in> set newers" "\<forall>e \<in> set existing. dgAddr e = dgAddr n \<longrightarrow> dgTotalPower e \<noteq> dgTotalPower n"
    using that unfolding mem is_update_def by blast
  show "map_of ups (dgPubKey e) = Some 0" if "e \<in> set existing" "dgAddr e \<notin> dgAddr ` set newers"
    using that unfolding mem is_update_def by blast
  assume n: "n \<in> set newers" and e: "e \<in> set existing" "dgAddr e = dgAddr n" "dgTotalPower e = dgTotalPower n"
  have key: "dgAddr x = dgAddr n" if "x \<in> set existing \<union> set newers" "dgPubKey x = dgPubKey n" for x
    using keys that n by (simp add: keys_ok_def)
  have inj: "x = n" if "x \<in> set newers" "dgAddr x = dgAddr n" for x
    using addr_sorted_distinct [OF sorted(2)] that n by (simp add: distinct_map inj_on_def)
  show "map_of ups (dgPubKey n) = None"
  proof (rule ccontr)
    assume "map_of ups (dgPubKey n) \<noteq> None"
    then obtain pw where "is_update existing newers (dgPubKey n, pw)"
      using mem by blast
    then consider x where "x \<in> set existing" "dgPubKey x = dgPubKey n" "dgAddr x \<notin> dgAddr ` set newers"
      | y where "y \<in> set newers" "dgPubKey y = dgPubKey n" "\<forall>e \<in> set existing. dgAddr e = dgAddr y \<longrightarrow> dgTotalPower e \<noteq> dgTotalPower y"
      unfolding is_update_def by auto
    then show False
    proof cases
      case (1 x)
      then show False
        using key [of x] n by (metis UnI1 imageI)
    next
      case (2 y)
      then have "y = n"
        using key [of y] inj [of y] by simp
      then show False
        using 2(3) e by simp
    qed
  qed
qed

lemma validatorUpdates_apply:
  assumes "addr_sorted existing" "addr_sorted newers" "keys_ok (existing @ newers)" "\<forall>n \<in> set newers. dgTotalPower n \<noteq> 0"
  shows "fold apply_update (validatorUpdates existing newers) (validator_set existing) = validator_set newers"
proof
  fix k
  note look = updates_lookup [OF assms(1-3)]
  note app = apply_updates [OF distinct_validatorUpdates [OF assms(1-3)], of "validator_set existing" k]
  have de: "distinct (map dgPubKey existing)" and dn: "distinct (map dgPubKey newers)"
    using assms(1-3) by (auto intro!: distinct_keys simp: keys_ok_def)
  have key: "dgPubKey a = dgPubKey b \<longleftrightarrow> dgAddr a = dgAddr b" if "a \<in> set existing \<union> set newers" "b \<in> set existing \<union> set newers" for a b
    using assms(3) that by (simp add: keys_ok_def)
  consider (new) n where "n \<in> set newers" "dgPubKey n = k" | (old) e where "e \<in> set existing" "dgPubKey e = k" "k \<notin> dgPubKey ` set newers"
    | (none) "k \<notin> dgPubKey ` set existing" "k \<notin> dgPubKey ` set newers"
    by (metis imageE)
  then show "fold apply_update (validatorUpdates existing newers) (validator_set existing) k = validator_set newers k"
  proof cases
    case (new n)
    have v: "validator_set newers k = Some (dgTotalPower n)"
      using new dn by (auto simp: validator_set_Some)
    show ?thesis
    proof (cases "\<exists>e \<in> set existing. dgAddr e = dgAddr n \<and> dgTotalPower e = dgTotalPower n")
      case True
      then obtain e where e: "e \<in> set existing" "dgAddr e = dgAddr n" "dgTotalPower e = dgTotalPower n"
        by blast
      then have "validator_set existing k = Some (dgTotalPower n)"
        using new key [of e n] de by (auto simp: validator_set_Some)
      then show ?thesis
        using look(3) [OF new(1) e] v new(2) by (simp add: app)
    next
      case False
      then show ?thesis
        using look(1) [OF new(1)] v new assms(4) by (auto simp: app)
    qed
  next
    case (old e)
    then have "dgAddr e \<notin> dgAddr ` set newers"
    proof -
      have "dgAddr e \<noteq> dgAddr n" if "n \<in> set newers" for n
        using key [of e n] old that by auto
      then show ?thesis
        by (metis imageE)
    qed
    then show ?thesis
      using look(2) [OF old(1)] old validator_set_None [of newers k] by (simp add: app)
  next
    case none
    then have "map_of (validatorUpdates existing newers) k = None"
      by (rule validatorUpdates_other)
    then show ?thesis
      using none validator_set_None [of newers k] validator_set_None [of existing k] by (simp add: app)
  qed
qed

section \<open>Choosing the validators\<close>

definition power_sorted :: "Delegatee list \<Rightarrow> bool" where
  "power_sorted ds \<longleftrightarrow> sorted_wrt PowerOrderDelegatees_Less ds \<and> distinct (map dgAddr ds)"

lemma addr_sorted_go_sort: "distinct (map dgAddr ds) \<Longrightarrow> addr_sorted (go_sort AddressOrderDelegatees_Less ds)"
  unfolding addr_sorted_def by (rule addressOrder.strictly_sorted) (simp_all add: addressOrder.sorted_go_sort)

lemma validator_set_go_sort:
  assumes "distinct (map dgPubKey ds)"
  shows "validator_set (go_sort lt ds) = validator_set ds"
proof
  fix k
  have "validator_set (go_sort lt ds) k = Some pw \<longleftrightarrow> validator_set ds k = Some pw" for pw
    using validator_set_Some [OF assms, of k pw] validator_set_Some [of "go_sort lt ds" k pw] assms by simp
  then show "validator_set (go_sort lt ds) k = validator_set ds k"
    by (metis not_None_eq)
qed

lemma keys_ok_distinct: "keys_ok ds \<Longrightarrow> distinct (map dgAddr ds) \<Longrightarrow> distinct (map dgPubKey ds)"
  by (simp add: distinct_map inj_on_def keys_ok_def)

text \<open>C16. \<^verbatim>\<open>updateValidators\<close> (\<^verbatim>\<open>ctrler.go\<close>): with the delegatees in the order of power that \<^verbatim>\<open>BeginBlock\<close>
  puts them in, the new validators are the first \<open>maxVals\<close> of them, so that nobody left out precedes a
  validator, and the array keeps its order although part of it is sorted by address in between. The
  updates reported turn the validator set of the consensus engine into the new one, and no key is
  reported twice.\<close>

theorem StakeCtrler_updateValidators_correct:
  assumes "power_sorted (scAllDelegatees c)" "distinct (map dgAddr (scLastValidators c))" "0 \<le> maxVals"
    and "keys_ok (scLastValidators c @ scAllDelegatees c)" "\<forall>d \<in> set (scAllDelegatees c). dgTotalPower d \<noteq> 0"
  shows "\<exists>ups c'. StakeCtrler_updateValidators maxVals c = (Inr ups, c') \<and>
    scLastValidators c' = take (nat maxVals) (scAllDelegatees c) \<and> scAllDelegatees c' = scAllDelegatees c \<and>
    fold apply_update ups (validator_set (scLastValidators c)) = validator_set (scLastValidators c') \<and>
    distinct (map fst ups) \<and>
    (\<forall>v \<in> set (scLastValidators c'). \<forall>d \<in> set (drop (nat maxVals) (scAllDelegatees c)). PowerOrderDelegatees_Less v d)"
proof -
  let ?all = "scAllDelegatees c"
  let ?last = "scLastValidators c"
  let ?new = "take (nat maxVals) ?all"
  let ?byAddr = "go_sort AddressOrderDelegatees_Less"
  have dist: "distinct (map dgAddr ?new)" and sorted: "sorted_wrt PowerOrderDelegatees_Less ?new"
    using assms(1) by (simp_all add: power_sorted_def take_map [symmetric] sorted_wrt_take)
  have sel: "selectValidators ?all maxVals = Inr ?new"
    using assms(3) by (simp add: selectValidators_def Let_def min_def)
  have resort: "go_sort PowerOrderDelegatees_Less (?byAddr ?new) = ?new"
    using powerOrder.go_sort_perm [OF dist, of "?byAddr ?new"] powerOrder.sorted_id [OF dist sorted] by simp
  have keys: "keys_ok (?byAddr ?last @ ?byAddr ?new)" "keys_ok ?last" "keys_ok ?new"
    using assms(4) set_take_subset [of "nat maxVals" ?all] unfolding keys_ok_def by auto
  have srt: "addr_sorted (?byAddr ?last)" "addr_sorted (?byAddr ?new)"
    using assms(2) dist by (simp_all add: addr_sorted_go_sort)
  have pos: "\<forall>n \<in> set (?byAddr ?new). dgTotalPower n \<noteq> 0"
    using assms(5) set_take_subset [of "nat maxVals" ?all] by auto
  have app: "fold apply_update (validatorUpdates (?byAddr ?last) (?byAddr ?new)) (validator_set ?last) = validator_set ?new"
    using validatorUpdates_apply [OF srt keys(1) pos] keys_ok_distinct [OF keys(2) assms(2)] keys_ok_distinct [OF keys(3) dist]
    by (simp add: validator_set_go_sort)
  have top: "\<forall>v \<in> set ?new. \<forall>d \<in> set (drop (nat maxVals) ?all). PowerOrderDelegatees_Less v d"
    using assms(1) unfolding power_sorted_def by (metis append_take_drop_id sorted_wrt_append)
  show ?thesis
    unfolding StakeCtrler_updateValidators_def sel
    using app top distinct_validatorUpdates [OF srt keys(1)]
    by (simp add: Let_def resort min_def)
qed

definition demoVal :: "byte \<Rightarrow> int \<Rightarrow> Delegatee" where
  "demoVal a pw = (NewDelegatee [a] [a, a])\<lparr>dgTotalPower := pw\<rparr>"

definition demoStakeCtrler :: "(vtree, bytes \<rightharpoonup> bytes) StakeCtrler" where
  "demoStakeCtrler =
     \<lparr>scRwdHashDB = OpenMetaDB Map.empty, scAllDelegatees = [demoVal 3 30, demoVal 1 20, demoVal 2 10],
      scLastValidators = [demoVal 1 20, demoVal 2 10], scDelegateeLedger = emptyLedger, scFrozenLedger = emptyLedger,
      scRewardLedger = emptyLedger, scRwdLedgUpInterval = 10, scLastRwdHash = [],
      scStakeLimiter = NewStakeLimiter [] 2 33 33\<rparr>"

theorem StakeCtrler_updateValidators_correct_witness:
  "\<exists>ups c'. StakeCtrler_updateValidators 2 demoStakeCtrler = (Inr ups, c') \<and>
     scLastValidators c' = [demoVal 3 30, demoVal 1 20] \<and> ups = [([2, 2], 0), ([3, 3], 30)]"
proof -
  have sel: "dgAddr (demoVal a pw) = [a]" "dgPubKey (demoVal a pw) = [a, a]" "dgTotalPower (demoVal a pw) = pw" "dgStakes (demoVal a pw) = []" for a pw
    by (simp_all add: demoVal_def NewDelegatee_def)
  have h: "power_sorted (scAllDelegatees demoStakeCtrler)" "distinct (map dgAddr (scLastValidators demoStakeCtrler))"
    "keys_ok (scLastValidators demoStakeCtrler @ scAllDelegatees demoStakeCtrler)"
    "\<forall>d \<in> set (scAllDelegatees demoStakeCtrler). dgTotalPower d \<noteq> 0"
    by (simp_all add: demoStakeCtrler_def power_sorted_def keys_ok_def sel PowerOrderDelegatees_Less_def)
  obtain ups c' where u: "StakeCtrler_updateValidators 2 demoStakeCtrler = (Inr ups, c')"
    "scLastValidators c' = take (nat 2) (scAllDelegatees demoStakeCtrler)"
    using StakeCtrler_updateValidators_correct [OF h(1,2) _ h(3,4), of 2] by auto
  have tk: "take (nat 2) (x # y # zs) = [x, y]" for x y :: Delegatee and zs
    by (simp add: numeral_2_eq_2)
  have lt: "[3 :: byte] \<noteq> [1]" "bytes_Compare [3 :: byte] [1] = 1" "bytes_Compare [1 :: byte] [3] = - 1"
    "bytes_Compare [1 :: byte] [2] = - 1" "bytes_Compare [2 :: byte] [1] = 1" "bytes_Compare [2 :: byte] [3] = - 1"
    by simp_all
  have "ups = [([2, 2], 0), ([3, 3], 30)]"
    using u(1)
    by (auto simp: StakeCtrler_updateValidators_def selectValidators_def demoStakeCtrler_def Let_def tk
      AddressOrderDelegatees_Less_def sel lt)
  then show ?thesis
    using u by (simp add: demoStakeCtrler_def tk)
qed

end
