(* ===== verification/Rigo_TwoLevel.thy ===== *)
theory Rigo_TwoLevel
  imports Rigo_LedgerRefine
begin

text \<open>
  The controllers pick the level of a ledger by the flag of the transaction: the level of the block
  being executed, or the level of CheckTx. Either choice is a \<open>ledger_level\<close>, so a controller is
  reasoned about once for both.
\<close>

definition ledger_get :: "'t treeOps \<Rightarrow> 'a itemOps \<Rightarrow> bool \<Rightarrow> ledgerKey \<Rightarrow> ('t, 'a) FinalityLedger \<Rightarrow> 'a res \<times> ('t, 'a) FinalityLedger" where
  "ledger_get T I exec k l = (if exec then FinalityLedger_GetFinality T I k l else SimpleLedger_Get T I k l)"

definition ledger_put :: "'a itemOps \<Rightarrow> bool \<Rightarrow> 'a \<Rightarrow> ('t, 'a) FinalityLedger \<Rightarrow> unit res \<times> ('t, 'a) FinalityLedger" where
  "ledger_put I exec x l = (if exec then FinalityLedger_SetFinality I x l else SimpleLedger_Set I x l)"

definition ledger_del :: "'t treeOps \<Rightarrow> 'a itemOps \<Rightarrow> bool \<Rightarrow> ledgerKey \<Rightarrow> ('t, 'a) FinalityLedger \<Rightarrow> 'a res \<times> ('t, 'a) FinalityLedger" where
  "ledger_del T I exec k l = (if exec then FinalityLedger_DelFinality T I k l else SimpleLedger_Del T I k l)"

definition two_level :: "'a itemOps \<Rightarrow> ('t \<Rightarrow> bytes \<rightharpoonup> bytes) \<Rightarrow> bool \<Rightarrow> ('t, 'a) FinalityLedger \<Rightarrow> 'a levelSpec" where
  "two_level I A exec l = (if exec then exec_level I A l else check_level I A l)"

lemma two_get:
  assumes "finality_inv T I A H l"
  shows "fst (ledger_get T I exec k l) = of_option (level_get k (two_level I A exec l))"
    "finality_inv T I A H (snd (ledger_get T I exec k l))"
    "two_level I A e (snd (ledger_get T I exec k l)) = two_level I A e l"
    "tree (snd (ledger_get T I exec k l)) = tree l"
proof -
  have "refines T I A H (ledger_op T I (if exec then OpGetFinality k else OpGet k) l)
      (spec_op (Key I) (if exec then OpGetFinality k else OpGet k) (ledger_abs T I A H l))"
    using assms by (intro refines_op) simp_all
  then show "fst (ledger_get T I exec k l) = of_option (level_get k (two_level I A exec l))"
    "finality_inv T I A H (snd (ledger_get T I exec k l))"
    "two_level I A e (snd (ledger_get T I exec k l)) = two_level I A e l"
    by (cases exec; auto simp: refines_def ledger_get_def two_level_def ledger_abs_def)+
  have "simple_inv T I A H l"
    using assms by (simp add: finality_inv_def)
  then show "tree (snd (ledger_get T I exec k l)) = tree l"
    using finality_get(4) [OF assms, of k] simple_get(4) [of T I A H l k] by (auto simp: ledger_get_def)
qed

lemma two_put:
  assumes "finality_inv T I A H l" "item_ok I x"
  shows "finality_inv T I A H (snd (ledger_put I exec x l))"
    "two_level I A exec (snd (ledger_put I exec x l)) = level_set (Key I x) x (two_level I A exec l)"
    "two_level I A (\<not> exec) (snd (ledger_put I exec x l)) = two_level I A (\<not> exec) l"
proof -
  have "refines T I A H (ledger_op T I (if exec then OpSetFinality x else OpSet x) l)
      (spec_op (Key I) (if exec then OpSetFinality x else OpSet x) (ledger_abs T I A H l))"
    using assms by (intro refines_op) simp_all
  then show "finality_inv T I A H (snd (ledger_put I exec x l))"
    "two_level I A exec (snd (ledger_put I exec x l)) = level_set (Key I x) x (two_level I A exec l)"
    "two_level I A (\<not> exec) (snd (ledger_put I exec x l)) = two_level I A (\<not> exec) l"
    by (cases exec; auto simp: refines_def ledger_put_def two_level_def ledger_abs_def)+
qed

lemma two_put_result [simp]: "fst (ledger_put I exec x l) = Inr ()" "tree (snd (ledger_put I exec x l)) = tree l"
  by (simp_all add: ledger_put_def FinalityLedger_SetFinality_def SimpleLedger_Set_def)

lemma two_del:
  assumes "finality_inv T I A H l"
  shows "fst (ledger_del T I exec k l) = of_option (level_get k (two_level I A exec l))"
    "finality_inv T I A H (snd (ledger_del T I exec k l))"
    "two_level I A exec (snd (ledger_del T I exec k l)) = level_del k (two_level I A exec l)"
    "tree (snd (ledger_del T I exec k l)) = tree l"
proof -
  have "refines T I A H (ledger_op T I (if exec then OpDelFinality k else OpDel k) l)
      (spec_op (Key I) (if exec then OpDelFinality k else OpDel k) (ledger_abs T I A H l))"
    using assms by (intro refines_op) simp_all
  then show "fst (ledger_del T I exec k l) = of_option (level_get k (two_level I A exec l))"
    "finality_inv T I A H (snd (ledger_del T I exec k l))"
    "two_level I A exec (snd (ledger_del T I exec k l)) = level_del k (two_level I A exec l)"
    by (cases exec; auto simp: refines_def ledger_del_def two_level_def ledger_abs_def)+
  have "simple_inv T I A H l"
    using assms by (simp add: finality_inv_def)
  then show "tree (snd (ledger_del T I exec k l)) = tree l"
    using finality_del(5) [OF assms, of k] simple_del(4) [of T I A H l k] by (auto simp: ledger_del_def)
qed

lemma two_level_key:
  assumes "finality_inv T I A H l" "level_get k (two_level I A exec l) = Some x"
  shows "Key I x = k"
proof -
  have "simple_inv T I A H l"
    using assms(1) by (simp add: finality_inv_def)
  then show ?thesis
    using execLevel.level_key [OF assms(1), of k x] checkLevel.level_key [of T I A H l k x] assms(2)
    by (simp add: two_level_def split: if_splits)
qed

interpretation twoLevel: ledger_level "finality_inv T I A H" "item_ok I" "Key I" "ledger_base I A" "two_level I A exec"
  "ledger_get T I exec" "ledger_put I exec" "ledger_del T I exec"
  for T :: "'t treeOps" and I :: "'a itemOps" and A H exec
proof (unfold_locales, goal_cases)
  case (1 s k x)
  then show ?case
    by (rule two_level_key)
qed (simp_all add: two_get two_put two_del ledger_base_def)

text \<open>Every item of a level can be stored again: it was stored, or decoded from the tree.\<close>

lemma two_level_item:
  assumes "finality_inv T I A H l" "level_get k (two_level I A exec l) = Some x"
    and dec: "\<And>bz y. Decode I bz = Inr y \<Longrightarrow> item_ok I y"
  shows "item_ok I x"
proof -
  let ?m = "if exec then finalityItems l else cachedItems l"
  have m: "mi_inv I (ledger_base I A l) ?m" and lv: "two_level I A exec l = mi_level (ledger_base I A l) ?m"
    using assms(1) by (auto simp: finality_inv_def simple_inv_def two_level_def exec_level_def check_level_def)
  have b: "ledger_base I A l k = Some x \<Longrightarrow> item_ok I x"
    by (auto simp: ledger_base_def items_def intro: dec split: option.splits sum.splits if_splits)
  show ?thesis
  proof (cases "map_of (gotItems ?m) k")
    case None
    then show ?thesis
      using assms(2) b by (auto simp: lv level_get_mi split: if_splits)
  next
    case (Some y)
    then have y: "y = x"
      using assms(2) by (simp add: lv level_get_mi split: if_splits)
    show ?thesis
      using mi_invD(7) [OF m Some] mi_invD(4,5) [OF m] Some b y
      by (cases "map_of (updatedItems ?m) k") auto
  qed
qed

text \<open>Reading every committed item in the order of the keys.\<close>

definition decoded :: "'a itemOps \<Rightarrow> (bytes \<times> bytes) list \<Rightarrow> 'a list" where
  "decoded I es = concat (map (\<lambda>(k, bz). case Decode I bz of Inr x \<Rightarrow> [x] | Inl _ \<Rightarrow> []) es)"

definition committed :: "'t treeOps \<Rightarrow> 'a itemOps \<Rightarrow> ('t, 'a, 'z) SimpleLedger_scheme \<Rightarrow> 'a list" where
  "committed T I l = (case treeIterate T (tree l) of Inl _ \<Rightarrow> [] | Inr es \<Rightarrow> decoded I es)"

fun iterate :: "('a \<Rightarrow> 's \<Rightarrow> unit res \<times> 's) \<Rightarrow> 'a list \<Rightarrow> 's \<Rightarrow> unit res \<times> 's" where
  "iterate cb [] s = (Inr (), s)"
| "iterate cb (x # xs) s = bindE (cb x s) (\<lambda>_ s. iterate cb xs s)"

lemma decoded_simps:
  "decoded I [] = []"
  "decoded I ((k, bz) # es) = (case Decode I bz of Inr x \<Rightarrow> [x] | Inl _ \<Rightarrow> []) @ decoded I es"
  by (simp_all add: decoded_def)

lemma set_decoded: "x \<in> set (decoded I es) \<longleftrightarrow> (\<exists>k bz. (k, bz) \<in> set es \<and> Decode I bz = Inr x)"
proof (induction es)
  case (Cons e es)
  obtain k bz where e: "e = (k, bz)"
    by (rule prod.exhaust)
  show ?case
    using Cons by (cases "Decode I bz") (auto simp: e decoded_simps)
qed (simp add: decoded_simps)

lemma decoded_eq:
  assumes "\<forall>(k, bz) \<in> set es. \<exists>x. Decode I bz = Inr x \<and> Key I x = k \<and> length k = 32"
  shows "iterateTree I es cb = iterate cb (decoded I es) \<and> map (Key I) (decoded I es) = map fst es"
  using assms
proof (induction es)
  case (Cons e es)
  obtain k bz where e: "e = (k, bz)"
    by (rule prod.exhaust)
  obtain x where x: "Decode I bz = Inr x" "Key I x = k" "length k = 32"
    using Cons.prems e by auto
  have IH: "iterateTree I es cb = iterate cb (decoded I es)" "map (Key I) (decoded I es) = map fst es"
    using Cons by auto
  show ?case
    using x IH by (intro conjI ext) (simp_all add: e decoded_simps)
qed (simp add: decoded_simps fun_eq_iff)

lemma read_all:
  assumes "finality_inv T I A H l" "\<And>x. length (Key I x) = 32"
  shows "SimpleLedger_IterateReadAllItems T I cb l s = iterate cb (committed T I l) s"
    "distinct (map (Key I) (committed T I l))"
    "x \<in> set (committed T I l) \<longleftrightarrow> ledger_base I A l (Key I x) = Some x"
proof -
  have laws: "tree_laws T A H" and wf: "map_wf I (A (tree l))"
    using assms(1) by (simp_all add: finality_inv_def simple_inv_def)
  obtain es where es: "treeIterate T (tree l) = Inr es" "distinct (map fst es)" "map_of es = A (tree l)"
    using laws unfolding tree_laws_def by blast
  have look: "(k, bz) \<in> set es \<longleftrightarrow> A (tree l) k = Some bz" for k bz
    using es(2,3) by (metis map_of_eq_Some_iff)
  have ent: "\<forall>(k, bz) \<in> set es. \<exists>x. Decode I bz = Inr x \<and> Key I x = k \<and> length k = 32"
    using look wf assms(2) unfolding map_wf_def by fast
  show "SimpleLedger_IterateReadAllItems T I cb l s = iterate cb (committed T I l) s"
    using decoded_eq [OF ent, of cb] by (simp add: SimpleLedger_IterateReadAllItems_def es(1) committed_def)
  show "distinct (map (Key I) (committed T I l))"
    using es(2) by (simp add: committed_def es(1) decoded_eq [OF ent, THEN conjunct2])
  have "x \<in> set (decoded I es) \<longleftrightarrow> (\<exists>k bz. (k, bz) \<in> set es \<and> Decode I bz = Inr x)"
    by (rule set_decoded)
  also have "\<dots> \<longleftrightarrow> (\<exists>bz. A (tree l) (Key I x) = Some bz \<and> Decode I bz = Inr x)"
  proof
    assume "\<exists>k bz. (k, bz) \<in> set es \<and> Decode I bz = Inr x"
    then obtain k bz where k: "(k, bz) \<in> set es" "Decode I bz = Inr x"
      by blast
    with ent have "Key I x = k"
      by auto
    with k look show "\<exists>bz. A (tree l) (Key I x) = Some bz \<and> Decode I bz = Inr x"
      by blast
  qed (use look in blast)
  also have "\<dots> \<longleftrightarrow> ledger_base I A l (Key I x) = Some x"
    by (auto simp: ledger_base_def items_def split: option.splits sum.splits)
  finally show "x \<in> set (committed T I l) \<longleftrightarrow> ledger_base I A l (Key I x) = Some x"
    by (simp add: committed_def es(1))
qed

end
