(* ===== verification/Rigo_StakeCodec.thy ===== *)
theory Rigo_StakeCodec
  imports Rigo_StakeCtrler Rigo_Codec Rigo_Instance Rigo_AcctProps
begin

text \<open>
  Concrete codecs of stakes, delegatees and rewards, as sequences of fields, and an environment of the
  stake controller that uses them. They show that the laws asked of JSON and protobuf can hold and are
  no part of the repository.
\<close>

definition json_laws :: "'a jsonOps \<Rightarrow> bool" where
  "json_laws J \<longleftrightarrow> (\<forall>x. \<exists>bz. jsonMarshal J x = Inr bz \<and> jsonUnmarshal J bz = Inr x)"

definition rewardProto_laws :: "rewardProtoOps \<Rightarrow> bool" where
  "rewardProto_laws R \<longleftrightarrow> (\<forall>m. \<exists>bz. rewardMarshal R m = Inr bz \<and> rewardUnmarshal R bz = Inr m)"

text \<open>A codec from a sequence of a fixed number of fields.\<close>

definition fieldsJson :: "nat \<Rightarrow> ('a \<Rightarrow> bytes list) \<Rightarrow> (bytes list \<Rightarrow> 'a) \<Rightarrow> 'a jsonOps" where
  "fieldsJson n to from = \<lparr>jsonMarshal = (\<lambda>x. Inr (enc_fields (to x))), jsonUnmarshal = dec_msg n from\<rparr>"

lemma fieldsJson_laws: "(\<And>x. length (to x) = n \<and> from (to x) = x) \<Longrightarrow> json_laws (fieldsJson n to from)"
  by (simp add: json_laws_def fieldsJson_def dec_msg_enc)

definition stakeFields :: "Stake \<Rightarrow> bytes list" where
  "stakeFields s = [stFrom s, stTo s, stTxHash s, int_field (stStartHeight s), int_field (stRefundHeight s), int_field (stPower s)]"

definition fieldsStake :: "bytes list \<Rightarrow> Stake" where
  "fieldsStake fs = \<lparr>stFrom = fs ! 0, stTo = fs ! 1, stTxHash = fs ! 2, stStartHeight = field_int (fs ! 3),
     stRefundHeight = field_int (fs ! 4), stPower = field_int (fs ! 5)\<rparr>"

definition demoStakes :: "Stake jsonOps" where
  "demoStakes = fieldsJson 6 stakeFields fieldsStake"

lemma stakeFields_roundtrip: "length (stakeFields s) = 6 \<and> fieldsStake (stakeFields s) = s"
  by (simp add: stakeFields_def fieldsStake_def)

lemma demoStakes_laws [simp]: "json_laws demoStakes"
  unfolding demoStakes_def by (rule fieldsJson_laws) (rule stakeFields_roundtrip)

definition stake_field :: "Stake \<Rightarrow> bytes" where
  "stake_field s = enc_fields (stakeFields s)"

definition field_stake :: "bytes \<Rightarrow> Stake" where
  "field_stake bz = fieldsStake (the (dec_fields 6 bz))"

lemma field_stake_field: "field_stake (stake_field s) = s"
  using stakeFields_roundtrip [of s] dec_enc_fields [of "stakeFields s"] by (simp add: field_stake_def stake_field_def)

definition delegateeFields :: "Delegatee \<Rightarrow> bytes list" where
  "delegateeFields d = [dgAddr d, dgPubKey d, int_field (dgSelfPower d), int_field (dgTotalPower d), int_field (dgSlashedPower d),
     be_bytes (length (dgStakes d)), enc_fields (map stake_field (dgStakes d)),
     be_bytes (length (bmBlockHeights (dgNotSignedHeights d))), enc_fields (map int_field (bmBlockHeights (dgNotSignedHeights d)))]"

definition fieldsDelegatee :: "bytes list \<Rightarrow> Delegatee" where
  "fieldsDelegatee fs = \<lparr>dgAddr = fs ! 0, dgPubKey = fs ! 1, dgSelfPower = field_int (fs ! 2), dgTotalPower = field_int (fs ! 3),
     dgSlashedPower = field_int (fs ! 4), dgStakes = map field_stake (the (dec_fields (be_nat (fs ! 5)) (fs ! 6))),
     dgNotSignedHeights = \<lparr>bmBlockHeights = map field_int (the (dec_fields (be_nat (fs ! 7)) (fs ! 8)))\<rparr>\<rparr>"

definition demoDelegatees :: "Delegatee jsonOps" where
  "demoDelegatees = fieldsJson 9 delegateeFields fieldsDelegatee"

lemma demoDelegatees_laws [simp]: "json_laws demoDelegatees"
  unfolding demoDelegatees_def
proof (rule fieldsJson_laws)
  have l: "dec_fields (length xs) (enc_fields (map f xs)) = Some (map f xs)" for f :: "'b \<Rightarrow> bytes" and xs
    using dec_enc_fields [of "map f xs"] by simp
  show "length (delegateeFields d) = 9 \<and> fieldsDelegatee (delegateeFields d) = d" for d
    by (simp add: delegateeFields_def fieldsDelegatee_def l comp_def field_stake_field)
qed

definition rewardFields :: "RewardProto \<Rightarrow> bytes list" where
  "rewardFields m = [rpAddress m, rpXIssued m, rpXWithdrawn m, rpXSlashed m, rpXCumulated m, int_field (rpHeight m)]"

definition fieldsReward :: "bytes list \<Rightarrow> RewardProto" where
  "fieldsReward fs = \<lparr>rpAddress = fs ! 0, rpXIssued = fs ! 1, rpXWithdrawn = fs ! 2, rpXSlashed = fs ! 3, rpXCumulated = fs ! 4,
     rpHeight = field_int (fs ! 5)\<rparr>"

definition demoRewards :: rewardProtoOps where
  "demoRewards = \<lparr>rewardMarshal = (\<lambda>m. Inr (enc_fields (rewardFields m))), rewardUnmarshal = dec_msg 6 fieldsReward\<rparr>"

lemma demoRewards_laws [simp]: "rewardProto_laws demoRewards"
  by (simp add: rewardProto_laws_def demoRewards_def dec_msg_enc rewardFields_def fieldsReward_def)

definition demoEnv :: "vtree stakeEnv" where
  "demoEnv = \<lparr>seTree = vtreeOps, seDelegatees = demoDelegatees, seStakes = demoStakes, seRewards = demoRewards,
     seAccts = demoAcctProto, seDec = (\<lambda>_. ''''), seEvidenceName = (\<lambda>_. ''''), seDefaultHash = concat\<rparr>"

lemma demoEnv_sel [simp]:
  "seTree demoEnv = vtreeOps" "seDelegatees demoEnv = demoDelegatees" "seStakes demoEnv = demoStakes"
  "seRewards demoEnv = demoRewards" "seAccts demoEnv = demoAcctProto"
  by (simp_all add: demoEnv_def)

end
