(* ===== verification/Rigo_StakingProps.thy ===== *)
theory Rigo_StakingProps
  imports Rigo_StakeCodec Rigo_ValidatorProps Rigo_LimiterProps Rigo_TwoLevel Rigo_GovParamsProps Rigo_AcctProps
begin

text \<open>
  Staking, un-staking and the refund of frozen stakes on the ledgers of the stake controller and the
  accounts: what each does at its level, and that the wealth of the system (balances, bonded and
  frozen stakes) is conserved.
\<close>

section \<open>The ledgers of the stake controller\<close>

lemma delegateeItem_ok: "json_laws J \<Longrightarrow> item_ok (delegateeItem J) d"
  unfolding json_laws_def item_ok_def delegateeItem_def Delegatee_Encode_def Delegatee_Decode_def fromErr_def
  by (drule spec [of _ d]) auto

lemma stakeItem_ok: "json_laws J \<Longrightarrow> item_ok (stakeItem J) s"
  unfolding json_laws_def item_ok_def stakeItem_def Stake_Encode_def Stake_Decode_def fromErr_def
  by (drule spec [of _ s]) auto

lemma rewardItem_ok:
  assumes "rewardProto_laws R"
  shows "item_ok (rewardItem R) r"
proof -
  let ?m = "\<lparr>rpAddress = rwAddress r, rpXIssued = u256_Bytes (rwIssued r), rpXWithdrawn = u256_Bytes (rwWithdrawn r),
    rpXSlashed = u256_Bytes (rwSlashed r), rpXCumulated = u256_Bytes (rwCumulated r), rpHeight = rwHeight r\<rparr>"
  obtain bz where "rewardMarshal R ?m = Inr bz" "rewardUnmarshal R bz = Inr ?m"
    using assms unfolding rewardProto_laws_def by blast
  then show ?thesis
    by (simp add: item_ok_def rewardItem_def Reward_Encode_def Reward_Decode_def)
qed

lemma item_keys [simp]:
  "Key (delegateeItem J) = Delegatee_Key" "Key (stakeItem J') = Stake_Key" "Key (rewardItem R) = Reward_Key"
  by (simp_all add: delegateeItem_def stakeItem_def rewardItem_def)

lemma item_keys_length [simp]: "length (Delegatee_Key d) = 32" "length (Stake_Key s) = 32" "length (Reward_Key r) = 32"
  by (simp_all add: Delegatee_Key_def Stake_Key_def Reward_Key_def)

definition stake_inv ::
  "'t stakeEnv \<Rightarrow> ('t \<Rightarrow> bytes \<rightharpoonup> bytes) \<Rightarrow> ('t \<Rightarrow> int \<rightharpoonup> (bytes \<rightharpoonup> bytes)) \<Rightarrow> ('t, 'd) StakeCtrler \<Rightarrow> bool" where
  "stake_inv E A H c \<longleftrightarrow>
     json_laws (seDelegatees E) \<and> json_laws (seStakes E) \<and> rewardProto_laws (seRewards E) \<and>
     finality_inv (seTree E) (delegateeItem (seDelegatees E)) A H (scDelegateeLedger c) \<and>
     finality_inv (seTree E) (stakeItem (seStakes E)) A H (scFrozenLedger c) \<and>
     finality_inv (seTree E) (rewardItem (seRewards E)) A H (scRewardLedger c)"

definition dg_level :: "'t stakeEnv \<Rightarrow> ('t \<Rightarrow> bytes \<rightharpoonup> bytes) \<Rightarrow> bool \<Rightarrow> ('t, 'd) StakeCtrler \<Rightarrow> Delegatee levelSpec" where
  "dg_level E A exec c = two_level (delegateeItem (seDelegatees E)) A exec (scDelegateeLedger c)"

definition fr_level :: "'t stakeEnv \<Rightarrow> ('t \<Rightarrow> bytes \<rightharpoonup> bytes) \<Rightarrow> bool \<Rightarrow> ('t, 'd) StakeCtrler \<Rightarrow> Stake levelSpec" where
  "fr_level E A exec c = two_level (stakeItem (seStakes E)) A exec (scFrozenLedger c)"

definition rw_level :: "'t stakeEnv \<Rightarrow> ('t \<Rightarrow> bytes \<rightharpoonup> bytes) \<Rightarrow> bool \<Rightarrow> ('t, 'd) StakeCtrler \<Rightarrow> Reward levelSpec" where
  "rw_level E A exec c = two_level (rewardItem (seRewards E)) A exec (scRewardLedger c)"

lemma stake_ops_eq:
  "StakeCtrler_getDelegatee E exec k c =
     map_prod id (\<lambda>l. c\<lparr>scDelegateeLedger := l\<rparr>) (ledger_get (seTree E) (delegateeItem (seDelegatees E)) exec k (scDelegateeLedger c))"
  "StakeCtrler_setDelegatee E exec d c =
     map_prod id (\<lambda>l. c\<lparr>scDelegateeLedger := l\<rparr>) (ledger_put (delegateeItem (seDelegatees E)) exec d (scDelegateeLedger c))"
  "StakeCtrler_delDelegatee E exec k c =
     map_prod id (\<lambda>l. c\<lparr>scDelegateeLedger := l\<rparr>) (ledger_del (seTree E) (delegateeItem (seDelegatees E)) exec k (scDelegateeLedger c))"
  "StakeCtrler_setFrozen E exec s c =
     map_prod id (\<lambda>l. c\<lparr>scFrozenLedger := l\<rparr>) (ledger_put (stakeItem (seStakes E)) exec s (scFrozenLedger c))"
  "StakeCtrler_getReward E exec k c =
     map_prod id (\<lambda>l. c\<lparr>scRewardLedger := l\<rparr>) (ledger_get (seTree E) (rewardItem (seRewards E)) exec k (scRewardLedger c))"
  "StakeCtrler_setReward E exec r c =
     map_prod id (\<lambda>l. c\<lparr>scRewardLedger := l\<rparr>) (ledger_put (rewardItem (seRewards E)) exec r (scRewardLedger c))"
  by (simp_all add: StakeCtrler_getDelegatee_def StakeCtrler_setDelegatee_def StakeCtrler_delDelegatee_def StakeCtrler_setFrozen_def
    StakeCtrler_getReward_def StakeCtrler_setReward_def ledger_get_def ledger_put_def ledger_del_def map_prod_def Let_def)

named_theorems stake_frame \<open>what an operation of the stake controller leaves alone\<close>

lemma getDelegatee:
  assumes "stake_inv E A H c" "StakeCtrler_getDelegatee E exec k c = (r, c')"
  shows "r = of_option (level_get k (dg_level E A exec c))" "stake_inv E A H c'"
    "dg_level E A e c' = dg_level E A e c" "fr_level E A e c' = fr_level E A e c" "rw_level E A e c' = rw_level E A e c"
    "scFrozenLedger c' = scFrozenLedger c" "scStakeLimiter c' = scStakeLimiter c" "scLastValidators c' = scLastValidators c"
proof -
  have f: "finality_inv (seTree E) (delegateeItem (seDelegatees E)) A H (scDelegateeLedger c)"
    using assms(1) by (simp add: stake_inv_def)
  note g = two_get [OF f, where exec = exec and k = k]
  show "r = of_option (level_get k (dg_level E A exec c))" "stake_inv E A H c'"
    "dg_level E A e c' = dg_level E A e c" "fr_level E A e c' = fr_level E A e c" "rw_level E A e c' = rw_level E A e c"
    "scFrozenLedger c' = scFrozenLedger c" "scStakeLimiter c' = scStakeLimiter c" "scLastValidators c' = scLastValidators c"
    using assms g by (auto simp: stake_ops_eq map_prod_def stake_inv_def dg_level_def fr_level_def rw_level_def split: prod.splits)
qed

lemma setDelegatee:
  assumes "stake_inv E A H c" "StakeCtrler_setDelegatee E exec d c = (r, c')"
  shows "r = Inr ()" "stake_inv E A H c'" "dg_level E A exec c' = level_set (Delegatee_Key d) d (dg_level E A exec c)"
    "dg_level E A (\<not> exec) c' = dg_level E A (\<not> exec) c"
    "fr_level E A e c' = fr_level E A e c" "rw_level E A e c' = rw_level E A e c"
    "scFrozenLedger c' = scFrozenLedger c" "scStakeLimiter c' = scStakeLimiter c" "scLastValidators c' = scLastValidators c"
proof -
  have f: "finality_inv (seTree E) (delegateeItem (seDelegatees E)) A H (scDelegateeLedger c)"
    and ok: "item_ok (delegateeItem (seDelegatees E)) d"
    using assms(1) by (simp_all add: stake_inv_def delegateeItem_ok)
  note g = two_put [OF f ok, of exec]
  show "r = Inr ()"
    using arg_cong [OF assms(2), of fst] by (simp add: stake_ops_eq)
  show "stake_inv E A H c'" "dg_level E A exec c' = level_set (Delegatee_Key d) d (dg_level E A exec c)"
    "dg_level E A (\<not> exec) c' = dg_level E A (\<not> exec) c"
    "fr_level E A e c' = fr_level E A e c" "rw_level E A e c' = rw_level E A e c"
    "scFrozenLedger c' = scFrozenLedger c" "scStakeLimiter c' = scStakeLimiter c" "scLastValidators c' = scLastValidators c"
    using assms g by (auto simp: stake_ops_eq map_prod_def stake_inv_def dg_level_def fr_level_def rw_level_def split: prod.splits)
qed

lemma delDelegatee:
  assumes "stake_inv E A H c" "StakeCtrler_delDelegatee E exec k c = (r, c')"
  shows "r = of_option (level_get k (dg_level E A exec c))" "stake_inv E A H c'"
    "dg_level E A exec c' = level_del k (dg_level E A exec c)"
    "fr_level E A e c' = fr_level E A e c" "rw_level E A e c' = rw_level E A e c"
    "scFrozenLedger c' = scFrozenLedger c" "scStakeLimiter c' = scStakeLimiter c" "scLastValidators c' = scLastValidators c"
proof -
  have f: "finality_inv (seTree E) (delegateeItem (seDelegatees E)) A H (scDelegateeLedger c)"
    using assms(1) by (simp add: stake_inv_def)
  note g = two_del [OF f, where exec = exec and k = k]
  show "r = of_option (level_get k (dg_level E A exec c))" "stake_inv E A H c'"
    "dg_level E A exec c' = level_del k (dg_level E A exec c)"
    "fr_level E A e c' = fr_level E A e c" "rw_level E A e c' = rw_level E A e c"
    "scFrozenLedger c' = scFrozenLedger c" "scStakeLimiter c' = scStakeLimiter c" "scLastValidators c' = scLastValidators c"
    using assms g by (auto simp: stake_ops_eq map_prod_def stake_inv_def dg_level_def fr_level_def rw_level_def split: prod.splits)
qed

lemma setFrozen:
  assumes "stake_inv E A H c"
  shows "stake_inv E A H (snd (StakeCtrler_setFrozen E exec s c))"
    "fr_level E A exec (snd (StakeCtrler_setFrozen E exec s c)) = level_set (Stake_Key s) s (fr_level E A exec c)"
    "dg_level E A e (snd (StakeCtrler_setFrozen E exec s c)) = dg_level E A e c"
    "rw_level E A e (snd (StakeCtrler_setFrozen E exec s c)) = rw_level E A e c"
    "scDelegateeLedger (snd (StakeCtrler_setFrozen E exec s c)) = scDelegateeLedger c"
proof -
  have f: "finality_inv (seTree E) (stakeItem (seStakes E)) A H (scFrozenLedger c)"
    and ok: "item_ok (stakeItem (seStakes E)) s"
    using assms(1) by (simp_all add: stake_inv_def stakeItem_ok)
  note g = two_put [OF f ok, of exec]
  show "stake_inv E A H (snd (StakeCtrler_setFrozen E exec s c))"
    "fr_level E A exec (snd (StakeCtrler_setFrozen E exec s c)) = level_set (Stake_Key s) s (fr_level E A exec c)"
    "dg_level E A e (snd (StakeCtrler_setFrozen E exec s c)) = dg_level E A e c"
    "rw_level E A e (snd (StakeCtrler_setFrozen E exec s c)) = rw_level E A e c"
    "scDelegateeLedger (snd (StakeCtrler_setFrozen E exec s c)) = scDelegateeLedger c"
    using assms g by (auto simp: stake_ops_eq map_prod_def stake_inv_def dg_level_def fr_level_def rw_level_def split: prod.splits)
qed

lemma getReward:
  assumes "stake_inv E A H c" "StakeCtrler_getReward E exec k c = (r, c')"
  shows "r = of_option (level_get k (rw_level E A exec c))" "stake_inv E A H c'"
    "dg_level E A e c' = dg_level E A e c" "fr_level E A e c' = fr_level E A e c" "rw_level E A e c' = rw_level E A e c"
proof -
  have f: "finality_inv (seTree E) (rewardItem (seRewards E)) A H (scRewardLedger c)"
    using assms(1) by (simp add: stake_inv_def)
  note g = two_get [OF f, where exec = exec and k = k]
  show "r = of_option (level_get k (rw_level E A exec c))" "stake_inv E A H c'"
    "dg_level E A e c' = dg_level E A e c" "fr_level E A e c' = fr_level E A e c" "rw_level E A e c' = rw_level E A e c"
    using assms g by (auto simp: stake_ops_eq map_prod_def stake_inv_def dg_level_def fr_level_def rw_level_def split: prod.splits)
qed

lemma setReward:
  assumes "stake_inv E A H c" "StakeCtrler_setReward E exec w c = (r, c')"
  shows "r = Inr ()" "stake_inv E A H c'" "rw_level E A exec c' = level_set (Reward_Key w) w (rw_level E A exec c)"
    "dg_level E A e c' = dg_level E A e c" "fr_level E A e c' = fr_level E A e c"
proof -
  have f: "finality_inv (seTree E) (rewardItem (seRewards E)) A H (scRewardLedger c)"
    and ok: "item_ok (rewardItem (seRewards E)) w"
    using assms(1) by (simp_all add: stake_inv_def rewardItem_ok)
  note g = two_put [OF f ok, of exec]
  show "r = Inr ()"
    using arg_cong [OF assms(2), of fst] by (simp add: stake_ops_eq)
  show "stake_inv E A H c'" "rw_level E A exec c' = level_set (Reward_Key w) w (rw_level E A exec c)"
    "dg_level E A e c' = dg_level E A e c" "fr_level E A e c' = fr_level E A e c"
    using assms g by (auto simp: stake_ops_eq map_prod_def stake_inv_def dg_level_def fr_level_def rw_level_def split: prod.splits)
qed

lemma stake_level_keys:
  assumes "stake_inv E A H c"
  shows "level_get k (dg_level E A exec c) = Some d \<Longrightarrow> Delegatee_Key d = k"
    "level_get k (fr_level E A exec c) = Some s \<Longrightarrow> Stake_Key s = k"
    "level_get k (rw_level E A exec c) = Some w \<Longrightarrow> Reward_Key w = k"
  using assms two_level_key [of "seTree E" "delegateeItem (seDelegatees E)" A H "scDelegateeLedger c" k exec d]
    two_level_key [of "seTree E" "stakeItem (seStakes E)" A H "scFrozenLedger c" k exec s]
    two_level_key [of "seTree E" "rewardItem (seRewards E)" A H "scRewardLedger c" k exec w]
  by (simp_all add: stake_inv_def dg_level_def fr_level_def rw_level_def)

section \<open>The accounts through the pointers of a context\<close>

lemma AcctCtrler_at_level:
  assumes "acct_inv T P A H V ac" "AcctCtrler_at exec k ac = Some a"
  shows "level_get k (acct_level P A exec ac) = Some a"
proof -
  let ?I = "accountItem P"
  let ?m = "if exec then finalityItems (acctLedger ac) else cachedItems (acctLedger ac)"
  have lv: "acct_level P A exec ac = mi_level (ledger_base ?I A (acctLedger ac)) ?m"
    by (simp add: acct_level_def exec_level_def check_level_def)
  have "snd (acct_level P A exec ac) = {}"
    using assms(1) by (simp add: acct_inv_def)
  then have "removedKeys ?m = []"
    by (simp add: lv mi_level_def)
  then show ?thesis
    using assms(2) by (simp add: lv level_get_mi AcctCtrler_at_def memItems_getGotItem_def)
qed

lemma AcctCtrler_set_assign:
  "Account_Key b = Account_Key a \<Longrightarrow>
   AcctCtrler_setAccountCommittable P a exec (AcctCtrler_assign P exec b ac) = AcctCtrler_setAccountCommittable P a exec ac"
  by (simp add: AcctCtrler_setAccountCommittable_def AcctCtrler_assign_def FinalityLedger_SetFinality_def SimpleLedger_Set_def
    memItems_assign_def memItems_setGotItem_def memItems_setUpdatedItem_def accountItem_def)

lemma update_same: "map_of al k = Some v \<Longrightarrow> AList.update k v al = al"
  by (induction al) auto

lemma AcctCtrler_assign_same:
  assumes "acct_inv T P A H V ac" "AcctCtrler_at exec (Account_Key a) ac = Some a"
  shows "AcctCtrler_assign P exec a ac = ac"
proof -
  let ?m = "if exec then finalityItems (acctLedger ac) else cachedItems (acctLedger ac)"
  have "mi_inv (accountItem P) (ledger_base (accountItem P) A (acctLedger ac)) ?m"
    using assms(1) by (simp add: acct_inv_def finality_inv_def simple_inv_def)
  then have u: "map_of (updatedItems ?m) k = Some x \<Longrightarrow> map_of (gotItems ?m) k = Some x" for k x
    by (rule mi_invD)
  have g: "map_of (gotItems ?m) (Account_Key a) = Some a"
    using assms(2) by (simp add: AcctCtrler_at_def memItems_getGotItem_def)
  have "memItems_assign (accountItem P) a ?m = ?m"
    using u g update_same [of "gotItems ?m"] update_same [of "updatedItems ?m"]
    by (cases "map_of (updatedItems ?m) (Account_Key a)") (auto simp: memItems_assign_def)
  then show ?thesis
    by (auto simp: AcctCtrler_assign_def)
qed

lemma AcctCtrler_at_set: "AcctCtrler_at exec (Account_Key a) (snd (AcctCtrler_setAccountCommittable P a exec ac)) = Some a"
  by (simp add: AcctCtrler_at_def AcctCtrler_setAccountCommittable_def FinalityLedger_SetFinality_def SimpleLedger_Set_def
    memItems_getGotItem_def memItems_setGotItem_def memItems_setUpdatedItem_def update_conv)

lemma SubBalance_cases:
  "Account_SubBalance amt a =
     (if 2 ^ 255 \<le> uint amt then (Inl (Error ErrInvalidAmount), a)
      else if uint (acctBalance a) < uint amt then (Inl (Error ErrInsufficientFund), a)
      else (Inr (), a\<lparr>acctBalance := acctBalance a - amt\<rparr>))"
  by (simp add: Account_SubBalance_def u256_Sign_neg_iff u256_Cmp_def word_less_def)

section \<open>Staking\<close>

definition staked_on :: "TrxContext \<Rightarrow> Delegatee levelSpec \<Rightarrow> Delegatee option" where
  "staked_on ctx D = (case level_get (ToLedgerKey (txTo (ctxTx ctx))) D of
      Some d \<Rightarrow> Some d
    | None \<Rightarrow> if txFrom (ctxTx ctx) = txTo (ctxTx ctx) then Some (NewDelegatee (txTo (ctxTx ctx)) (ctxSenderPubKey ctx)) else None)"

definition staked_by :: "TrxContext \<Rightarrow> int \<Rightarrow> Stake" where
  "staked_by ctx pw = NewStakeWithPower (txFrom (ctxTx ctx)) (txTo (ctxTx ctx)) pw (i64 (ctxHeight ctx + 1)) (ctxTxHash ctx)"

lemma addStake_Key [simp]: "Delegatee_Key (Delegatee_addStake ss d) = Delegatee_Key d"
  by (simp add: Delegatee_Key_def)

lemma exeStaking_outcome:
  assumes inv: "stake_inv E A H c" "acct_inv (seTree E) (seAccts E) A H V ac"
    and a: "AcctCtrler_at (ctxExec ctx) (ctxSender ctx) ac = Some a"
    and t: "StakeCtrler_exeStaking E ctx (c, ac) = (r, c', ac')"
  defines "D \<equiv> dg_level E A (ctxExec ctx) c" and "D' \<equiv> dg_level E A (ctxExec ctx) c'"
    and "L \<equiv> acct_level (seAccts E) A (ctxExec ctx) ac" and "L' \<equiv> acct_level (seAccts E) A (ctxExec ctx) ac'"
    and "amt \<equiv> txAmount (ctxTx ctx)"
  shows "stake_inv E A H c' \<and> acct_inv (seTree E) (seAccts E) A H V ac' \<and>
    (\<forall>e. fr_level E A e c' = fr_level E A e c \<and> rw_level E A e c' = rw_level E A e c) \<and>
    (case staked_on ctx D of
       None \<Rightarrow> r = Inl (Error (xerror_Wrapf ErrNotFoundDelegatee ''address(%v)'')) \<and> D' = D \<and> L' = L
     | Some d \<Rightarrow>
         if 2 ^ 255 \<le> uint amt then r = Inl (Error ErrInvalidAmount) \<and> D' = D \<and> L' = L
         else if uint (acctBalance a) < uint amt then r = Inl (Error ErrInsufficientFund) \<and> D' = D \<and> L' = L
         else L' = level_set (ctxSender ctx) (a\<lparr>acctBalance := acctBalance a - amt\<rparr>) L \<and>
           AcctCtrler_at (ctxExec ctx) (ctxSender ctx) ac' = Some (a\<lparr>acctBalance := acctBalance a - amt\<rparr>) \<and>
           (case AmountToPower amt of
              Inl e \<Rightarrow> r = Inl e \<and> D' = D
            | Inr pw \<Rightarrow> r = Inr () \<and>
                D' = level_set (ToLedgerKey (txTo (ctxTx ctx))) (Delegatee_addStake [staked_by ctx pw] d) D))"
proof -
  let ?exec = "ctxExec ctx" and ?k = "ToLedgerKey (txTo (ctxTx ctx))"
  have lv: "level_get (ctxSender ctx) L = Some a"
    using AcctCtrler_at_level [OF inv(2) a] by (simp add: L_def)
  then have ka: "Account_Key a = ctxSender ctx" and va: "acct_valid V a"
    using acct_level_key [of "seTree E" "seAccts E" A H ac "ctxSender ctx" ?exec a] level_valid [OF inv(2), of "ctxSender ctx" ?exec a] inv(2)
    by (auto simp: L_def acct_inv_def)
  note same = AcctCtrler_assign_same [OF inv(2), of ?exec a, unfolded ka, OF a]
  obtain found c1 where g: "StakeCtrler_getDelegatee E ?exec ?k c = (found, c1)"
    by (rule prod.exhaust)
  note g' = getDelegatee [OF inv(1) g]
  have dk: "staked_on ctx D = Some d \<Longrightarrow> Delegatee_Key d = ?k" for d
    using stake_level_keys(1) [OF inv(1)] unfolding D_def staked_on_def
    by (auto simp: NewDelegatee_def Delegatee_Key_def split: option.splits if_splits)
  show ?thesis
  proof (cases "staked_on ctx D")
    case None
    then have "r = Inl (Error (xerror_Wrapf ErrNotFoundDelegatee ''address(%v)'')) \<and> c' = c1 \<and> ac' = ac"
      using t g' by (auto simp: StakeCtrler_exeStaking_def g staked_on_def D_def of_option_def split: option.splits if_splits)
    then show ?thesis
      using None g' inv(2) by (simp add: D_def D'_def L_def L'_def)
  next
    case (Some d)
    then have t': "(r, c', ac') = (case Account_SubBalance amt a of
          (Inl xerr, sender) \<Rightarrow> (Inl xerr, c1, AcctCtrler_assign (seAccts E) ?exec sender ac)
        | (Inr _, sender) \<Rightarrow>
            (let ac = snd (AcctCtrler_setAccountCommittable (seAccts E) sender ?exec (AcctCtrler_assign (seAccts E) ?exec sender ac))
             in case AmountToPower amt of
                  Inl e \<Rightarrow> (Inl e, c1, ac)
                | Inr pw \<Rightarrow> (let (r, c) = StakeCtrler_setDelegatee E ?exec (Delegatee_addStake [staked_by ctx pw] d) c1 in (r, c, ac))))"
      using t g' a by (auto simp: StakeCtrler_exeStaking_def g staked_on_def D_def amt_def of_option_def Delegatee_AddStake_def staked_by_def Let_def split: option.splits if_splits sum.splits prod.splits)
    show ?thesis
    proof (cases "2 ^ 255 \<le> uint amt \<or> uint (acctBalance a) < uint amt")
      case True
      then have "c' = c1 \<and> ac' = ac \<and> r = (if 2 ^ 255 \<le> uint amt then Inl (Error ErrInvalidAmount) else Inl (Error ErrInsufficientFund))"
        using t' by (auto simp: SubBalance_cases same)
      then show ?thesis
        using True Some g' inv(2) by (auto simp: D_def D'_def L_def L'_def)
    next
      case False
      let ?a = "a\<lparr>acctBalance := acctBalance a - amt\<rparr>"
      let ?ac = "snd (AcctCtrler_setAccountCommittable (seAccts E) ?a ?exec ac)"
      note as = acct_set [OF inv(2), of ?a ?exec] AcctCtrler_at_set [of ?exec ?a "seAccts E" ac]
      show ?thesis
      proof (cases "AmountToPower amt")
        case (Inl e)
        then have "c' = c1 \<and> ac' = ?ac \<and> r = Inl e"
          using t' False by (simp add: SubBalance_cases AcctCtrler_set_assign)
        then show ?thesis
          using False Some g' as va Inl by (simp add: D_def D'_def L_def L'_def ka)
      next
        case (Inr pw)
        obtain r2 c2 where s: "StakeCtrler_setDelegatee E ?exec (Delegatee_addStake [staked_by ctx pw] d) c1 = (r2, c2)"
          by (rule prod.exhaust)
        have "c' = c2 \<and> ac' = ?ac \<and> r = r2"
          using t' False Inr by (simp add: SubBalance_cases AcctCtrler_set_assign s)
        then show ?thesis
          using False Some g' as va Inr setDelegatee [OF g'(2) s] dk [OF Some]
          by (simp add: D_def D'_def L_def L'_def ka)
      qed
    qed
  qed
qed

text \<open>What the validation has established when it accepts the transaction.\<close>

lemma checkLimiter_frame:
  "checkLimiter d p c = (r, c') \<Longrightarrow> \<exists>sl. c' = c\<lparr>scStakeLimiter := sl\<rparr>"
  by (auto simp: checkLimiter_def split: prod.splits sum.splits fault.splits if_splits intro: exI [of _ "scStakeLimiter c"])

lemma limiter_levels [simp]:
  "stake_inv E A H (c\<lparr>scStakeLimiter := sl\<rparr>) = stake_inv E A H c"
  "dg_level E A e (c\<lparr>scStakeLimiter := sl\<rparr>) = dg_level E A e c"
  "fr_level E A e (c\<lparr>scStakeLimiter := sl\<rparr>) = fr_level E A e c"
  "rw_level E A e (c\<lparr>scStakeLimiter := sl\<rparr>) = rw_level E A e c"
  by (simp_all add: stake_inv_def dg_level_def fr_level_def rw_level_def)

definition total_power :: "Delegatee option \<Rightarrow> int" where
  "total_power d = (case d of None \<Rightarrow> 0 | Some d \<Rightarrow> dgTotalPower d)"

lemma validateStaking_total:
  "validateSelfStaking gov pw d = Inr t \<Longrightarrow> t = total_power d"
  "validateDelegating gov pw d = Inr t \<Longrightarrow> d \<noteq> None \<and> t = total_power d"
  by (auto simp: validateSelfStaking_def validateDelegating_def total_power_def Delegatee_GetTotalPower_def Let_def
    split: option.splits sum.splits if_splits)

lemma AmountPerPower_uint [simp]: "uint AmountPerPower = 10 ^ 18"
  by (simp add: AmountPerPower_def amountPerPower_def)

lemma validateStaking_accepts:
  assumes inv: "stake_inv E A H c" and v: "StakeCtrler_validateStaking E gov ctx c = (Inr (), c')"
  defines "D \<equiv> dg_level E A (ctxExec ctx) c" and "amt \<equiv> txAmount (ctxTx ctx)"
  shows "stake_inv E A H c'" "dg_level E A e c' = dg_level E A e c" "fr_level E A e c' = fr_level E A e c"
    "10 ^ 18 \<le> uint amt" "uint amt mod 10 ^ 18 = 0" "staked_on ctx D \<noteq> None"
    "\<exists>pw. AmountToPower amt = Inr pw \<and> 0 < i64 (total_power (level_get (ToLedgerKey (txTo (ctxTx ctx))) D) + pw)"
proof -
  let ?k = "ToLedgerKey (txTo (ctxTx ctx))"
  obtain found c1 where g: "StakeCtrler_getDelegatee E (ctxExec ctx) ?k c = (found, c1)"
    by (rule prod.exhaust)
  note g' = getDelegatee [OF inv g]
  let ?d = "level_get ?k D"
  have d: "(case found of Inl _ \<Rightarrow> None | Inr d \<Rightarrow> Some d) = ?d"
    using g'(1) by (simp add: D_def of_option_def split: option.splits)
  have q: "\<not> u256_Sign (amt div AmountPerPower) \<le> 0" "u256_Sign (amt mod AmountPerPower) = 0"
    using v by (auto simp: StakeCtrler_validateStaking_def amt_def Let_def split: if_splits)
  obtain pw where pw: "AmountToPower amt = Inr pw"
    using v q by (cases "AmountToPower amt") (auto simp: StakeCtrler_validateStaking_def amt_def Let_def)
  obtain t where t: "(if txFrom (ctxTx ctx) = txTo (ctxTx ctx) then validateSelfStaking gov pw ?d else validateDelegating gov pw ?d) = Inr t"
    and i: "\<not> i64 (t + pw) \<le> 0"
    and l: "checkLimiter (case ?d of None \<Rightarrow> NewDelegatee (txTo (ctxTx ctx)) [] | Some d \<Rightarrow> d) pw c1 = (Inr (), c')"
    using v q pw unfolding StakeCtrler_validateStaking_def amt_def [symmetric] Let_def g d [symmetric]
    by (auto split: if_splits sum.splits)
  have tot: "t = total_power ?d" "staked_on ctx D \<noteq> None"
    using t validateStaking_total [of gov pw ?d t] by (auto simp: staked_on_def split: if_splits option.splits)
  obtain sl where "c' = c1\<lparr>scStakeLimiter := sl\<rparr>"
    using checkLimiter_frame [OF l] by blast
  then show "stake_inv E A H c'" "dg_level E A e c' = dg_level E A e c" "fr_level E A e c' = fr_level E A e c"
    using g' by simp_all
  show "staked_on ctx D \<noteq> None" "\<exists>pw. AmountToPower amt = Inr pw \<and> 0 < i64 (total_power ?d + pw)"
    using tot pw i by auto
  have "amt div AmountPerPower \<noteq> 0"
    using q(1) by (metis u256_Sign_0_iff order_refl)
  then have "uint (amt div AmountPerPower) \<noteq> 0" "uint (amt mod AmountPerPower) = 0"
    using q(2) by (simp_all add: uint_0_iff)
  then show "uint amt mod 10 ^ 18 = 0"
    by (simp add: uint_mod)
  have "uint amt div 10 ^ 18 \<noteq> 0"
    using \<open>uint (amt div AmountPerPower) \<noteq> 0\<close> by (simp only: uint_div AmountPerPower_uint not_False_eq_True)
  then show "10 ^ 18 \<le> uint amt"
    by (metis div_pos_pos_trivial not_less uint_ge_0)
qed

section \<open>The wealth of the system\<close>

text \<open>The coins of the accounts, of the bonded and of the frozen stakes of a finite set of keys, at one
  level of the ledgers.\<close>

definition bonded :: "Delegatee levelSpec \<Rightarrow> ledgerKey \<Rightarrow> int" where
  "bonded D k = (case level_get k D of None \<Rightarrow> 0 | Some d \<Rightarrow> sumPow (\<lambda>_. True) (dgStakes d))"

definition frozen :: "Stake levelSpec \<Rightarrow> ledgerKey \<Rightarrow> int" where
  "frozen F k = (case level_get k F of None \<Rightarrow> 0 | Some s \<Rightarrow> stPower s)"

definition wealth :: "ledgerKey set \<Rightarrow> Account levelSpec \<Rightarrow> Delegatee levelSpec \<Rightarrow> Stake levelSpec \<Rightarrow> int" where
  "wealth K L D F = funds L K + 10 ^ 18 * ((\<Sum>k \<in> K. bonded D k) + (\<Sum>k \<in> K. frozen F k))"

lemma sum_change:
  fixes f :: "'k \<Rightarrow> int"
  assumes "finite K" "i \<in> K" "\<And>k. k \<noteq> i \<Longrightarrow> f' k = f k"
  shows "sum f' K = sum f K + (f' i - f i)"
proof -
  have "sum f' (K - {i}) = sum f (K - {i})"
    by (rule sum.cong) (use assms(3) in auto)
  then show ?thesis
    using sum.remove [OF assms(1,2), of f'] sum.remove [OF assms(1,2), of f] by linarith
qed

lemma level_get_put: "level_get j (level_set k x L) = (if j = k then if k \<in> snd L then None else Some x else level_get j L)"
  by (simp add: level_get_def level_set_def)

lemma bonded_set: "k \<notin> snd D \<Longrightarrow> bonded (level_set k d D) j = (if j = k then sumPow (\<lambda>_. True) (dgStakes d) else bonded D j)"
  by (auto simp: bonded_def level_get_put)

lemma bonded_del: "bonded (level_del k D) j = (if j = k then 0 else bonded D j)"
  by (simp add: bonded_def level_get_del)

lemma frozen_set: "k \<notin> snd F \<Longrightarrow> frozen (level_set k s F) j = (if j = k then stPower s else frozen F j)"
  by (auto simp: frozen_def level_get_put)

lemma frozen_del: "frozen (level_del k F) j = (if j = k then 0 else frozen F j)"
  by (simp add: frozen_def level_get_del)

text \<open>Delegatees as they are in a ledger: the powers are positive and their sum has not wrapped.\<close>

definition delegatee_ok :: "Delegatee \<Rightarrow> bool" where
  "delegatee_ok d \<longleftrightarrow> delegatee_inv d \<and> length (dgAddr d) = AddrSize \<and> (\<forall>s \<in> set (dgStakes d). 0 < stPower s) \<and>
     sumPow (\<lambda>_. True) (dgStakes d) < 2 ^ 63"

definition delegatees_ok :: "Delegatee levelSpec \<Rightarrow> bool" where
  "delegatees_ok D \<longleftrightarrow> (\<forall>k d. level_get k D = Some d \<longrightarrow> delegatee_ok d)"

lemma delegatee_ok_nonneg: "delegatee_ok d \<Longrightarrow> 0 \<le> sumPow f (dgStakes d)"
  unfolding delegatee_ok_def by (intro sumPow_nonneg) auto

lemma delegatee_ok_total: "delegatee_ok d \<Longrightarrow> dgTotalPower d = sumPow (\<lambda>_. True) (dgStakes d)"
  using delegatee_ok_nonneg [of d "\<lambda>_. True"] by (simp add: delegatee_ok_def delegatee_inv_def i64_id in_i64_def)

lemma i64_wrap: "2 ^ 63 \<le> x \<Longrightarrow> x < 2 ^ 64 + 2 ^ 63 \<Longrightarrow> i64 x = x - 2 ^ 64"
  using i64_cong [of x "x - 2 ^ 64"] i64_id [of "x - 2 ^ 64"] by (simp add: in_i64_def)

lemma addStake_ok:
  assumes "delegatee_ok d" "stTo s = dgAddr d" "0 < stPower s" "stPower s < 2 ^ 63" "0 < i64 (dgTotalPower d + stPower s)"
  shows "delegatee_ok (Delegatee_addStake [s] d)"
proof -
  have "sumPow (\<lambda>_. True) (dgStakes d) + stPower s < 2 ^ 63"
  proof (rule ccontr)
    let ?t = "sumPow (\<lambda>_. True) (dgStakes d) + stPower s"
    assume "\<not> ?t < 2 ^ 63"
    then have "i64 ?t = ?t - 2 ^ 64"
      using assms(1,4) by (intro i64_wrap) (auto simp: delegatee_ok_def)
    then show False
      using assms by (simp add: delegatee_ok_total delegatee_ok_def)
  qed
  then show ?thesis
    using assms(1-3) addStake_inv [of d "[s]"] by (auto simp: delegatee_ok_def)
qed

lemma New_ok:
  "dgAddr (NewDelegatee addr pub) = addr" "dgStakes (NewDelegatee addr pub) = []" "dgTotalPower (NewDelegatee addr pub) = 0"
  "length addr = AddrSize \<Longrightarrow> delegatee_ok (NewDelegatee addr pub)"
proof -
  show "dgAddr (NewDelegatee addr pub) = addr" "dgStakes (NewDelegatee addr pub) = []" "dgTotalPower (NewDelegatee addr pub) = 0"
    by (simp_all add: NewDelegatee_def)
  have "i64 0 = 0"
    by (simp add: i64_def)
  then have "delegatee_inv (NewDelegatee addr pub)"
    by (simp add: NewDelegatee_def delegatee_inv_def)
  then show "length addr = AddrSize \<Longrightarrow> delegatee_ok (NewDelegatee addr pub)"
    by (simp add: delegatee_ok_def NewDelegatee_def)
qed

lemma staked_on_ok:
  assumes "stake_inv E A H c" "delegatees_ok (dg_level E A exec c)" "length (txTo (ctxTx ctx)) = AddrSize"
    and "staked_on ctx (dg_level E A exec c) = Some d"
  shows "delegatee_ok d" "dgAddr d = txTo (ctxTx ctx)"
    "bonded (dg_level E A exec c) (ToLedgerKey (txTo (ctxTx ctx))) = sumPow (\<lambda>_. True) (dgStakes d)"
    "total_power (level_get (ToLedgerKey (txTo (ctxTx ctx))) (dg_level E A exec c)) = dgTotalPower d"
proof -
  let ?D = "dg_level E A exec c" and ?k = "ToLedgerKey (txTo (ctxTx ctx))"
  have "delegatee_ok d \<and> dgAddr d = txTo (ctxTx ctx) \<and> bonded ?D ?k = sumPow (\<lambda>_. True) (dgStakes d) \<and>
    total_power (level_get ?k ?D) = dgTotalPower d"
  proof (cases "level_get ?k ?D")
    case None
    then have d: "d = NewDelegatee (txTo (ctxTx ctx)) (ctxSenderPubKey ctx)"
      using assms(4) by (simp add: staked_on_def split: if_splits)
    show ?thesis
      unfolding d bonded_def total_power_def None New_ok(1-3) using New_ok(4) [OF assms(3)] by simp
  next
    case (Some d')
    then have l: "level_get ?k ?D = Some d"
      using assms(4) by (simp add: staked_on_def)
    have ok: "delegatee_ok d"
      using assms(2) l unfolding delegatees_ok_def by simp
    have "ToLedgerKey (dgAddr d) = ?k"
      using stake_level_keys(1) [OF assms(1) l] by (simp only: Delegatee_Key_def)
    then have "dgAddr d = txTo (ctxTx ctx)"
      using ok assms(3) by - (rule ToLedgerKey_inj, simp_all add: delegatee_ok_def AddrSize_def)
    then show ?thesis
      using l ok by (simp add: bonded_def total_power_def)
  qed
  then show "delegatee_ok d" "dgAddr d = txTo (ctxTx ctx)" "bonded ?D ?k = sumPow (\<lambda>_. True) (dgStakes d)"
    "total_power (level_get ?k ?D) = dgTotalPower d"
    by simp_all
qed

lemma delegatees_ok_set: "delegatees_ok D \<Longrightarrow> delegatee_ok d \<Longrightarrow> delegatees_ok (level_set k d D)"
  by (auto simp: delegatees_ok_def level_get_put split: if_splits)

lemma staked_by_sel [simp]:
  "stFrom (staked_by ctx pw) = txFrom (ctxTx ctx)" "stTo (staked_by ctx pw) = txTo (ctxTx ctx)" "stPower (staked_by ctx pw) = pw"
  "stTxHash (staked_by ctx pw) = ctxTxHash ctx"
  by (simp_all add: staked_by_def NewStakeWithPower_def)

lemma AmountToPower_in_range: "uint amt < 2 ^ 63 * 10 ^ 18 \<Longrightarrow> AmountToPower amt = Inr (uint amt div 10 ^ 18)"
proof -
  let ?q = "uint amt div 10 ^ 18"
  assume "uint amt < 2 ^ 63 * 10 ^ 18"
  then have q: "0 \<le> ?q" "?q < 2 ^ 63"
    by (simp_all add: div_less_iff_less_mult pos_imp_zdiv_nonneg_iff)
  then show ?thesis
    by (simp add: AmountToPower_eq Let_def)
qed

lemma wealth_bond:
  assumes "finite K" "i \<in> K" "k \<in> K" "\<And>j. bal L' j = (if j = i then bal L j - amt else bal L j)"
    and "\<And>j. bonded D' j = (if j = k then bonded D j + pw else bonded D j)" "amt = 10 ^ 18 * pw"
  shows "wealth K L' D' F = wealth K L D F"
proof -
  have "funds L' K = funds L K - amt"
    using funds_change [OF assms(1,2), of L' L] assms(4) by simp
  moreover have "sum (bonded D') K = sum (bonded D) K + pw"
    using sum_change [OF assms(1,3), of "bonded D'" "bonded D"] assms(5) by simp
  ultimately show ?thesis
    unfolding wealth_def assms(6) by (simp add: algebra_simps)
qed

text \<open>C28. A staking transaction that \<^verbatim>\<open>ValidateTrx\<close> accepted (\<^verbatim>\<open>stake/ctrler.go\<close>) either finds too little on
  the sender's account and changes nothing, or moves exactly its amount from the account into a new
  last stake of the delegatee, whose power is the amount in coins; all else is as before. Coins are
  neither made nor lost, and the delegatees stay consistent. (The delegatee must not have been
  deleted earlier in the same block.)\<close>

theorem StakeCtrler_staking_conserves:
  fixes ctx :: TrxContext
  assumes inv: "stake_inv E A H c" "acct_inv (seTree E) (seAccts E) A H V ac"
    and a: "AcctCtrler_at (ctxExec ctx) (ctxSender ctx) ac = Some a" and ty: "txType (ctxTx ctx) = TRX_STAKING"
    and v: "StakeCtrler_ValidateTrx E gov ctx c = (Inr (), c1)" and t: "StakeCtrler_ExecuteTrx E gov ctx (c1, ac) = (r, c', ac')"
  defines "D \<equiv> dg_level E A (ctxExec ctx) c" and "D' \<equiv> dg_level E A (ctxExec ctx) c'"
    and "L \<equiv> acct_level (seAccts E) A (ctxExec ctx) ac" and "L' \<equiv> acct_level (seAccts E) A (ctxExec ctx) ac'"
    and "F \<equiv> fr_level E A (ctxExec ctx) c" and "F' \<equiv> fr_level E A (ctxExec ctx) c'"
    and "amt \<equiv> uint (txAmount (ctxTx ctx))" and "k \<equiv> ToLedgerKey (txTo (ctxTx ctx))"
  assumes len: "length (txTo (ctxTx ctx)) = AddrSize" and ok: "delegatees_ok D" and del: "k \<notin> snd D" and lim: "amt < 2 ^ 63 * 10 ^ 18"
    and K: "finite K" "ctxSender ctx \<in> K" "k \<in> K"
  shows "r = (if bal L (ctxSender ctx) < amt then Inl (Error ErrInsufficientFund) else Inr ()) \<and>
    wealth K L' D' F' = wealth K L D F \<and> delegatees_ok D' \<and> F' = F \<and>
    (if r = Inr () then
       (\<exists>d d'. staked_on ctx D = Some d \<and> D' = level_set k d' D \<and> dgStakes d' = dgStakes d @ [staked_by ctx (amt div 10 ^ 18)]) \<and>
       bal L' (ctxSender ctx) = bal L (ctxSender ctx) - amt \<and> bonded D' k = bonded D k + amt div 10 ^ 18
     else L' = L \<and> D' = D)"
proof -
  have v': "StakeCtrler_validateStaking E gov ctx c = (Inr (), c1)" and t': "StakeCtrler_exeStaking E ctx (c1, ac) = (r, c', ac')"
    using v t ty by (simp_all add: StakeCtrler_ValidateTrx_def StakeCtrler_ExecuteTrx_def)
  note acc = validateStaking_accepts [OF inv(1) v', folded D_def k_def, folded amt_def]
  have pw: "AmountToPower (txAmount (ctxTx ctx)) = Inr (amt div 10 ^ 18)"
    using lim AmountToPower_in_range unfolding amt_def by blast
  have c1: "dg_level E A (ctxExec ctx) c1 = D" "fr_level E A (ctxExec ctx) c1 = F"
    using acc(2,3) by (simp_all add: D_def F_def)
  note out = exeStaking_outcome [OF acc(1) inv(2) a t', unfolded c1 pw, folded D'_def L_def L'_def F'_def k_def, folded amt_def]
  obtain d where d: "staked_on ctx D = Some d"
    using acc(6) by blast
  note dok = staked_on_ok [OF inv(1) ok [unfolded D_def] len d [unfolded D_def], folded D_def k_def]
  have lv: "bal L (ctxSender ctx) = uint (acctBalance a)" "snd L = {}"
    using AcctCtrler_at_level [OF inv(2) a] inv(2) by (simp_all add: bal_def L_def acct_inv_def)
  have small: "\<not> 2 ^ 255 \<le> amt"
    using lim by simp
  have F: "F' = F"
    using out c1(2) by (simp add: F'_def)
  show ?thesis
  proof (cases "bal L (ctxSender ctx) < amt")
    case True
    then have "r = Inl (Error ErrInsufficientFund)" "D' = D" "L' = L"
      using out d small lv(1) by simp_all
    then show ?thesis
      using True ok F by simp
  next
    case False
    let ?d = "Delegatee_addStake [staked_by ctx (amt div 10 ^ 18)] d"
    let ?a = "a\<lparr>acctBalance := acctBalance a - txAmount (ctxTx ctx)\<rparr>"
    have r: "r = Inr ()" and D': "D' = level_set k ?d D" and L': "L' = level_set (ctxSender ctx) ?a L"
      using out d small lv(1) False by simp_all
    have "uint (acctBalance a - txAmount (ctxTx ctx)) = uint (acctBalance a) - amt"
      using False lv(1) unfolding amt_def by (simp add: uint_u256_sub word_le_def)
    then have b: "bal L' j = (if j = ctxSender ctx then bal L j - amt else bal L j)" for j
      using lv by (simp add: L' bal_set)
    have q: "bonded D' j = (if j = k then bonded D j + amt div 10 ^ 18 else bonded D j)" for j
      using dok(3) by (simp add: D' bonded_set [OF del])
    have "wealth K L' D' F' = wealth K L D F"
      unfolding F by (rule wealth_bond [OF K b q]) (use acc(5) mult_div_mod_eq [of "10 ^ 18" amt] in linarith)
    moreover have "delegatees_ok D'"
      unfolding D' using dok acc lim by (intro delegatees_ok_set ok addStake_ok) (auto simp: pw div_less_iff_less_mult)
    ultimately show ?thesis
      using False r D' d F b q by auto
  qed
qed

definition demoAddr :: bytes where
  "demoAddr = replicate 20 1"

definition demoOwner :: Account where
  "demoOwner = (NewAccount demoAddr)\<lparr>acctBalance := 7 * 10 ^ 18\<rparr>"

definition demoAccts :: "vtree AcctCtrler" where
  "demoAccts = snd (AcctCtrler_setAccountCommittable demoAcctProto demoOwner True emptyAcctCtrler)"

definition demoGov :: GovParams where
  "demoGov = DefaultGovParams\<lparr>gp_minValidatorStake := Some (5 * 10 ^ 18)\<rparr>"

definition demoStakingTx :: Trx where
  "demoStakingTx = \<lparr>txVersion = 1, txTime = 0, txNonce = 0, txFrom = demoAddr, txTo = demoAddr, txAmount = 5 * 10 ^ 18,
     txGas = 0, txGasPrice = 0, txType = TRX_STAKING, txPayload = None, txSig = []\<rparr>"

definition demoCtx :: "Trx \<Rightarrow> TrxContext" where
  "demoCtx tx = \<lparr>ctxHeight = 10, ctxBlockTime = 0, ctxTxHash = replicate 32 7, ctxTx = tx, ctxTxIdx = 0, ctxExec = True,
     ctxSenderPubKey = [], ctxSender = ToLedgerKey demoAddr, ctxReceiver = ToLedgerKey demoAddr, ctxGasUsed = 0,
     ctxRetData = [], ctxEvents = [], ctxChainID = ''''\<rparr>"

lemma demoCtx_sel [simp]:
  "ctxTx (demoCtx tx) = tx" "ctxExec (demoCtx tx) = True" "ctxSender (demoCtx tx) = ToLedgerKey demoAddr" "ctxHeight (demoCtx tx) = 10"
  by (simp_all add: demoCtx_def)

lemma demoStakingTx_sel [simp]:
  "txFrom demoStakingTx = demoAddr" "txTo demoStakingTx = demoAddr" "txAmount demoStakingTx = 5 * 10 ^ 18" "txType demoStakingTx = TRX_STAKING"
  by (simp_all add: demoStakingTx_def)

lemma demoOwner_valid: "acct_valid (\<lambda>_. True) demoOwner" "Account_Key demoOwner = ToLedgerKey demoAddr"
  "acctBalance demoOwner = 7 * 10 ^ 18"
  by (simp_all add: demoOwner_def acct_valid_def NewAccount_def Account_Key_ToLedgerKey)

lemma demoAccts_inv: "acct_inv vtreeOps demoAcctProto vMap vHist (\<lambda>_. True) demoAccts"
  unfolding demoAccts_def by (rule acct_set(1) [OF emptyAcctCtrler_inv demoOwner_valid(1)])

lemma demoAccts_at: "AcctCtrler_at True (ToLedgerKey demoAddr) demoAccts = Some demoOwner"
  using AcctCtrler_at_set [of True demoOwner] by (simp add: demoAccts_def demoOwner_valid)

lemma demoStake_inv: "stake_inv demoEnv vMap vHist demoStakeCtrler"
  by (simp add: stake_inv_def demoStakeCtrler_def)

lemma demoStake_levels: "dg_level demoEnv vMap True demoStakeCtrler = (Map.empty, {})" "fr_level demoEnv vMap True demoStakeCtrler = (Map.empty, {})"
  by (simp_all add: dg_level_def fr_level_def two_level_def demoStakeCtrler_def)

lemma demoStaking_validated: "\<exists>c. StakeCtrler_ValidateTrx demoEnv demoGov (demoCtx demoStakingTx) demoStakeCtrler = (Inr (), c)"
proof -
  obtain found c1 where g: "StakeCtrler_getDelegatee demoEnv True (ToLedgerKey demoAddr) demoStakeCtrler = (found, c1)"
    by (rule prod.exhaust)
  have "found = Inl (Error ErrNotFoundResult)"
    using getDelegatee(1) [OF demoStake_inv g] by (simp add: demoStake_levels of_option_def level_get_def)
  moreover have "length (scLastValidators c1) = 2"
    using getDelegatee(8) [OF demoStake_inv g] by (simp add: demoStakeCtrler_def)
  moreover have "AmountToPower (5 * 10 ^ 18) = Inr 5"
    by (simp add: AmountToPower_in_range)
  moreover have "(5 * 10 ^ 18 :: u256) div AmountPerPower = 5" "(5 * 10 ^ 18 :: u256) mod AmountPerPower = 0"
    by (simp_all add: AmountPerPower_def amountPerPower_def word_uint_eq_iff uint_div uint_mod)
  moreover have "GovParams_MinValidatorStake demoGov = Some (5 * 10 ^ 18)" "u256_Sign 5 = 1"
    by (simp_all add: demoGov_def GovParams_MinValidatorStake_def u256_Sign_def)
  ultimately show ?thesis
    by (simp add: StakeCtrler_ValidateTrx_def StakeCtrler_validateStaking_def g validateSelfStaking_def checkLimiter_def i64_def Let_def)
qed

theorem StakeCtrler_staking_conserves_witness:
  "\<exists>c c' ac'. StakeCtrler_ValidateTrx demoEnv demoGov (demoCtx demoStakingTx) demoStakeCtrler = (Inr (), c) \<and>
     StakeCtrler_ExecuteTrx demoEnv demoGov (demoCtx demoStakingTx) (c, demoAccts) = (Inr (), c', ac') \<and>
     bal (acct_level demoAcctProto vMap True ac') (ToLedgerKey demoAddr) = 2 * 10 ^ 18 \<and>
     bonded (dg_level demoEnv vMap True c') (ToLedgerKey demoAddr) = 5"
proof -
  obtain c where v: "StakeCtrler_ValidateTrx demoEnv demoGov (demoCtx demoStakingTx) demoStakeCtrler = (Inr (), c)"
    using demoStaking_validated by blast
  obtain r c' ac' where t: "StakeCtrler_ExecuteTrx demoEnv demoGov (demoCtx demoStakingTx) (c, demoAccts) = (r, c', ac')"
    by (metis prod.exhaust)
  have b: "bal (acct_level demoAcctProto vMap True demoAccts) (ToLedgerKey demoAddr) = 7 * 10 ^ 18"
    using AcctCtrler_at_level [OF demoAccts_inv demoAccts_at] by (simp add: bal_def demoOwner_valid)
  have e: "bonded (Map.empty, {}) k = 0" "delegatees_ok (Map.empty, {})" "length demoAddr = AddrSize" for k
    by (simp_all add: bonded_def delegatees_ok_def level_get_def demoAddr_def AddrSize_def)
  note th = StakeCtrler_staking_conserves [where E = demoEnv and A = vMap and H = vHist and V = "\<lambda>_. True" and ctx = "demoCtx demoStakingTx"
      and K = "{ToLedgerKey demoAddr}" and a = demoOwner, OF demoStake_inv, unfolded demoEnv_sel demoCtx_sel demoStakingTx_sel,
      OF demoAccts_inv demoAccts_at refl v t, unfolded demoStake_levels e b, OF refl e(2)]
  have "r = Inr () \<and> bal (acct_level demoAcctProto vMap True ac') (ToLedgerKey demoAddr) = 2 * 10 ^ 18 \<and>
      bonded (dg_level demoEnv vMap True c') (ToLedgerKey demoAddr) = 5"
    using th by simp
  then show ?thesis
    using v t by blast
qed


definition demoDeleted :: "(vtree, bytes \<rightharpoonup> bytes) StakeCtrler" where
  "demoDeleted = snd (StakeCtrler_delDelegatee demoEnv True (ToLedgerKey demoAddr)
     (snd (StakeCtrler_setDelegatee demoEnv True (NewDelegatee demoAddr []) demoStakeCtrler)))"

lemma demoDeleted_inv:
  "stake_inv demoEnv vMap vHist demoDeleted" "ToLedgerKey demoAddr \<in> snd (dg_level demoEnv vMap True demoDeleted)"
proof -
  obtain r c r' c' where e: "StakeCtrler_setDelegatee demoEnv True (NewDelegatee demoAddr []) demoStakeCtrler = (r, c)"
    "StakeCtrler_delDelegatee demoEnv True (ToLedgerKey demoAddr) c = (r', c')"
    by (metis prod.exhaust)
  note s = setDelegatee [OF demoStake_inv e(1)]
  note d = delDelegatee [OF s(2) e(2)]
  have "Delegatee_Key (NewDelegatee demoAddr []) = ToLedgerKey demoAddr"
    by (simp add: Delegatee_Key_def New_ok)
  then have "level_get (ToLedgerKey demoAddr) (dg_level demoEnv vMap True c) \<noteq> None"
    by (simp add: s(3) demoStake_levels level_get_put)
  then show "stake_inv demoEnv vMap vHist demoDeleted" "ToLedgerKey demoAddr \<in> snd (dg_level demoEnv vMap True demoDeleted)"
    using d(2,3) by (auto simp: demoDeleted_def e level_del_def)
qed


end
