(* ===== verification/Rigo_UnstakingProps.thy ===== *)
theory Rigo_UnstakingProps
  imports Rigo_StakingProps
begin

text \<open>
  Un-staking moves stakes from a delegatee to the frozen ledger, and the end of a block pays back the
  frozen stakes whose time has come. Neither makes or loses coins.
\<close>

section \<open>Freezing\<close>

definition frozen_at :: "int \<Rightarrow> Stake \<Rightarrow> Stake" where
  "frozen_at h s = s\<lparr>stRefundHeight := h\<rparr>"

lemma frozen_at_sel [simp]: "Stake_Key (frozen_at h s) = Stake_Key s" "stPower (frozen_at h s) = stPower s"
  by (simp_all add: frozen_at_def Stake_Key_def)

definition level_freeze :: "int \<Rightarrow> Stake list \<Rightarrow> Stake levelSpec \<Rightarrow> Stake levelSpec" where
  "level_freeze h = fold (\<lambda>s. level_set (Stake_Key s) (frozen_at h s))"

lemma level_freeze_simps [simp]:
  "level_freeze h [] F = F" "level_freeze h (s # ss) F = level_freeze h ss (level_set (Stake_Key s) (frozen_at h s) F)"
  by (simp_all add: level_freeze_def)

lemma level_freeze_other:
  assumes "k \<notin> Stake_Key ` set ss"
  shows "level_get k (level_freeze h ss F) = level_get k F"
  using assms by (induction ss arbitrary: F) auto

lemma snd_level_freeze [simp]: "snd (level_freeze h ss F) = snd F"
  by (induction ss arbitrary: F) simp_all

lemma level_freeze_get:
  assumes "distinct (map Stake_Key ss)" "s \<in> set ss" "Stake_Key s \<notin> snd F"
  shows "level_get (Stake_Key s) (level_freeze h ss F) = Some (frozen_at h s)"
  using assms
proof (induction ss arbitrary: F)
  case (Cons t ss)
  show ?case
  proof (cases "s = t")
    case True
    with Cons.prems have "Stake_Key s \<notin> Stake_Key ` set ss"
      by simp
    then show ?thesis
      using Cons.prems True by (simp add: level_freeze_other level_get_put)
  next
    case False
    with Cons show ?thesis
      by simp
  qed
qed simp

text \<open>Freezing fresh stakes adds their powers to what is frozen.\<close>

definition fresh :: "Stake levelSpec \<Rightarrow> Stake \<Rightarrow> bool" where
  "fresh F s \<longleftrightarrow> level_get (Stake_Key s) F = None \<and> Stake_Key s \<notin> snd F"

lemma sum_frozen:
  assumes "finite K" "distinct (map Stake_Key ss)" "\<forall>s \<in> set ss. Stake_Key s \<in> K \<and> fresh F s"
  shows "sum (frozen (level_freeze h ss F)) K = sum (frozen F) K + sumPow (\<lambda>_. True) ss"
  using assms
proof (induction ss arbitrary: F)
  case (Cons s ss)
  let ?F = "level_set (Stake_Key s) (frozen_at h s) F"
  have "\<forall>t \<in> set ss. Stake_Key t \<noteq> Stake_Key s"
    using Cons.prems(2) by (metis distinct.simps(2) imageI list.set_map list.simps(9))
  then have "\<forall>t \<in> set ss. Stake_Key t \<in> K \<and> fresh ?F t"
    using Cons.prems(3) by (simp add: fresh_def)
  then have "sum (frozen (level_freeze h ss ?F)) K = sum (frozen ?F) K + sumPow (\<lambda>_. True) ss"
    using Cons.IH Cons.prems(1,2) by simp
  moreover have "fresh F s" "Stake_Key s \<in> K"
    using Cons.prems(3) by simp_all
  then have "sum (frozen ?F) K = sum (frozen F) K + stPower s"
    using sum_change [of K "Stake_Key s" "frozen ?F" "frozen F"] Cons.prems(1) by (simp add: fresh_def frozen_def level_get_put)
  ultimately show ?case
    by simp
qed simp

definition refund_height :: "GovParams \<Rightarrow> TrxContext \<Rightarrow> int" where
  "refund_height gov ctx = i64 (ctxHeight ctx + GovParams_LazyRewardBlocks gov)"

lemma freeze_level:
  assumes "stake_inv E A H c"
  shows "stake_inv E A H (freeze E gov ctx s c)"
    "fr_level E A (ctxExec ctx) (freeze E gov ctx s c) = level_set (Stake_Key s) (frozen_at (refund_height gov ctx) s) (fr_level E A (ctxExec ctx) c)"
    "dg_level E A e (freeze E gov ctx s c) = dg_level E A e c"
  using setFrozen [OF assms(1), where exec = "ctxExec ctx" and s = "frozen_at (refund_height gov ctx) s"]
  by (simp_all only: freeze_def refund_height_def frozen_at_def [symmetric] frozen_at_sel)

lemma fold_freeze:
  assumes "stake_inv E A H c"
  shows "stake_inv E A H (fold (freeze E gov ctx) ss c) \<and>
    fr_level E A (ctxExec ctx) (fold (freeze E gov ctx) ss c) = level_freeze (refund_height gov ctx) ss (fr_level E A (ctxExec ctx) c) \<and>
    dg_level E A (ctxExec ctx) (fold (freeze E gov ctx) ss c) = dg_level E A (ctxExec ctx) c"
  using assms(1)
proof (induction ss arbitrary: c)
  case (Cons s ss)
  note f = freeze_level [OF Cons.prems, where gov = gov and ctx = ctx and s = s]
  show ?case
    using Cons.IH [OF f(1)] f(2,3) by simp
qed simp

section \<open>Un-staking\<close>

definition self_left :: "bytes \<Rightarrow> Delegatee \<Rightarrow> bool" where
  "self_left h d \<longleftrightarrow> (\<exists>s \<in> set (remHash h (dgStakes d)). Stake_IsSelfStake s)"

lemma FindStake_eq: "snd (Delegatee_FindStake h d) = List.find (\<lambda>s. stTxHash s = h) (dgStakes d)"
  by (simp add: Delegatee_FindStake_def Delegatee_findStake_def findStakeLoop_eq split: option.split)

lemma sumPow_pos_iff: "\<forall>s \<in> set ss. 0 < stPower s \<Longrightarrow> sumPow P ss = 0 \<longleftrightarrow> (\<forall>s \<in> set ss. \<not> P s)"
proof (induction ss)
  case (Cons s ss)
  then have "0 \<le> sumPow P ss"
    by (intro sumPow_nonneg) auto
  with Cons show ?case
    by auto
qed simp

lemma DelStake_ok:
  assumes "delegatee_ok d" "List.find (\<lambda>s. stTxHash s = h) (dgStakes d) = Some s0"
  defines "d1 \<equiv> snd (Delegatee_DelStake h d)"
  shows "dgStakes d1 = remHash h (dgStakes d)" "Delegatee_Key d1 = Delegatee_Key d" "delegatee_ok d1"
    "dgSelfPower d1 = 0 \<longleftrightarrow> \<not> self_left h d" "self_left h d \<Longrightarrow> dgTotalPower d1 \<noteq> 0"
proof -
  show st: "dgStakes d1 = remHash h (dgStakes d)" and "Delegatee_Key d1 = Delegatee_Key d"
    by (simp_all add: d1_def DelStake_eq Delegatee_Key_def)
  have pos: "\<forall>s \<in> set (dgStakes d1). 0 < stPower s"
    using assms(1) set_remHash [of h "dgStakes d"] unfolding st delegatee_ok_def by blast
  have s0: "0 < stPower s0"
    using assms by (auto simp: delegatee_ok_def find_Some_iff)
  have "sumPow (\<lambda>_. True) (dgStakes d1) < 2 ^ 63"
    using assms(1) sumPow_remHash [OF assms(2), of "\<lambda>_. True"] s0 unfolding st delegatee_ok_def by simp
  moreover have "delegatee_inv d1" "dgAddr d1 = dgAddr d"
    using DelStake_inv assms(1) by (simp_all add: d1_def delegatee_ok_def DelStake_eq)
  ultimately show ok: "delegatee_ok d1"
    using assms(1) pos by (simp add: delegatee_ok_def)
  have p: "0 \<le> sumPow Stake_IsSelfStake (dgStakes d1)" "sumPow Stake_IsSelfStake (dgStakes d1) \<le> sumPow (\<lambda>_. True) (dgStakes d1)"
    using pos sumPow_nonneg [of "dgStakes d1" Stake_IsSelfStake] sumPow_le [of "dgStakes d1" Stake_IsSelfStake]
    by (auto simp: less_imp_le)
  then have "dgSelfPower d1 = sumPow Stake_IsSelfStake (dgStakes d1)"
    using ok by (simp add: delegatee_ok_def delegatee_inv_def i64_id in_i64_def)
  then show self: "dgSelfPower d1 = 0 \<longleftrightarrow> \<not> self_left h d"
    using sumPow_pos_iff [OF pos, of Stake_IsSelfStake] unfolding st self_left_def by simp
  show "self_left h d \<Longrightarrow> dgTotalPower d1 \<noteq> 0"
    using p self \<open>dgSelfPower d1 = _\<close> by (simp add: delegatee_ok_total [OF ok])
qed

lemma unstake_moves:
  assumes inv: "stake_inv E A H c" and ok: "delegatee_ok d" and s0: "List.find (\<lambda>s. stTxHash s = h) (dgStakes d) = Some s0"
    and d: "level_get (Delegatee_Key d) (dg_level E A (ctxExec ctx) c) = Some d"
    and t: "(let delegatee = snd (Delegatee_DelStake h d); c = freeze E gov ctx s0 c;
               (stakes, delegatee) = (if dgSelfPower delegatee = 0 then Delegatee_DelAllStakes delegatee else ([], delegatee));
               c = fold (freeze E gov ctx) stakes c
           in if dgTotalPower delegatee = 0
              then bindE (StakeCtrler_delDelegatee E (ctxExec ctx) (Delegatee_Key delegatee) c) (\<lambda>_ c. (Inr (), c))
              else StakeCtrler_setDelegatee E (ctxExec ctx) delegatee c) = (r, c')"
  shows "stake_inv E A H c' \<and> r = Inr () \<and>
    fr_level E A (ctxExec ctx) c' = level_freeze (refund_height gov ctx) (s0 # (if self_left h d then [] else remHash h (dgStakes d)))
      (fr_level E A (ctxExec ctx) c) \<and>
    dg_level E A (ctxExec ctx) c' = (if self_left h d then level_set (Delegatee_Key d) (snd (Delegatee_DelStake h d)) (dg_level E A (ctxExec ctx) c)
      else level_del (Delegatee_Key d) (dg_level E A (ctxExec ctx) c))"
proof -
  let ?d1 = "snd (Delegatee_DelStake h d)" and ?c1 = "freeze E gov ctx s0 c"
  note d1 = DelStake_ok [OF ok s0]
  note f1 = freeze_level [OF inv, where gov = gov and ctx = ctx and s = s0]
  show ?thesis
  proof (cases "self_left h d")
    case True
    then have "StakeCtrler_setDelegatee E (ctxExec ctx) ?d1 ?c1 = (r, c')"
      using t d1(4,5) by (simp add: Let_def)
    then show ?thesis
      using setDelegatee [OF f1(1)] True f1(2,3) d1(2) by simp
  next
    case False
    let ?d2 = "snd (Delegatee_DelAllStakes ?d1)" and ?c2 = "fold (freeze E gov ctx) (remHash h (dgStakes d)) ?c1"
    have inv1: "delegatee_inv ?d1"
      using d1(3) by (simp add: delegatee_ok_def)
    note all = DelAllStakes_sel [OF inv1]
    have k: "Delegatee_Key ?d2 = Delegatee_Key d"
      using d1(2) all(5) by (simp add: Delegatee_Key_def)
    note f2 = fold_freeze [OF f1(1), where gov = gov and ctx = ctx and ss = "remHash h (dgStakes d)"]
    obtain r2 c2 where del: "StakeCtrler_delDelegatee E (ctxExec ctx) (Delegatee_Key d) ?c2 = (r2, c2)"
      by (rule prod.exhaust)
    have fst: "fst (Delegatee_DelAllStakes ?d1) = remHash h (dgStakes d)"
      using all(1) d1(1) by simp
    have "bindE (r2, c2) (\<lambda>_ c. (Inr (), c)) = (r, c')"
      using t False d1(4) all(3) k del fst by (simp add: Let_def case_prod_unfold)
    then show ?thesis
      using delDelegatee [OF f2 [THEN conjunct1] del] f2 f1(2,3) d False by (simp add: of_option_def)
  qed
qed

lemma exeUnstaking_outcome:
  assumes inv: "stake_inv E A H c" and p: "txPayload (ctxTx ctx) = Some (TrxPayloadUnstaking h)" "length h = 32"
    and ok: "delegatees_ok (dg_level E A (ctxExec ctx) c)" and t: "StakeCtrler_exeUnstaking E gov ctx c = (r, c')"
  defines "D \<equiv> dg_level E A (ctxExec ctx) c" and "D' \<equiv> dg_level E A (ctxExec ctx) c'"
    and "F \<equiv> fr_level E A (ctxExec ctx) c" and "F' \<equiv> fr_level E A (ctxExec ctx) c'"
    and "k \<equiv> ToLedgerKey (txTo (ctxTx ctx))"
  shows "stake_inv E A H c' \<and>
    (case level_get k D of
       None \<Rightarrow> r = Inl (Error ErrNotFoundResult) \<and> D' = D \<and> F' = F
     | Some d \<Rightarrow>
         (case List.find (\<lambda>s. stTxHash s = h) (dgStakes d) of
            None \<Rightarrow> r = Inl (Error ErrNotFoundStake) \<and> D' = D \<and> F' = F
          | Some s0 \<Rightarrow>
              if txFrom (ctxTx ctx) \<noteq> stFrom s0
              then r = Inl (Error (xerror_Wrapf ErrNotFoundStake ''you not stake owner'')) \<and> D' = D \<and> F' = F
              else r = Inr () \<and>
                F' = level_freeze (refund_height gov ctx) (s0 # (if self_left h d then [] else remHash h (dgStakes d))) F \<and>
                D' = (if self_left h d then level_set k (snd (Delegatee_DelStake h d)) D else level_del k D)))"
proof -
  obtain found c1 where g: "StakeCtrler_getDelegatee E (ctxExec ctx) k c = (found, c1)"
    by (rule prod.exhaust)
  note g' = getDelegatee [OF inv g, folded D_def]
  show ?thesis
  proof (cases "level_get k D")
    case None
    then show ?thesis
      using t g' by (simp add: StakeCtrler_exeUnstaking_def g k_def [symmetric] of_option_def D_def D'_def F_def F'_def)
  next
    case (Some d)
    show ?thesis
    proof (cases "List.find (\<lambda>s. stTxHash s = h) (dgStakes d)")
      case None
      then show ?thesis
        using Some t g' p by (simp add: StakeCtrler_exeUnstaking_def g k_def [symmetric] of_option_def D_def D'_def F_def F'_def FindStake_eq)
    next
      case s0: (Some s0)
      have d: "delegatee_ok d" "Delegatee_Key d = k" "level_get k (dg_level E A (ctxExec ctx) c1) = Some d"
        using Some ok stake_level_keys(1) [OF inv] g'(3) unfolding D_def delegatees_ok_def by auto
      show ?thesis
      proof (cases "txFrom (ctxTx ctx) = stFrom s0")
        case False
        then show ?thesis
          using Some s0 t g' p
          by (simp add: StakeCtrler_exeUnstaking_def g k_def [symmetric] of_option_def D_def D'_def F_def F'_def FindStake_eq)
      next
        case True
        then have t': "(let delegatee = snd (Delegatee_DelStake h d); c = freeze E gov ctx s0 c1;
               (stakes, delegatee) = (if dgSelfPower delegatee = 0 then Delegatee_DelAllStakes delegatee else ([], delegatee));
               c = fold (freeze E gov ctx) stakes c
           in if dgTotalPower delegatee = 0
              then bindE (StakeCtrler_delDelegatee E (ctxExec ctx) (Delegatee_Key delegatee) c) (\<lambda>_ c. (Inr (), c))
              else StakeCtrler_setDelegatee E (ctxExec ctx) delegatee c) = (r, c')"
          using Some s0 t g' p by (simp add: StakeCtrler_exeUnstaking_def g k_def [symmetric] of_option_def FindStake_eq Let_def)
        show ?thesis
          using unstake_moves [OF g'(2) d(1) s0 _ t'] d Some s0 True g'(3,4)
          by (simp add: D_def D'_def F_def F'_def)
      qed
    qed
  qed
qed

lemma set_stakes_remHash:
  "List.find (\<lambda>s. stTxHash s = h) ss = Some s0 \<Longrightarrow> distinct (map Stake_Key ss) \<Longrightarrow>
   set (s0 # remHash h ss) = set ss \<and> distinct (map Stake_Key (s0 # remHash h ss))"
proof (induction ss)
  case (Cons s ss)
  show ?case
  proof (cases "stTxHash s = h")
    case False
    have s: "Stake_Key s \<notin> Stake_Key ` set ss"
      using Cons.prems(2) by simp
    have IH: "set (s0 # remHash h ss) = set ss" "distinct (map Stake_Key (s0 # remHash h ss))"
      using Cons False by simp_all
    have "Stake_Key s \<notin> Stake_Key ` set (s0 # remHash h ss)"
      unfolding IH(1) by (rule s)
    then show ?thesis
      using False IH by (simp add: insert_commute) (metis insert_commute)
  qed (use Cons in auto)
qed simp

lemma unstake_wealth:
  assumes ok: "delegatees_ok D" and d: "level_get k D = Some d" and s0: "List.find (\<lambda>s. stTxHash s = h) (dgStakes d) = Some s0"
    and K: "finite K" "k \<in> K"
    and fr: "distinct (map Stake_Key (dgStakes d)) \<and> (\<forall>s \<in> set (dgStakes d). Stake_Key s \<in> K \<and> fresh F s)"
  defines "D' \<equiv> (if self_left h d then level_set k (snd (Delegatee_DelStake h d)) D else level_del k D)"
    and "ss \<equiv> s0 # (if self_left h d then [] else remHash h (dgStakes d))"
  shows "wealth K L D' (level_freeze height ss F) = wealth K L D F \<and> delegatees_ok D'"
proof
  have dok: "delegatee_ok d"
    using ok d by (simp add: delegatees_ok_def)
  note d1 = DelStake_ok [OF dok s0]
  have "\<forall>s \<in> set ss. Stake_Key s \<in> K \<and> fresh F s" "distinct (map Stake_Key ss)"
    using fr set_stakes_remHash [OF s0] by (auto simp: ss_def)
  then have f: "sum (frozen (level_freeze height ss F)) K = sum (frozen F) K + sumPow (\<lambda>_. True) ss"
    by (intro sum_frozen K(1))
  have nk: "k \<notin> snd D"
    using d by (auto simp: level_get_def split: if_splits)
  have "bonded D k = sumPow (\<lambda>_. True) (dgStakes d)"
    by (simp add: bonded_def d)
  then have "bonded D' j = (if j = k then bonded D j - sumPow (\<lambda>_. True) ss else bonded D j)" for j
    using d1(1) sumPow_remHash [OF s0, of "\<lambda>_. True"] by (simp add: D'_def ss_def bonded_set [OF nk] bonded_del)
  then have "sum (bonded D') K = sum (bonded D) K - sumPow (\<lambda>_. True) ss"
    using sum_change [OF K, of "bonded D'" "bonded D"] by simp
  then show "wealth K L D' (level_freeze height ss F) = wealth K L D F"
    using f by (simp add: wealth_def)
  show "delegatees_ok D'"
    using ok d1(3) by (auto simp: D'_def delegatees_ok_set) (simp add: delegatees_ok_def)
qed

text \<open>C29. Un-staking (\<^verbatim>\<open>exeUnstaking\<close>, \<^verbatim>\<open>stake/ctrler.go\<close>) fails and changes nothing when the delegatee or the
  stake does not exist or the stake belongs to somebody else. Otherwise it succeeds: the stake, and
  all the others when it was the last of the delegatee's own, are frozen until the refund height, and
  the delegatee is left with the rest or deleted when nothing of its own is left. What leaves the
  bonded stakes is what is frozen, so no coin is made or lost.\<close>

theorem StakeCtrler_unstaking_conserves:
  fixes ctx :: TrxContext and L
  assumes inv: "stake_inv E A H c" and p: "txPayload (ctxTx ctx) = Some (TrxPayloadUnstaking h)" "length h = 32"
    and t: "StakeCtrler_exeUnstaking E gov ctx c = (r, c')"
  defines "D \<equiv> dg_level E A (ctxExec ctx) c" and "D' \<equiv> dg_level E A (ctxExec ctx) c'"
    and "F \<equiv> fr_level E A (ctxExec ctx) c" and "F' \<equiv> fr_level E A (ctxExec ctx) c'"
    and "k \<equiv> ToLedgerKey (txTo (ctxTx ctx))"
  assumes ok: "delegatees_ok D" and K: "finite K" "k \<in> K"
    and fr: "\<And>d. level_get k D = Some d \<Longrightarrow> distinct (map Stake_Key (dgStakes d)) \<and> (\<forall>s \<in> set (dgStakes d). Stake_Key s \<in> K \<and> fresh F s)"
  shows "wealth K L D' F' = wealth K L D F \<and> delegatees_ok D' \<and>
    (case level_get k D of
       None \<Rightarrow> r = Inl (Error ErrNotFoundResult) \<and> D' = D \<and> F' = F
     | Some d \<Rightarrow>
         (case List.find (\<lambda>s. stTxHash s = h) (dgStakes d) of
            None \<Rightarrow> r = Inl (Error ErrNotFoundStake) \<and> D' = D \<and> F' = F
          | Some s0 \<Rightarrow>
              if txFrom (ctxTx ctx) \<noteq> stFrom s0
              then r = Inl (Error (xerror_Wrapf ErrNotFoundStake ''you not stake owner'')) \<and> D' = D \<and> F' = F
              else r = Inr () \<and>
                F' = level_freeze (refund_height gov ctx) (s0 # (if self_left h d then [] else remHash h (dgStakes d))) F \<and>
                D' = (if self_left h d then level_set k (snd (Delegatee_DelStake h d)) D else level_del k D)))"
proof -
  note out = exeUnstaking_outcome [OF inv p ok [unfolded D_def] t, folded D_def D'_def F_def F'_def k_def]
  have "wealth K L D' F' = wealth K L D F \<and> delegatees_ok D'"
  proof (cases "D' = D \<and> F' = F")
    case True
    then show ?thesis
      using ok by simp
  next
    case False
    obtain d where d: "level_get k D = Some d"
      using False out by (cases "level_get k D") simp_all
    obtain s0 where s0: "List.find (\<lambda>s. stTxHash s = h) (dgStakes d) = Some s0"
      using False out d by (cases "List.find (\<lambda>s. stTxHash s = h) (dgStakes d)") simp_all
    have F': "F' = level_freeze (refund_height gov ctx) (s0 # (if self_left h d then [] else remHash h (dgStakes d))) F"
      and D': "D' = (if self_left h d then level_set k (snd (Delegatee_DelStake h d)) D else level_del k D)"
      using False out d s0 by (simp_all split: if_splits)
    show ?thesis
      unfolding D' F' by (rule unstake_wealth [OF ok d s0 K fr [OF d]])
  qed
  then show ?thesis
    using out by blast
qed

definition demoHash :: bytes where
  "demoHash = replicate 32 7"

definition demoBond :: Delegatee where
  "demoBond = Delegatee_addStake [NewStakeWithPower demoAddr demoAddr 5 3 demoHash] (NewDelegatee demoAddr [])"

definition demoBonded :: "(vtree, bytes \<rightharpoonup> bytes) StakeCtrler" where
  "demoBonded = snd (StakeCtrler_setDelegatee demoEnv True demoBond demoStakeCtrler)"

definition demoUnstakingTx :: Trx where
  "demoUnstakingTx = demoStakingTx\<lparr>txType := TRX_UNSTAKING, txPayload := Some (TrxPayloadUnstaking demoHash)\<rparr>"

lemma demoBond_stakes: "dgStakes demoBond = [NewStakeWithPower demoAddr demoAddr 5 3 demoHash]" "Delegatee_Key demoBond = ToLedgerKey demoAddr"
  by (simp_all add: demoBond_def New_ok Delegatee_Key_def)

lemma demoBond_ok: "delegatee_ok demoBond"
  unfolding demoBond_def
  by (rule addStake_ok) (simp_all add: New_ok NewStakeWithPower_def demoAddr_def AddrSize_def i64_def)

lemma demoBonded_inv:
  "stake_inv demoEnv vMap vHist demoBonded" "dg_level demoEnv vMap True demoBonded = ([ToLedgerKey demoAddr \<mapsto> demoBond], {})"
  "fr_level demoEnv vMap True demoBonded = (Map.empty, {})"
proof -
  obtain r c where e: "StakeCtrler_setDelegatee demoEnv True demoBond demoStakeCtrler = (r, c)"
    by (rule prod.exhaust)
  note s = setDelegatee [OF demoStake_inv e]
  show "stake_inv demoEnv vMap vHist demoBonded" "dg_level demoEnv vMap True demoBonded = ([ToLedgerKey demoAddr \<mapsto> demoBond], {})"
    "fr_level demoEnv vMap True demoBonded = (Map.empty, {})"
    using s(2,3,5) by (simp_all add: demoBonded_def e demoStake_levels demoBond_stakes level_set_def)
qed

theorem StakeCtrler_unstaking_conserves_witness:
  "\<exists>c'. StakeCtrler_exeUnstaking demoEnv demoGov (demoCtx demoUnstakingTx) demoBonded = (Inr (), c') \<and>
     bonded (dg_level demoEnv vMap True c') (ToLedgerKey demoAddr) = 0 \<and> frozen (fr_level demoEnv vMap True c') demoHash = 5"
proof -
  obtain r c' where t: "StakeCtrler_exeUnstaking demoEnv demoGov (demoCtx demoUnstakingTx) demoBonded = (r, c')"
    by (rule prod.exhaust)
  have tx: "txPayload demoUnstakingTx = Some (TrxPayloadUnstaking demoHash)" "txTo demoUnstakingTx = demoAddr" "txFrom demoUnstakingTx = demoAddr"
    by (simp_all add: demoUnstakingTx_def)
  have h: "length demoHash = 32" "Stake_Key (NewStakeWithPower demoAddr demoAddr 5 3 demoHash) = demoHash"
    by (simp_all add: Stake_Key_def NewStakeWithPower_def demoHash_def)
  have lv: "level_get (ToLedgerKey demoAddr) ([ToLedgerKey demoAddr \<mapsto> demoBond], {}) = Some demoBond"
    "delegatees_ok ([ToLedgerKey demoAddr \<mapsto> demoBond], {})"
    using demoBond_ok by (auto simp: level_get_def delegatees_ok_def split: if_splits)
  let ?s = "NewStakeWithPower demoAddr demoAddr 5 3 demoHash"
  have s: "stTxHash ?s = demoHash" "stFrom ?s = demoAddr" "stPower ?s = 5"
    by (simp_all add: NewStakeWithPower_def)
  have rem: "remHash demoHash (dgStakes demoBond) = []" "\<not> self_left demoHash demoBond"
    by (simp_all add: self_left_def demoBond_stakes s)
  note th = StakeCtrler_unstaking_conserves [where E = demoEnv and A = vMap and H = vHist and ctx = "demoCtx demoUnstakingTx" and gov = demoGov
      and h = demoHash and K = "{ToLedgerKey demoAddr, demoHash}", OF demoBonded_inv(1) _ h(1) t, unfolded demoCtx_sel demoBonded_inv tx lv(1)]
  have "r = Inr () \<and> fr_level demoEnv vMap True c' = level_set demoHash (frozen_at (refund_height demoGov (demoCtx demoUnstakingTx)) ?s) (Map.empty, {}) \<and>
      dg_level demoEnv vMap True c' = level_del (ToLedgerKey demoAddr) ([ToLedgerKey demoAddr \<mapsto> demoBond], {})"
    using th lv(2) h(2) by (simp add: demoBond_stakes s rem [unfolded demoBond_stakes] rem(2) fresh_def level_get_def)
  then have "r = Inr () \<and> bonded (dg_level demoEnv vMap True c') (ToLedgerKey demoAddr) = 0 \<and> frozen (fr_level demoEnv vMap True c') demoHash = 5"
    by (simp add: bonded_del frozen_set s)
  then show ?thesis
    using t by blast
qed

section \<open>Paying back\<close>

lemma Reward_outcome:
  assumes inv: "acct_inv T P A H V ac" and t: "AcctCtrler_Reward T P addr amt exec ac = (r, ac')"
    and a: "level_get (ToLedgerKey addr) (acct_level P A exec ac) = Some a" and amt: "uint amt < 2 ^ 255"
  shows "r = Inr ()" "acct_inv T P A H V ac'"
    "acct_level P A exec ac' = level_set (ToLedgerKey addr) (a\<lparr>acctBalance := acctBalance a + amt\<rparr>) (acct_level P A exec ac)"
proof -
  obtain f ac1 where f: "AcctCtrler_findAccount T P addr exec ac = (f, ac1)"
    by (rule prod.exhaust)
  note f' = findAccount [OF inv f]
  let ?a = "a\<lparr>acctBalance := acctBalance a + amt\<rparr>"
  have k: "Account_Key a = ToLedgerKey addr" "acct_valid V a"
    using acct_level_key [OF _ a] level_valid [OF inv a] inv by (auto simp: acct_inv_def)
  have "(r, ac') = AcctCtrler_setAccountCommittable P ?a exec ac1"
    using t f'(1) a amt by (simp add: AcctCtrler_Reward_def f Account_AddBalance_def u256_Sign_neg_iff)
  then have e: "r = fst (AcctCtrler_setAccountCommittable P ?a exec ac1)" "ac' = snd (AcctCtrler_setAccountCommittable P ?a exec ac1)"
    by (simp_all add: prod_eq_iff)
  show "r = Inr ()"
    by (simp add: e(1) acct_set_result)
  show "acct_inv T P A H V ac'" "acct_level P A exec ac' = level_set (ToLedgerKey addr) ?a (acct_level P A exec ac)"
    using acct_set(1,2) [OF f'(2), of ?a exec] k f'(3) by (simp_all add: e(2))
qed

lemma delFrozen:
  assumes "stake_inv E A H c" "FinalityLedger_DelFinality (seTree E) (stakeItem (seStakes E)) k (scFrozenLedger c) = (r, l)"
  shows "stake_inv E A H (c\<lparr>scFrozenLedger := l\<rparr>)"
    "fr_level E A True (c\<lparr>scFrozenLedger := l\<rparr>) = level_del k (fr_level E A True c)"
    "dg_level E A e (c\<lparr>scFrozenLedger := l\<rparr>) = dg_level E A e c"
proof -
  have "finality_inv (seTree E) (stakeItem (seStakes E)) A H (scFrozenLedger c)"
    using assms(1) by (simp add: stake_inv_def)
  note d = two_del [OF this, where exec = True and k = k, unfolded ledger_del_def, simplified, unfolded assms(2), simplified]
  show "stake_inv E A H (c\<lparr>scFrozenLedger := l\<rparr>)"
    "fr_level E A True (c\<lparr>scFrozenLedger := l\<rparr>) = level_del k (fr_level E A True c)"
    "dg_level E A e (c\<lparr>scFrozenLedger := l\<rparr>) = dg_level E A e c"
    using assms(1) d by (simp_all add: stake_inv_def fr_level_def dg_level_def)
qed


definition matured :: "int \<Rightarrow> Stake list \<Rightarrow> Stake list" where
  "matured h = filter (\<lambda>s. stRefundHeight s \<le> h)"

definition refund_to :: "ledgerKey \<Rightarrow> Stake list \<Rightarrow> int" where
  "refund_to k ss = 10 ^ 18 * sumPow (\<lambda>s. ToLedgerKey (stFrom s) = k) ss"

lemma refund_to_simps [simp]:
  "refund_to k [] = 0" "refund_to k (s # ss) = (if ToLedgerKey (stFrom s) = k then 10 ^ 18 * stPower s else 0) + refund_to k ss"
  by (simp_all add: refund_to_def algebra_simps)

text \<open>The stakes that can be paid: their owners have accounts, and no balance overflows.\<close>

definition payable :: "Account levelSpec \<Rightarrow> Stake list \<Rightarrow> bool" where
  "payable L ss \<longleftrightarrow> (\<forall>s \<in> set ss. level_get (ToLedgerKey (stFrom s)) L \<noteq> None \<and> 0 < stPower s \<and> stPower s < 2 ^ 63) \<and>
     (\<forall>k. bal L k + refund_to k ss < 2 ^ 256)"

lemma refund_to_nonneg: "payable L ss \<Longrightarrow> 0 \<le> refund_to k ss"
  unfolding refund_to_def payable_def using sumPow_nonneg [of ss] by (simp add: less_imp_le)

lemma unfreeze_step:
  assumes inv: "stake_inv E A H c" "acct_inv (seTree E) (seAccts E) A H V ac" and s: "stRefundHeight s \<le> h"
    and pay: "payable (acct_level (seAccts E) A True ac) (s # ss)" and t: "unfreezeStake E h s (c, ac) = (r, c', ac')"
  defines "L \<equiv> acct_level (seAccts E) A True ac" and "L' \<equiv> acct_level (seAccts E) A True ac'"
  shows "r = Inr ()" "stake_inv E A H c'" "acct_inv (seTree E) (seAccts E) A H V ac'"
    "fr_level E A True c' = level_del (Stake_Key s) (fr_level E A True c)" "dg_level E A True c' = dg_level E A True c"
    "bal L' k = bal L k + refund_to k [s]" "payable L' ss"
proof -
  let ?k = "ToLedgerKey (stFrom s)" and ?amt = "PowerToAmount (stPower s)"
  have pos: "0 < stPower s" "stPower s < 2 ^ 63"
    using pay by (simp_all add: payable_def)
  obtain a where a: "level_get ?k L = Some a"
    using pay by (auto simp: payable_def L_def)
  have amt: "uint ?amt = stPower s * 10 ^ 18"
    using pos by (intro uint_PowerToAmount) simp_all
  obtain r1 ac1 where rw: "AcctCtrler_Reward (seTree E) (seAccts E) (stFrom s) ?amt True ac = (r1, ac1)"
    by (rule prod.exhaust)
  have "uint ?amt < 2 ^ 255"
    using amt pos by simp
  note rw' = Reward_outcome [OF inv(2) rw a [unfolded L_def] this]
  obtain r2 l where del: "FinalityLedger_DelFinality (seTree E) (stakeItem (seStakes E)) (Stake_Key s) (scFrozenLedger c) = (r2, l)"
    by (rule prod.exhaust)
  note del' = delFrozen [OF inv(1) del]
  have e: "r = Inr ()" "c' = c\<lparr>scFrozenLedger := l\<rparr>" "ac' = ac1"
    using t rw rw'(1) del s by (simp_all add: unfreezeStake_def Stake_Key_def)
  show "r = Inr ()" "stake_inv E A H c'" "acct_inv (seTree E) (seAccts E) A H V ac'"
    "fr_level E A True c' = level_del (Stake_Key s) (fr_level E A True c)" "dg_level E A True c' = dg_level E A True c"
    using e del' rw'(2) by simp_all
  have nn: "0 \<le> refund_to k ss" for k
    using pay sumPow_nonneg [of ss] by (simp add: payable_def refund_to_def less_imp_le)
  have L': "L' = level_set ?k (a\<lparr>acctBalance := acctBalance a + ?amt\<rparr>) L" "snd L = {}"
    using rw'(3) inv(2) e(3) by (simp_all add: L_def L'_def acct_inv_def)
  have "bal L ?k + refund_to ?k (s # ss) < 2 ^ 256"
    using pay unfolding payable_def L_def by blast
  then have "uint (acctBalance a) + uint ?amt < 2 ^ 256"
    using a nn [of ?k] amt by (simp add: bal_def)
  then have b: "bal L' k = bal L k + refund_to k [s]" for k
    using a amt by (simp add: L' bal_set uint_u256_add) (simp add: bal_def)
  then show "bal L' k = bal L k + refund_to k [s]" .
  have "level_get k L' \<noteq> None \<longleftrightarrow> level_get k L \<noteq> None" for k
    using a L'(2) by (simp add: L'(1) level_get_put)
  then show "payable L' ss"
    using pay b unfolding payable_def L_def [symmetric] by (simp add: add.assoc)
qed

definition level_delAll :: "Stake list \<Rightarrow> Stake levelSpec \<Rightarrow> Stake levelSpec" where
  "level_delAll = fold (\<lambda>s. level_del (Stake_Key s))"

lemma level_delAll_get: "level_get k (level_delAll ss F) = (if k \<in> Stake_Key ` set ss then None else level_get k F)"
  by (induction ss arbitrary: F) (auto simp: level_delAll_def)

lemma unfreeze_all:
  assumes "stake_inv E A H c" "acct_inv (seTree E) (seAccts E) A H V ac"
    and "payable (acct_level (seAccts E) A True ac) (matured h ss)" and "iterate (unfreezeStake E h) ss (c, ac) = (r, c', ac')"
  shows "r = Inr () \<and> stake_inv E A H c' \<and> acct_inv (seTree E) (seAccts E) A H V ac' \<and>
    fr_level E A True c' = level_delAll (matured h ss) (fr_level E A True c) \<and> dg_level E A True c' = dg_level E A True c \<and>
    (\<forall>k. bal (acct_level (seAccts E) A True ac') k = bal (acct_level (seAccts E) A True ac) k + refund_to k (matured h ss))"
  using assms
proof (induction ss arbitrary: c ac)
  case Nil
  then show ?case
    by (simp add: matured_def level_delAll_def)
next
  case (Cons s ss)
  show ?case
  proof (cases "stRefundHeight s \<le> h")
    case False
    then have "unfreezeStake E h s (c, ac) = (Inr (), c, ac)"
      by (simp add: unfreezeStake_def)
    then show ?thesis
      using Cons False by (simp add: matured_def)
  next
    case True
    obtain r1 c1 ac1 where u: "unfreezeStake E h s (c, ac) = (r1, c1, ac1)"
      by (metis prod.exhaust)
    have m: "matured h (s # ss) = s # matured h ss"
      using True by (simp add: matured_def)
    note st = unfreeze_step [OF Cons.prems(1,2) True Cons.prems(3) [unfolded m] u]
    have "iterate (unfreezeStake E h) ss (c1, ac1) = (r, c', ac')"
      using Cons.prems(4) u st(1) by simp
    note IH = Cons.IH [OF st(2,3,7) this]
    show ?thesis
      using IH st(4-6) by (simp add: m level_delAll_def)
  qed
qed

lemma sum_delAll:
  assumes "finite K" "distinct (map Stake_Key ss)" "\<forall>s \<in> set ss. Stake_Key s \<in> K \<and> level_get (Stake_Key s) F = Some s"
  shows "sum (frozen (level_delAll ss F)) K = sum (frozen F) K - sumPow (\<lambda>_. True) ss"
  using assms
proof (induction ss arbitrary: F)
  case (Cons s ss)
  let ?F = "level_del (Stake_Key s) F"
  have "\<forall>t \<in> set ss. Stake_Key t \<noteq> Stake_Key s"
    using Cons.prems(2) by (metis distinct.simps(2) imageI list.set_map list.simps(9))
  then have "sum (frozen (level_delAll ss ?F)) K = sum (frozen ?F) K - sumPow (\<lambda>_. True) ss"
    using Cons.prems by (intro Cons.IH) auto
  moreover have "sum (frozen ?F) K = sum (frozen F) K - stPower s"
    using sum_change [of K "Stake_Key s" "frozen ?F" "frozen F"] Cons.prems by (simp add: frozen_def)
  ultimately show ?case
    by (simp add: level_delAll_def)
qed (simp add: level_delAll_def)

lemma sum_refund:
  assumes "finite K" "\<forall>s \<in> set ss. ToLedgerKey (stFrom s) \<in> K"
  shows "(\<Sum>k \<in> K. refund_to k ss) = 10 ^ 18 * sumPow (\<lambda>_. True) ss"
  using assms by (induction ss) (simp_all add: sum.distrib algebra_simps)

text \<open>C30. At the end of a block (\<^verbatim>\<open>unfreezingStakes\<close>, \<^verbatim>\<open>stake/ctrler.go\<close>) every committed frozen stake whose
  refund height has come is paid to its owner and leaves the frozen ledger, so that it is paid once;
  every other frozen stake stays. The owners get exactly the coins of their stakes, and the wealth of
  the system does not change.\<close>

theorem StakeCtrler_unfreezing_pays:
  assumes inv: "stake_inv E A H c" "acct_inv (seTree E) (seAccts E) A H V ac"
    and t: "StakeCtrler_unfreezingStakes E h (c, ac) = (r, c', ac')"
  defines "L \<equiv> acct_level (seAccts E) A True ac" and "L' \<equiv> acct_level (seAccts E) A True ac'"
    and "F \<equiv> fr_level E A True c" and "F' \<equiv> fr_level E A True c'" and "D \<equiv> dg_level E A True c" and "D' \<equiv> dg_level E A True c'"
    and "due \<equiv> matured h (committed (seTree E) (stakeItem (seStakes E)) (scFrozenLedger c))"
  assumes pay: "payable L due" and F: "\<forall>s \<in> set due. level_get (Stake_Key s) F = Some s"
    and K: "finite K" "\<forall>s \<in> set due. Stake_Key s \<in> K \<and> ToLedgerKey (stFrom s) \<in> K"
  shows "r = Inr () \<and> (\<forall>s \<in> set due. level_get (Stake_Key s) F' = None) \<and>
    (\<forall>s. stRefundHeight s > h \<longrightarrow> level_get (Stake_Key s) F = Some s \<longrightarrow> level_get (Stake_Key s) F' = Some s) \<and>
    (\<forall>k. bal L' k = bal L k + refund_to k due) \<and> wealth K L' D' F' = wealth K L D F"
proof -
  have fin: "finality_inv (seTree E) (stakeItem (seStakes E)) A H (scFrozenLedger c)"
    using inv(1) by (simp add: stake_inv_def)
  let ?cs = "committed (seTree E) (stakeItem (seStakes E)) (scFrozenLedger c)"
  have "iterate (unfreezeStake E h) ?cs (c, ac) = (r, c', ac')"
    using t by (simp add: StakeCtrler_unfreezingStakes_def FinalityLedger_IterateReadAllFinalityItems_def read_all(1) [OF fin])
  note out = unfreeze_all [OF inv pay [unfolded L_def due_def] this, folded L_def L'_def F_def F'_def D_def D'_def due_def]
  have F': "level_get k F' = (if k \<in> Stake_Key ` set due then None else level_get k F)" for k
    using out by (simp add: level_delAll_get)
  have keys: "distinct (map Stake_Key due)"
    using read_all(2) [OF fin] by (simp add: due_def matured_def distinct_map_filter)
  have "sum (frozen F') K = sum (frozen F) K - sumPow (\<lambda>_. True) due"
    using sum_delAll [OF K(1) keys] F K(2) out by simp
  moreover have "funds L' K = funds L K + 10 ^ 18 * sumPow (\<lambda>_. True) due"
    using out sum_refund [OF K(1), of due] K(2) by (simp add: funds_def sum.distrib)
  ultimately have "wealth K L' D' F' = wealth K L D F"
    using out by (simp add: wealth_def)
  moreover have "Stake_Key s \<notin> Stake_Key ` set due" if "h < stRefundHeight s" "level_get (Stake_Key s) F = Some s" for s
    using F that by (force simp: due_def matured_def)
  ultimately show ?thesis
    using out F' by simp
qed

text \<open>A ledger with one committed item.\<close>

definition oneLedger :: "bytes \<Rightarrow> bytes \<Rightarrow> (vtree, 'a) FinalityLedger" where
  "oneLedger k bz = emptyLedger\<lparr>tree := emptyTree\<lparr>vEntries := [(k, bz)]\<rparr>\<rparr>"

lemma oneLedger:
  assumes "Decode I bz = Inr x" "Key I x = k"
  shows "finality_inv vtreeOps I vMap vHist (oneLedger k bz)" "two_level I vMap exec (oneLedger k bz) = ([k \<mapsto> x], {})"
    "committed vtreeOps I (oneLedger k bz) = [x]"
proof -
  have t: "tree (oneLedger k bz) = emptyTree\<lparr>vEntries := [(k, bz)]\<rparr>" "cachedItems (oneLedger k bz) = newMemItems"
    "finalityItems (oneLedger k bz) = newMemItems"
    by (simp_all add: oneLedger_def emptyLedger_def)
  show "finality_inv vtreeOps I vMap vHist (oneLedger k bz)"
    using assms by (simp add: finality_inv_def simple_inv_def vtree_laws t emptyTree_def vMap_def vHist_def map_wf_def)
  show "two_level I vMap exec (oneLedger k bz) = ([k \<mapsto> x], {})"
    using assms by (auto simp: two_level_def exec_level_def check_level_def ledger_base_def items_def fun_eq_iff mi_level_def
      newMemItems_def t vMap_def emptyTree_def)
  show "committed vtreeOps I (oneLedger k bz) = [x]"
    using assms by (simp add: committed_def vtreeOps_def decoded_simps t emptyTree_def)
qed

definition demoFrozenStake :: Stake where
  "demoFrozenStake = (NewStakeWithPower demoAddr demoAddr 5 3 demoHash)\<lparr>stRefundHeight := 20\<rparr>"

definition demoFrozen :: "(vtree, bytes \<rightharpoonup> bytes) StakeCtrler" where
  "demoFrozen = demoStakeCtrler\<lparr>scFrozenLedger := oneLedger demoHash (enc_fields (stakeFields demoFrozenStake))\<rparr>"

lemma demoFrozen_ledger:
  "Decode (stakeItem demoStakes) (enc_fields (stakeFields demoFrozenStake)) = Inr demoFrozenStake" "Key (stakeItem demoStakes) demoFrozenStake = demoHash"
  using stakeFields_roundtrip [of demoFrozenStake]
  by (simp_all add: stakeItem_def Stake_Decode_def demoStakes_def fieldsJson_def dec_msg_enc fromErr_def Stake_Key_def demoFrozenStake_def
    NewStakeWithPower_def demoHash_def)

lemma demoFrozen_inv:
  "stake_inv demoEnv vMap vHist demoFrozen" "fr_level demoEnv vMap True demoFrozen = ([demoHash \<mapsto> demoFrozenStake], {})"
  "committed vtreeOps (stakeItem demoStakes) (scFrozenLedger demoFrozen) = [demoFrozenStake]"
  using oneLedger [OF demoFrozen_ledger] demoStake_inv by (simp_all add: stake_inv_def demoFrozen_def fr_level_def)

theorem StakeCtrler_unfreezing_pays_witness:
  "\<exists>c' ac'. StakeCtrler_unfreezingStakes demoEnv 20 (demoFrozen, demoAccts) = (Inr (), c', ac') \<and>
     bal (acct_level demoAcctProto vMap True ac') (ToLedgerKey demoAddr) = 12 * 10 ^ 18 \<and> level_get demoHash (fr_level demoEnv vMap True c') = None"
proof -
  obtain r c' ac' where t: "StakeCtrler_unfreezingStakes demoEnv 20 (demoFrozen, demoAccts) = (r, c', ac')"
    by (metis prod.exhaust)
  let ?L = "acct_level demoAcctProto vMap True demoAccts"
  have a: "level_get (ToLedgerKey demoAddr) ?L = Some demoOwner"
    by (rule AcctCtrler_at_level [OF demoAccts_inv demoAccts_at])
  have s: "stFrom demoFrozenStake = demoAddr" "stPower demoFrozenStake = 5" "Stake_Key demoFrozenStake = demoHash" "stRefundHeight demoFrozenStake = 20"
    using demoFrozen_ledger(2) by (simp_all add: demoFrozenStake_def NewStakeWithPower_def)
  have b: "bal ?L (ToLedgerKey demoAddr) = 7 * 10 ^ 18"
    using a by (simp add: bal_def demoOwner_valid)
  have m: "matured 20 [demoFrozenStake] = [demoFrozenStake]"
    by (simp add: matured_def s)
  have "bal ?L k + refund_to k [demoFrozenStake] < 2 ^ 256" for k
    using b bal_bounds(2) [of ?L k] by (auto simp: s)
  then have "payable ?L [demoFrozenStake]"
    using a by (simp add: payable_def s)
  then have "r = Inr () \<and> bal (acct_level demoAcctProto vMap True ac') (ToLedgerKey demoAddr) = 12 * 10 ^ 18 \<and>
      level_get demoHash (fr_level demoEnv vMap True c') = None"
    using StakeCtrler_unfreezing_pays [where E = demoEnv and A = vMap and H = vHist and V = "\<lambda>_. True" and K = "{demoHash, ToLedgerKey demoAddr}",
      OF demoFrozen_inv(1) _ t, unfolded demoEnv_sel demoFrozen_inv(2,3) m, OF demoAccts_inv] b
    by (simp add: s level_get_def)
  then show ?thesis
    using t by blast
qed

end
