(* ===== verification/Rigo_WithdrawProps.thy ===== *)
theory Rigo_WithdrawProps
  imports Rigo_UnstakingProps
begin

text \<open>
  Withdrawing rewards moves coins from the reward object of an account to its balance; and the stake
  limiter is shared by the validation of transactions that are only checked and of those that are
  executed.
\<close>

section \<open>Withdrawing\<close>

definition reward_of :: "Reward levelSpec \<Rightarrow> ledgerKey \<Rightarrow> int" where
  "reward_of W k = (case level_get k W of None \<Rightarrow> 0 | Some w \<Rightarrow> uint (rwCumulated w))"

lemma validateWithdraw_accepts:
  assumes inv: "stake_inv E A H c" and v: "StakeCtrler_validateWithdraw E ctx c = (Inr (), c1)"
  shows "stake_inv E A H c1 \<and> rw_level E A (ctxExec ctx) c1 = rw_level E A (ctxExec ctx) c \<and>
    (\<exists>req w. txPayload (ctxTx ctx) = Some (TrxPayloadWithdraw req) \<and>
       level_get (ToLedgerKey (txFrom (ctxTx ctx))) (rw_level E A (ctxExec ctx) c) = Some w \<and> uint req \<le> uint (rwCumulated w))"
proof -
  let ?k = "ToLedgerKey (txFrom (ctxTx ctx))"
  obtain req where p: "txPayload (ctxTx ctx) = Some (TrxPayloadWithdraw req)"
    using v by (auto simp: StakeCtrler_validateWithdraw_def Let_def split: if_splits option.splits TrxPayload.splits)
  obtain found c2 where g: "StakeCtrler_getReward E (ctxExec ctx) ?k c = (found, c2)"
    by (rule prod.exhaust)
  note g' = getReward [OF inv g]
  have b: "bindE (found, c2) (\<lambda>rwd c. if u256_Cmp req (rwCumulated rwd) > 0
        then (Inl (Error (xerror_Wrapf ErrInvalidTrx ''insufficient reward'')), c) else (Inr (), c)) = (Inr (), c1)"
    using v p g by (simp add: StakeCtrler_validateWithdraw_def Let_def split: if_splits)
  then obtain w where w: "found = Inr w"
    by (cases found) simp_all
  then have "c1 = c2" "uint req \<le> uint (rwCumulated w)"
    using b by (auto simp: u256_Cmp_def word_less_def split: if_splits)
  moreover have "level_get ?k (rw_level E A (ctxExec ctx) c) = Some w"
    using g'(1) w by (simp add: of_option_def split: option.splits)
  ultimately show ?thesis
    using g' p by simp
qed

lemma Withdraw_ok:
  "rwHeight w \<le> h \<Longrightarrow> \<exists>w'. Reward_Withdraw req h w = (Inr (), w') \<and> rwCumulated w' = rwCumulated w - req \<and> Reward_Key w' = Reward_Key w"
  by (cases "rwHeight w < h") (simp_all add: Reward_Withdraw_def Reward_Key_def)

lemma exeWithdraw_outcome:
  assumes inv: "stake_inv E A H c" "acct_inv (seTree E) (seAccts E) A H V ac"
    and a: "AcctCtrler_at (ctxExec ctx) (ctxSender ctx) ac = Some a" and t: "StakeCtrler_exeWithdraw E ctx (c, ac) = (r, c', ac')"
    and p: "txPayload (ctxTx ctx) = Some (TrxPayloadWithdraw req)"
    and w: "level_get (ToLedgerKey (txFrom (ctxTx ctx))) (rw_level E A (ctxExec ctx) c) = Some w"
    and w': "Reward_Withdraw req (ctxHeight ctx) w = (Inr (), w')"
    and b: "level_get (ToLedgerKey (acctAddress a)) (acct_level (seAccts E) A (ctxExec ctx) ac) = Some b"
    and req: "uint req < 2 ^ 255"
  shows "r = Inr () \<and> rw_level E A (ctxExec ctx) c' = level_set (Reward_Key w') w' (rw_level E A (ctxExec ctx) c) \<and>
    acct_level (seAccts E) A (ctxExec ctx) ac' =
      level_set (ToLedgerKey (acctAddress a)) (b\<lparr>acctBalance := acctBalance b + req\<rparr>) (acct_level (seAccts E) A (ctxExec ctx) ac)"
proof -
  obtain found c1 where g: "StakeCtrler_getReward E (ctxExec ctx) (ToLedgerKey (txFrom (ctxTx ctx))) c = (found, c1)"
    by (rule prod.exhaust)
  note g' = getReward [OF inv(1) g]
  have f: "found = Inr w"
    using g'(1) w by (simp add: of_option_def)
  obtain r2 c2 where s: "StakeCtrler_setReward E (ctxExec ctx) w' c1 = (r2, c2)"
    by (rule prod.exhaust)
  note s' = setReward [OF g'(2) s]
  obtain r3 ac3 where rw: "AcctCtrler_Reward (seTree E) (seAccts E) (acctAddress a) req (ctxExec ctx) ac = (r3, ac3)"
    by (rule prod.exhaust)
  note rw' = Reward_outcome [OF inv(2) rw b req]
  have "r = Inr () \<and> c' = c2 \<and> ac' = ac3"
    using t p g f w' s s'(1) a rw rw'(1) by (simp add: StakeCtrler_exeWithdraw_def)
  then show ?thesis
    using s'(3) g'(5) rw'(3) by simp
qed

text \<open>C31. A withdrawal that \<^verbatim>\<open>ValidateTrx\<close> accepted (\<^verbatim>\<open>stake/ctrler.go\<close>) moves exactly the requested amount from
  the reward of the sender to the sender's balance: neither wraps around, no other reward changes and
  no other balance either. (The reward is not from a later block, and the supply is below 2^256.)\<close>

theorem StakeCtrler_withdraw_moves:
  fixes ctx :: TrxContext
  assumes inv: "stake_inv E A H c" "acct_inv (seTree E) (seAccts E) A H V ac"
    and a: "AcctCtrler_at (ctxExec ctx) (ctxSender ctx) ac = Some a" "acctAddress a = txFrom (ctxTx ctx)" and ty: "txType (ctxTx ctx) = TRX_WITHDRAW"
    and v: "StakeCtrler_ValidateTrx E gov ctx c = (Inr (), c1)" and t: "StakeCtrler_ExecuteTrx E gov ctx (c1, ac) = (r, c', ac')"
  defines "W \<equiv> rw_level E A (ctxExec ctx) c" and "W' \<equiv> rw_level E A (ctxExec ctx) c'"
    and "L \<equiv> acct_level (seAccts E) A (ctxExec ctx) ac" and "L' \<equiv> acct_level (seAccts E) A (ctxExec ctx) ac'"
    and "k \<equiv> ToLedgerKey (txFrom (ctxTx ctx))"
  assumes h: "\<And>w. level_get k W = Some w \<Longrightarrow> rwHeight w \<le> ctxHeight ctx" and lim: "bal L k + reward_of W k < 2 ^ 255"
  shows "r = Inr () \<and> (\<exists>req. txPayload (ctxTx ctx) = Some (TrxPayloadWithdraw req) \<and> uint req \<le> reward_of W k \<and>
    (\<forall>j. reward_of W' j = reward_of W j - (if j = k then uint req else 0)) \<and>
    (\<forall>j. bal L' j = bal L j + (if j = k then uint req else 0)))"
proof -
  have v': "StakeCtrler_validateWithdraw E ctx c = (Inr (), c1)" and t': "StakeCtrler_exeWithdraw E ctx (c1, ac) = (r, c', ac')"
    using v t ty by (simp_all add: StakeCtrler_ValidateTrx_def StakeCtrler_ExecuteTrx_def TRX_STAKING_def TRX_UNSTAKING_def TRX_WITHDRAW_def)
  obtain req w where acc: "stake_inv E A H c1" "rw_level E A (ctxExec ctx) c1 = W" "txPayload (ctxTx ctx) = Some (TrxPayloadWithdraw req)"
    "level_get k W = Some w" "uint req \<le> uint (rwCumulated w)"
    using validateWithdraw_accepts [OF inv(1) v'] unfolding W_def k_def by blast
  have lv: "level_get (ctxSender ctx) L = Some a"
    using AcctCtrler_at_level [OF inv(2) a(1)] by (simp add: L_def)
  then have ak: "level_get k L = Some a"
    using acct_level_key [of "seTree E" "seAccts E" A H ac "ctxSender ctx" "ctxExec ctx" a] inv(2) a(2)
    by (simp add: L_def acct_inv_def Account_Key_ToLedgerKey k_def)
  have W: "reward_of W k = uint (rwCumulated w)" "Reward_Key w = k" "k \<notin> snd W"
    using acc(4) stake_level_keys(3) [OF inv(1)] by (auto simp: reward_of_def W_def)
  obtain w' where w': "Reward_Withdraw req (ctxHeight ctx) w = (Inr (), w')" "rwCumulated w' = rwCumulated w - req" "Reward_Key w' = k"
    using Withdraw_ok [OF h [OF acc(4)]] W(2) by metis
  note out = exeWithdraw_outcome [OF acc(1) inv(2) a(1) t' acc(3) acc(4) [folded acc(2), unfolded k_def] w'(1), unfolded a(2), folded L_def L'_def W'_def k_def, unfolded acc(2), OF ak]
  have "uint (acctBalance a) + uint (rwCumulated w) < 2 ^ 255"
    using lim ak by (simp add: bal_def W(1))
  then have "uint req < 2 ^ 255" "uint (acctBalance a) + uint req < 2 ^ 256"
    using acc(5) uint_lt2p [of "acctBalance a"] uint_ge_0 [of "acctBalance a"] by (linarith, simp)
  then have r: "r = Inr ()" "L' = level_set k (a\<lparr>acctBalance := acctBalance a + req\<rparr>) L" "W' = level_set k w' W"
    using out w'(3) by simp_all
  have "bal L' j = bal L j + (if j = k then uint req else 0)" for j
    using inv(2) ak \<open>uint (acctBalance a) + uint req < 2 ^ 256\<close> unfolding r(2)
    by (subst bal_set) (auto simp: L_def acct_inv_def uint_u256_add bal_def)
  moreover have "reward_of W' j = reward_of W j - (if j = k then uint req else 0)" for j
    using acc(4,5) w'(2) W(3) by (simp add: r(3) reward_of_def level_get_put uint_u256_sub word_le_def)
  ultimately show ?thesis
    using r(1) acc(3,5) W(1) by auto
qed

definition demoReward :: Reward where
  "demoReward = (NewReward demoAddr)\<lparr>rwCumulated := 9, rwHeight := 8\<rparr>"

definition demoRewarded :: "(vtree, bytes \<rightharpoonup> bytes) StakeCtrler" where
  "demoRewarded = snd (StakeCtrler_setReward demoEnv True demoReward demoStakeCtrler)"

definition demoWithdrawTx :: Trx where
  "demoWithdrawTx = demoStakingTx\<lparr>txType := TRX_WITHDRAW, txAmount := 0, txPayload := Some (TrxPayloadWithdraw 4)\<rparr>"

lemma demoReward_sel: "Reward_Key demoReward = ToLedgerKey demoAddr" "rwCumulated demoReward = 9" "rwHeight demoReward = 8"
  by (simp_all add: demoReward_def Reward_Key_def NewReward_def)

lemma demoRewarded_inv:
  "stake_inv demoEnv vMap vHist demoRewarded" "rw_level demoEnv vMap True demoRewarded = ([ToLedgerKey demoAddr \<mapsto> demoReward], {})"
proof -
  obtain r c where e: "StakeCtrler_setReward demoEnv True demoReward demoStakeCtrler = (r, c)"
    by (rule prod.exhaust)
  have "rw_level demoEnv vMap True demoStakeCtrler = (Map.empty, {})"
    by (simp add: rw_level_def two_level_def demoStakeCtrler_def)
  then show "stake_inv demoEnv vMap vHist demoRewarded" "rw_level demoEnv vMap True demoRewarded = ([ToLedgerKey demoAddr \<mapsto> demoReward], {})"
    using setReward(2,3) [OF demoStake_inv e] by (simp_all add: demoRewarded_def e demoReward_sel level_set_def)
qed

theorem StakeCtrler_withdraw_moves_witness:
  "\<exists>c c' ac'. StakeCtrler_ValidateTrx demoEnv demoGov (demoCtx demoWithdrawTx) demoRewarded = (Inr (), c) \<and>
     StakeCtrler_ExecuteTrx demoEnv demoGov (demoCtx demoWithdrawTx) (c, demoAccts) = (Inr (), c', ac') \<and>
     reward_of (rw_level demoEnv vMap True c') (ToLedgerKey demoAddr) = 5 \<and>
     bal (acct_level demoAcctProto vMap True ac') (ToLedgerKey demoAddr) = 7 * 10 ^ 18 + 4"
proof -
  have tx: "txType demoWithdrawTx = TRX_WITHDRAW" "txFrom demoWithdrawTx = demoAddr" "txPayload demoWithdrawTx = Some (TrxPayloadWithdraw 4)" "txAmount demoWithdrawTx = 0"
    by (simp_all add: demoWithdrawTx_def)
  obtain found c where g: "StakeCtrler_getReward demoEnv True (ToLedgerKey demoAddr) demoRewarded = (found, c)"
    by (rule prod.exhaust)
  have "found = Inr demoReward"
    using getReward(1) [OF demoRewarded_inv(1) g] by (simp add: demoRewarded_inv(2) level_get_def of_option_def)
  then have v: "StakeCtrler_ValidateTrx demoEnv demoGov (demoCtx demoWithdrawTx) demoRewarded = (Inr (), c)"
    by (simp add: StakeCtrler_ValidateTrx_def StakeCtrler_validateWithdraw_def tx g TRX_STAKING_def TRX_UNSTAKING_def TRX_WITHDRAW_def
      demoReward_sel u256_Cmp_def)
  obtain r c' ac' where t: "StakeCtrler_ExecuteTrx demoEnv demoGov (demoCtx demoWithdrawTx) (c, demoAccts) = (r, c', ac')"
    by (metis prod.exhaust)
  have b: "bal (acct_level demoAcctProto vMap True demoAccts) (ToLedgerKey demoAddr) = 7 * 10 ^ 18" "acctAddress demoOwner = demoAddr"
    using AcctCtrler_at_level [OF demoAccts_inv demoAccts_at] by (simp_all add: bal_def demoOwner_valid(3)) (simp add: demoOwner_def NewAccount_def)
  have w: "reward_of ([ToLedgerKey demoAddr \<mapsto> demoReward], {}) (ToLedgerKey demoAddr) = 9"
    "level_get (ToLedgerKey demoAddr) ([ToLedgerKey demoAddr \<mapsto> demoReward], {}) = Some demoReward"
    by (simp_all add: reward_of_def level_get_def demoReward_sel)
  note th = StakeCtrler_withdraw_moves [where E = demoEnv and A = vMap and H = vHist and V = "\<lambda>_. True" and ctx = "demoCtx demoWithdrawTx"
      and a = demoOwner, OF demoRewarded_inv(1), unfolded demoEnv_sel demoCtx_sel tx b(2), OF demoAccts_inv demoAccts_at refl refl v t,
      unfolded demoRewarded_inv(2) w b(1)]
  have "r = Inr () \<and> reward_of (rw_level demoEnv vMap True c') (ToLedgerKey demoAddr) = 5 \<and>
      bal (acct_level demoAcctProto vMap True ac') (ToLedgerKey demoAddr) = 7 * 10 ^ 18 + 4"
    using th b(1) by (auto simp: demoReward_sel w)
  then show ?thesis
    using v t by blast
qed

section \<open>Checking and executing share the limiter\<close>

lemma CheckLimit_twice:
  assumes ok: "StakeLimiter_CheckLimit d diff sl = (Inr (), sl')" and dist: "distinct (map poAddr (slPowerObjs sl))"
    and obj: "dgAddr d \<in> poAddr ` set (slPowerObjs sl)" and ne: "i64 (dgTotalPower d + diff) \<noteq> dgTotalPower d"
  shows "\<exists>m. fst (StakeLimiter_CheckLimit d diff sl') = Inl (Error (xerrors_NewOrdinary m))"
proof -
  obtain ridx o1 where f: "StakeLimiter_findPowerObj (dgAddr d) sl = (ridx, o1)"
    by (rule prod.exhaust)
  let ?pw = "i64 (dgTotalPower d + diff)" and ?ps = "limiterObjs ridx (limiterObj o1 d) (i64 (dgTotalPower d + diff)) sl"
  have nonempty: "slPowerObjs sl \<noteq> []"
    using obj by auto
  then have ind: "StakeLimiter_checkIndividualPowerLimit d diff sl = Inr ()"
    and up: "StakeLimiter_checkUpdatablePowerLimit d diff sl = (Inr (), sl')"
    using ok by (auto simp: StakeLimiter_CheckLimit_def split: sum.splits)
  obtain u where sl': "sl' = sl\<lparr>slUpdatedPower := u, slPowerObjs := go_sort orderedPowerObj_Less ?ps\<rparr>"
    using checkUpdatable_steps [OF f, of diff] up by (auto simp: Let_def split: if_splits)
  have "poAddr ` set (slPowerObjs sl') = poAddr ` set (slPowerObjs sl)"
    unfolding sl' using arg_cong [OF limiterObjs_found(1) [OF f], of set] by simp
  then have "dgAddr d \<in> poAddr ` set (slPowerObjs sl')"
    using obj by simp
  then obtain p where p: "List.find (\<lambda>p. poAddr p = dgAddr d) (slPowerObjs sl') = Some p"
    by (cases "List.find (\<lambda>p. poAddr p = dgAddr d) (slPowerObjs sl')") (auto simp: find_None_iff)
  then have "p \<in> set (slPowerObjs sl')" "poAddr p = dgAddr d"
    by (auto simp: find_Some_iff)
  then have "p \<in> set ?ps"
    by (simp add: sl')
  then have "poPower p = ?pw"
    using limiterObjs_found(2) [OF f dist] \<open>poAddr p = dgAddr d\<close> by blast
  then have "fst (StakeLimiter_checkUpdatablePowerLimit d diff sl') = Inl (Error (xerrors_NewOrdinary
      ''StakeLimiter's power(%v) object is not equal to delegatee's power(%v). delegatee: %v''))"
    using p ne by (simp add: StakeLimiter_checkUpdatablePowerLimit_def StakeLimiter_findPowerObj_def findPowerObjLoop_eq)
  moreover have "StakeLimiter_checkIndividualPowerLimit d diff sl' = Inr ()"
  proof -
    have "slBaseTotalPower sl' = slBaseTotalPower sl" "slIndividualLimitRatio sl' = slIndividualLimitRatio sl"
      by (simp_all add: sl')
    then show ?thesis
      using ind by (simp only: StakeLimiter_checkIndividualPowerLimit_def)
  qed
  ultimately show ?thesis
    using \<open>p \<in> set (slPowerObjs sl')\<close> by (auto simp: StakeLimiter_CheckLimit_def)
qed

text \<open>The checks before the limiter do not depend on the level.\<close>

definition stake_guard :: "GovParams \<Rightarrow> Trx \<Rightarrow> Delegatee \<Rightarrow> int res" where
  "stake_guard gov tx d =
     (if u256_Sign (txAmount tx div AmountPerPower) \<le> 0 \<or> u256_Sign (txAmount tx mod AmountPerPower) \<noteq> 0
      then Inl (Error ErrInvalidTrx)
      else case AmountToPower (txAmount tx) of
             Inl e \<Rightarrow> Inl e
           | Inr pw \<Rightarrow>
               (case (if txFrom tx = txTo tx then validateSelfStaking gov pw (Some d) else validateDelegating gov pw (Some d)) of
                  Inl e \<Rightarrow> Inl e
                | Inr t \<Rightarrow> if i64 (t + pw) \<le> 0 then Inl (Panic ''delegatee power overflow occurs.'') else Inr pw))"

lemma validateStaking_guard:
  assumes inv: "stake_inv E A H c" and d: "level_get (ToLedgerKey (txTo (ctxTx ctx))) (dg_level E A (ctxExec ctx) c) = Some d"
  shows "stake_guard gov (ctxTx ctx) d = Inr pw \<Longrightarrow>
      StakeCtrler_validateStaking E gov ctx c = checkLimiter d pw (snd (StakeCtrler_getDelegatee E (ctxExec ctx) (ToLedgerKey (txTo (ctxTx ctx))) c))"
    "fst (StakeCtrler_validateStaking E gov ctx c) = Inr () \<Longrightarrow>
      \<exists>pw. stake_guard gov (ctxTx ctx) d = Inr pw \<and> AmountToPower (txAmount (ctxTx ctx)) = Inr pw"
proof -
  obtain found c1 where g: "StakeCtrler_getDelegatee E (ctxExec ctx) (ToLedgerKey (txTo (ctxTx ctx))) c = (found, c1)"
    by (rule prod.exhaust)
  have f: "found = Inr d"
    using getDelegatee(1) [OF inv g] d by (simp add: of_option_def)
  show "stake_guard gov (ctxTx ctx) d = Inr pw \<Longrightarrow>
      StakeCtrler_validateStaking E gov ctx c = checkLimiter d pw (snd (StakeCtrler_getDelegatee E (ctxExec ctx) (ToLedgerKey (txTo (ctxTx ctx))) c))"
    by (auto simp: stake_guard_def StakeCtrler_validateStaking_def g f Let_def split: if_splits sum.splits)
  show "fst (StakeCtrler_validateStaking E gov ctx c) = Inr () \<Longrightarrow>
      \<exists>pw. stake_guard gov (ctxTx ctx) d = Inr pw \<and> AmountToPower (txAmount (ctxTx ctx)) = Inr pw"
    by (auto simp: stake_guard_def StakeCtrler_validateStaking_def g f Let_def split: if_splits sum.splits)
qed

lemma i64_ne: "0 < p \<Longrightarrow> p < 2 ^ 63 \<Longrightarrow> i64 (x + p) \<noteq> x"
proof
  assume p: "0 < p" "p < 2 ^ 63" and "i64 (x + p) = x"
  then have "(x + p) mod 2 ^ 64 = x mod 2 ^ 64"
    using i64_mod [of "x + p"] by simp
  then have "p mod 2 ^ 64 = 0"
    using mod_eq_dvd_iff [of "x + p" "2 ^ 64" x] by simp
  then show False
    using p by simp
qed

text \<open>C33. The limiter that \<^verbatim>\<open>ValidateTrx\<close> consults (\<^verbatim>\<open>stake/ctrler.go\<close>) is one object for the transactions that
  are checked and those that are executed. Once a stake on a delegatee the limiter knows has been
  checked and accepted, the execution of the same transaction in that block is rejected, although it
  would have been accepted without the check: the limiter's power of the delegatee no longer agrees with the ledger. The outcome of a block so depends on what the
  node happened to check during the block.\<close>

theorem StakeCtrler_check_blocks_deliver:
  fixes ctx :: TrxContext
  assumes inv: "stake_inv E A H c" and ty: "txType (ctxTx ctx) = TRX_STAKING" and ch: "ctxExec ctx = False"
    and v: "StakeCtrler_ValidateTrx E gov ctx c = (Inr (), c1)" and len: "3 \<le> length (scLastValidators c)"
  defines "k \<equiv> ToLedgerKey (txTo (ctxTx ctx))" and "objs \<equiv> slPowerObjs (scStakeLimiter c)"
  assumes d: "level_get k (dg_level E A False c) = Some d" "level_get k (dg_level E A True c) = Some d"
    and obj: "distinct (map poAddr objs)" "dgAddr d \<in> poAddr ` set objs"
    and lim: "uint (txAmount (ctxTx ctx)) < 2 ^ 63 * 10 ^ 18"
  shows "fst (StakeCtrler_ValidateTrx E gov (ctx\<lparr>ctxExec := True\<rparr>) c) = Inr () \<and>
    (\<exists>m. fst (StakeCtrler_ValidateTrx E gov (ctx\<lparr>ctxExec := True\<rparr>) c1) =
       Inl (Error (xerror_Wrap ErrUpdatableStakeRatio (xerrors_NewOrdinary m))))"
proof -
  let ?ctx = "ctx\<lparr>ctxExec := True\<rparr>" and ?g = "\<lambda>e c. snd (StakeCtrler_getDelegatee E e k c)"
  have ty': "StakeCtrler_ValidateTrx E gov ctx c = StakeCtrler_validateStaking E gov ctx c"
    "\<And>c. StakeCtrler_ValidateTrx E gov ?ctx c = StakeCtrler_validateStaking E gov ?ctx c"
    using ty by (simp_all add: StakeCtrler_ValidateTrx_def)
  have fr: "scStakeLimiter (?g e c) = scStakeLimiter c" "scLastValidators (?g e c) = scLastValidators c" if "stake_inv E A H c" for e c
    using getDelegatee(7,8) [OF that prod.collapse [symmetric], where exec = e and k = k] by simp_all
  obtain pw where g: "stake_guard gov (ctxTx ctx) d = Inr pw" "AmountToPower (txAmount (ctxTx ctx)) = Inr pw"
    using validateStaking_guard(2) [OF inv, of ctx d gov] v d(1) ch ty'(1) by (auto simp: k_def)
  note eq = validateStaking_guard(1) [where gov = gov and pw = pw and d = d]
  have v0: "checkLimiter d pw (?g False c) = (Inr (), c1)"
    using v d(1) ch ty'(1) eq [OF inv, of ctx] g(1) by (simp add: k_def)
  obtain sl where sl: "StakeLimiter_CheckLimit d pw (scStakeLimiter c) = (Inr (), sl)" "c1 = (?g False c)\<lparr>scStakeLimiter := sl\<rparr>"
    using v0 len fr [OF inv] by (auto simp: checkLimiter_def split: prod.splits sum.splits fault.splits if_splits)
  have "fst (StakeCtrler_ValidateTrx E gov ?ctx c) = Inr ()"
    using d(2) eq [OF inv, of ?ctx] g(1) len fr [OF inv] sl(1) unfolding ty' by (simp add: k_def checkLimiter_def)
  moreover have inv1: "stake_inv E A H c1" "level_get k (dg_level E A True c1) = Some d" "3 \<le> length (scLastValidators c1)" "scStakeLimiter c1 = sl"
    using getDelegatee(2,3) [OF inv prod.collapse [symmetric], where exec = False and k = k] d(2) len fr(2) [OF inv] by (simp_all add: sl(2))
  moreover have "i64 (dgTotalPower d + pw) \<noteq> dgTotalPower d"
  proof (rule i64_ne)
    show "0 < pw" "pw < 2 ^ 63"
      using validateStaking_accepts(4) [OF inv v [unfolded ty'(1)]] g(2) lim
      by (auto simp: AmountToPower_in_range div_less_iff_less_mult pos_imp_zdiv_pos_iff)
  qed
  then obtain m where "fst (StakeLimiter_CheckLimit d pw sl) = Inl (Error (xerrors_NewOrdinary m))"
    using CheckLimit_twice [OF sl(1) obj [unfolded objs_def]] by blast
  then have "fst (StakeCtrler_ValidateTrx E gov ?ctx c1) = Inl (Error (xerror_Wrap ErrUpdatableStakeRatio (xerrors_NewOrdinary m)))"
    using inv1 eq [OF inv1(1), of ?ctx] g(1) fr [OF inv1(1), of True] unfolding ty' by (simp add: k_def checkLimiter_def split: prod.splits)
  ultimately show ?thesis
    by blast
qed

definition demoLimited :: "(vtree, bytes \<rightharpoonup> bytes) StakeCtrler" where
  "demoLimited = demoStakeCtrler\<lparr>scDelegateeLedger := oneLedger (ToLedgerKey demoAddr) (enc_fields (delegateeFields demoBond)),
     scLastValidators := [demoVal 3 20, demoVal 1 10, demoBond], scStakeLimiter := NewStakeLimiter [demoVal 3 20, demoVal 1 10, demoBond] 3 33 33\<rparr>"

definition demoCheckCtx :: TrxContext where
  "demoCheckCtx = (demoCtx (demoStakingTx\<lparr>txAmount := 2 * 10 ^ 18\<rparr>))\<lparr>ctxExec := False\<rparr>"

lemma demoBond_decode: "Decode (delegateeItem demoDelegatees) (enc_fields (delegateeFields demoBond)) = Inr demoBond"
proof -
  obtain bz where "jsonMarshal demoDelegatees demoBond = Inr bz" "jsonUnmarshal demoDelegatees bz = Inr demoBond"
    using demoDelegatees_laws unfolding json_laws_def by blast
  then show ?thesis
    by (simp add: delegateeItem_def Delegatee_Decode_def demoDelegatees_def fieldsJson_def fromErr_def)
qed

lemma demoLimited_inv:
  "stake_inv demoEnv vMap vHist demoLimited" "dg_level demoEnv vMap e demoLimited = ([ToLedgerKey demoAddr \<mapsto> demoBond], {})"
  using oneLedger [OF demoBond_decode] demoStake_inv demoBond_stakes(2) by (simp_all add: stake_inv_def demoLimited_def dg_level_def)

lemma demoLimited_limiter:
  "dgTotalPower demoBond = 5" "dgAddr demoBond = demoAddr" "[a] \<noteq> demoAddr"
  "\<exists>sl. StakeLimiter_CheckLimit demoBond 2 (scStakeLimiter demoLimited) = (Inr (), sl)"
proof -
  show b: "dgTotalPower demoBond = 5" "dgAddr demoBond = demoAddr"
    using delegatee_ok_total [OF demoBond_ok] by (simp_all add: demoBond_stakes NewStakeWithPower_def) (simp add: demoBond_def New_ok)
  have ne: "[a] \<noteq> demoAddr" for a
  proof
    assume "[a] = demoAddr"
    then have "length [a] = length demoAddr"
      by (rule arg_cong)
    then show False
      by (simp add: demoAddr_def)
  qed
  then show "[a] \<noteq> demoAddr" .
  have v: "dgAddr (demoVal a p) = [a]" "dgTotalPower (demoVal a p) = p" for a p
    by (simp_all add: demoVal_def NewDelegatee_def)
  have sl: "scStakeLimiter demoLimited = \<lparr>slIndividualLimitRatio = 33, slUpdatableLimitRatio = 33, slMaxValidatorCnt = 3,
     slPowerObjs = [\<lparr>poAddr = [3], poPower = 20\<rparr>, \<lparr>poAddr = [1], poPower = 10\<rparr>, \<lparr>poAddr = demoAddr, poPower = 5\<rparr>],
     slBaseTotalPower = 35, slUpdatedPower = 0\<rparr>"
    by (simp add: demoLimited_def NewStakeLimiter_def StakeLimiter_Reset_def StakeLimiter_reset_def v b i64_def)
  show "\<exists>sl. StakeLimiter_CheckLimit demoBond 2 (scStakeLimiter demoLimited) = (Inr (), sl)"
    unfolding sl
    by (simp add: StakeLimiter_CheckLimit_def StakeLimiter_checkIndividualPowerLimit_def StakeLimiter_checkUpdatablePowerLimit_def
      StakeLimiter_findPowerObj_def updatedPowerBy_def b ne Let_def go_quo_def go_div_def i64_def)
qed

theorem StakeCtrler_check_blocks_deliver_witness:
  "\<exists>c1 m. let ctx = demoCheckCtx\<lparr>ctxExec := True\<rparr> in
     StakeCtrler_ValidateTrx demoEnv demoGov demoCheckCtx demoLimited = (Inr (), c1) \<and>
     fst (StakeCtrler_ValidateTrx demoEnv demoGov ctx demoLimited) = Inr () \<and>
     fst (StakeCtrler_ValidateTrx demoEnv demoGov ctx c1) = Inl (Error (xerror_Wrap ErrUpdatableStakeRatio (xerrors_NewOrdinary m)))"
proof -
  let ?tx = "demoStakingTx\<lparr>txAmount := 2 * 10 ^ 18\<rparr>"
  have ctx: "ctxTx demoCheckCtx = ?tx" "ctxExec demoCheckCtx = False"
    by (simp_all add: demoCheckCtx_def)
  have lv: "level_get (ToLedgerKey demoAddr) ([ToLedgerKey demoAddr \<mapsto> demoBond], {}) = Some demoBond"
    by (simp add: level_get_def)
  have "(2 * 10 ^ 18 :: u256) div AmountPerPower = 2" "(2 * 10 ^ 18 :: u256) mod AmountPerPower = 0"
    by (simp_all add: AmountPerPower_def amountPerPower_def word_uint_eq_iff uint_div uint_mod)
  moreover have "AmountToPower (2 * 10 ^ 18) = Inr 2" "AmountToPower (5 * 10 ^ 18) = Inr 5"
    by (simp_all add: AmountToPower_in_range)
  moreover have "GovParams_MinValidatorStake demoGov = Some (5 * 10 ^ 18)" "u256_Sign 2 = 1" "dgSelfPower demoBond = 5"
    using demoBond_ok by (simp_all add: demoGov_def GovParams_MinValidatorStake_def u256_Sign_def delegatee_ok_def delegatee_inv_def
      demoBond_stakes NewStakeWithPower_def Stake_IsSelfStake_def i64_def)
  ultimately have g: "stake_guard demoGov ?tx demoBond = Inr 2"
    by (simp add: stake_guard_def validateSelfStaking_def demoLimited_limiter(1) Delegatee_GetSelfPower_def Delegatee_GetTotalPower_def i64_def)
  obtain sl where sl: "StakeLimiter_CheckLimit demoBond 2 (scStakeLimiter demoLimited) = (Inr (), sl)"
    using demoLimited_limiter(4) by blast
  have sc: "txTo ?tx = demoAddr" "txType ?tx = TRX_STAKING" "length (scLastValidators demoLimited) = 3"
    by (simp_all add: demoLimited_def)
  note e = validateStaking_guard(1) [OF demoLimited_inv(1), where ctx = demoCheckCtx and d = demoBond, unfolded ctx sc demoLimited_inv(2), OF lv g]
  obtain c0 where c0: "snd (StakeCtrler_getDelegatee demoEnv False (ToLedgerKey demoAddr) demoLimited) = c0" "scStakeLimiter c0 = scStakeLimiter demoLimited"
    "length (scLastValidators c0) = 3"
    using getDelegatee(7,8) [OF demoLimited_inv(1) prod.collapse [symmetric], where exec = False and k = "ToLedgerKey demoAddr"] sc(3) by metis
  have v: "StakeCtrler_ValidateTrx demoEnv demoGov demoCheckCtx demoLimited = (Inr (), c0\<lparr>scStakeLimiter := sl\<rparr>)"
    using e by (simp add: StakeCtrler_ValidateTrx_def ctx c0 checkLimiter_def sl)
  have objs: "map poAddr (slPowerObjs (scStakeLimiter demoLimited)) = [[3], [1], demoAddr]"
    by (simp add: demoLimited_def NewStakeLimiter_def StakeLimiter_Reset_def StakeLimiter_reset_def demoLimited_limiter(2) demoVal_def NewDelegatee_def)
  then have "poAddr ` set (slPowerObjs (scStakeLimiter demoLimited)) = {[3], [1], demoAddr}"
    by (metis list.set_map list.simps(15) empty_set)
  then show ?thesis
    using StakeCtrler_check_blocks_deliver [OF demoLimited_inv(1) _ ctx(2) v, unfolded ctx sc demoLimited_inv(2), OF _ _ lv lv] v
      objs demoLimited_limiter(2,3) by (simp add: Let_def)
qed

end
