(* ===== verification/Rigo_Proposal.thy ===== *)
theory Rigo_Proposal
  imports Rigo_Stake
begin

text \<open>
  Proposals and their votes, \<^verbatim>\<open>src/ctrlers/gov/proposal/{header,option,proposal}.go\<close>. The map of the
  voters is an association list under the text of the address. A proposal decoded from a ledger has no
  nil option. The major option is set once, when the voting has ended and the votes no longer change,
  so it is a copy of the option and not a pointer into the array. JSON is a parameter.
\<close>

section \<open>Header\<close>

definition PROPOSAL_ONCHAIN :: int where
  "PROPOSAL_ONCHAIN = 0x0100"

definition PROPOSAL_OFFCHAIN :: int where
  "PROPOSAL_OFFCHAIN = 0x0200"

definition PROPOSAL_GOVPARAMS :: int where
  "PROPOSAL_GOVPARAMS = 0x0101"

definition PROPOSAL_COMMON :: int where
  "PROPOSAL_COMMON = 0x0200"

definition NOT_CHOICE :: int where
  "NOT_CHOICE = - 1"

record Voter =
  vtAddr :: bytes
  vtPower :: int
  vtChoice :: int

record GovProposalHeader =
  phTxHash :: bytes
  phStartVotingHeight :: int
  phEndVotingHeight :: int
  phApplyingHeight :: int
  phTotalVotingPower :: int
  phMajorityPower :: int
  phVoters :: "(string \<times> Voter) list"
  phOptType :: int

definition GovProposalHeader_GetTxHash :: "'z GovProposalHeader_scheme \<Rightarrow> bytes" where
  "GovProposalHeader_GetTxHash h = phTxHash h"

definition GovProposalHeader_GetStartVotingHeight :: "'z GovProposalHeader_scheme \<Rightarrow> int" where
  "GovProposalHeader_GetStartVotingHeight h = phStartVotingHeight h"

definition GovProposalHeader_GetEndVotingHeight :: "'z GovProposalHeader_scheme \<Rightarrow> int" where
  "GovProposalHeader_GetEndVotingHeight h = phEndVotingHeight h"

definition GovProposalHeader_GetApplyingHeight :: "'z GovProposalHeader_scheme \<Rightarrow> int" where
  "GovProposalHeader_GetApplyingHeight h = phApplyingHeight h"

definition GovProposalHeader_GetTotalVotingPower :: "'z GovProposalHeader_scheme \<Rightarrow> int" where
  "GovProposalHeader_GetTotalVotingPower h = phTotalVotingPower h"

definition GovProposalHeader_SumVotingPowers :: "'z GovProposalHeader_scheme \<Rightarrow> int" where
  "GovProposalHeader_SumVotingPowers h = fold (\<lambda>(k, v) sum. i64 (sum + vtPower v)) (phVoters h) 0"

definition GovProposalHeader_GetMajorityPower :: "'z GovProposalHeader_scheme \<Rightarrow> int" where
  "GovProposalHeader_GetMajorityPower h = phMajorityPower h"

definition GovProposalHeader_IsVoter :: "bytes \<Rightarrow> 'z GovProposalHeader_scheme \<Rightarrow> bool" where
  "GovProposalHeader_IsVoter addr h \<longleftrightarrow> map_of (phVoters h) (HexBytes_String addr) \<noteq> None"

definition GovProposalHeader_GetVoter :: "bytes \<Rightarrow> 'z GovProposalHeader_scheme \<Rightarrow> Voter option" where
  "GovProposalHeader_GetVoter addr h = map_of (phVoters h) (HexBytes_String addr)"

definition GovProposalHeader_GetOptType :: "'z GovProposalHeader_scheme \<Rightarrow> int" where
  "GovProposalHeader_GetOptType h = phOptType h"

section \<open>Options\<close>

record voteOption =
  voOption :: bytes
  voVotes :: int

definition NewVoteOptions :: "bytes list \<Rightarrow> voteOption list" where
  "NewVoteOptions opts = map (\<lambda>opt. \<lparr>voOption = opt, voVotes = 0\<rparr>) opts"

text \<open>The JSON form has the two fields of the option.\<close>

record voteOptionJSON =
  vjOption :: bytes
  vjVotes :: int

definition voteOption_MarshalJSON :: "voteOptionJSON jsonOps \<Rightarrow> voteOption \<Rightarrow> string + bytes" where
  "voteOption_MarshalJSON J opt = jsonMarshal J \<lparr>vjOption = voOption opt, vjVotes = voVotes opt\<rparr>"

definition voteOption_UnmarshalJSON :: "voteOptionJSON jsonOps \<Rightarrow> bytes \<Rightarrow> string + voteOption" where
  "voteOption_UnmarshalJSON J bz = map_sum id (\<lambda>tm. \<lparr>voOption = vjOption tm, voVotes = vjVotes tm\<rparr>) (jsonUnmarshal J bz)"

definition voteOption_Encode :: "voteOptionJSON jsonOps \<Rightarrow> voteOption \<Rightarrow> goerror + bytes" where
  "voteOption_Encode J opt = fromErr (voteOption_MarshalJSON J opt)"

definition voteOption_Decode :: "voteOptionJSON jsonOps \<Rightarrow> bytes \<Rightarrow> goerror + voteOption" where
  "voteOption_Decode J bz = fromErr (voteOption_UnmarshalJSON J bz)"

definition voteOption_DoVote :: "int \<Rightarrow> voteOption \<Rightarrow> int \<times> voteOption" where
  "voteOption_DoVote pw opt = (i64 (voVotes opt + pw), opt\<lparr>voVotes := i64 (voVotes opt + pw)\<rparr>)"

definition voteOption_CancelVote :: "int \<Rightarrow> voteOption \<Rightarrow> int \<times> voteOption" where
  "voteOption_CancelVote pw opt = (i64 (voVotes opt - pw), opt\<lparr>voVotes := i64 (voVotes opt - pw)\<rparr>)"

definition voteOption_Votes :: "voteOption \<Rightarrow> int" where
  "voteOption_Votes opt = voVotes opt"

definition voteOption_Option :: "voteOption \<Rightarrow> bytes" where
  "voteOption_Option opt = voOption opt"

section \<open>Proposals\<close>

record GovProposal = GovProposalHeader +
  gvOptions :: "voteOption list"
  gvMajorOption :: "voteOption option"

definition majorityOf :: "int \<Rightarrow> int" where
  "majorityOf tot = go_div (i64 (tot * 2)) 3"

definition NewGovProposal :: "bytes \<Rightarrow> int \<Rightarrow> int \<Rightarrow> int \<Rightarrow> int \<Rightarrow> int \<Rightarrow> (string \<times> Voter) list \<Rightarrow> bytes list \<Rightarrow> GovProposal" where
  "NewGovProposal txhash optType startHeight votingBlocks totalVotingPower applyingHeight voters options =
     \<lparr>phTxHash = txhash, phStartVotingHeight = startHeight, phEndVotingHeight = i64 (startHeight + votingBlocks),
      phApplyingHeight = applyingHeight, phTotalVotingPower = totalVotingPower,
      phMajorityPower = majorityOf totalVotingPower, phVoters = voters, phOptType = optType,
      gvOptions = NewVoteOptions options, gvMajorOption = None\<rparr>"

definition GovProposal_Key :: "GovProposal \<Rightarrow> ledgerKey" where
  "GovProposal_Key prop = HexBytes_Array32 (phTxHash prop)"

definition GovProposal_Encode :: "GovProposal jsonOps \<Rightarrow> GovProposal \<Rightarrow> bytes res" where
  "GovProposal_Encode J prop = map_sum Error id (fromErr (jsonMarshal J prop))"

definition GovProposal_Decode :: "GovProposal jsonOps \<Rightarrow> bytes \<Rightarrow> goerror + GovProposal" where
  "GovProposal_Decode J bz = fromErr (jsonUnmarshal J bz)"

definition proposalItem :: "GovProposal jsonOps \<Rightarrow> GovProposal itemOps" where
  "proposalItem J = \<lparr>Key = GovProposal_Key, Encode = GovProposal_Encode J, Decode = GovProposal_Decode J\<rparr>"

text \<open>The option a choice selects; an index out of range panics. The voter and the option are changed
  through pointers: the voter is the entry of the map, except after its deletion.\<close>

definition onOption :: "int \<Rightarrow> (voteOption \<Rightarrow> voteOption) \<Rightarrow> GovProposal \<Rightarrow> unit res \<times> GovProposal" where
  "onOption choice f prop =
     (if nat choice < length (gvOptions prop)
      then (Inr (), prop\<lparr>gvOptions := (gvOptions prop)[nat choice := f (gvOptions prop ! nat choice)]\<rparr>)
      else (Inl indexPanic, prop))"

definition setVoter :: "string \<Rightarrow> Voter \<Rightarrow> GovProposal \<Rightarrow> GovProposal" where
  "setVoter key voter prop = prop\<lparr>phVoters := AList.update key voter (phVoters prop)\<rparr>"

definition GovProposal_cancelVote :: "Voter \<Rightarrow> GovProposal \<Rightarrow> Voter res \<times> GovProposal" where
  "GovProposal_cancelVote voter prop =
     (if vtChoice voter \<ge> 0
      then bindE (onOption (vtChoice voter) (\<lambda>opt. snd (voteOption_CancelVote (vtPower voter) opt)) prop)
             (\<lambda>_ prop. (Inr (voter\<lparr>vtChoice := - 1\<rparr>), prop))
      else (Inr voter, prop))"

definition GovProposal_doVote :: "Voter \<Rightarrow> int \<Rightarrow> GovProposal \<Rightarrow> Voter res \<times> GovProposal" where
  "GovProposal_doVote voter choice prop =
     (if choice \<ge> 0
      then bindE (onOption choice (\<lambda>opt. snd (voteOption_DoVote (vtPower voter) opt)) prop)
             (\<lambda>_ prop. (Inr (voter\<lparr>vtChoice := choice\<rparr>), prop))
      else (Inr voter, prop))"

definition GovProposal_DoVote :: "bytes \<Rightarrow> int \<Rightarrow> GovProposal \<Rightarrow> unit res \<times> GovProposal" where
  "GovProposal_DoVote addr choice prop =
     (let key = HexBytes_String addr in
      case map_of (phVoters prop) key of
        None \<Rightarrow> (Inl (Error (xerrors_NewOrdinary ''not found voter'')), prop)
      | Some voter \<Rightarrow>
          bindE (GovProposal_cancelVote voter prop) (\<lambda>voter prop.
          bindE (GovProposal_doVote voter choice (setVoter key voter prop)) (\<lambda>voter prop.
            (Inr (), setVoter key voter prop))))"

text \<open>The slashed power is computed with 256 bits and truncated to 64.\<close>

definition slashingPowerOf :: "int \<Rightarrow> int \<Rightarrow> int" where
  "slashingPowerOf pw ratio =
     i64_of_u64 (u256_Uint64 (u256_NewInt (u64_of_i64 pw) * u256_NewInt (u64_of_i64 ratio) div u256_NewInt 100))"

definition GovProposal_DoPunish :: "bytes \<Rightarrow> int \<Rightarrow> GovProposal \<Rightarrow> int res \<times> GovProposal" where
  "GovProposal_DoPunish addr ratio prop =
     (let key = HexBytes_String addr in
      case map_of (phVoters prop) key of
        None \<Rightarrow> (Inl (Error ErrNotFoundVoter), prop)
      | Some voter \<Rightarrow>
          let choice = vtChoice voter in
          bindE (if choice \<ge> 0 then GovProposal_cancelVote voter prop else (Inr voter, prop)) (\<lambda>voter prop.
            let slashingPower = slashingPowerOf (vtPower voter) ratio;
                voter = voter\<lparr>vtPower := i64 (vtPower voter - slashingPower)\<rparr>;
                prop = setVoter key voter prop
            in bindE
                 (if vtPower voter \<le> 0 then (Inr voter, prop\<lparr>phVoters := AList.delete key (phVoters prop)\<rparr>)
                  else if choice \<ge> 0 then
                    (let (r, prop) = GovProposal_doVote voter choice prop
                     in (r, case r of Inl _ \<Rightarrow> prop | Inr voter \<Rightarrow> setVoter key voter prop))
                  else (Inr voter, prop))
                 (\<lambda>_ prop.
                   let tot = i64 (phTotalVotingPower prop - slashingPower)
                   in (Inr slashingPower, prop\<lparr>phTotalVotingPower := tot, phMajorityPower := majorityOf tot\<rparr>))))"

text \<open>\<^verbatim>\<open>sort.Sort\<close> by descending votes: an insertion sort, which is what Go uses for up to twelve
  elements; among more options the order of equal votes is unspecified.\<close>

definition powerOrderVoteOptions_Less :: "voteOption \<Rightarrow> voteOption \<Rightarrow> bool" where
  "powerOrderVoteOptions_Less a b \<longleftrightarrow> voVotes a > voVotes b"

definition GovProposal_updateMajorOption :: "GovProposal \<Rightarrow> voteOption option res \<times> GovProposal" where
  "GovProposal_updateMajorOption prop =
     (let prop = prop\<lparr>gvOptions := go_sort powerOrderVoteOptions_Less (gvOptions prop)\<rparr> in
      case gvOptions prop of
        [] \<Rightarrow> (Inl indexPanic, prop)
      | opt # _ \<Rightarrow>
          let prop = (if voteOption_Votes opt \<ge> phMajorityPower prop then prop\<lparr>gvMajorOption := Some opt\<rparr> else prop)
          in (Inr (gvMajorOption prop), prop))"

definition GovProposal_UpdateMajorOption :: "GovProposal \<Rightarrow> voteOption option res \<times> GovProposal" where
  "GovProposal_UpdateMajorOption prop = GovProposal_updateMajorOption prop"

definition GovProposal_isMajor :: "voteOption \<Rightarrow> GovProposal \<Rightarrow> bool" where
  "GovProposal_isMajor opt prop \<longleftrightarrow> voteOption_Votes opt \<ge> phMajorityPower prop"

definition GovProposal_IsVoter :: "bytes \<Rightarrow> GovProposal \<Rightarrow> bool" where
  "GovProposal_IsVoter addr prop \<longleftrightarrow> map_of (phVoters prop) (HexBytes_String addr) \<noteq> None"

end
