(* ===== verification/Rigo_GovCtrler.thy ===== *)
theory Rigo_GovCtrler
  imports Rigo_Proposal Rigo_StakeCtrler
begin

text \<open>
  The governance controller, \<^verbatim>\<open>src/ctrlers/gov/ctrler.go\<close> and \<^verbatim>\<open>query.go\<close>. It keeps the governance
  parameters in force, those that the next commit puts in force, and three ledgers: the parameters,
  the proposals that are voted on and the frozen proposals that wait to be applied. The stake
  controller is an argument where the code calls \<^verbatim>\<open>ctx.StakeHandler\<close>. Logging is left out. What is not
  in the repository is a field of \<open>govEnv\<close>: the tree, the codecs, the names of the kinds of evidence
  and the hash function.

  A proposal the ledger returned is the object its cache holds; every operation below puts it back
  after changing it, so the change of the object and the update of the cache are one step.
\<close>

record 't govEnv =
  geTree :: "'t treeOps"
  geParams :: govProtoOps
  geProposals :: "GovProposal jsonOps"
  geJson :: govJsonOps
  geEvidenceName :: "nat \<Rightarrow> string"
  geDefaultHash :: "bytes list \<Rightarrow> bytes"

record 't GovCtrler =
  gcGovParams :: GovParams
  gcNewGovParams :: "GovParams option"
  gcParamsLedger :: "('t, GovParams) FinalityLedger"
  gcProposalLedger :: "('t, GovProposal) FinalityLedger"
  gcFrozenLedger :: "('t, GovProposal) FinalityLedger"

text \<open>\<^verbatim>\<open>NewGovCtrler\<close>, given the opened ledgers.\<close>

definition NewGovCtrler :: "'t govEnv \<Rightarrow> ('t, GovParams) FinalityLedger \<Rightarrow> ('t, GovProposal) FinalityLedger \<Rightarrow>
    ('t, GovProposal) FinalityLedger \<Rightarrow> 't GovCtrler res" where
  "NewGovCtrler E paramsLedger proposalLedger frozenLedger =
     (let (r, paramsLedger) = SimpleLedger_Get (geTree E) (govParamsItem (geParams E)) (ToLedgerKey (ZeroBytes 32)) paramsLedger;
          new = (\<lambda>params. \<lparr>gcGovParams = params, gcNewGovParams = None, gcParamsLedger = paramsLedger,
                           gcProposalLedger = proposalLedger, gcFrozenLedger = frozenLedger\<rparr>)
      in case r of
           Inr params \<Rightarrow> Inr (new params)
         | Inl xerr \<Rightarrow> if xerr = Error ErrNotFoundResult then Inr (new emptyGovParams) else Inl xerr)"

section \<open>The ledgers at the level of a transaction\<close>

definition GovCtrler_getProposal :: "'t govEnv \<Rightarrow> bool \<Rightarrow> ledgerKey \<Rightarrow> 't GovCtrler \<Rightarrow> GovProposal res \<times> 't GovCtrler" where
  "GovCtrler_getProposal E exec k c =
     (let (r, l) = (if exec then FinalityLedger_GetFinality (geTree E) (proposalItem (geProposals E)) k (gcProposalLedger c)
                    else SimpleLedger_Get (geTree E) (proposalItem (geProposals E)) k (gcProposalLedger c))
      in (r, c\<lparr>gcProposalLedger := l\<rparr>))"

definition GovCtrler_setProposal :: "'t govEnv \<Rightarrow> bool \<Rightarrow> GovProposal \<Rightarrow> 't GovCtrler \<Rightarrow> unit res \<times> 't GovCtrler" where
  "GovCtrler_setProposal E exec prop c =
     (let (r, l) = (if exec then FinalityLedger_SetFinality (proposalItem (geProposals E)) prop (gcProposalLedger c)
                    else SimpleLedger_Set (proposalItem (geProposals E)) prop (gcProposalLedger c))
      in (r, c\<lparr>gcProposalLedger := l\<rparr>))"

section \<open>Genesis and punishment\<close>

definition GovCtrler_InitLedger :: "'t govEnv \<Rightarrow> GovParams \<Rightarrow> 't GovCtrler \<Rightarrow> unit res \<times> 't GovCtrler" where
  "GovCtrler_InitLedger E params c =
     (Inr (), c\<lparr>gcGovParams := params,
                gcParamsLedger := snd (FinalityLedger_SetFinality (govParamsItem (geParams E)) params (gcParamsLedger c))\<rparr>)"

text \<open>The keys of the committed proposals the validator may vote on.\<close>

definition targetProps :: "'t govEnv \<Rightarrow> bytes \<Rightarrow> 't GovCtrler \<Rightarrow> ledgerKey list" where
  "targetProps E targetAddr c =
     snd (FinalityLedger_IterateReadAllFinalityItems (geTree E) (proposalItem (geProposals E))
       (\<lambda>prop ks. (Inr (), if \<exists>(k, v) \<in> set (phVoters prop). bytes_Compare (vtAddr v) targetAddr = 0
                            then ks @ [GovProposal_Key prop] else ks))
       (gcProposalLedger c) [])"

text \<open>An error of \<^verbatim>\<open>GetFinality\<close> is ignored, and the nil proposal then makes \<^verbatim>\<open>DoPunish\<close> panic.\<close>

fun punishProps :: "'t govEnv \<Rightarrow> bytes \<Rightarrow> ledgerKey list \<Rightarrow> int \<Rightarrow> 't GovCtrler \<Rightarrow> int res \<times> 't GovCtrler" where
  "punishProps E targetAddr [] slashedPower c = (Inr slashedPower, c)"
| "punishProps E targetAddr (k # ks) slashedPower c =
     (case GovCtrler_getProposal E True k c of
        (Inl _, c) \<Rightarrow> (Inl nilPointer, c)
      | (Inr prop, c) \<Rightarrow>
          (case GovProposal_DoPunish targetAddr (GovParams_SlashRatio (gcGovParams c)) prop of
             (Inl (Panic p), prop) \<Rightarrow> (Inl (Panic p), c)
           | (r, prop) \<Rightarrow>
               punishProps E targetAddr ks (i64 (slashedPower + (case r of Inl _ \<Rightarrow> 0 | Inr slashed \<Rightarrow> slashed)))
                 (snd (GovCtrler_setProposal E True prop c))))"

definition GovCtrler_doPunish :: "'t govEnv \<Rightarrow> evidence \<Rightarrow> 't GovCtrler \<Rightarrow> int res \<times> 't GovCtrler" where
  "GovCtrler_doPunish E evi c =
     (let targetAddr = valAddress (evValidator evi) in punishProps E targetAddr (targetProps E targetAddr c) 0 c)"

definition GovCtrler_DoPunish :: "'t govEnv \<Rightarrow> evidence \<Rightarrow> 't GovCtrler \<Rightarrow> int res \<times> 't GovCtrler" where
  "GovCtrler_DoPunish E evi c = GovCtrler_doPunish E evi c"

fun govPunishLoop :: "'t govEnv \<Rightarrow> evidence list \<Rightarrow> event list \<Rightarrow> 't GovCtrler \<Rightarrow> event list res \<times> 't GovCtrler" where
  "govPunishLoop E [] evts c = (Inr evts, c)"
| "govPunishLoop E (evi # byzantines) evts c =
     (case GovCtrler_doPunish E evi c of
        (Inl (Panic p), c) \<Rightarrow> (Inl (Panic p), c)
      | (Inl (Error xerr), c) \<Rightarrow> govPunishLoop E byzantines evts c
      | (Inr slashed, c) \<Rightarrow>
          govPunishLoop E byzantines
            (evts @ [(''punishment.gov'',
               [eventAttr ''byzantine'' (HexBytes_String (valAddress (evValidator evi))) True,
                eventAttr ''type'' (geEvidenceName E (evType evi)) False,
                eventAttr ''height'' (strconv_FormatInt (evHeight evi)) False,
                eventAttr ''slashed'' (strconv_FormatInt slashed) False])]) c)"

definition GovCtrler_BeginBlock :: "'t govEnv \<Rightarrow> BlockContext \<Rightarrow> 't GovCtrler \<Rightarrow> event list res \<times> 't GovCtrler" where
  "GovCtrler_BeginBlock E blockCtx c = govPunishLoop E (biByzantineValidators (bctxBlockInfo blockCtx)) [] c"

section \<open>Transactions\<close>

definition paramsErr :: "string \<Rightarrow> fault" where
  "paramsErr msg = Error (xerror_Wrapf ErrInvalidTrxPayloadParams msg)"

text \<open>The part of the validation of a proposal after its existence was checked.\<close>

definition validateProposing :: "govJsonOps \<Rightarrow> GovParams \<Rightarrow> int \<Rightarrow> TrxPayloadProposal \<Rightarrow> unit res" where
  "validateProposing J gov height p =
     (let invalid = Inl (Error ErrInvalidTrxPayloadParams);
          bad = (if prOptType p = PROPOSAL_GOVPARAMS
                 then List.find (\<lambda>r. case r of Inl _ \<Rightarrow> True | Inr _ \<Rightarrow> False) (map (GovParams_UnmarshalJSON J) (prOptions p)) else None);
          endVotingHeight = i64 (prStartVotingHeight p + prVotingPeriodBlocks p);
          minApplyingHeight = i64 (endVotingHeight + GovParams_LazyApplyingBlocks gov)
      in if prStartVotingHeight p \<le> height then invalid
         else if prVotingPeriodBlocks p > GovParams_MaxVotingPeriodBlocks gov \<or> prVotingPeriodBlocks p < GovParams_MinVotingPeriodBlocks gov
         then invalid
         else case bad of
                Some (Inl err) \<Rightarrow> Inl (Error (xerror_Wrap ErrInvalidTrxPayloadParams (PlainError err)))
              | _ \<Rightarrow>
                  if prStartVotingHeight p > endVotingHeight
                  then Inl (paramsErr ''overflow occurs: startHeight:%v, endVotingHeight:%v'')
                  else if prApplyingHeight p < minApplyingHeight \<or> endVotingHeight > prApplyingHeight p
                  then Inl (paramsErr ''wrong applyingHeight: must be set equal to or higher than minApplyingHeight. ApplyingHeight:%v, minApplyingHeight:%v, endVotingHeight:%v, lazyApplyingBlocks:%v'')
                  else if prOptions p = [] then Inl (paramsErr ''wrong options: must have at least one value'')
                  else Inr ())"

definition GovCtrler_validateProposal :: "'t govEnv \<Rightarrow> ('t, 'd) StakeCtrler \<Rightarrow> TrxContext \<Rightarrow> 't GovCtrler \<Rightarrow> unit res \<times> 't GovCtrler" where
  "GovCtrler_validateProposal E sc ctx c =
     (let tx = ctxTx ctx in
      if bytes_Compare (txTo tx) ZeroAddress \<noteq> 0
      then (Inl (Error (xerror_Wrap ErrInvalidTrx (PlainError ''wrong address: the 'to' field in TRX_PROPOSAL should be zero address''))), c)
      else if \<not> StakeCtrler_IsValidator (txFrom tx) sc then (Inl (Error ErrNoRight), c)
      else case txPayload tx of
             Some (PayloadProposal p) \<Rightarrow>
               (case GovCtrler_getProposal E (ctxExec ctx) (HexBytes_Array32 (ctxTxHash ctx)) c of
                  (Inr prop, c) \<Rightarrow> (Inl (Error ErrDuplicatedKey), c)
                | (Inl xerr, c) \<Rightarrow>
                    if xerr \<noteq> Error ErrNotFoundResult then (Inl xerr, c)
                    else (validateProposing (geJson E) (gcGovParams c) (ctxHeight ctx) p, c))
           | _ \<Rightarrow> (Inl (Error ErrInvalidTrxPayloadType), c))"

text \<open>The number of the options is converted to \<^verbatim>\<open>int32\<close>; a choice has that type already.\<close>

definition int32_of :: "int \<Rightarrow> int" where
  "int32_of n = sint (word_of_int n :: 32 word)"

definition GovCtrler_validateVoting :: "'t govEnv \<Rightarrow> TrxContext \<Rightarrow> 't GovCtrler \<Rightarrow> unit res \<times> 't GovCtrler" where
  "GovCtrler_validateVoting E ctx c =
     (let tx = ctxTx ctx in
      if bytes_Compare (txTo tx) ZeroAddress \<noteq> 0
      then (Inl (Error (xerror_Wrap ErrInvalidTrxPayloadParams (PlainError ''wrong address: the 'to' field in TRX_VOTING should be zero address''))), c)
      else case txPayload tx of
             Some (TrxPayloadVoting txhash choice) \<Rightarrow>
               bindE (GovCtrler_getProposal E (ctxExec ctx) (HexBytes_Array32 txhash) c) (\<lambda>prop c.
                 (if \<not> GovProposal_IsVoter (txFrom tx) prop then Inl (Error ErrNoRight)
                  else if choice < 0 \<or> choice \<ge> int32_of (int (length (gvOptions prop))) then Inl (Error ErrInvalidTrxPayloadParams)
                  else if ctxHeight ctx > phEndVotingHeight prop \<or> ctxHeight ctx < phStartVotingHeight prop
                  then Inl (Error ErrNotVotingPeriod)
                  else Inr (), c))
           | _ \<Rightarrow> (Inl (Error ErrInvalidTrxPayloadType), c))"

definition GovCtrler_ValidateTrx :: "'t govEnv \<Rightarrow> ('t, 'd) StakeCtrler \<Rightarrow> TrxContext \<Rightarrow> 't GovCtrler \<Rightarrow> unit res \<times> 't GovCtrler" where
  "GovCtrler_ValidateTrx E sc ctx c =
     (if txType (ctxTx ctx) = TRX_PROPOSAL then GovCtrler_validateProposal E sc ctx c
      else if txType (ctxTx ctx) = TRX_VOTING then GovCtrler_validateVoting E ctx c
      else (Inl (Error ErrUnknownTrxType), c))"

definition newVoters :: "abciValidator list \<Rightarrow> (string \<times> Voter) list" where
  "newVoters vals =
     fold (\<lambda>v. AList.update (HexBytes_String (valAddress v)) \<lparr>vtAddr = valAddress v, vtPower = valPower v, vtChoice = NOT_CHOICE\<rparr>) vals []"

definition GovCtrler_execProposing :: "'t govEnv \<Rightarrow> ('t, 'd) StakeCtrler \<Rightarrow> TrxContext \<Rightarrow> 't GovCtrler \<Rightarrow> unit res \<times> 't GovCtrler" where
  "GovCtrler_execProposing E sc ctx c =
     (case txPayload (ctxTx ctx) of
        Some (PayloadProposal p) \<Rightarrow>
          (let (vals, totalVotingPower) = StakeCtrler_Validators sc;
               prop = NewGovProposal (ctxTxHash ctx) (prOptType p) (prStartVotingHeight p) (prVotingPeriodBlocks p)
                        totalVotingPower (prApplyingHeight p) (newVoters vals) (prOptions p)
           in GovCtrler_setProposal E (ctxExec ctx) prop c)
      | _ \<Rightarrow> (Inl nilPointer, c))"

definition GovCtrler_execVoting :: "'t govEnv \<Rightarrow> TrxContext \<Rightarrow> 't GovCtrler \<Rightarrow> unit res \<times> 't GovCtrler" where
  "GovCtrler_execVoting E ctx c =
     (case txPayload (ctxTx ctx) of
        Some (TrxPayloadVoting txhash choice) \<Rightarrow>
          bindE (GovCtrler_getProposal E (ctxExec ctx) (ToLedgerKey txhash) c) (\<lambda>prop c.
            case GovProposal_DoVote (txFrom (ctxTx ctx)) choice prop of
              (Inl xerr, _) \<Rightarrow> (Inl xerr, c)
            | (Inr _, prop) \<Rightarrow> GovCtrler_setProposal E (ctxExec ctx) prop c)
      | _ \<Rightarrow> (Inl nilPointer, c))"

definition GovCtrler_ExecuteTrx :: "'t govEnv \<Rightarrow> ('t, 'd) StakeCtrler \<Rightarrow> TrxContext \<Rightarrow> 't GovCtrler \<Rightarrow> unit res \<times> 't GovCtrler" where
  "GovCtrler_ExecuteTrx E sc ctx c =
     (if txType (ctxTx ctx) = TRX_PROPOSAL then GovCtrler_execProposing E sc ctx c
      else if txType (ctxTx ctx) = TRX_VOTING then GovCtrler_execVoting E ctx c
      else (Inl (Error ErrUnknownTrxType), c))"

section \<open>The end of a block\<close>

text \<open>One committed proposal whose voting has ended: it leaves the ledger, and is frozen when an option
  has the majority. The proposal is the one read from the tree.\<close>

definition freezeProposal :: "'t govEnv \<Rightarrow> int \<Rightarrow> GovProposal \<Rightarrow> bytes list \<times> bytes list \<times> 't GovCtrler \<Rightarrow>
    unit res \<times> bytes list \<times> bytes list \<times> 't GovCtrler" where
  "freezeProposal E height prop s =
     (let (frozen, removed, c) = s in
      if phEndVotingHeight prop < height then
        (case FinalityLedger_DelFinality (geTree E) (proposalItem (geProposals E)) (GovProposal_Key prop) (gcProposalLedger c) of
           (Inl xerr, l) \<Rightarrow> (Inl xerr, frozen, removed, c\<lparr>gcProposalLedger := l\<rparr>)
         | (Inr _, l) \<Rightarrow>
             (let c = c\<lparr>gcProposalLedger := l\<rparr> in
              case GovProposal_UpdateMajorOption prop of
                (Inl e, prop) \<Rightarrow> (Inl e, frozen, removed, c)
              | (Inr None, prop) \<Rightarrow> (Inr (), frozen, removed @ [phTxHash prop], c)
              | (Inr (Some majorOpt), prop) \<Rightarrow>
                  (case FinalityLedger_SetFinality (proposalItem (geProposals E)) prop (gcFrozenLedger c) of
                     (Inl xerr, l) \<Rightarrow> (Inl xerr, frozen, removed, c\<lparr>gcFrozenLedger := l\<rparr>)
                   | (Inr _, l) \<Rightarrow> (Inr (), frozen @ [phTxHash prop], removed, c\<lparr>gcFrozenLedger := l\<rparr>))))
      else (Inr (), s))"

definition GovCtrler_freezeProposals :: "'t govEnv \<Rightarrow> int \<Rightarrow> 't GovCtrler \<Rightarrow> (bytes list \<times> bytes list) res \<times> 't GovCtrler" where
  "GovCtrler_freezeProposals E height c =
     (let (r, frozen, removed, c) = SimpleLedger_IterateReadAllItems (geTree E) (proposalItem (geProposals E))
            (freezeProposal E height) (gcProposalLedger c) ([], [], c)
      in (map_sum id (\<lambda>_. (frozen, removed)) r, c))"

text \<open>\<^verbatim>\<open>strings.ReplaceAll\<close> with a non-empty pattern, from left to right without overlaps.\<close>

fun strings_ReplaceAll :: "bytes \<Rightarrow> bytes \<Rightarrow> bytes \<Rightarrow> bytes" where
  "strings_ReplaceAll old new [] = []"
| "strings_ReplaceAll old new (b # s) =
     (if take (length old) (b # s) = old then new @ strings_ReplaceAll old new (drop (length old - 1) s)
      else b # strings_ReplaceAll old new s)"

definition strings_HasSuffix :: "bytes \<Rightarrow> bytes \<Rightarrow> bool" where
  "strings_HasSuffix s suffix \<longleftrightarrow> length suffix \<le> length s \<and> drop (length s - length suffix) s = suffix"

definition hotfix :: "bytes \<Rightarrow> bytes" where
  "hotfix strOpt =
     (let dq = str_bytes [CHR 0x22] in
      if strings_HasSuffix strOpt (dq @ dq @ str_bytes ''}'')
      then strings_ReplaceAll (dq @ dq @ str_bytes ''}'') (dq @ str_bytes ''}'') strOpt else strOpt)"

definition applyProposal :: "'t govEnv \<Rightarrow> int \<Rightarrow> GovProposal \<Rightarrow> bytes list \<times> 't GovCtrler \<Rightarrow> unit res \<times> bytes list \<times> 't GovCtrler" where
  "applyProposal E height prop s =
     (let (applied, c) = s in
      if phApplyingHeight prop \<le> height then
        (case FinalityLedger_DelFinality (geTree E) (proposalItem (geProposals E)) (GovProposal_Key prop) (gcFrozenLedger c) of
           (Inl xerr, l) \<Rightarrow> (Inl xerr, applied, c\<lparr>gcFrozenLedger := l\<rparr>)
         | (Inr _, l) \<Rightarrow>
             (let c = c\<lparr>gcFrozenLedger := l\<rparr> in
              case gvMajorOption prop of
                None \<Rightarrow> (Inr (), applied, c)
              | Some majorOption \<Rightarrow>
                  if phOptType prop = PROPOSAL_GOVPARAMS then
                    (case GovParams_UnmarshalJSON (geJson E) (hotfix (voteOption_Option majorOption)) of
                       Inl err \<Rightarrow> (Inl (Error (xerrors_NewOrdinary err)), applied, c)
                     | Inr newGovParams \<Rightarrow>
                         (let newGovParams = MergeGovParams (gcGovParams c) newGovParams in
                          case FinalityLedger_SetFinality (govParamsItem (geParams E)) newGovParams (gcParamsLedger c) of
                            (Inl xerr, l) \<Rightarrow> (Inl xerr, applied, c\<lparr>gcParamsLedger := l\<rparr>)
                          | (Inr _, l) \<Rightarrow>
                              (Inr (), applied @ [phTxHash prop], c\<lparr>gcParamsLedger := l, gcNewGovParams := Some newGovParams\<rparr>)))
                  else (Inr (), applied @ [phTxHash prop], c)))
      else (Inr (), s))"

definition GovCtrler_applyProposals :: "'t govEnv \<Rightarrow> int \<Rightarrow> 't GovCtrler \<Rightarrow> bytes list res \<times> 't GovCtrler" where
  "GovCtrler_applyProposals E height c =
     (let (r, applied, c) = SimpleLedger_IterateReadAllItems (geTree E) (proposalItem (geProposals E))
            (applyProposal E height) (gcFrozenLedger c) ([], c)
      in (map_sum id (\<lambda>_. applied) r, c))"

definition proposalEvent :: "string \<Rightarrow> bytes \<Rightarrow> event" where
  "proposalEvent key h = (''proposal'', [eventAttr key (HexBytes_String h) True])"

definition GovCtrler_EndBlock :: "'t govEnv \<Rightarrow> BlockContext \<Rightarrow> 't GovCtrler \<Rightarrow> event list res \<times> 't GovCtrler" where
  "GovCtrler_EndBlock E ctx c =
     bindE (GovCtrler_freezeProposals E (BlockContext_Height ctx) c) (\<lambda>(frozen, removed) c.
     bindE (GovCtrler_applyProposals E (BlockContext_Height ctx) c) (\<lambda>applied c.
       (Inr (map (proposalEvent ''frozen'') frozen @ map (proposalEvent ''removed'') removed @ map (proposalEvent ''applied'') applied), c)))"

definition GovCtrler_Commit :: "'t govEnv \<Rightarrow> 't GovCtrler \<Rightarrow> (bytes \<times> int) res \<times> 't GovCtrler" where
  "GovCtrler_Commit E c =
     (let (r0, l0) = FinalityLedger_Commit (geTree E) (govParamsItem (geParams E)) (gcParamsLedger c);
          c = c\<lparr>gcParamsLedger := l0\<rparr>
      in case r0 of
           Inl xerr \<Rightarrow> (Inl xerr, c)
         | Inr (h0, v0) \<Rightarrow>
             (let (r1, l1) = FinalityLedger_Commit (geTree E) (proposalItem (geProposals E)) (gcProposalLedger c);
                  c = c\<lparr>gcProposalLedger := l1\<rparr>
              in case r1 of
                   Inl xerr \<Rightarrow> (Inl xerr, c)
                 | Inr (h1, v1) \<Rightarrow>
                     (let (r2, l2) = FinalityLedger_Commit (geTree E) (proposalItem (geProposals E)) (gcFrozenLedger c);
                          c = c\<lparr>gcFrozenLedger := l2\<rparr>
                      in case r2 of
                           Inl xerr \<Rightarrow> (Inl xerr, c)
                         | Inr (h2, v2) \<Rightarrow>
                             if v0 \<noteq> v1 \<or> v1 \<noteq> v2
                             then (Inl (Error (xerror_Wrapf ErrCommit ''error: GovCtrler.Commit() has wrong version number - v0:%v, v1:%v, v2:%v'')), c)
                             else
                               (Inr (geDefaultHash E [h0, h1, h2], v0),
                                case gcNewGovParams c of
                                  None \<Rightarrow> c
                                | Some params \<Rightarrow> c\<lparr>gcGovParams := params, gcNewGovParams := None\<rparr>))))"

section \<open>Reading\<close>

definition GovCtrler_GetGovParams :: "'t GovCtrler \<Rightarrow> GovParams" where
  "GovCtrler_GetGovParams c = gcGovParams c"

definition notFoundProposal :: "fault \<Rightarrow> fault" where
  "notFoundProposal xerr = (if xerr = Error ErrNotFoundResult then Error ErrNotFoundProposal else xerr)"

definition GovCtrler_ReadAllProposals :: "'t govEnv \<Rightarrow> 't GovCtrler \<Rightarrow> GovProposal list res" where
  "GovCtrler_ReadAllProposals E c =
     (case SimpleLedger_IterateReadAllItems (geTree E) (proposalItem (geProposals E)) (\<lambda>prop ps. (Inr (), ps @ [prop])) (gcProposalLedger c) [] of
        (Inl xerr, _) \<Rightarrow> Inl (notFoundProposal xerr)
      | (Inr _, proposals) \<Rightarrow> Inr proposals)"

definition GovCtrler_ReadProposal :: "'t govEnv \<Rightarrow> bytes \<Rightarrow> 't GovCtrler \<Rightarrow> GovProposal res" where
  "GovCtrler_ReadProposal E txhash c =
     map_sum notFoundProposal id (SimpleLedger_Read (geTree E) (proposalItem (geProposals E)) (ToLedgerKey txhash) (gcProposalLedger c))"

text \<open>Queries; a proposal is answered with its status, and the JSON text is a parameter.\<close>

record govQueryOps =
  gqProposals :: "(string \<times> GovProposal) list \<Rightarrow> string + bytes"
  gqProposal :: "string \<times> GovProposal \<Rightarrow> string + bytes"
  gqParams :: "GovParams \<Rightarrow> string + bytes"

definition queryProposals :: "'t govEnv \<Rightarrow> govQueryOps \<Rightarrow> ('t, GovProposal) SimpleLedger \<Rightarrow> ('t, GovProposal) SimpleLedger \<Rightarrow> bytes res" where
  "queryProposals E Q atProposalLedger atFrozenLedger =
     (let all = (\<lambda>status l ps. SimpleLedger_IterateReadAllItems (geTree E) (proposalItem (geProposals E))
                   (\<lambda>prop ps. (Inr (), ps @ [(status, prop)])) l ps)
      in case all ''voting'' atProposalLedger [] of
           (Inl xerr, _) \<Rightarrow> Inl (queryWrap xerr)
         | (Inr _, ps) \<Rightarrow>
             (case all ''frozen'' atFrozenLedger ps of
                (Inl xerr, _) \<Rightarrow> Inl (queryWrap xerr)
              | (Inr _, ps) \<Rightarrow> queryJson (gqProposals Q ps)))"

definition queryProposal :: "'t govEnv \<Rightarrow> govQueryOps \<Rightarrow> bytes \<Rightarrow> ('t, GovProposal) SimpleLedger \<Rightarrow> ('t, GovProposal) SimpleLedger \<Rightarrow> bytes res" where
  "queryProposal E Q txhash atProposalLedger atFrozenLedger =
     (case SimpleLedger_Read (geTree E) (proposalItem (geProposals E)) (ToLedgerKey txhash) atProposalLedger of
        Inr prop \<Rightarrow> queryJson (gqProposal Q (''voting'', prop))
      | Inl (Panic p) \<Rightarrow> Inl (Panic p)
      | Inl (Error xerr) \<Rightarrow>
          if xerror_Code xerr = ErrCodeNotFoundResult then
            (case SimpleLedger_Read (geTree E) (proposalItem (geProposals E)) (ToLedgerKey txhash) atFrozenLedger of
               Inl xerr \<Rightarrow> Inl (queryWrap xerr)
             | Inr prop \<Rightarrow> queryJson (gqProposal Q (''frozen'', prop)))
          else Inl (queryWrap (Error xerr)))"

definition GovCtrler_Query :: "'t govEnv \<Rightarrow> govQueryOps \<Rightarrow> requestQuery \<Rightarrow> 't GovCtrler \<Rightarrow> bytes res" where
  "GovCtrler_Query E Q req c =
     (if rqPath req = ''proposal'' then
        (case FinalityLedger_ImmutableLedgerAt (geTree E) (rqHeight req) (gcProposalLedger c) of
           Inl xerr \<Rightarrow> Inl (queryWrap xerr)
         | Inr atProposalLedger \<Rightarrow>
             (case FinalityLedger_ImmutableLedgerAt (geTree E) (rqHeight req) (gcFrozenLedger c) of
                Inl xerr \<Rightarrow> Inl (queryWrap xerr)
              | Inr atFrozenLedger \<Rightarrow>
                  if rqData req = [] then queryProposals E Q atProposalLedger atFrozenLedger
                  else queryProposal E Q (rqData req) atProposalLedger atFrozenLedger))
      else if rqPath req = ''gov_params'' then
        (case FinalityLedger_ImmutableLedgerAt (geTree E) (rqHeight req) (gcParamsLedger c) of
           Inl xerr \<Rightarrow> Inl (queryWrap xerr)
         | Inr atledger \<Rightarrow>
             (case SimpleLedger_Read (geTree E) (govParamsItem (geParams E)) (ToLedgerKey (ZeroBytes 32)) atledger of
                Inl xerr \<Rightarrow> Inl (queryWrap xerr)
              | Inr govParams \<Rightarrow> queryJson (gqParams Q govParams)))
      else Inr [])"

end
