(* ===== verification/Rigo_Crypto.thy ===== *)
theory Rigo_Crypto
  imports Rigo_Bytes
begin

text \<open>
  \<^verbatim>\<open>src/types/crypto/crypto.go\<close>: hashing, addresses, signatures and the two paddings. The curve and the
  hash function are not in the repository and are fields of \<open>cryptoOps\<close>.
\<close>

section \<open>Hashes, signatures, addresses\<close>

record cryptoOps =
  coSha256 :: "bytes \<Rightarrow> bytes"
  coSign :: "bytes \<Rightarrow> bytes \<Rightarrow> string + bytes"
  coVerify :: "bytes \<Rightarrow> bytes \<Rightarrow> bytes \<Rightarrow> bool"
  coSigToPub :: "bytes \<Rightarrow> bytes \<Rightarrow> string + bytes"
  coCompress :: "bytes \<Rightarrow> bytes"
  coPubAddress :: "bytes \<Rightarrow> bytes"

text \<open>Writing pieces to the hasher one after the other hashes their concatenation.\<close>

definition DefaultHash :: "cryptoOps \<Rightarrow> bytes list \<Rightarrow> bytes" where
  "DefaultHash C datas = coSha256 C (concat datas)"

definition DefaultHasherName :: string where
  "DefaultHasherName = ''sha256''"

definition crypto_Sign :: "cryptoOps \<Rightarrow> bytes \<Rightarrow> bytes \<Rightarrow> string + bytes" where
  "crypto_Sign C msg prv = coSign C (DefaultHash C [msg]) prv"

text \<open>\<^verbatim>\<open>ethcrypto.SignatureLength\<close> is 65: the last byte is the recovery id.\<close>

definition crypto_VerifySig :: "cryptoOps \<Rightarrow> bytes \<Rightarrow> bytes \<Rightarrow> bytes \<Rightarrow> bool" where
  "crypto_VerifySig C pubkey msg sig =
     coVerify C pubkey (DefaultHash C [msg]) (if length sig = 65 then take 64 sig else sig)"

definition PubBytes2Addr :: "cryptoOps \<Rightarrow> bytes \<Rightarrow> bytes" where
  "PubBytes2Addr C pubBytes = coPubAddress C pubBytes"

definition CompressPubkey :: "cryptoOps \<Rightarrow> bytes \<Rightarrow> bytes" where
  "CompressPubkey C pub = coCompress C pub"

definition Pub2Addr :: "cryptoOps \<Rightarrow> bytes \<Rightarrow> bytes" where
  "Pub2Addr C pub = PubBytes2Addr C (CompressPubkey C pub)"

definition Sig2Addr :: "cryptoOps \<Rightarrow> bytes \<Rightarrow> bytes \<Rightarrow> (bytes \<times> bytes) res" where
  "Sig2Addr C msg sig =
     (case coSigToPub C (DefaultHash C [msg]) sig of
        Inl err \<Rightarrow> Inl (Error (xerrors_NewOrdinary err))
      | Inr pubKey \<Rightarrow> Inr (Pub2Addr C pubKey, CompressPubkey C pubKey))"

section \<open>Padding\<close>

definition ErrInvalidBlockSize :: goerror where
  "ErrInvalidBlockSize = xerrors_NewOrdinary ''invalid blocksize''"

definition ErrInvalidPKCS5Data :: goerror where
  "ErrInvalidPKCS5Data = xerrors_NewOrdinary ''invalid PKCS5 data (empty or not padded)''"

definition ErrInvalidPKCS5Padding :: goerror where
  "ErrInvalidPKCS5Padding = xerrors_NewOrdinary ''invalid PKCS5 padding on input''"

definition ErrInvalidPKCS7Data :: goerror where
  "ErrInvalidPKCS7Data = xerrors_NewOrdinary ''invalid PKCS7 data (empty or not padded)''"

definition ErrInvalidPKCS7Padding :: goerror where
  "ErrInvalidPKCS7Padding = xerrors_NewOrdinary ''invalid PKCS7 padding on input''"

text \<open>Go's remainder has the sign of the dividend; the dividends below are lengths.\<close>

definition go_rem :: "int \<Rightarrow> int \<Rightarrow> int res" where
  "go_rem a b = (if b = 0 then Inl (Panic ''runtime error: integer divide by zero'') else Inr (sgn a * (\<bar>a\<bar> mod \<bar>b\<bar>)))"

text \<open>\<^verbatim>\<open>bytes.Repeat\<close> of one byte panics on a negative count.\<close>

definition bytes_Repeat :: "byte \<Rightarrow> int \<Rightarrow> bytes res" where
  "bytes_Repeat b n = (if n < 0 then Inl (Panic ''bytes: negative Repeat count'') else Inr (replicate (nat n) b))"

definition padWith :: "bytes \<Rightarrow> int \<Rightarrow> bytes res" where
  "padWith b blocksize =
     (case go_rem (int (length b)) blocksize of
        Inl p \<Rightarrow> Inl p
      | Inr rem \<Rightarrow>
          let pad = blocksize - rem
          in case bytes_Repeat (word_of_int pad) pad of Inl p \<Rightarrow> Inl p | Inr padbuf \<Rightarrow> Inr (b @ padbuf))"

definition PKCS5Padding :: "bytes \<Rightarrow> int \<Rightarrow> bytes res" where
  "PKCS5Padding b blocksize =
     (if blocksize mod 8 \<noteq> 0 then Inl (Error ErrInvalidBlockSize)
      else if b = [] then Inl (Error ErrInvalidPKCS5Data)
      else padWith b blocksize)"

definition PKCS7Padding :: "bytes \<Rightarrow> int \<Rightarrow> bytes res" where
  "PKCS7Padding b blocksize =
     (if blocksize \<le> 0 then Inl (Error ErrInvalidBlockSize)
      else if b = [] then Inl (Error ErrInvalidPKCS7Data)
      else padWith b blocksize)"

text \<open>The loop over the last \<open>n\<close> bytes, which are in range.\<close>

fun checkPad :: "byte \<Rightarrow> bytes \<Rightarrow> bool" where
  "checkPad c [] \<longleftrightarrow> True"
| "checkPad c (x # xs) \<longleftrightarrow> (if x \<noteq> c then False else checkPad c xs)"

definition PKCS5UnPadding :: "bytes \<Rightarrow> int \<Rightarrow> bytes res" where
  "PKCS5UnPadding b blocksize =
     (if blocksize mod 8 \<noteq> 0 then Inl (Error ErrInvalidBlockSize)
      else if b = [] then Inl (Error ErrInvalidPKCS5Data)
      else if length b mod 8 \<noteq> 0 then Inl (Error ErrInvalidPKCS5Data)
      else let pad = last b; padlen = unat pad in
        if padlen = 0 \<or> length b < padlen \<or> int padlen > blocksize then Inl (Error ErrInvalidPKCS5Data)
        else if \<not> checkPad pad (drop (length b - padlen) b) then Inl (Error ErrInvalidPKCS5Padding)
        else Inr (take (length b - padlen) b))"

definition PKCS7UnPadding :: "bytes \<Rightarrow> int \<Rightarrow> bytes res" where
  "PKCS7UnPadding b blocksize =
     (if blocksize \<le> 0 then Inl (Error ErrInvalidBlockSize)
      else if b = [] then Inl (Error ErrInvalidPKCS7Data)
      else if int (length b) mod blocksize \<noteq> 0 then Inl (Error ErrInvalidPKCS7Padding)
      else let c = last b; n = unat c in
        if n = 0 \<or> n > length b \<or> int n > blocksize then Inl (Error ErrInvalidPKCS7Padding)
        else if \<not> checkPad c (drop (length b - n) b) then Inl (Error ErrInvalidPKCS7Padding)
        else Inr (take (length b - n) b))"

section \<open>The paddings and their inverses\<close>

lemma checkPad_replicate [simp]: "checkPad c (replicate n c)"
  by (induction n) simp_all

lemma checkPad_eq: "checkPad c xs \<longleftrightarrow> xs = replicate (length xs) c"
  by (induction xs) auto

text \<open>The number of bytes a block size asks for.\<close>

definition padLen :: "nat \<Rightarrow> nat \<Rightarrow> nat" where
  "padLen n blocksize = blocksize - n mod blocksize"

lemma padLen_bounds:
  assumes "0 < k"
  shows "0 < padLen n k" "padLen n k \<le> k" "(n + padLen n k) mod k = 0"
proof -
  have m: "n mod k < k"
    using assms by simp
  then show "0 < padLen n k" "padLen n k \<le> k"
    by (simp_all add: padLen_def)
  have "n + padLen n k = k * (n div k) + (n mod k + padLen n k)"
    by simp
  also have "n mod k + padLen n k = k"
    using m by (simp add: padLen_def)
  finally show "(n + padLen n k) mod k = 0"
    by simp
qed

lemma padWith_eq:
  assumes "0 < k"
  shows "padWith b (int k) = Inr (b @ replicate (padLen (length b) k) (of_nat (padLen (length b) k)))"
proof -
  have "int k - int (length b) mod int k = int (padLen (length b) k)"
    using assms by (simp add: padLen_def of_nat_diff zmod_int less_imp_le)
  moreover have "go_rem (int (length b)) (int k) = Inr (int (length b) mod int k)"
    using assms by (cases "b = []") (simp_all add: go_rem_def)
  ultimately show ?thesis
    by (simp add: padWith_def bytes_Repeat_def)
qed

lemma unpad:
  assumes "0 < n" "n < 256"
  shows "last (b @ replicate n (of_nat n :: byte)) = of_nat n" "unat (of_nat n :: byte) = n"
    "drop (length (b @ replicate n (of_nat n :: byte)) - n) (b @ replicate n (of_nat n)) = replicate n (of_nat n)"
    "take (length (b @ replicate n (of_nat n :: byte)) - n) (b @ replicate n (of_nat n)) = b"
  using assms by (simp_all add: unat_of_nat)

lemma PKCS7_block: "0 < k \<Longrightarrow> b \<noteq> [] \<Longrightarrow> PKCS7Padding b (int k) = Inr (b @ replicate (padLen (length b) k) (of_nat (padLen (length b) k)))"
  by (simp add: PKCS7Padding_def padWith_eq)

lemma PKCS7_unpad_pad:
  assumes k: "0 < k" "k < 256" and b: "b \<noteq> []"
  shows "PKCS7UnPadding (b @ replicate (padLen (length b) k) (of_nat (padLen (length b) k))) (int k) = Inr b"
proof -
  define n where "n = padLen (length b) k"
  note p = padLen_bounds [OF k(1), of "length b", folded n_def]
  have n: "0 < n" "n < 256"
    using p(1,2) k(2) by simp_all
  have "int (length b + n) mod int k = 0"
    using p(3) by (simp only: zmod_int [symmetric] of_nat_0)
  then show ?thesis
    unfolding n_def [symmetric] PKCS7UnPadding_def Let_def unpad [OF n]
    using k p(1,2) by simp
qed

lemma padLen_unique:
  assumes k: "0 < k" and n: "0 < n" "n \<le> k" and l: "(m + n) mod k = 0"
  shows "n = padLen m k"
proof -
  have "k dvd m mod k + n"
    using l by (simp add: mod_eq_0_iff_dvd [symmetric] mod_add_left_eq)
  then obtain q where q: "m mod k + n = k * q"
    by (elim dvdE)
  have "m mod k < k"
    using k by simp
  then have "k * q < k * 2" "0 < k * q"
    unfolding q [symmetric] using n by linarith+
  then have "q = 1"
    by simp
  then show ?thesis
    using q by (simp add: padLen_def)
qed

lemma PKCS7_pad_unpad:
  assumes k: "0 < k" and b: "b \<noteq> []" and u: "PKCS7UnPadding p (int k) = Inr b"
  shows "PKCS7Padding b (int k) = Inr p"
proof -
  define c where "c = last p"
  define n where "n = unat c"
  have e: "int (length p) mod int k = 0" "0 < n" "n \<le> length p" "n \<le> k" "checkPad c (drop (length p - n) p)" "b = take (length p - n) p"
    using u by (auto simp: PKCS7UnPadding_def Let_def c_def n_def split: if_splits)
  have "length (drop (length p - n) p) = n"
    using e(3) by simp
  then have p: "p = b @ replicate n c"
    using e(5,6) by (metis append_take_drop_id checkPad_eq)
  have "(length b + n) mod k = 0"
    using e(1) unfolding p by (simp only: length_append length_replicate zmod_int [symmetric] of_nat_eq_0_iff)
  from padLen_unique [OF k e(2,4) this] have n: "padLen (length b) k = n"
    by (rule sym)
  have "of_nat n = c"
    by (simp add: n_def)
  then show ?thesis
    using PKCS7_block [OF k b] p by (simp add: n)
qed

lemma PKCS7_256:
  assumes "b \<noteq> []" "length b mod 256 = 0" "PKCS7Padding b 256 = Inr p"
  shows "PKCS7UnPadding p 256 = Inl (Error ErrInvalidPKCS7Padding)"
proof -
  obtain n :: nat where n: "n = 256"
    by blast
  then have z: "(of_nat n :: byte) = 0" "0 < n" "int n = 256" "length b mod n = 0"
    using assms(2) by simp_all
  then have "padLen (length b) n = n"
    by (simp add: padLen_def)
  then have p: "p = b @ replicate n 0"
    using PKCS7_block [OF z(2) assms(1)] assms(3) z(1,3) by simp
  have "last p = 0" "p \<noteq> []"
    using assms(1) z(2) by (simp_all add: p)
  moreover have "int (length p) mod int n = 0"
    using z(4) by (simp add: p zmod_int [symmetric] del: of_nat_add)
  ultimately show ?thesis
    unfolding z(3) by (simp add: PKCS7UnPadding_def Let_def)
qed

text \<open>C36. For block sizes from 1 to 255 the padding of \<^verbatim>\<open>PKCS7Padding\<close> (\<^verbatim>\<open>crypto.go\<close>) exists for all data but the
  empty, is a whole number of blocks, between 1 and a block longer than the data, and \<^verbatim>\<open>PKCS7UnPadding\<close>
  takes it off again and accepts nothing but the padding of something: the two are inverse to each
  other. For data of whole blocks of 256 bytes the length of the padding does not fit its byte, and
  un-padding fails.\<close>

theorem PKCS7_roundtrip:
  assumes "0 < k" "k < 256" "b \<noteq> []"
  shows "(\<exists>p. PKCS7Padding b (int k) = Inr p \<and> length p mod k = 0 \<and> length b < length p \<and> length p \<le> length b + k) \<and>
    (\<forall>p. PKCS7Padding b (int k) = Inr p \<longleftrightarrow> PKCS7UnPadding p (int k) = Inr b) \<and>
    (\<forall>p. length b mod 256 = 0 \<longrightarrow> PKCS7Padding b 256 = Inr p \<longrightarrow> PKCS7UnPadding p 256 = Inl (Error ErrInvalidPKCS7Padding))"
proof -
  note p = padLen_bounds [OF assms(1), of "length b"]
  have "\<exists>p. PKCS7Padding b (int k) = Inr p \<and> length p mod k = 0 \<and> length b < length p \<and> length p \<le> length b + k"
    using p PKCS7_block [OF assms(1,3)] by simp
  moreover have "PKCS7Padding b (int k) = Inr p \<longleftrightarrow> PKCS7UnPadding p (int k) = Inr b" for p
    using PKCS7_block [OF assms(1,3)] PKCS7_unpad_pad [OF assms] PKCS7_pad_unpad [OF assms(1,3)] by (metis Inr_inject)
  ultimately show ?thesis
    using PKCS7_256 [OF assms(3)] by blast
qed

theorem PKCS7_roundtrip_witness:
  "(\<forall>p. PKCS7Padding [7, 8, 9] 16 = Inr p \<longleftrightarrow> PKCS7UnPadding p 16 = Inr [7, 8, 9]) \<and>
   PKCS7Padding [7, 8, 9] 16 = Inr ([7, 8, 9] @ replicate 13 13)"
  using PKCS7_roundtrip [of 16 "[7, 8, 9]"]
  by (simp add: PKCS7Padding_def padWith_def go_rem_def bytes_Repeat_def)

end
