(* ===== verification/Rigo_WalletKey.thy ===== *)
theory Rigo_WalletKey
  imports Rigo_Crypto Rigo_StakeCodec
begin

text \<open>
  Wallet keys, \<^verbatim>\<open>src/types/crypto/wallet_key.go\<close>. Locking a key overwrites its bytes in place, and two
  fields of a key can be slices of one array, so the byte arrays are kept in an explicit store:
  a slice is the address of its array and a length (all slices here start at index 0), and the spare
  room of the array after that length is its capacity. Byte strings that are never written are plain
  values. The random bytes of \<^verbatim>\<open>rand.Read\<close> are arguments; key derivation, the AES cipher in CBC mode,
  the curve and JSON are fields of \<open>walletEnv\<close>.
\<close>

section \<open>The store of byte arrays\<close>

type_synonym heap = "bytes list"

record slice =
  slArr :: nat
  slLen :: nat

definition slice_read :: "heap \<Rightarrow> slice \<Rightarrow> bytes" where
  "slice_read h s = take (slLen s) (h ! slArr s)"

definition slice_make :: "bytes \<Rightarrow> heap \<Rightarrow> slice \<times> heap" where
  "slice_make bz h = (\<lparr>slArr = length h, slLen = length bz\<rparr>, h @ [bz])"

text \<open>\<^verbatim>\<open>append\<close> writes into the spare room if it suffices and moves to a new array otherwise. (The spare room Go
  gives to the new array is not used by the code below.)\<close>

definition slice_append :: "slice \<Rightarrow> bytes \<Rightarrow> heap \<Rightarrow> slice \<times> heap" where
  "slice_append s bz h =
     (let a = h ! slArr s; n = slLen s + length bz in
      if n \<le> length a then (s\<lparr>slLen := n\<rparr>, h[slArr s := take (slLen s) a @ bz @ drop n a])
      else slice_make (slice_read h s @ bz) h)"

text \<open>\<^verbatim>\<open>libs.ClearCredential\<close>, which is \<^verbatim>\<open>bytes.ClearBytes\<close>.\<close>

definition ClearCredential :: "slice \<Rightarrow> heap \<Rightarrow> heap" where
  "ClearCredential s h = h[slArr s := ClearBytes (slice_read h s) @ drop (slLen s) (h ! slArr s)]"

section \<open>Keys\<close>

record cipherTextParams =
  cpAlgo :: string
  cpText :: slice
  cpIv :: bytes

record dkParams =
  dkAlgo :: string
  dkPrf :: string
  dkIter :: int
  dkSalt :: bytes
  dkLen :: int

record WalletKey =
  wkVersion :: int
  wkAddress :: bytes
  wkAlgo :: string
  wkCipherTextParams :: "cipherTextParams option"
  wkDKParams :: "dkParams option"
  wkPrvKey :: "slice option"
  wkPubKey :: bytes

text \<open>The JSON form: the exported fields, with the cipher text by value.\<close>

record walletFile =
  wfVersion :: int
  wfAddress :: bytes
  wfAlgo :: string
  wfCipherTextParams :: "(string \<times> bytes \<times> bytes) option"
  wfDKParams :: "dkParams option"

record walletEnv =
  weCrypto :: cryptoOps
  wePubKey :: "bytes \<Rightarrow> bytes"
  wePbkdf2 :: "bytes \<Rightarrow> bytes \<Rightarrow> int \<Rightarrow> int \<Rightarrow> bytes"
  weEncrypt :: "bytes \<Rightarrow> bytes \<Rightarrow> bytes \<Rightarrow> bytes"
  weDecrypt :: "bytes \<Rightarrow> bytes \<Rightarrow> bytes \<Rightarrow> bytes"
  weJson :: "walletFile jsonOps"

definition SymmAlgo :: string where "SymmAlgo = ''aes-256-cbc''"
definition AsymmAlgo :: string where "AsymmAlgo = ''secp256k1''"
definition DKLEN :: int where "DKLEN = 32"

text \<open>\<^verbatim>\<open>aes.BlockSize\<close>, and the key lengths \<^verbatim>\<open>aes.NewCipher\<close> takes. A CBC mode panics on an initial vector of
  another length and on an input that is not a number of blocks.\<close>

definition aesBlockSize :: nat where "aesBlockSize = 16"

definition aes_NewCipher :: "bytes \<Rightarrow> string option" where
  "aes_NewCipher key = (if length key \<in> {16, 24, 32} then None else Some ''crypto/aes: invalid key size'')"

definition cbc_CryptBlocks :: "(bytes \<Rightarrow> bytes) \<Rightarrow> bytes \<Rightarrow> bytes \<Rightarrow> bytes res" where
  "cbc_CryptBlocks f iv src =
     (if length iv \<noteq> aesBlockSize then Inl (Panic ''cipher.NewCBC: IV length must equal block size'')
      else if length src mod aesBlockSize \<noteq> 0 then Inl (Panic ''crypto/cipher: input not full blocks'')
      else Inr (f src))"

definition kdfIter :: "bytes \<Rightarrow> int" where
  "kdfIter salt = 600000 + uint (salt ! 0)"

text \<open>Encrypting the key bytes under a passphrase. The padded text is made by \<^verbatim>\<open>append\<close> on the key's slice
  and cleared afterwards.\<close>

definition sealKey :: "walletEnv \<Rightarrow> bytes \<Rightarrow> bytes \<Rightarrow> slice \<Rightarrow> bytes \<Rightarrow> heap \<Rightarrow> (cipherTextParams \<times> dkParams) res \<times> heap" where
  "sealKey E salt iv keyBytes pass h =
     (let sk = wePbkdf2 E pass salt (kdfIter salt) DKLEN;
          dk = \<lparr>dkAlgo = ''pbkdf2'', dkPrf = DefaultHasherName, dkIter = kdfIter salt, dkSalt = salt, dkLen = DKLEN\<rparr>
      in case aes_NewCipher sk of
           Some err \<Rightarrow> (Inl (Panic err), h)
         | None \<Rightarrow>
             (case PKCS7Padding (slice_read h keyBytes) (int aesBlockSize) of
                Inl (Panic p) \<Rightarrow> (Inl (Panic p), h)
              | Inl (Error err) \<Rightarrow> (Inl (Panic (xerror_Error err)), h)
              | Inr padded \<Rightarrow>
                  (let (plaintext, h) = slice_append keyBytes (drop (slLen keyBytes) padded) h in
                   case cbc_CryptBlocks (weEncrypt E sk iv) iv (slice_read h plaintext) of
                     Inl p \<Rightarrow> (Inl p, h)
                   | Inr out \<Rightarrow>
                       (let (ciphertext, h) = slice_make out h;
                            h = ClearCredential plaintext h
                        in (Inr (\<lparr>cpAlgo = SymmAlgo, cpText = ciphertext, cpIv = iv\<rparr>, dk), h)))))"

definition NewWalletKeyWith :: "walletEnv \<Rightarrow> bytes \<Rightarrow> bytes \<Rightarrow> slice \<Rightarrow> bytes option \<Rightarrow> heap \<Rightarrow> WalletKey res \<times> heap" where
  "NewWalletKeyWith E salt iv keyBytes pass h =
     bindE
       (case pass of
          Some s \<Rightarrow> bindE (sealKey E salt iv keyBytes s h) (\<lambda>(cp, dk) h. (Inr (cp, Some dk, None), h))
        | None \<Rightarrow>
            (let (prvKey, h) = slice_append keyBytes [] h
             in (Inr (\<lparr>cpAlgo = SymmAlgo, cpText = keyBytes, cpIv = []\<rparr>, None, Some prvKey), h)))
       (\<lambda>(cp, dk, prvKey) h.
          let pubKey = wePubKey E (slice_read h keyBytes)
          in (Inr \<lparr>wkVersion = 1, wkAddress = PubBytes2Addr (weCrypto E) pubKey, wkAlgo = AsymmAlgo, wkCipherTextParams = Some cp,
                   wkDKParams = dk, wkPrvKey = prvKey, wkPubKey = pubKey\<rparr>, h))"

definition WalletKey_IsLock :: "WalletKey \<Rightarrow> bool" where
  "WalletKey_IsLock wk \<longleftrightarrow> wkPrvKey wk = None"

definition WalletKey_Lock :: "WalletKey \<times> heap \<Rightarrow> WalletKey \<times> heap" where
  "WalletKey_Lock s =
     (let (wk, h) = s
      in (wk\<lparr>wkPrvKey := None\<rparr>, case wkPrvKey wk of None \<Rightarrow> h | Some prvKey \<Rightarrow> ClearCredential prvKey h))"

definition WalletKey_LockWith :: "walletEnv \<Rightarrow> bytes \<Rightarrow> bytes \<Rightarrow> bytes \<Rightarrow> WalletKey \<times> heap \<Rightarrow> unit res \<times> WalletKey \<times> heap" where
  "WalletKey_LockWith E salt iv pass s =
     (let (wk, h) = s in
      case wkPrvKey wk of
        None \<Rightarrow> (Inr (), wk, h)
      | Some prvKey \<Rightarrow>
          (case sealKey E salt iv prvKey pass h of
             (Inl p, h) \<Rightarrow> (Inl p, WalletKey_Lock (wk, h))
           | (Inr (cp, dk), h) \<Rightarrow> (Inr (), WalletKey_Lock (wk\<lparr>wkCipherTextParams := Some cp, wkDKParams := Some dk\<rparr>, h))))"

text \<open>The decrypted bytes of \<^verbatim>\<open>Unlock\<close> with a passphrase; the un-padded key is a prefix of their array.\<close>

definition openKey :: "walletEnv \<Rightarrow> bytes \<Rightarrow> WalletKey \<Rightarrow> heap \<Rightarrow> slice res \<times> heap" where
  "openKey E s wk h =
     (case wkDKParams wk of
        None \<Rightarrow> (Inl nilPointer, h)
      | Some dk \<Rightarrow>
          (case wkCipherTextParams wk of
             None \<Rightarrow> (Inl nilPointer, h)
           | Some cp \<Rightarrow>
               (let sk = wePbkdf2 E s (dkSalt dk) (dkIter dk) (dkLen dk) in
                case aes_NewCipher sk of
                  Some err \<Rightarrow> (Inl (Error (PlainError err)), h)
                | None \<Rightarrow>
                    (case cbc_CryptBlocks (weDecrypt E sk (cpIv cp)) (cpIv cp) (slice_read h (cpText cp)) of
                       Inl p \<Rightarrow> (Inl p, h)
                     | Inr out \<Rightarrow>
                         (let (prvKey, h) = slice_make out h in
                          case PKCS7UnPadding out (int aesBlockSize) of
                            Inl err \<Rightarrow> (Inl err, h)
                          | Inr unpadded \<Rightarrow> (Inr (prvKey\<lparr>slLen := length unpadded\<rparr>), h))))))"

definition WalletKey_Unlock :: "walletEnv \<Rightarrow> bytes option \<Rightarrow> WalletKey \<times> heap \<Rightarrow> unit res \<times> WalletKey \<times> heap" where
  "WalletKey_Unlock E pass st =
     (let (wk, h) = st in
      if \<not> WalletKey_IsLock wk then (Inr (), wk, h)
      else
        (let (r, h) =
           (case pass of
              Some s \<Rightarrow> openKey E s wk h
            | None \<Rightarrow>
                (case wkDKParams wk of
                   None \<Rightarrow>
                     (case wkCipherTextParams wk of
                        None \<Rightarrow> (Inl nilPointer, h)
                      | Some cp \<Rightarrow> (let (prvKey, h) = slice_make (slice_read h (cpText cp)) h in (Inr prvKey, h)))
                 | Some dk \<Rightarrow> (Inl (Error (PlainError ''wrong passphrase: the passphrase can not be empty'')), h)))
         in case r of
              Inl err \<Rightarrow> (Inl err, wk, h)
            | Inr prvKey \<Rightarrow> (Inr (), wk\<lparr>wkPrvKey := Some prvKey, wkPubKey := wePubKey E (slice_read h prvKey)\<rparr>, h)))"

text \<open>\<^verbatim>\<open>PrvKeyClone\<close>; reading \<^verbatim>\<open>PrvKey()\<close> reads the slice itself.\<close>

definition WalletKey_PrvKey :: "WalletKey \<Rightarrow> slice option" where
  "WalletKey_PrvKey wk = wkPrvKey wk"

definition WalletKey_PrvKeyClone :: "WalletKey \<times> heap \<Rightarrow> slice option \<times> heap" where
  "WalletKey_PrvKeyClone s =
     (let (wk, h) = s in
      case wkPrvKey wk of
        None \<Rightarrow> (None, h)
      | Some prvKey \<Rightarrow> (let (r, h) = slice_make (slice_read h prvKey) h in (Some r, h)))"

definition WalletKey_Sign :: "walletEnv \<Rightarrow> bytes \<Rightarrow> WalletKey \<times> heap \<Rightarrow> bytes res" where
  "WalletKey_Sign E msg s =
     (let (wk, h) = s in
      case wkPrvKey wk of
        None \<Rightarrow> Inl (Error (xerrors_NewOrdinary ''error: WalletKey is locked''))
      | Some prvKey \<Rightarrow>
          (case coSign (weCrypto E) (DefaultHash (weCrypto E) [msg]) (slice_read h prvKey) of
             Inl err \<Rightarrow> Inl (Error (PlainError err))
           | Inr sig \<Rightarrow> Inr sig))"

definition WalletKey_VerifySig :: "walletEnv \<Rightarrow> bytes \<Rightarrow> bytes \<Rightarrow> WalletKey \<Rightarrow> bool" where
  "WalletKey_VerifySig E msg sig wk = coVerify (weCrypto E) (wkPubKey wk) (DefaultHash (weCrypto E) [msg]) sig"

definition WalletKey_PubKey :: "WalletKey \<Rightarrow> bytes" where
  "WalletKey_PubKey wk = wkPubKey wk"

definition walletFile_of :: "WalletKey \<times> heap \<Rightarrow> walletFile" where
  "walletFile_of s =
     (let (wk, h) = s
      in \<lparr>wfVersion = wkVersion wk, wfAddress = wkAddress wk, wfAlgo = wkAlgo wk,
          wfCipherTextParams = map_option (\<lambda>cp. (cpAlgo cp, slice_read h (cpText cp), cpIv cp)) (wkCipherTextParams wk),
          wfDKParams = wkDKParams wk\<rparr>)"

text \<open>\<^verbatim>\<open>Save\<close> gives the bytes to the writer; \<^verbatim>\<open>OpenWalletKey\<close> reads at most 1000 of them.\<close>

definition WalletKey_Save :: "walletEnv \<Rightarrow> WalletKey \<times> heap \<Rightarrow> string + bytes" where
  "WalletKey_Save E s = jsonMarshal (weJson E) (walletFile_of s)"

definition wallet_fromFile :: "walletFile \<Rightarrow> heap \<Rightarrow> WalletKey \<times> heap" where
  "wallet_fromFile f h =
     (let (cp, h) = (case wfCipherTextParams f of
                       None \<Rightarrow> (None, h)
                     | Some (algo, text, iv) \<Rightarrow>
                         (let (s, h) = slice_make text h in (Some \<lparr>cpAlgo = algo, cpText = s, cpIv = iv\<rparr>, h)))
      in (\<lparr>wkVersion = wfVersion f, wkAddress = wfAddress f, wkAlgo = wfAlgo f, wkCipherTextParams = cp,
           wkDKParams = wfDKParams f, wkPrvKey = None, wkPubKey = []\<rparr>, h))"

definition OpenWalletKey :: "walletEnv \<Rightarrow> bytes \<Rightarrow> heap \<Rightarrow> (WalletKey \<times> heap) res" where
  "OpenWalletKey E content h =
     (let buf = take 1000 content in
      if buf = [] then Inl (Error (PlainError ''EOF''))
      else case jsonUnmarshal (weJson E) buf of
             Inl err \<Rightarrow> Inl (Error (PlainError err))
           | Inr f \<Rightarrow> Inr (wallet_fromFile f h))"

end
