(* ===== verification/Rigo_SFilePV.thy ===== *)
theory Rigo_SFilePV
  imports Rigo_WalletKey
begin

text \<open>
  The key of a validator and the state that keeps it from signing twice, \<^verbatim>\<open>src/types/crypto/sfile_pv.go\<close>, and
  the file writer of \<^verbatim>\<open>src/libs/file_io.go\<close> it saves the key with. The disk is a map from paths to
  contents. Votes, proposals, the bytes that are signed for them, JSON and the atomic write belong to
  Tendermint and are fields of \<open>pvEnv\<close>. \<^verbatim>\<open>tmos.Exit\<close> ends the process like a panic.
\<close>

section \<open>Votes and proposals\<close>

record Vote =
  voteType :: int
  voteHeight :: int
  voteRound :: int
  voteBlockID :: bytes
  voteTimestamp :: int
  voteSignature :: bytes

record Proposal =
  propHeight :: int
  propRound :: int
  propPolRound :: int
  propBlockID :: bytes
  propTimestamp :: int
  propSignature :: bytes

text \<open>The canonical forms that the signed bytes encode.\<close>

record CanonicalVote =
  cvType :: int
  cvHeight :: int
  cvRound :: int
  cvBlockID :: bytes
  cvTimestamp :: int
  cvChainID :: string

record CanonicalProposal =
  cpHeight :: int
  cpRound :: int
  cpPolRound :: int
  cpBlockID :: bytes
  cpTimestamp :: int
  cpChainID :: string

section \<open>State\<close>

type_synonym files = "string \<Rightarrow> bytes option"

definition stepNone :: int where "stepNone = 0"
definition stepPropose :: int where "stepPropose = 1"
definition stepPrevote :: int where "stepPrevote = 2"
definition stepPrecommit :: int where "stepPrecommit = 3"

record SFilePVKey =
  pkAddress :: bytes
  pkPubKey :: bytes
  pkPrivKey :: bytes
  pkFilePath :: string

record SFilePVLastSignState =
  lsHeight :: int
  lsRound :: int
  lsStep :: int
  lsSignature :: "bytes option"
  lsSignBytes :: "bytes option"
  lsFilePath :: string

record SFilePV =
  pvKey :: SFilePVKey
  pvLastSignState :: SFilePVLastSignState

record pvEnv =
  peWallet :: walletEnv
  peKeySign :: "bytes \<Rightarrow> bytes \<Rightarrow> string + bytes"
  peVoteSignBytes :: "string \<Rightarrow> Vote \<Rightarrow> bytes"
  peProposalSignBytes :: "string \<Rightarrow> Proposal \<Rightarrow> bytes"
  peUnmarshalVote :: "bytes \<Rightarrow> string + CanonicalVote"
  peUnmarshalProposal :: "bytes \<Rightarrow> string + CanonicalProposal"
  peStateJson :: "SFilePVLastSignState jsonOps"
  peWriteFileAtomic :: "string \<Rightarrow> bytes \<Rightarrow> files \<Rightarrow> string option \<times> files"
  peOpenFile :: "string \<Rightarrow> files \<Rightarrow> string option"

text \<open>\<^verbatim>\<open>tmproto.PrevoteType\<close> is 1 and \<^verbatim>\<open>tmproto.PrecommitType\<close> is 2.\<close>

definition voteToStep :: "Vote \<Rightarrow> int res" where
  "voteToStep vote =
     (if voteType vote = 1 then Inr stepPrevote
      else if voteType vote = 2 then Inr stepPrecommit
      else Inl (Panic ''Unknown vote type: %v''))"

section \<open>Files\<close>

text \<open>\<^verbatim>\<open>FileIO.Write\<close>: after the atomic write the file is opened again, which truncates it, and written a
  second time. The result comes with the successive states of the disk.\<close>

definition FileIO_Write :: "pvEnv \<Rightarrow> string \<Rightarrow> bytes \<Rightarrow> files \<Rightarrow> unit res \<times> files list" where
  "FileIO_Write E path d fs =
     (case peWriteFileAtomic E path d fs of
        (Some err, fs) \<Rightarrow> (Inl (Panic err), [fs])
      | (None, fs) \<Rightarrow>
          (case peOpenFile E path fs of
             Some err \<Rightarrow> (Inl (Error (PlainError err)), [fs])
           | None \<Rightarrow> (Inr (), [fs, fs(path \<mapsto> []), fs(path \<mapsto> d)])))"

definition SFilePVKey_SaveWith :: "pvEnv \<Rightarrow> bytes \<Rightarrow> bytes \<Rightarrow> bytes option \<Rightarrow> SFilePVKey \<Rightarrow> files \<Rightarrow> unit res \<times> files list" where
  "SFilePVKey_SaveWith E salt iv s k fs =
     (if pkFilePath k = '''' then (Inl (Panic ''cannot save PrivValidator key: filePath not set''), [])
      else
        (let (keyBytes, h) = slice_make (pkPrivKey k) [] in
         case NewWalletKeyWith (peWallet E) salt iv keyBytes s h of
           (Inl p, h) \<Rightarrow> (Inl p, [])
         | (Inr walKey, h) \<Rightarrow>
             (case WalletKey_Save (peWallet E) (walKey, h) of
                Inl err \<Rightarrow> (Inl (Panic err), [])
              | Inr bz \<Rightarrow>
                  (case FileIO_Write E (pkFilePath k) bz fs of
                     (Inl (Error err), tr) \<Rightarrow> (Inl (Panic (xerror_Error err)), tr)
                   | r \<Rightarrow> r))))"

definition SFilePVLastSignState_Save :: "pvEnv \<Rightarrow> SFilePVLastSignState \<Rightarrow> files \<Rightarrow> unit res \<times> files" where
  "SFilePVLastSignState_Save E lss fs =
     (if lsFilePath lss = '''' then (Inl (Panic ''cannot save SFilePVLastSignState: filePath not set''), fs)
      else case jsonMarshal (peStateJson E) lss of
             Inl err \<Rightarrow> (Inl (Panic err), fs)
           | Inr jsonBytes \<Rightarrow>
               (case peWriteFileAtomic E (lsFilePath lss) jsonBytes fs of
                  (Some err, fs) \<Rightarrow> (Inl (Panic err), fs)
                | (None, fs) \<Rightarrow> (Inr (), fs)))"

section \<open>The last signed state\<close>

definition hrsError :: "string \<Rightarrow> fault" where
  "hrsError msg = Error (xerrors_NewOrdinary msg)"

definition SFilePVLastSignState_CheckHRS :: "int \<Rightarrow> int \<Rightarrow> int \<Rightarrow> SFilePVLastSignState \<Rightarrow> bool res" where
  "SFilePVLastSignState_CheckHRS height round stp lss =
     (if lsHeight lss > height then Inl (hrsError ''height regression. Got %v, last height %v'')
      else if lsHeight lss = height then
        (if lsRound lss > round then Inl (hrsError ''round regression at height %v. Got %v, last round %v'')
         else if lsRound lss = round then
           (if lsStep lss > stp then Inl (hrsError ''step regression at height %v round %v. Got %v, last step %v'')
            else if lsStep lss = stp then
              (if lsSignBytes lss \<noteq> None
               then (if lsSignature lss = None then Inl (Panic ''pv: Signature is nil but SignBytes is not!'') else Inr True)
               else Inl (hrsError ''no SignBytes found''))
            else Inr False)
         else Inr False)
      else Inr False)"

section \<open>Creating, loading and saving\<close>

definition NewSFilePV :: "pvEnv \<Rightarrow> bytes \<Rightarrow> string \<Rightarrow> string \<Rightarrow> SFilePV" where
  "NewSFilePV E privKey keyFilePath stateFilePath =
     \<lparr>pvKey = \<lparr>pkAddress = coPubAddress (weCrypto (peWallet E)) (wePubKey (peWallet E) privKey), pkPubKey = wePubKey (peWallet E) privKey,
        pkPrivKey = privKey, pkFilePath = keyFilePath\<rparr>,
      pvLastSignState = \<lparr>lsHeight = 0, lsRound = 0, lsStep = stepNone, lsSignature = None, lsSignBytes = None, lsFilePath = stateFilePath\<rparr>\<rparr>"

definition loadKey :: "pvEnv \<Rightarrow> string \<Rightarrow> bytes option \<Rightarrow> files \<Rightarrow> bytes res" where
  "loadKey E keyFilePath s fs =
     (case fs keyFilePath of
        None \<Rightarrow> Inl (Panic ''no such file or directory'')
      | Some jsonWalKeyBytes \<Rightarrow>
          (case jsonUnmarshal (weJson (peWallet E)) jsonWalKeyBytes of
             Inl err \<Rightarrow> Inl (Panic err)
           | Inr f \<Rightarrow>
               (case WalletKey_Unlock (peWallet E) s (wallet_fromFile f []) of
                  (Inl (Panic p), walKey, h) \<Rightarrow> Inl (Panic p)
                | (Inl (Error err), walKey, h) \<Rightarrow> Inl (Panic (xerror_Error err))
                | (Inr _, walKey, h) \<Rightarrow> Inr (case WalletKey_PrvKey walKey of None \<Rightarrow> [] | Some keyBytes \<Rightarrow> slice_read h keyBytes))))"

definition loadSFilePV :: "pvEnv \<Rightarrow> string \<Rightarrow> string \<Rightarrow> bool \<Rightarrow> bytes option \<Rightarrow> files \<Rightarrow> SFilePV res" where
  "loadSFilePV E keyFilePath stateFilePath loadState s fs =
     (case loadKey E keyFilePath s fs of
        Inl p \<Rightarrow> Inl p
      | Inr keyBytes \<Rightarrow>
          (let pv = NewSFilePV E keyBytes keyFilePath stateFilePath in
           if loadState then
             (case fs stateFilePath of
                None \<Rightarrow> Inl (Panic ''no such file or directory'')
              | Some stateJSONBytes \<Rightarrow>
                  (case jsonUnmarshal (peStateJson E) stateJSONBytes of
                     Inl err \<Rightarrow> Inl (Panic err)
                   | Inr pvState \<Rightarrow> Inr (pv\<lparr>pvLastSignState := pvState\<lparr>lsFilePath := stateFilePath\<rparr>\<rparr>)))
           else Inr pv))"

definition LoadSFilePV :: "pvEnv \<Rightarrow> string \<Rightarrow> string \<Rightarrow> bytes option \<Rightarrow> files \<Rightarrow> SFilePV res" where
  "LoadSFilePV E keyFilePath stateFilePath s fs = loadSFilePV E keyFilePath stateFilePath True s fs"

definition LoadSFilePVEmptyState :: "pvEnv \<Rightarrow> string \<Rightarrow> string \<Rightarrow> bytes option \<Rightarrow> files \<Rightarrow> SFilePV res" where
  "LoadSFilePVEmptyState E keyFilePath stateFilePath s fs = loadSFilePV E keyFilePath stateFilePath False s fs"

text \<open>\<^verbatim>\<open>SFilePV.SaveWith\<close>, with the successive states of the disk.\<close>

definition SFilePV_SaveWith :: "pvEnv \<Rightarrow> bytes \<Rightarrow> bytes \<Rightarrow> bytes option \<Rightarrow> SFilePV \<Rightarrow> files \<Rightarrow> unit res \<times> files list" where
  "SFilePV_SaveWith E salt iv s pv fs =
     (case SFilePVKey_SaveWith E salt iv s (pvKey pv) fs of
        (Inl p, tr) \<Rightarrow> (Inl p, tr)
      | (Inr _, tr) \<Rightarrow>
          (let (r, fs) = SFilePVLastSignState_Save E (pvLastSignState pv) (last (fs # tr)) in (r, tr @ [fs])))"

text \<open>\<open>fresh\<close> is the key that \<^verbatim>\<open>secp256k1.GenPrivKey\<close> returns.\<close>

definition LoadOrGenSFilePV :: "pvEnv \<Rightarrow> bytes \<Rightarrow> bytes \<Rightarrow> bytes \<Rightarrow> string \<Rightarrow> string \<Rightarrow> bytes option \<Rightarrow> files \<Rightarrow> SFilePV res \<times> files list" where
  "LoadOrGenSFilePV E fresh salt iv keyFilePath stateFilePath s fs =
     (case (if fs keyFilePath \<noteq> None then LoadSFilePV E keyFilePath stateFilePath s fs
            else Inr (NewSFilePV E fresh keyFilePath stateFilePath)) of
        Inl p \<Rightarrow> (Inl p, [])
      | Inr pv \<Rightarrow> (let (r, tr) = SFilePV_SaveWith E salt iv s pv fs in (map_sum id (\<lambda>_. pv) r, tr)))"

definition SFilePV_ResetWith :: "pvEnv \<Rightarrow> bytes \<Rightarrow> bytes \<Rightarrow> bytes option \<Rightarrow> SFilePV \<Rightarrow> files \<Rightarrow> (unit res \<times> files list) \<times> SFilePV" where
  "SFilePV_ResetWith E salt iv s pv fs =
     (let pv = pv\<lparr>pvLastSignState := (pvLastSignState pv)\<lparr>lsHeight := 0, lsRound := 0, lsStep := 0, lsSignature := None, lsSignBytes := None\<rparr>\<rparr>
      in (SFilePV_SaveWith E salt iv s pv fs, pv))"

definition SFilePV_GetAddress :: "SFilePV \<Rightarrow> bytes" where
  "SFilePV_GetAddress pv = pkAddress (pvKey pv)"

definition SFilePV_GetPubKey :: "SFilePV \<Rightarrow> bytes" where
  "SFilePV_GetPubKey pv = pkPubKey (pvKey pv)"

section \<open>Signing\<close>

definition SFilePV_saveSigned :: "pvEnv \<Rightarrow> int \<Rightarrow> int \<Rightarrow> int \<Rightarrow> bytes \<Rightarrow> bytes \<Rightarrow> SFilePV \<times> files \<Rightarrow> unit res \<times> SFilePV \<times> files" where
  "SFilePV_saveSigned E height round stp signBytes sig st =
     (let (pv, fs) = st;
          lss = (pvLastSignState pv)\<lparr>lsHeight := height, lsRound := round, lsStep := stp, lsSignature := Some sig, lsSignBytes := Some signBytes\<rparr>;
          (r, fs) = SFilePVLastSignState_Save E lss fs
      in (r, pv\<lparr>pvLastSignState := lss\<rparr>, fs))"

text \<open>The timestamps are set to one value, here 0, and the messages compared.\<close>

definition checkVotesOnlyDifferByTimestamp :: "pvEnv \<Rightarrow> bytes \<Rightarrow> bytes \<Rightarrow> (int \<times> bool) res" where
  "checkVotesOnlyDifferByTimestamp E lastSignBytes newSignBytes =
     (case peUnmarshalVote E lastSignBytes of
        Inl err \<Rightarrow> Inl (Panic ''LastSignBytes cannot be unmarshalled into vote: %v'')
      | Inr lastVote \<Rightarrow>
          (case peUnmarshalVote E newSignBytes of
             Inl err \<Rightarrow> Inl (Panic ''signBytes cannot be unmarshalled into vote: %v'')
           | Inr newVote \<Rightarrow> Inr (cvTimestamp lastVote, newVote\<lparr>cvTimestamp := 0\<rparr> = lastVote\<lparr>cvTimestamp := 0\<rparr>)))"

definition checkProposalsOnlyDifferByTimestamp :: "pvEnv \<Rightarrow> bytes \<Rightarrow> bytes \<Rightarrow> (int \<times> bool) res" where
  "checkProposalsOnlyDifferByTimestamp E lastSignBytes newSignBytes =
     (case peUnmarshalProposal E lastSignBytes of
        Inl err \<Rightarrow> Inl (Panic ''LastSignBytes cannot be unmarshalled into proposal: %v'')
      | Inr lastProposal \<Rightarrow>
          (case peUnmarshalProposal E newSignBytes of
             Inl err \<Rightarrow> Inl (Panic ''signBytes cannot be unmarshalled into proposal: %v'')
           | Inr newProposal \<Rightarrow> Inr (cpTimestamp lastProposal, newProposal\<lparr>cpTimestamp := 0\<rparr> = lastProposal\<lparr>cpTimestamp := 0\<rparr>)))"

definition SFilePV_signVote :: "pvEnv \<Rightarrow> string \<Rightarrow> Vote \<Rightarrow> SFilePV \<times> files \<Rightarrow> Vote res \<times> SFilePV \<times> files" where
  "SFilePV_signVote E chainID vote st =
     (let lss = pvLastSignState (fst st); height = voteHeight vote; round = voteRound vote in
      case voteToStep vote of
        Inl p \<Rightarrow> (Inl p, st)
      | Inr stp \<Rightarrow>
          (case SFilePVLastSignState_CheckHRS height round stp lss of
             Inl err \<Rightarrow> (Inl err, st)
           | Inr sameHRS \<Rightarrow>
               (let signBytes = peVoteSignBytes E chainID vote in
                if sameHRS then
                  (let lastSignBytes = (case lsSignBytes lss of None \<Rightarrow> [] | Some b \<Rightarrow> b);
                       lastSignature = (case lsSignature lss of None \<Rightarrow> [] | Some b \<Rightarrow> b)
                   in (if signBytes = lastSignBytes then Inr (vote\<lparr>voteSignature := lastSignature\<rparr>)
                       else case checkVotesOnlyDifferByTimestamp E lastSignBytes signBytes of
                              Inl p \<Rightarrow> Inl p
                            | Inr (timestamp, ok) \<Rightarrow>
                                if ok then Inr (vote\<lparr>voteTimestamp := timestamp, voteSignature := lastSignature\<rparr>)
                                else Inl (hrsError ''conflicting data''), st))
                else
                  (case peKeySign E (pkPrivKey (pvKey (fst st))) signBytes of
                     Inl err \<Rightarrow> (Inl (Error (PlainError err)), st)
                   | Inr sig \<Rightarrow>
                       bindE (SFilePV_saveSigned E height round stp signBytes sig st)
                         (\<lambda>_ st. (Inr (vote\<lparr>voteSignature := sig\<rparr>), st))))))"

definition SFilePV_signProposal :: "pvEnv \<Rightarrow> string \<Rightarrow> Proposal \<Rightarrow> SFilePV \<times> files \<Rightarrow> Proposal res \<times> SFilePV \<times> files" where
  "SFilePV_signProposal E chainID proposal st =
     (let lss = pvLastSignState (fst st); height = propHeight proposal; round = propRound proposal; stp = stepPropose in
      case SFilePVLastSignState_CheckHRS height round stp lss of
        Inl err \<Rightarrow> (Inl err, st)
      | Inr sameHRS \<Rightarrow>
          (let signBytes = peProposalSignBytes E chainID proposal in
           if sameHRS then
             (let lastSignBytes = (case lsSignBytes lss of None \<Rightarrow> [] | Some b \<Rightarrow> b);
                  lastSignature = (case lsSignature lss of None \<Rightarrow> [] | Some b \<Rightarrow> b)
              in (if signBytes = lastSignBytes then Inr (proposal\<lparr>propSignature := lastSignature\<rparr>)
                  else case checkProposalsOnlyDifferByTimestamp E lastSignBytes signBytes of
                         Inl p \<Rightarrow> Inl p
                       | Inr (timestamp, ok) \<Rightarrow>
                           if ok then Inr (proposal\<lparr>propTimestamp := timestamp, propSignature := lastSignature\<rparr>)
                           else Inl (hrsError ''conflicting data''), st))
           else
             (case peKeySign E (pkPrivKey (pvKey (fst st))) signBytes of
                Inl err \<Rightarrow> (Inl (Error (PlainError err)), st)
              | Inr sig \<Rightarrow>
                  bindE (SFilePV_saveSigned E height round stp signBytes sig st)
                    (\<lambda>_ st. (Inr (proposal\<lparr>propSignature := sig\<rparr>), st)))))"

definition signErr :: "string \<Rightarrow> 'a res \<Rightarrow> 'a res" where
  "signErr msg r = (case r of Inl (Error e) \<Rightarrow> Inl (Error (xerrors_NewOrdinary (msg @ xerror_Error e))) | _ \<Rightarrow> r)"

definition SFilePV_SignVote :: "pvEnv \<Rightarrow> string \<Rightarrow> Vote \<Rightarrow> SFilePV \<times> files \<Rightarrow> Vote res \<times> SFilePV \<times> files" where
  "SFilePV_SignVote E chainID vote st = apfst (signErr ''error signing vote: '') (SFilePV_signVote E chainID vote st)"

definition SFilePV_SignProposal :: "pvEnv \<Rightarrow> string \<Rightarrow> Proposal \<Rightarrow> SFilePV \<times> files \<Rightarrow> Proposal res \<times> SFilePV \<times> files" where
  "SFilePV_SignProposal E chainID proposal st = apfst (signErr ''error signing proposal: '') (SFilePV_signProposal E chainID proposal st)"

end
