(* ===== verification/Rigo_WalletProps.thy ===== *)
theory Rigo_WalletProps
  imports Rigo_WalletKey
begin

text \<open>
  What locking and unlocking a wallet key keeps: the key comes back under its passphrase, in memory, after a
  change of the passphrase and from its file; a key without a passphrase does not survive its lock.
\<close>

definition wallet_laws :: "walletEnv \<Rightarrow> bool" where
  "wallet_laws E \<longleftrightarrow>
     (\<forall>pass salt iter n. length (wePbkdf2 E pass salt iter n) = nat n) \<and>
     (\<forall>key iv p. length key = 32 \<longrightarrow> length iv = aesBlockSize \<longrightarrow> length p mod aesBlockSize = 0 \<longrightarrow>
        length (weEncrypt E key iv p) = length p \<and> weDecrypt E key iv (weEncrypt E key iv p) = p)"

definition slice_ok :: "heap \<Rightarrow> slice \<Rightarrow> bool" where
  "slice_ok h s \<longleftrightarrow> slArr s < length h \<and> slLen s \<le> length (h ! slArr s)"

text \<open>A slice without spare room.\<close>

definition slice_full :: "heap \<Rightarrow> slice \<Rightarrow> bool" where
  "slice_full h s \<longleftrightarrow> slArr s < length h \<and> slLen s = length (h ! slArr s)"

lemma slice_full_ok: "slice_full h s \<Longrightarrow> slice_ok h s"
  by (simp add: slice_full_def slice_ok_def)

lemma length_slice_read: "slice_ok h s \<Longrightarrow> length (slice_read h s) = slLen s"
  by (simp add: slice_ok_def slice_read_def)

lemma slice_make_read:
  "slice_make bz h = (s, h') \<Longrightarrow> slice_read h' s = bz"
  "slice_make bz h = (s, h') \<Longrightarrow> slArr s = length h"
  "slice_make bz h = (s, h') \<Longrightarrow> slice_full h' s"
  "slice_make bz h = (s, h') \<Longrightarrow> h' = h @ [bz]"
  by (auto simp: slice_make_def slice_read_def slice_full_def)

lemma slice_append_read:
  assumes "slice_ok h s" "slice_append s bz h = (s', h')"
  shows "slice_read h' s' = slice_read h s @ bz" "slice_ok h' s'" "length h \<le> length h'"
    "\<And>a. a < length h \<Longrightarrow> a \<noteq> slArr s \<Longrightarrow> h' ! a = h ! a"
    "slice_full h s \<Longrightarrow> bz \<noteq> [] \<Longrightarrow> slArr s' = length h \<and> h' ! slArr s = h ! slArr s"
    "slArr s' = slArr s \<or> slArr s' = length h"
  using assms
  by (auto simp: slice_append_def Let_def slice_ok_def slice_full_def slice_read_def slice_make_def nth_append split: if_splits)

lemma ClearCredential_read:
  assumes "slice_ok h s"
  shows "slice_read (ClearCredential s h) s = replicate (slLen s) 0" "length (ClearCredential s h) = length h"
    "\<And>a. a \<noteq> slArr s \<Longrightarrow> ClearCredential s h ! a = h ! a" "length (ClearCredential s h ! a) = length (h ! a)"
proof -
  have e: "map (\<lambda>_. 0 :: byte) xs = replicate (length xs) 0" for xs :: bytes
    by (simp add: map_replicate_const)
  show "slice_read (ClearCredential s h) s = replicate (slLen s) 0"
    using assms by (simp add: ClearCredential_def slice_read_def slice_ok_def ClearBytes_def e)
  show "length (ClearCredential s h ! a) = length (h ! a)"
    using assms by (cases "a = slArr s") (simp_all add: ClearCredential_def slice_read_def slice_ok_def ClearBytes_def)
qed (simp_all add: ClearCredential_def)

text \<open>What sealing stores.\<close>

definition dkOf :: "bytes \<Rightarrow> dkParams" where
  "dkOf salt = \<lparr>dkAlgo = ''pbkdf2'', dkPrf = DefaultHasherName, dkIter = kdfIter salt, dkSalt = salt, dkLen = DKLEN\<rparr>"

definition padded :: "bytes \<Rightarrow> bytes" where
  "padded k = k @ replicate (padLen (length k) aesBlockSize) (of_nat (padLen (length k) aesBlockSize))"

definition sealedText :: "walletEnv \<Rightarrow> bytes \<Rightarrow> bytes \<Rightarrow> bytes \<Rightarrow> bytes \<Rightarrow> bytes" where
  "sealedText E salt iv pass k = weEncrypt E (wePbkdf2 E pass salt (kdfIter salt) DKLEN) iv (padded k)"

lemma padded_facts:
  assumes "k \<noteq> []"
  shows "PKCS7Padding k (int aesBlockSize) = Inr (padded k)" "PKCS7UnPadding (padded k) (int aesBlockSize) = Inr k"
    "length (padded k) mod aesBlockSize = 0" "drop (length k) (padded k) \<noteq> []" "take (length k) (padded k) = k"
proof -
  have b: "0 < aesBlockSize" "aesBlockSize < 256"
    by (simp_all add: aesBlockSize_def)
  show "PKCS7Padding k (int aesBlockSize) = Inr (padded k)" "PKCS7UnPadding (padded k) (int aesBlockSize) = Inr k"
    using PKCS7_block [OF b(1) assms] PKCS7_unpad_pad [OF b assms] by (simp_all add: padded_def)
  show "length (padded k) mod aesBlockSize = 0" "drop (length k) (padded k) \<noteq> []" "take (length k) (padded k) = k"
    using padLen_bounds [OF b(1), of "length k"] by (simp_all add: padded_def)
qed

lemma wallet_key_length: "wallet_laws E \<Longrightarrow> length (wePbkdf2 E pass salt iter DKLEN) = 32"
  by (simp add: wallet_laws_def DKLEN_def)

lemma sealKey_result:
  assumes laws: "wallet_laws E" and iv: "length iv = aesBlockSize" and s: "slice_ok h s" and k: "slice_read h s = k" "k \<noteq> []"
  obtains t h' where "sealKey E salt iv s pass h = (Inr (\<lparr>cpAlgo = SymmAlgo, cpText = t, cpIv = iv\<rparr>, dkOf salt), h')"
    "slice_read h' t = sealedText E salt iv pass k" "slice_ok h' t" "length h \<le> slArr t" "length h \<le> length h'"
    "slice_full h s \<Longrightarrow> h' ! slArr s = h ! slArr s" "slice_ok h' s"
proof -
  obtain p h1 where a: "slice_append s (drop (slLen s) (padded k)) h = (p, h1)"
    by (rule prod.exhaust)
  note a' = slice_append_read [OF s a]
  have l: "slLen s = length k"
    using length_slice_read [OF s] k(1) by simp
  have p: "slice_read h1 p = padded k"
    unfolding a'(1) k(1) l using padded_facts(5) [OF k(2)] append_take_drop_id [of "length k" "padded k"] by simp
  obtain t h2 where t: "slice_make (sealedText E salt iv pass k) h1 = (t, h2)"
    by (rule prod.exhaust)
  note t' = slice_make_read [OF t]
  define h' where "h' = ClearCredential p h2"
  have p2: "slice_ok h2 p" "slArr p < length h1"
    using a'(2) by (simp_all add: t'(4) slice_ok_def nth_append)
  note c = ClearCredential_read [OF p2(1), folded h'_def]
  have e: "sealKey E salt iv s pass h = (Inr (\<lparr>cpAlgo = SymmAlgo, cpText = t, cpIv = iv\<rparr>, dkOf salt), h')"
    using padded_facts(1,3) [OF k(2)] wallet_key_length [OF laws] iv
    by (simp add: sealKey_def Let_def aes_NewCipher_def k(1) a p cbc_CryptBlocks_def t sealedText_def [symmetric] h'_def dkOf_def)
  have "h' ! slArr t = h2 ! slArr t"
    using c(3) p2(2) t'(2) by simp
  then have r: "slice_read h' t = sealedText E salt iv pass k" "slice_ok h' t"
    using t'(1,3) c(2) by (simp_all add: slice_read_def slice_ok_def slice_full_def)
  have f: "h' ! slArr s = h ! slArr s" if "slice_full h s"
  proof -
    have "slArr p = length h" "h1 ! slArr s = h ! slArr s" "slArr s < length h"
      using a'(5) [OF that] padded_facts(4) [OF k(2)] l that by (simp_all add: slice_full_def)
    then show ?thesis
      using c(3) [of "slArr s"] a'(3) by (simp add: t'(4) nth_append)
  qed
  have "length (h1 ! slArr s) \<ge> slLen s"
    using a s l by (auto simp: slice_append_def Let_def slice_ok_def slice_make_def nth_append split: if_splits)
  then have o: "slice_ok h' s"
    using s a'(3) c(2,4) by (simp add: slice_ok_def t'(4) nth_append)
  show thesis
    by (rule that [OF e r _ _ f o]) (use a'(3) c(2) t'(2,4) in simp_all)
qed

lemma openKey_opens:
  assumes laws: "wallet_laws E" and iv: "length iv = aesBlockSize" and k: "k \<noteq> []"
    and wk: "wkDKParams wk = Some (dkOf salt)" "wkCipherTextParams wk = Some cp" "cpIv cp = iv" "slice_read h (cpText cp) = sealedText E salt iv pass k"
  shows "openKey E pass wk h = (Inr \<lparr>slArr = length h, slLen = length k\<rparr>, h @ [padded k])"
proof -
  have d: "weDecrypt E (wePbkdf2 E pass salt (kdfIter salt) DKLEN) iv (sealedText E salt iv pass k) = padded k"
    "length (sealedText E salt iv pass k) mod aesBlockSize = 0"
    using laws iv padded_facts(3) [OF k] wallet_key_length [OF laws] by (simp_all add: wallet_laws_def sealedText_def)
  show ?thesis
    using padded_facts(2) [OF k] wallet_key_length [OF laws] iv
    by (simp add: openKey_def wk dkOf_def Let_def aes_NewCipher_def cbc_CryptBlocks_def d slice_make_def)
qed

lemma opened_read:
  assumes "k \<noteq> []"
  shows "slice_read (h @ [padded k]) \<lparr>slArr = length h, slLen = length k\<rparr> = k" "slice_ok (h @ [padded k]) \<lparr>slArr = length h, slLen = length k\<rparr>"
  using padded_facts(5) [OF assms] by (simp_all add: slice_read_def slice_ok_def padded_def)

text \<open>The private key a wallet key holds in memory.\<close>

definition key_bytes :: "WalletKey \<times> heap \<Rightarrow> bytes option" where
  "key_bytes st = map_option (slice_read (snd st)) (wkPrvKey (fst st))"

definition sealed :: "walletEnv \<Rightarrow> bytes \<Rightarrow> bytes \<Rightarrow> bytes \<Rightarrow> bytes \<Rightarrow> WalletKey \<times> heap \<Rightarrow> bool" where
  "sealed E salt iv pass k st \<longleftrightarrow> wkPrvKey (fst st) = None \<and> wkDKParams (fst st) = Some (dkOf salt) \<and>
     (\<exists>cp. wkCipherTextParams (fst st) = Some cp \<and> cpIv cp = iv \<and> slice_read (snd st) (cpText cp) = sealedText E salt iv pass k)"

lemma unlock_sealed:
  assumes "wallet_laws E" "length iv = aesBlockSize" "k \<noteq> []" "sealed E salt iv pass k (wk, h)"
  shows "WalletKey_Unlock E (Some pass) (wk, h) =
    (Inr (), wk\<lparr>wkPrvKey := Some \<lparr>slArr = length h, slLen = length k\<rparr>, wkPubKey := wePubKey E k\<rparr>, h @ [padded k])"
  using assms openKey_opens [OF assms(1-3)] opened_read(1) [OF assms(3), of h]
  by (auto simp: WalletKey_Unlock_def WalletKey_IsLock_def sealed_def)

lemma lockWith_seals:
  assumes laws: "wallet_laws E" and iv: "length iv = aesBlockSize" and k: "k \<noteq> []"
    and s: "wkPrvKey wk = Some s" "slice_ok h s" "slice_read h s = k"
  obtains wk' h' where "WalletKey_LockWith E salt iv pass (wk, h) = (Inr (), wk', h')" "sealed E salt iv pass k (wk', h')"
    "slice_read h' s = replicate (length k) 0"
proof -
  obtain t h1 where e: "sealKey E salt iv s pass h = (Inr (\<lparr>cpAlgo = SymmAlgo, cpText = t, cpIv = iv\<rparr>, dkOf salt), h1)"
    "slice_read h1 t = sealedText E salt iv pass k" "slice_ok h1 t" "length h \<le> slArr t" "slice_ok h1 s"
    using sealKey_result [OF laws iv s(2,3) k] by metis
  note c = ClearCredential_read [OF e(5)]
  have "slArr t \<noteq> slArr s"
    using e(4) s(2) by (auto simp: slice_ok_def)
  then have "slice_read (ClearCredential s h1) t = sealedText E salt iv pass k"
    using c(3) e(2) by (simp add: slice_read_def)
  moreover have "slLen s = length k"
    using length_slice_read [OF s(2)] s(3) by simp
  moreover define wk' where "wk' = wk\<lparr>wkCipherTextParams := Some \<lparr>cpAlgo = SymmAlgo, cpText = t, cpIv = iv\<rparr>, wkDKParams := Some (dkOf salt), wkPrvKey := None\<rparr>"
  moreover have "WalletKey_LockWith E salt iv pass (wk, h) = (Inr (), wk', ClearCredential s h1)"
    by (simp add: WalletKey_LockWith_def s(1) e(1) WalletKey_Lock_def wk'_def)
  ultimately show thesis
    using that c(1) by (simp add: sealed_def)
qed

lemma open_saved:
  assumes "json_laws (weJson E)" "sealed E salt iv pass k st" "WalletKey_Save E st = Inr bz" "bz \<noteq> []" "length bz \<le> 1000"
  obtains wk h' where "OpenWalletKey E bz g = Inr (wk, h')" "sealed E salt iv pass k (wk, h')"
proof -
  obtain cp where cp: "wkCipherTextParams (fst st) = Some cp" "cpIv cp = iv" "slice_read (snd st) (cpText cp) = sealedText E salt iv pass k"
    "wkDKParams (fst st) = Some (dkOf salt)"
    using assms(2) by (auto simp: sealed_def)
  have "jsonUnmarshal (weJson E) bz = Inr (walletFile_of st)"
    using assms(1,3) by (metis Inr_inject WalletKey_Save_def json_laws_def)
  then have o: "OpenWalletKey E bz g = Inr (wallet_fromFile (walletFile_of st) g)"
    using assms(4,5) by (simp add: OpenWalletKey_def)
  obtain wk h' where w: "wallet_fromFile (walletFile_of st) g = (wk, h')"
    by (rule prod.exhaust)
  then have "sealed E salt iv pass k (wk, h')"
    using cp by (auto simp: wallet_fromFile_def walletFile_of_def sealed_def slice_make_def slice_read_def split: prod.splits)
  then show thesis
    using that o w by simp
qed

text \<open>C34. A key made with a passphrase (\<^verbatim>\<open>wallet_key.go\<close>) is locked and leaves the caller's bytes alone. Unlocking without
  a passphrase fails; unlocking with the passphrase brings the key and its public key back. Locking it
  with a new passphrase wipes the key from memory, and the key comes back with the new passphrase, also
  after it was saved and opened from its file (which must have at most 1000 bytes).\<close>

theorem WalletKey_roundtrip:
  assumes laws: "wallet_laws E" "json_laws (weJson E)" and iv: "length iv = aesBlockSize" "length iv' = aesBlockSize"
    and s: "slice_full h s" and k: "slice_read h s = k" "k \<noteq> []"
  shows "\<exists>wk h1 wk2 h2 wk3 h3 wk4 h4.
    NewWalletKeyWith E salt iv s (Some pass) h = (Inr wk, h1) \<and> WalletKey_IsLock wk \<and> slice_read h1 s = k \<and>
    WalletKey_Unlock E None (wk, h1) = (Inl (Error (PlainError ''wrong passphrase: the passphrase can not be empty'')), wk, h1) \<and>
    WalletKey_Unlock E (Some pass) (wk, h1) = (Inr (), wk2, h2) \<and> key_bytes (wk2, h2) = Some k \<and> WalletKey_PubKey wk2 = wePubKey E k \<and>
    WalletKey_LockWith E salt' iv' pass' (wk2, h2) = (Inr (), wk3, h3) \<and> WalletKey_IsLock wk3 \<and> key_bytes (wk2, h3) = Some (replicate (length k) 0) \<and>
    WalletKey_Unlock E (Some pass') (wk3, h3) = (Inr (), wk4, h4) \<and> key_bytes (wk4, h4) = Some k \<and>
    (\<forall>bz g. WalletKey_Save E (wk3, h3) = Inr bz \<and> bz \<noteq> [] \<and> length bz \<le> 1000 \<longrightarrow>
       (\<exists>wk5 h5 wk6 h6. OpenWalletKey E bz g = Inr (wk5, h5) \<and> WalletKey_Unlock E (Some pass') (wk5, h5) = (Inr (), wk6, h6) \<and>
          key_bytes (wk6, h6) = Some k))"
proof -
  obtain t h1 where e: "sealKey E salt iv s pass h = (Inr (\<lparr>cpAlgo = SymmAlgo, cpText = t, cpIv = iv\<rparr>, dkOf salt), h1)"
    "slice_read h1 t = sealedText E salt iv pass k" "h1 ! slArr s = h ! slArr s"
    using sealKey_result [OF laws(1) iv(1) slice_full_ok [OF s] k] s by metis
  have r: "slice_read h1 s = k"
    using k(1) e(3) by (simp add: slice_read_def)
  define wk where "wk = \<lparr>wkVersion = 1, wkAddress = PubBytes2Addr (weCrypto E) (wePubKey E k), wkAlgo = AsymmAlgo,
    wkCipherTextParams = Some \<lparr>cpAlgo = SymmAlgo, cpText = t, cpIv = iv\<rparr>, wkDKParams = Some (dkOf salt), wkPrvKey = None, wkPubKey = wePubKey E k\<rparr>"
  have w: "NewWalletKeyWith E salt iv s (Some pass) h = (Inr wk, h1)" "sealed E salt iv pass k (wk, h1)"
    by (simp_all add: NewWalletKeyWith_def Let_def e(1,2) r wk_def sealed_def)
  define s2 where "s2 = \<lparr>slArr = length h1, slLen = length k\<rparr>"
  define wk2 where "wk2 = wk\<lparr>wkPrvKey := Some s2, wkPubKey := wePubKey E k\<rparr>"
  define h2 where "h2 = h1 @ [padded k]"
  have u: "WalletKey_Unlock E (Some pass) (wk, h1) = (Inr (), wk2, h2)"
    using unlock_sealed [OF laws(1) iv(1) k(2) w(2)] by (simp add: wk2_def h2_def s2_def)
  have s2: "wkPrvKey wk2 = Some s2" "slice_ok h2 s2" "slice_read h2 s2 = k" "WalletKey_PubKey wk2 = wePubKey E k"
    using opened_read [OF k(2), of h1] by (simp_all add: wk2_def h2_def s2_def WalletKey_PubKey_def)
  obtain wk3 h3 where l: "WalletKey_LockWith E salt' iv' pass' (wk2, h2) = (Inr (), wk3, h3)" "sealed E salt' iv' pass' k (wk3, h3)"
    "slice_read h3 s2 = replicate (length k) 0"
    using lockWith_seals [OF laws(1) iv(2) k(2) s2(1-3)] by metis
  have open_k: "\<exists>wk6 h6. WalletKey_Unlock E (Some pass') st = (Inr (), wk6, h6) \<and> key_bytes (wk6, h6) = Some k"
    if "sealed E salt' iv' pass' k st" for st
    using unlock_sealed [OF laws(1) iv(2) k(2)] that opened_read(1) [OF k(2)] by (cases st) (auto simp: key_bytes_def)
  obtain wk4 h4 where "WalletKey_Unlock E (Some pass') (wk3, h3) = (Inr (), wk4, h4)" "key_bytes (wk4, h4) = Some k"
    using open_k [OF l(2)] by blast
  moreover have "\<exists>wk5 h5 wk6 h6. OpenWalletKey E bz g = Inr (wk5, h5) \<and> WalletKey_Unlock E (Some pass') (wk5, h5) = (Inr (), wk6, h6) \<and>
      key_bytes (wk6, h6) = Some k" if "WalletKey_Save E (wk3, h3) = Inr bz" "bz \<noteq> []" "length bz \<le> 1000" for bz g
    using open_saved [OF laws(2) l(2) that] open_k by metis
  moreover have "WalletKey_IsLock wk" "WalletKey_IsLock wk3" "key_bytes (wk2, h2) = Some k" "key_bytes (wk2, h3) = Some (replicate (length k) 0)"
    using l(2,3) s2(1,3) by (simp_all add: WalletKey_IsLock_def sealed_def key_bytes_def wk_def)
  moreover have "WalletKey_Unlock E None (wk, h1) = (Inl (Error (PlainError ''wrong passphrase: the passphrase can not be empty'')), wk, h1)"
    by (simp add: WalletKey_Unlock_def WalletKey_IsLock_def wk_def)
  ultimately show ?thesis
    using w(1) r u s2(4) l(1) by blast
qed

text \<open>A concrete environment: a cipher that reverses, and a file format of fields.\<close>

definition walletFields :: "walletFile \<Rightarrow> bytes list" where
  "walletFields f = [int_field (wfVersion f), wfAddress f, str_bytes (wfAlgo f),
     (case wfCipherTextParams f of None \<Rightarrow> [] | Some (a, t, i) \<Rightarrow> enc_fields [str_bytes a, t, i]),
     (case wfDKParams f of None \<Rightarrow> [] | Some dk \<Rightarrow> enc_fields [str_bytes (dkAlgo dk), str_bytes (dkPrf dk), int_field (dkIter dk), dkSalt dk, int_field (dkLen dk)])]"

definition fieldsWallet :: "bytes list \<Rightarrow> walletFile" where
  "fieldsWallet fs = \<lparr>wfVersion = field_int (fs ! 0), wfAddress = fs ! 1, wfAlgo = field_str (fs ! 2),
     wfCipherTextParams = (if fs ! 3 = [] then None else case dec_fields 3 (fs ! 3) of None \<Rightarrow> None | Some cs \<Rightarrow> Some (field_str (cs ! 0), cs ! 1, cs ! 2)),
     wfDKParams = (if fs ! 4 = [] then None else case dec_fields 5 (fs ! 4) of
        None \<Rightarrow> None | Some ds \<Rightarrow> Some \<lparr>dkAlgo = field_str (ds ! 0), dkPrf = field_str (ds ! 1), dkIter = field_int (ds ! 2), dkSalt = ds ! 3, dkLen = field_int (ds ! 4)\<rparr>)\<rparr>"

definition demoWallet :: walletEnv where
  "demoWallet = \<lparr>weCrypto = \<lparr>coSha256 = id, coSign = (\<lambda>h k. Inr (k @ h)), coVerify = (\<lambda>p h s. s = p @ h), coSigToPub = (\<lambda>h s. Inr []), coCompress = id,
      coPubAddress = take 20\<rparr>,
    wePubKey = id, wePbkdf2 = (\<lambda>pass salt iter n. replicate (nat n) 1), weEncrypt = (\<lambda>key iv. rev), weDecrypt = (\<lambda>key iv. rev),
    weJson = fieldsJson 5 walletFields fieldsWallet\<rparr>"

lemma demoWallet_laws: "wallet_laws demoWallet" "json_laws (weJson demoWallet)"
proof -
  have ne: "enc_fields (x # xs) \<noteq> []" for x xs
    by (simp add: enc_fields_not_Nil)
  have d: "dec_fields 3 (enc_fields [a, b, c]) = Some [a, b, c]" "dec_fields 5 (enc_fields [a, b, c, d, e]) = Some [a, b, c, d, e]" for a b c d e
    using dec_enc_fields [of "[a, b, c]"] dec_enc_fields [of "[a, b, c, d, e]"] by (simp_all add: numeral_eq_Suc)
  have "length (walletFields f) = 5 \<and> fieldsWallet (walletFields f) = f" for f
    by (cases f) (auto simp: walletFields_def fieldsWallet_def ne d split: option.splits)
  then show "json_laws (weJson demoWallet)"
    by (simp add: demoWallet_def fieldsJson_laws)
qed (simp add: wallet_laws_def demoWallet_def)

theorem WalletKey_roundtrip_witness:
  "\<exists>wk h1 wk2 h2. NewWalletKeyWith demoWallet (replicate 32 5) (replicate 16 6) \<lparr>slArr = 0, slLen = 3\<rparr> (Some [1, 2]) [[7, 8, 9]] = (Inr wk, h1) \<and>
     WalletKey_Unlock demoWallet (Some [1, 2]) (wk, h1) = (Inr (), wk2, h2) \<and> key_bytes (wk2, h2) = Some [7, 8, 9]"
proof -
  have s: "slice_full [[7, 8, 9]] \<lparr>slArr = 0, slLen = 3\<rparr>" "slice_read [[7, 8, 9]] \<lparr>slArr = 0, slLen = 3\<rparr> = [7, 8, 9]" "[7, 8, 9 :: byte] \<noteq> []"
    by (simp_all add: slice_full_def slice_read_def)
  have iv: "length (replicate 16 (6 :: byte)) = aesBlockSize"
    by (simp add: aesBlockSize_def)
  show ?thesis
    using WalletKey_roundtrip [OF demoWallet_laws iv iv s, where pass = "[1, 2]" and salt = "replicate 32 5" and salt' = "[]" and pass' = "[]"]
    by blast
qed

text \<open>C35. A key made without a passphrase (\<^verbatim>\<open>wallet_key.go\<close>) does not survive its lock. The constructor means to copy the
  key bytes, but appends nothing to them, so that the private key, the stored text and the caller's
  bytes are one array; \<^verbatim>\<open>Lock\<close> overwrites all three, and what \<^verbatim>\<open>Unlock\<close> brings back, what is saved and what
  the caller holds are zeros.\<close>

theorem WalletKey_lock_destroys:
  assumes s: "slice_ok h s" and n: "NewWalletKeyWith E salt iv s None h = (Inr wk, h1)" and l: "WalletKey_Lock (wk, h1) = (wk2, h2)"
  shows "key_bytes (wk, h1) = Some (slice_read h s) \<and> slice_read h2 s = replicate (slLen s) 0 \<and>
    (\<exists>wk3 h3. WalletKey_Unlock E None (wk2, h2) = (Inr (), wk3, h3) \<and> key_bytes (wk3, h3) = Some (replicate (slLen s) 0)) \<and>
    wfCipherTextParams (walletFile_of (wk2, h2)) = Some (SymmAlgo, replicate (slLen s) 0, [])"
proof -
  have "slice_append s [] h = (s, h)"
    using s by (simp add: slice_append_def slice_ok_def)
  then have wk: "h1 = h" "wkPrvKey wk = Some s" "wkDKParams wk = None" "wkCipherTextParams wk = Some \<lparr>cpAlgo = SymmAlgo, cpText = s, cpIv = []\<rparr>"
    using n by (auto simp: NewWalletKeyWith_def Let_def)
  then have w2: "wk2 = wk\<lparr>wkPrvKey := None\<rparr>" "h2 = ClearCredential s h"
    using l by (auto simp: WalletKey_Lock_def)
  note c = ClearCredential_read [OF s, folded w2(2)]
  show ?thesis
    using wk w2(1) c(1) slice_make_read(1)
    by (simp add: key_bytes_def walletFile_of_def WalletKey_Unlock_def WalletKey_IsLock_def slice_make_def)
      (simp add: slice_read_def)
qed

theorem WalletKey_lock_destroys_witness:
  "\<exists>wk h1 wk2 h2 wk3 h3. NewWalletKeyWith demoWallet [] [] \<lparr>slArr = 0, slLen = 3\<rparr> None [[7, 8, 9]] = (Inr wk, h1) \<and>
     WalletKey_Lock (wk, h1) = (wk2, h2) \<and> WalletKey_Unlock demoWallet None (wk2, h2) = (Inr (), wk3, h3) \<and> key_bytes (wk3, h3) = Some [0, 0, 0]"
proof -
  have s: "slice_ok [[7, 8, 9]] \<lparr>slArr = 0, slLen = 3\<rparr>"
    by (simp add: slice_ok_def)
  obtain wk h1 where n: "NewWalletKeyWith demoWallet [] [] \<lparr>slArr = 0, slLen = 3\<rparr> None [[7, 8, 9]] = (Inr wk, h1)"
    by (simp add: NewWalletKeyWith_def Let_def slice_append_def)
  obtain wk2 h2 where l: "WalletKey_Lock (wk, h1) = (wk2, h2)"
    by (rule prod.exhaust)
  have "replicate 3 (0 :: byte) = [0, 0, 0]"
    by (simp add: numeral_3_eq_3)
  then show ?thesis
    using WalletKey_lock_destroys [OF s n l] n l by auto
qed

end
