(* ===== verification/Rigo_PVProps.thy ===== *)
theory Rigo_PVProps
  imports Rigo_SFilePV Rigo_WalletProps "HOL-Library.Product_Lexorder"
begin

text \<open>
  A validator never signs two different messages for one height, round and step, whatever the requests
  and wherever the process crashes and is loaded again from its files.
\<close>

section \<open>What is asked of the environment\<close>

definition canonVote :: "string \<Rightarrow> Vote \<Rightarrow> CanonicalVote" where
  "canonVote chain v = \<lparr>cvType = voteType v, cvHeight = voteHeight v, cvRound = voteRound v, cvBlockID = voteBlockID v,
     cvTimestamp = voteTimestamp v, cvChainID = chain\<rparr>"

definition canonProposal :: "string \<Rightarrow> Proposal \<Rightarrow> CanonicalProposal" where
  "canonProposal chain p = \<lparr>cpHeight = propHeight p, cpRound = propRound p, cpPolRound = propPolRound p, cpBlockID = propBlockID p,
     cpTimestamp = propTimestamp p, cpChainID = chain\<rparr>"

text \<open>Empty byte strings are left out of the JSON form and come back as nil; the path is not stored.\<close>

definition omitEmpty :: "bytes option \<Rightarrow> bytes option" where
  "omitEmpty b = (if b = Some [] then None else b)"

definition stored :: "SFilePVLastSignState \<Rightarrow> SFilePVLastSignState" where
  "stored l = l\<lparr>lsSignature := omitEmpty (lsSignature l), lsSignBytes := omitEmpty (lsSignBytes l), lsFilePath := ''''\<rparr>"

definition pv_laws :: "pvEnv \<Rightarrow> bool" where
  "pv_laws E \<longleftrightarrow>
     (\<forall>chain v. peUnmarshalVote E (peVoteSignBytes E chain v) = Inr (canonVote chain v)) \<and>
     (\<forall>chain v chain' v'. canonVote chain v = canonVote chain' v' \<longrightarrow> peVoteSignBytes E chain v = peVoteSignBytes E chain' v') \<and>
     (\<forall>chain p. peUnmarshalProposal E (peProposalSignBytes E chain p) = Inr (canonProposal chain p)) \<and>
     (\<forall>chain p chain' p'. canonProposal chain p = canonProposal chain' p' \<longrightarrow> peProposalSignBytes E chain p = peProposalSignBytes E chain' p') \<and>
     (\<forall>l bz. jsonMarshal (peStateJson E) l = Inr bz \<longrightarrow> jsonUnmarshal (peStateJson E) bz = Inr (stored l)) \<and>
     (\<forall>path d fs. \<exists>fs'. peWriteFileAtomic E path d fs = (None, fs(path \<mapsto> d)) \<or>
        (\<exists>err. peWriteFileAtomic E path d fs = (Some err, fs') \<and> fs' \<in> {fs, fs(path \<mapsto> d)}))"

lemma pv_lawsD:
  assumes "pv_laws E"
  shows "peUnmarshalVote E (peVoteSignBytes E chain v) = Inr (canonVote chain v)"
    "canonVote chain v = canonVote chain' v' \<Longrightarrow> peVoteSignBytes E chain v = peVoteSignBytes E chain' v'"
    "peUnmarshalProposal E (peProposalSignBytes E chain p) = Inr (canonProposal chain p)"
    "canonProposal chain p = canonProposal chain' p' \<Longrightarrow> peProposalSignBytes E chain p = peProposalSignBytes E chain' p'"
    "jsonMarshal (peStateJson E) l = Inr bz \<Longrightarrow> jsonUnmarshal (peStateJson E) bz = Inr (stored l)"
  using assms unfolding pv_laws_def by blast+

lemma write_cases:
  assumes "pv_laws E" "peWriteFileAtomic E path d fs = (r, fs')"
  shows "r = None \<Longrightarrow> fs' = fs(path \<mapsto> d)" "fs' = fs \<or> fs' = fs(path \<mapsto> d)"
proof -
  have "\<exists>fs'. peWriteFileAtomic E path d fs = (None, fs(path \<mapsto> d)) \<or>
      (\<exists>err. peWriteFileAtomic E path d fs = (Some err, fs') \<and> fs' \<in> {fs, fs(path \<mapsto> d)})"
    using assms(1) unfolding pv_laws_def by blast
  then show "r = None \<Longrightarrow> fs' = fs(path \<mapsto> d)" "fs' = fs \<or> fs' = fs(path \<mapsto> d)"
    using assms(2) by auto
qed

section \<open>One request\<close>

definition hrs :: "SFilePVLastSignState \<Rightarrow> int \<times> int \<times> int" where
  "hrs l = (lsHeight l, lsRound l, lsStep l)"

lemma CheckHRS_cases:
  assumes "SFilePVLastSignState_CheckHRS h r s l = Inr same"
  shows "if same then hrs l = (h, r, s) \<and> lsSignBytes l \<noteq> None \<and> lsSignature l \<noteq> None else hrs l < (h, r, s)"
  using assms by (auto simp: SFilePVLastSignState_CheckHRS_def hrs_def hrsError_def split: if_splits)

text \<open>The bytes of some message of a step.\<close>

definition step_bytes :: "pvEnv \<Rightarrow> int \<Rightarrow> bytes \<Rightarrow> bool" where
  "step_bytes E stp b \<longleftrightarrow> (if stp = stepPropose then \<exists>chain p. b = peProposalSignBytes E chain p else \<exists>chain v. b = peVoteSignBytes E chain v)"

datatype request = VoteRequest string Vote | ProposalRequest string Proposal

record signed =
  sgHRS :: "int \<times> int \<times> int"
  sgBytes :: bytes
  sgSignature :: bytes

text \<open>The signed message that a request releases to the network.\<close>

definition signRequest :: "pvEnv \<Rightarrow> request \<Rightarrow> SFilePV \<times> files \<Rightarrow> signed res \<times> SFilePV \<times> files" where
  "signRequest E rq st =
     (case rq of
        VoteRequest chain vote \<Rightarrow>
          apfst (map_sum id (\<lambda>v. \<lparr>sgHRS = (voteHeight v, voteRound v, projr (voteToStep v)), sgBytes = peVoteSignBytes E chain v, sgSignature = voteSignature v\<rparr>))
            (SFilePV_SignVote E chain vote st)
      | ProposalRequest chain proposal \<Rightarrow>
          apfst (map_sum id (\<lambda>p. \<lparr>sgHRS = (propHeight p, propRound p, stepPropose), sgBytes = peProposalSignBytes E chain p, sgSignature = propSignature p\<rparr>))
            (SFilePV_SignProposal E chain proposal st))"

text \<open>A request fails without effect, repeats the last signature for the bytes it was made for, or signs
  something above the last signed height, round and step after saving it.\<close>

definition sign_effect :: "pvEnv \<Rightarrow> SFilePV \<Rightarrow> files \<Rightarrow> signed res \<Rightarrow> SFilePV \<Rightarrow> files \<Rightarrow> bool" where
  "sign_effect E pv fs r pv' fs' \<longleftrightarrow>
     (\<exists>f. r = Inl f \<and> pv' = pv \<and> fs' = fs) \<or>
     (\<exists>e. r = Inr e \<and> pv' = pv \<and> fs' = fs \<and> hrs (pvLastSignState pv) = sgHRS e \<and>
        lsSignBytes (pvLastSignState pv) = Some (sgBytes e) \<and> lsSignature (pvLastSignState pv) = Some (sgSignature e)) \<or>
     (\<exists>e x. let l = (pvLastSignState pv)\<lparr>lsHeight := fst (sgHRS e), lsRound := fst (snd (sgHRS e)), lsStep := snd (snd (sgHRS e)),
               lsSignature := Some (sgSignature e), lsSignBytes := Some (sgBytes e)\<rparr> in
        hrs (pvLastSignState pv) < sgHRS e \<and> step_bytes E (snd (snd (sgHRS e))) (sgBytes e) \<and>
        peKeySign E (pkPrivKey (pvKey pv)) (sgBytes e) = Inr (sgSignature e) \<and>
        pv' = pv\<lparr>pvLastSignState := l\<rparr> \<and> SFilePVLastSignState_Save E l fs = (x, fs') \<and> r = map_sum id (\<lambda>_. e) x)"

lemma signErr_simps [simp]:
  "signErr m (Inr x) = Inr x"
  "signErr m (Inl f) = Inl (case f of Error e \<Rightarrow> Error (xerrors_NewOrdinary (m @ xerror_Error e)) | Panic p \<Rightarrow> Panic p)"
  by (simp_all add: signErr_def split: fault.splits)

lemma sign_effectI:
  "sign_effect E pv fs (Inl f) pv fs"
  "hrs (pvLastSignState pv) = sgHRS e \<Longrightarrow> lsSignBytes (pvLastSignState pv) = Some (sgBytes e) \<Longrightarrow>
     lsSignature (pvLastSignState pv) = Some (sgSignature e) \<Longrightarrow> sign_effect E pv fs (Inr e) pv fs"
  by (simp_all add: sign_effect_def)

lemma Save_panics: "SFilePVLastSignState_Save E l fs = (Inl f, fs') \<Longrightarrow> \<exists>p. f = Panic p"
  by (auto simp: SFilePVLastSignState_Save_def split: if_splits sum.splits prod.splits option.splits)

lemma sign_effect_fresh:
  fixes e :: signed
  assumes e: "e = \<lparr>sgHRS = (h, r, s), sgBytes = b, sgSignature = sig\<rparr>"
    and l: "l = (pvLastSignState pv)\<lparr>lsHeight := h, lsRound := r, lsStep := s, lsSignature := Some sig, lsSignBytes := Some b\<rparr>"
    and "hrs (pvLastSignState pv) < (h, r, s)" "step_bytes E s b" "peKeySign E (pkPrivKey (pvKey pv)) b = Inr sig"
    "SFilePVLastSignState_Save E l fs = (x, fs')"
  shows "sign_effect E pv fs (map_sum id (\<lambda>_. e) x) (pv\<lparr>pvLastSignState := l\<rparr>) fs'"
  unfolding sign_effect_def using assms by (intro disjI2 exI [of _ e] exI [of _ x]) (simp add: Let_def)

lemma same_but_timestamp:
  assumes laws: "pv_laws E" and c: "checkVotesOnlyDifferByTimestamp E b (peVoteSignBytes E chain v) = Inr (t, True)"
    and b: "b = peVoteSignBytes E chain' v'"
  shows "peVoteSignBytes E chain (v\<lparr>voteTimestamp := t, voteSignature := sig\<rparr>) = b"
proof -
  have "t = voteTimestamp v'" "(canonVote chain v)\<lparr>cvTimestamp := 0\<rparr> = (canonVote chain' v')\<lparr>cvTimestamp := 0\<rparr>"
    using c pv_lawsD(1) [OF laws] by (simp_all add: b checkVotesOnlyDifferByTimestamp_def canonVote_def)
  then have "canonVote chain (v\<lparr>voteTimestamp := t, voteSignature := sig\<rparr>) = canonVote chain' v'"
    by (simp add: canonVote_def)
  then show ?thesis
    unfolding b by (rule pv_lawsD(2) [OF laws])
qed

lemma same_but_timestamp_proposal:
  assumes laws: "pv_laws E" and c: "checkProposalsOnlyDifferByTimestamp E b (peProposalSignBytes E chain v) = Inr (t, True)"
    and b: "b = peProposalSignBytes E chain' v'"
  shows "peProposalSignBytes E chain (v\<lparr>propTimestamp := t, propSignature := sig\<rparr>) = b"
proof -
  have "t = propTimestamp v'" "(canonProposal chain v)\<lparr>cpTimestamp := 0\<rparr> = (canonProposal chain' v')\<lparr>cpTimestamp := 0\<rparr>"
    using c pv_lawsD(3) [OF laws] by (simp_all add: b checkProposalsOnlyDifferByTimestamp_def canonProposal_def)
  then have "canonProposal chain (v\<lparr>propTimestamp := t, propSignature := sig\<rparr>) = canonProposal chain' v'"
    by (simp add: canonProposal_def)
  then show ?thesis
    unfolding b by (rule pv_lawsD(4) [OF laws])
qed

lemma SignBytes_signature:
  assumes "pv_laws E"
  shows "peVoteSignBytes E chain (v\<lparr>voteSignature := sig\<rparr>) = peVoteSignBytes E chain v"
    "peProposalSignBytes E chain (p\<lparr>propSignature := sig\<rparr>) = peProposalSignBytes E chain p"
   apply (rule pv_lawsD(2) [OF assms], simp add: canonVote_def)
  apply (rule pv_lawsD(4) [OF assms], simp add: canonProposal_def)
  done

text \<open>Votes and proposals are signed by one algorithm, which returns the signature and the timestamp of
  the message it was made for, if that differs.\<close>

definition signCore :: "pvEnv \<Rightarrow> int \<Rightarrow> int \<Rightarrow> int \<Rightarrow> bytes \<Rightarrow> (bytes \<Rightarrow> (int \<times> bool) res) \<Rightarrow> SFilePV \<times> files \<Rightarrow> (bytes \<times> int option) res \<times> SFilePV \<times> files" where
  "signCore E h r stp signBytes check st =
     (let lss = pvLastSignState (fst st) in
      case SFilePVLastSignState_CheckHRS h r stp lss of
        Inl err \<Rightarrow> (Inl err, st)
      | Inr True \<Rightarrow>
          (let b = (case lsSignBytes lss of None \<Rightarrow> [] | Some b \<Rightarrow> b); sig = (case lsSignature lss of None \<Rightarrow> [] | Some b \<Rightarrow> b) in
           (if signBytes = b then Inr (sig, None)
            else case check b of Inl p \<Rightarrow> Inl p | Inr (t, ok) \<Rightarrow> if ok then Inr (sig, Some t) else Inl (hrsError ''conflicting data''), st))
      | Inr False \<Rightarrow>
          (case peKeySign E (pkPrivKey (pvKey (fst st))) signBytes of
             Inl err \<Rightarrow> (Inl (Error (PlainError err)), st)
           | Inr sig \<Rightarrow> bindE (SFilePV_saveSigned E h r stp signBytes sig st) (\<lambda>_ st. (Inr (sig, None), st))))"

lemma signVote_core:
  "SFilePV_signVote E chain v st =
     (case voteToStep v of
        Inl p \<Rightarrow> (Inl p, st)
      | Inr stp \<Rightarrow> apfst (map_sum id (\<lambda>(sig, t). v\<lparr>voteTimestamp := (case t of None \<Rightarrow> voteTimestamp v | Some t \<Rightarrow> t), voteSignature := sig\<rparr>))
          (signCore E (voteHeight v) (voteRound v) stp (peVoteSignBytes E chain v) (\<lambda>b. checkVotesOnlyDifferByTimestamp E b (peVoteSignBytes E chain v)) st))"
proof (cases "voteToStep v")
  case (Inr stp)
  show ?thesis
    by (cases "SFilePVLastSignState_CheckHRS (voteHeight v) (voteRound v) stp (pvLastSignState (fst st))")
      (simp_all add: SFilePV_signVote_def signCore_def Inr Let_def bindE_def split: bool.splits sum.splits prod.splits)
qed (simp add: SFilePV_signVote_def)

lemma signProposal_core:
  "SFilePV_signProposal E chain v st =
     apfst (map_sum id (\<lambda>(sig, t). v\<lparr>propTimestamp := (case t of None \<Rightarrow> propTimestamp v | Some t \<Rightarrow> t), propSignature := sig\<rparr>))
       (signCore E (propHeight v) (propRound v) stepPropose (peProposalSignBytes E chain v)
          (\<lambda>b. checkProposalsOnlyDifferByTimestamp E b (peProposalSignBytes E chain v)) st)"
  by (cases "SFilePVLastSignState_CheckHRS (propHeight v) (propRound v) stepPropose (pvLastSignState (fst st))")
    (simp_all add: SFilePV_signProposal_def signCore_def Let_def bindE_def split: bool.splits sum.splits prod.splits)

lemma signCore_cases:
  assumes "signCore E h r stp b check (pv, fs) = (res, pv', fs')"
  obtains (failed) f where "res = Inl f" "pv' = pv" "fs' = fs"
  | (repeated) sig t b' where "res = Inr (sig, t)" "pv' = pv" "fs' = fs" "hrs (pvLastSignState pv) = (h, r, stp)" "lsSignBytes (pvLastSignState pv) = Some b'"
      "lsSignature (pvLastSignState pv) = Some sig" "t = None \<and> b' = b \<or> (\<exists>t'. t = Some t' \<and> check b' = Inr (t', True))"
  | (signed) sig x where "hrs (pvLastSignState pv) < (h, r, stp)" "peKeySign E (pkPrivKey (pvKey pv)) b = Inr sig"
      "pv' = pv\<lparr>pvLastSignState := (pvLastSignState pv)\<lparr>lsHeight := h, lsRound := r, lsStep := stp, lsSignature := Some sig, lsSignBytes := Some b\<rparr>\<rparr>"
      "SFilePVLastSignState_Save E ((pvLastSignState pv)\<lparr>lsHeight := h, lsRound := r, lsStep := stp, lsSignature := Some sig, lsSignBytes := Some b\<rparr>) fs = (x, fs')"
      "res = map_sum id (\<lambda>_. (sig, None)) x"
proof (cases "SFilePVLastSignState_CheckHRS h r stp (pvLastSignState pv)")
  case (Inl f)
  then have "res = Inl f" "pv' = pv" "fs' = fs"
    using assms by (auto simp: signCore_def)
  then show thesis
    by (rule failed)
next
  case (Inr same)
  note c = CheckHRS_cases [OF Inr]
  show thesis
  proof (cases same)
    case True
    then obtain b' sig where l: "lsSignBytes (pvLastSignState pv) = Some b'" "lsSignature (pvLastSignState pv) = Some sig"
      using c by auto
    have st: "pv' = pv" "fs' = fs" "res = (if b = b' then Inr (sig, None)
        else case check b' of Inl p \<Rightarrow> Inl p | Inr (t, ok) \<Rightarrow> if ok then Inr (sig, Some t) else Inl (hrsError ''conflicting data''))"
      using assms by (simp_all add: signCore_def Inr True l)
    show thesis
    proof (cases res)
      case (Inr a)
      then have "a = (sig, None) \<and> b' = b \<or> (\<exists>t'. a = (sig, Some t') \<and> check b' = Inr (t', True))"
        using st(3) by (auto split: if_splits sum.splits prod.splits)
      then show thesis
        using Inr st(1,2) c True l by (auto intro: repeated)
    qed (use failed st in blast)
  next
    case False
    then have lt: "hrs (pvLastSignState pv) < (h, r, stp)"
      using c by simp
    show thesis
    proof (cases "peKeySign E (pkPrivKey (pvKey pv)) b")
      case (Inl err)
      then have "res = Inl (Error (PlainError err))" "pv' = pv" "fs' = fs"
        using assms by (auto simp: signCore_def Inr False)
      then show thesis
        by (rule failed)
    next
      case sig: (Inr sig)
      obtain x fs2 where sv: "SFilePVLastSignState_Save E ((pvLastSignState pv)\<lparr>lsHeight := h, lsRound := r, lsStep := stp, lsSignature := Some sig, lsSignBytes := Some b\<rparr>) fs = (x, fs2)"
        by (rule prod.exhaust)
      show thesis
        using assms lt sig sv by (cases x) (auto simp: signCore_def Inr False SFilePV_saveSigned_def intro: signed)
    qed
  qed
qed

lemma Save_result: "SFilePVLastSignState_Save E l fs = (x, fs') \<Longrightarrow> x = Inr () \<or> (\<exists>p. x = Inl (Panic p))"
  using Save_panics [of E l fs] by (cases x) auto

lemma signRequest_effect:
  assumes laws: "pv_laws E" and wf: "\<And>b. lsSignBytes (pvLastSignState pv) = Some b \<Longrightarrow> step_bytes E (lsStep (pvLastSignState pv)) b"
    and s: "signRequest E rq (pv, fs) = (r, pv', fs')"
  shows "sign_effect E pv fs r pv' fs'"
proof (cases rq)
  case (VoteRequest chain v)
  show ?thesis
  proof (cases "voteToStep v")
    case (Inl f)
    then have "\<exists>g. r = Inl g" "pv' = pv" "fs' = fs"
      using s by (auto simp: VoteRequest signRequest_def SFilePV_SignVote_def signVote_core)
    then show ?thesis
      by (auto intro: sign_effectI)
  next
    case (Inr stp)
    have stp: "stp \<noteq> stepPropose" and ts: "\<And>t sig. voteToStep (v\<lparr>voteTimestamp := t, voteSignature := sig\<rparr>) = Inr stp"
      using Inr by (auto simp: voteToStep_def stepPropose_def stepPrevote_def stepPrecommit_def split: if_splits)
    obtain res where c: "signCore E (voteHeight v) (voteRound v) stp (peVoteSignBytes E chain v) (\<lambda>b. checkVotesOnlyDifferByTimestamp E b (peVoteSignBytes E chain v)) (pv, fs)
        = (res, pv', fs')" and r: "r = map_sum id (\<lambda>w. \<lparr>sgHRS = (voteHeight w, voteRound w, projr (voteToStep w)), sgBytes = peVoteSignBytes E chain w, sgSignature = voteSignature w\<rparr>)
          (signErr ''error signing vote: '' (map_sum id (\<lambda>(sig, t). v\<lparr>voteTimestamp := (case t of None \<Rightarrow> voteTimestamp v | Some t \<Rightarrow> t), voteSignature := sig\<rparr>) res))"
      using s by (auto simp: VoteRequest signRequest_def SFilePV_SignVote_def signVote_core Inr apfst_def map_prod_def split: prod.splits)
    show ?thesis
      using c
    proof (cases rule: signCore_cases)
      case (failed f)
      then show ?thesis
        using r by (simp add: sign_effectI)
    next
      case (repeated sig t b')
      obtain chain' v' where b: "b' = peVoteSignBytes E chain' v'"
        using wf [OF repeated(5)] stp repeated(4) by (auto simp: step_bytes_def hrs_def)
      have "peVoteSignBytes E chain (v\<lparr>voteTimestamp := (case t of None \<Rightarrow> voteTimestamp v | Some t \<Rightarrow> t), voteSignature := sig\<rparr>) = b'"
        using repeated(7) same_but_timestamp [OF laws _ b] SignBytes_signature(1) [OF laws, of chain sig v] by auto
      then show ?thesis
        using repeated r by (simp add: ts) (rule sign_effectI(2), simp_all)
    next
      case (signed sig x)
      have "step_bytes E stp (peVoteSignBytes E chain v)"
        using stp by (auto simp: step_bytes_def)
      from sign_effect_fresh [OF refl refl signed(1) this signed(2,4)] show ?thesis
        using r SignBytes_signature(1) [OF laws, of chain sig v] ts [of sig "voteTimestamp v"]
          Save_result [OF signed(4)]
        by (elim disjE exE) (simp_all add: signed(3,5))
    qed
  qed
next
  case (ProposalRequest chain v)
  obtain res where c: "signCore E (propHeight v) (propRound v) stepPropose (peProposalSignBytes E chain v)
      (\<lambda>b. checkProposalsOnlyDifferByTimestamp E b (peProposalSignBytes E chain v)) (pv, fs) = (res, pv', fs')"
    and r: "r = map_sum id (\<lambda>w. \<lparr>sgHRS = (propHeight w, propRound w, stepPropose), sgBytes = peProposalSignBytes E chain w, sgSignature = propSignature w\<rparr>)
        (signErr ''error signing proposal: '' (map_sum id (\<lambda>(sig, t). v\<lparr>propTimestamp := (case t of None \<Rightarrow> propTimestamp v | Some t \<Rightarrow> t), propSignature := sig\<rparr>) res))"
    using s by (auto simp: ProposalRequest signRequest_def SFilePV_SignProposal_def signProposal_core apfst_def map_prod_def split: prod.splits)
  show ?thesis
    using c
  proof (cases rule: signCore_cases)
    case (failed f)
    then show ?thesis
      using r by (simp add: sign_effectI)
  next
    case (repeated sig t b')
    obtain chain' v' where b: "b' = peProposalSignBytes E chain' v'"
      using wf [OF repeated(5)] repeated(4) by (auto simp: step_bytes_def hrs_def)
    have "peProposalSignBytes E chain (v\<lparr>propTimestamp := (case t of None \<Rightarrow> propTimestamp v | Some t \<Rightarrow> t), propSignature := sig\<rparr>) = b'"
      using repeated(7) same_but_timestamp_proposal [OF laws _ b] SignBytes_signature(2) [OF laws, of chain sig v] by auto
    then show ?thesis
      using repeated r by simp (rule sign_effectI(2), simp_all)
  next
    case (signed sig x)
    have "step_bytes E stepPropose (peProposalSignBytes E chain v)"
      by (auto simp: step_bytes_def)
    from sign_effect_fresh [OF refl refl signed(1) this signed(2,4)] show ?thesis
      using r SignBytes_signature(2) [OF laws, of chain sig v]
        Save_result [OF signed(4)]
      by (elim disjE exE) (simp_all add: signed(3,5))
  qed
qed

section \<open>A validator process and its files\<close>

text \<open>The process in memory, if it runs, the disk, and everything released to the network so far. The
  process may stop between any two effects on the disk; while it saves, it leaves one of the
  intermediate states of the disk behind.\<close>

record pvSystem =
  sysPv :: "SFilePV option"
  sysFiles :: files
  sysReleased :: "signed list"

inductive pv_step :: "pvEnv \<Rightarrow> string \<Rightarrow> string \<Rightarrow> pvSystem \<Rightarrow> pvSystem \<Rightarrow> bool" for E kp sp where
  pv_release: "sysPv s = Some pv \<Longrightarrow> signRequest E rq (pv, sysFiles s) = (Inr e, pv', fs') \<Longrightarrow>
    pv_step E kp sp s (s\<lparr>sysPv := Some pv', sysFiles := fs', sysReleased := e # sysReleased s\<rparr>)"
| pv_refuse: "sysPv s = Some pv \<Longrightarrow> signRequest E rq (pv, sysFiles s) = (Inl (Error x), pv', fs') \<Longrightarrow>
    pv_step E kp sp s (s\<lparr>sysPv := Some pv', sysFiles := fs'\<rparr>)"
| pv_crash_signing: "sysPv s = Some pv \<Longrightarrow> signRequest E rq (pv, sysFiles s) = (r, pv', fs') \<Longrightarrow>
    pv_step E kp sp s (s\<lparr>sysPv := None, sysFiles := fs'\<rparr>)"
| pv_crash: "pv_step E kp sp s (s\<lparr>sysPv := None\<rparr>)"
| pv_load: "LoadSFilePV E kp sp pass (sysFiles s) = Inr pv \<Longrightarrow> pv_step E kp sp s (s\<lparr>sysPv := Some pv\<rparr>)"
| pv_save: "sysPv s = Some pv \<Longrightarrow> SFilePV_SaveWith E salt iv pass pv (sysFiles s) = (Inr u, tr) \<Longrightarrow>
    pv_step E kp sp s (s\<lparr>sysFiles := last (sysFiles s # tr)\<rparr>)"
| pv_crash_saving: "sysPv s = Some pv \<Longrightarrow> SFilePV_SaveWith E salt iv pass pv (sysFiles s) = (r, tr) \<Longrightarrow> fs' \<in> set tr \<Longrightarrow>
    pv_step E kp sp s (s\<lparr>sysPv := None, sysFiles := fs'\<rparr>)"

text \<open>A new validator that has been saved once.\<close>

definition pv_init :: "pvEnv \<Rightarrow> string \<Rightarrow> string \<Rightarrow> pvSystem \<Rightarrow> bool" where
  "pv_init E kp sp s \<longleftrightarrow> (\<exists>key salt iv pass fs tr.
     SFilePV_SaveWith E salt iv pass (NewSFilePV E key kp sp) fs = (Inr (), tr) \<and>
     s = \<lparr>sysPv = Some (NewSFilePV E key kp sp), sysFiles = last (fs # tr), sysReleased = []\<rparr>)"

text \<open>A last signed state is well-formed if its bytes are those of a message of its step and its signature
  is one of them, and covers what was released if nothing released is above it.\<close>

definition lss_wf :: "pvEnv \<Rightarrow> SFilePVLastSignState \<Rightarrow> bool" where
  "lss_wf E l \<longleftrightarrow> (\<forall>b. lsSignBytes l = Some b \<longrightarrow> step_bytes E (lsStep l) b \<and>
     (\<forall>sig. lsSignature l = Some sig \<longrightarrow> (\<exists>key. peKeySign E key b = Inr sig)))"

definition covers :: "SFilePVLastSignState \<Rightarrow> signed list \<Rightarrow> bool" where
  "covers l R \<longleftrightarrow> (\<forall>e \<in> set R. sgHRS e \<le> hrs l \<and> (sgHRS e = hrs l \<longrightarrow>
     lsSignBytes l \<in> {None, Some (sgBytes e)} \<and> lsSignature l \<in> {None, Some (sgSignature e)}))"

definition state_on_disk :: "pvEnv \<Rightarrow> string \<Rightarrow> files \<Rightarrow> SFilePVLastSignState \<Rightarrow> bool" where
  "state_on_disk E sp fs l \<longleftrightarrow> (\<exists>bz. fs sp = Some bz \<and> jsonUnmarshal (peStateJson E) bz = Inr l) \<and> stored l = l"

definition released_ok :: "pvEnv \<Rightarrow> signed list \<Rightarrow> bool" where
  "released_ok E R \<longleftrightarrow> (\<forall>e \<in> set R. \<exists>key. peKeySign E key (sgBytes e) = Inr (sgSignature e)) \<and>
     (\<forall>e \<in> set R. \<forall>e' \<in> set R. sgHRS e = sgHRS e' \<longrightarrow> sgBytes e = sgBytes e' \<and> sgSignature e = sgSignature e')"

definition pv_inv :: "pvEnv \<Rightarrow> string \<Rightarrow> string \<Rightarrow> pvSystem \<Rightarrow> bool" where
  "pv_inv E kp sp s \<longleftrightarrow> released_ok E (sysReleased s) \<and>
     (\<exists>l. state_on_disk E sp (sysFiles s) l \<and> lss_wf E l \<and> covers l (sysReleased s) \<and>
       (\<forall>pv. sysPv s = Some pv \<longrightarrow> l = stored (pvLastSignState pv) \<and> lss_wf E (pvLastSignState pv) \<and> covers (pvLastSignState pv) (sysReleased s) \<and>
          lsFilePath (pvLastSignState pv) = sp \<and> pkFilePath (pvKey pv) = kp))"

lemma stored_sel [simp]:
  "hrs (stored l) = hrs l" "lsStep (stored l) = lsStep l" "stored (stored l) = stored l" "stored (l\<lparr>lsFilePath := p\<rparr>) = stored l"
  "hrs (l\<lparr>lsFilePath := p\<rparr>) = hrs l"
  by (simp_all add: stored_def hrs_def omitEmpty_def)

lemma stored_wf:
  assumes "lss_wf E l"
  shows "lss_wf E (stored l)"
  using assms by (auto simp: lss_wf_def stored_def omitEmpty_def split: if_splits)

lemma stored_covers:
  assumes "covers l R"
  shows "covers (stored l) R"
  using assms by (auto simp: covers_def) (auto simp: stored_def omitEmpty_def)

lemma path_irrelevant: "lss_wf E (l\<lparr>lsFilePath := p\<rparr>) \<longleftrightarrow> lss_wf E l" "covers (l\<lparr>lsFilePath := p\<rparr>) R \<longleftrightarrow> covers l R"
  by (simp_all add: lss_wf_def covers_def)

lemma Save_disk:
  assumes laws: "pv_laws E" and s: "SFilePVLastSignState_Save E l fs = (x, fs')" and sp: "lsFilePath l = sp"
  shows "fs' = fs \<or> state_on_disk E sp fs' (stored l)" "x = Inr () \<Longrightarrow> state_on_disk E sp fs' (stored l)"
proof -
  have new: "state_on_disk E sp (fs(sp \<mapsto> bz)) (stored l)" if "jsonMarshal (peStateJson E) l = Inr bz" for bz
    using pv_lawsD(5) [OF laws that] by (simp add: state_on_disk_def)
  show "fs' = fs \<or> state_on_disk E sp fs' (stored l)" "x = Inr () \<Longrightarrow> state_on_disk E sp fs' (stored l)"
    using s write_cases [OF laws, of sp _ fs _ fs'] new
    by (auto simp: SFilePVLastSignState_Save_def sp split: if_splits sum.splits prod.splits option.splits)
qed

lemma FileIO_frame:
  assumes laws: "pv_laws E" and w: "FileIO_Write E path d fs = (r, tr)" and "path \<noteq> sp" "fs' \<in> set tr"
  shows "fs' sp = fs sp"
proof -
  obtain x fs1 where e: "peWriteFileAtomic E path d fs = (x, fs1)"
    by (rule prod.exhaust)
  then have "fs1 sp = fs sp"
    using write_cases(2) [OF laws e] assms(3) by auto
  then show ?thesis
    using w assms(3,4) by (auto simp: FileIO_Write_def e split: option.splits)
qed

lemma SaveWith_disk:
  assumes laws: "pv_laws E" and s: "SFilePV_SaveWith E salt iv pass pv fs = (r, tr)"
    and p: "lsFilePath (pvLastSignState pv) = sp" "pkFilePath (pvKey pv) \<noteq> sp"
  shows "fs' \<in> set tr \<Longrightarrow> fs' sp = fs sp \<or> state_on_disk E sp fs' (stored (pvLastSignState pv))"
    "r = Inr () \<Longrightarrow> state_on_disk E sp (last (fs # tr)) (stored (pvLastSignState pv))"
proof -
  obtain x trk where k: "SFilePVKey_SaveWith E salt iv pass (pvKey pv) fs = (x, trk)"
    by (rule prod.exhaust)
  have f: "fs'' sp = fs sp" if "fs'' \<in> set trk" for fs''
    using k that FileIO_frame [OF laws _ p(2)]
    by (auto simp: SFilePVKey_SaveWith_def Let_def split: if_splits prod.splits sum.splits fault.splits)
  have fl: "last (fs # trk) sp = fs sp"
    using f by (cases trk rule: rev_cases) auto
  obtain y fs2 where l: "SFilePVLastSignState_Save E (pvLastSignState pv) (last (fs # trk)) = (y, fs2)"
    by (rule prod.exhaust)
  note d = Save_disk [OF laws l p(1)]
  have d2: "fs2 sp = fs sp \<or> state_on_disk E sp fs2 (stored (pvLastSignState pv))"
    using d(1) fl by metis
  show "fs' \<in> set tr \<Longrightarrow> fs' sp = fs sp \<or> state_on_disk E sp fs' (stored (pvLastSignState pv))"
    using s f d2 by (cases x) (auto simp: SFilePV_SaveWith_def k l simp del: last.simps)
  show "r = Inr () \<Longrightarrow> state_on_disk E sp (last (fs # tr)) (stored (pvLastSignState pv))"
    using s d(2) by (cases x) (auto simp: SFilePV_SaveWith_def k l simp del: last.simps simp flip: append_Cons)
qed

lemma state_on_disk_cong: "fs' sp = fs sp \<Longrightarrow> state_on_disk E sp fs' l \<longleftrightarrow> state_on_disk E sp fs l"
  by (simp add: state_on_disk_def)

lemma covers_above:
  assumes "covers l R" "hrs l < hrs l'"
  shows "covers l' R" "sgHRS e = hrs l' \<Longrightarrow> e \<notin> set R"
  using assms by (auto simp: covers_def)

lemma pv_invD:
  assumes "pv_inv E kp sp s" "sysPv s = Some pv"
  shows "released_ok E (sysReleased s)" "state_on_disk E sp (sysFiles s) (stored (pvLastSignState pv))" "lss_wf E (pvLastSignState pv)"
    "covers (pvLastSignState pv) (sysReleased s)" "lsFilePath (pvLastSignState pv) = sp" "pkFilePath (pvKey pv) = kp"
  using assms by (auto simp: pv_inv_def)

lemma pv_invI:
  assumes "released_ok E R" "state_on_disk E sp fs (stored (pvLastSignState pv))" "lss_wf E (pvLastSignState pv)"
    "covers (pvLastSignState pv) R" "lsFilePath (pvLastSignState pv) = sp" "pkFilePath (pvKey pv) = kp"
  shows "pv_inv E kp sp \<lparr>sysPv = Some pv, sysFiles = fs, sysReleased = R\<rparr>"
  using assms stored_wf [OF assms(3)] stored_covers [OF assms(4)] by (auto simp: pv_inv_def)

lemma pv_inv_stopped:
  assumes "released_ok E R" "state_on_disk E sp fs (stored l)" "lss_wf E l" "covers l R"
  shows "pv_inv E kp sp \<lparr>sysPv = None, sysFiles = fs, sysReleased = R\<rparr>"
  using assms(1,2) stored_wf [OF assms(3)] stored_covers [OF assms(4)] by (auto simp: pv_inv_def)

lemma coversD:
  assumes "covers l R" "e \<in> set R"
  shows "sgHRS e \<le> hrs l" "sgHRS e = hrs l \<Longrightarrow> lsSignBytes l = Some b \<Longrightarrow> sgBytes e = b"
    "sgHRS e = hrs l \<Longrightarrow> lsSignature l = Some b \<Longrightarrow> sgSignature e = b"
  using assms by (auto simp: covers_def)

lemma covers_Cons:
  assumes "covers l R" "hrs l = sgHRS e" "lsSignBytes l = Some (sgBytes e)" "lsSignature l = Some (sgSignature e)"
  shows "covers l (e # R)"
  unfolding covers_def list.set ball_simps using assms(1) by (simp add: assms(2-4)) (simp add: covers_def assms(2-4))

lemma released_ok_Cons:
  assumes R: "released_ok E R" and key: "peKeySign E key (sgBytes e) = Inr (sgSignature e)"
    and same: "\<And>e'. e' \<in> set R \<Longrightarrow> sgHRS e' = sgHRS e \<Longrightarrow> sgBytes e' = sgBytes e \<and> sgSignature e' = sgSignature e"
  shows "released_ok E (e # R)"
proof -
  have "\<exists>key. peKeySign E key (sgBytes x) = Inr (sgSignature x)" if "x \<in> set (e # R)" for x
    using R key that unfolding released_ok_def list.set by blast
  moreover have "sgBytes x = sgBytes y \<and> sgSignature x = sgSignature y"
    if "x \<in> insert e (set R)" "y \<in> insert e (set R)" "sgHRS x = sgHRS y" for x y
    using that(1,2)
  proof (elim insertE)
    assume "x \<in> set R" "y \<in> set R"
    then show ?thesis
      using R that(3) unfolding released_ok_def by blast
  next
    assume "x = e" "y \<in> set R"
    then show ?thesis
      using same [of y] that(3) by metis
  next
    assume "x \<in> set R" "y = e"
    then show ?thesis
      using same [of x] that(3) by metis
  qed metis
  ultimately show ?thesis
    unfolding released_ok_def list.set by blast
qed

lemma repeat_released:
  assumes "lss_wf E l" "covers l R" "released_ok E R" "hrs l = sgHRS e" "lsSignBytes l = Some (sgBytes e)" "lsSignature l = Some (sgSignature e)"
  shows "covers l (e # R)" "released_ok E (e # R)"
proof -
  show "covers l (e # R)"
    using assms(2,4-6) by (rule covers_Cons)
  obtain key where "peKeySign E key (sgBytes e) = Inr (sgSignature e)"
    using assms(1,5,6) by (auto simp: lss_wf_def)
  then show "released_ok E (e # R)"
    by (rule released_ok_Cons [OF assms(3)]) (use coversD [OF assms(2)] assms(4-6) in metis)
qed

lemma fresh_released:
  assumes "covers l R" "released_ok E R" "hrs l < sgHRS e" "peKeySign E key (sgBytes e) = Inr (sgSignature e)"
    "hrs l' = sgHRS e" "lsSignBytes l' = Some (sgBytes e)" "lsSignature l' = Some (sgSignature e)"
  shows "covers l' R" "covers l' (e # R)" "released_ok E (e # R)"
proof -
  have up: "covers l' R" and new: "sgHRS e' = sgHRS e \<Longrightarrow> e' \<notin> set R" for e'
    using covers_above [OF assms(1), of l'] assms(3,5) by auto
  from up show "covers l' R" "covers l' (e # R)"
    using covers_Cons [OF up assms(5-7)] by blast+
  show "released_ok E (e # R)"
    by (rule released_ok_Cons [OF assms(2,4)]) (use new in blast)
qed

lemma sign_effect_cases:
  assumes "sign_effect E pv fs r pv' fs'"
  obtains (failed) f where "r = Inl f" "pv' = pv" "fs' = fs"
    | (repeated) e where "r = Inr e" "pv' = pv" "fs' = fs" "hrs (pvLastSignState pv) = sgHRS e" "lsSignBytes (pvLastSignState pv) = Some (sgBytes e)"
        "lsSignature (pvLastSignState pv) = Some (sgSignature e)"
    | (fresh) e x l where "l = (pvLastSignState pv)\<lparr>lsHeight := fst (sgHRS e), lsRound := fst (snd (sgHRS e)), lsStep := snd (snd (sgHRS e)),
               lsSignature := Some (sgSignature e), lsSignBytes := Some (sgBytes e)\<rparr>"
        "hrs (pvLastSignState pv) < sgHRS e" "step_bytes E (snd (snd (sgHRS e))) (sgBytes e)" "peKeySign E (pkPrivKey (pvKey pv)) (sgBytes e) = Inr (sgSignature e)"
        "pv' = pv\<lparr>pvLastSignState := l\<rparr>" "SFilePVLastSignState_Save E l fs = (x, fs')" "r = map_sum id (\<lambda>_. e) x"
proof -
  show thesis
    using assms unfolding sign_effect_def
  proof (elim disjE)
    assume "\<exists>f. r = Inl f \<and> pv' = pv \<and> fs' = fs"
    then show thesis
      using failed by blast
  next
    assume "\<exists>e. r = Inr e \<and> pv' = pv \<and> fs' = fs \<and> hrs (pvLastSignState pv) = sgHRS e \<and>
        lsSignBytes (pvLastSignState pv) = Some (sgBytes e) \<and> lsSignature (pvLastSignState pv) = Some (sgSignature e)"
    then show thesis
      using repeated by blast
  qed (auto simp: Let_def intro: fresh)
qed

text \<open>What a request does to the invariant, whether its message is released or not.\<close>

lemma sign_step:
  assumes laws: "pv_laws E" and inv: "pv_inv E kp sp s" and pv: "sysPv s = Some pv"
    and rq: "signRequest E rq (pv, sysFiles s) = (r, pv', fs')"
  shows "pv_inv E kp sp \<lparr>sysPv = None, sysFiles = fs', sysReleased = sysReleased s\<rparr>"
    "case r of Inl (Panic p) \<Rightarrow> True | Inl (Error x) \<Rightarrow> pv_inv E kp sp \<lparr>sysPv = Some pv', sysFiles = fs', sysReleased = sysReleased s\<rparr>
     | Inr e \<Rightarrow> pv_inv E kp sp \<lparr>sysPv = Some pv', sysFiles = fs', sysReleased = e # sysReleased s\<rparr>"
proof -
  let ?l = "pvLastSignState pv"
  note i = pv_invD [OF inv pv]
  have bytes: "step_bytes E (lsStep ?l) b" if "lsSignBytes ?l = Some b" for b
    using i(3) that by (simp add: lss_wf_def)
  have "sign_effect E pv (sysFiles s) r pv' fs'"
    by (rule signRequest_effect [OF laws _ rq]) (rule bytes)
  then
  have "pv_inv E kp sp \<lparr>sysPv = None, sysFiles = fs', sysReleased = sysReleased s\<rparr> \<and>
    (case r of Inl (Panic p) \<Rightarrow> True | Inl (Error x) \<Rightarrow> pv_inv E kp sp \<lparr>sysPv = Some pv', sysFiles = fs', sysReleased = sysReleased s\<rparr>
     | Inr e \<Rightarrow> pv_inv E kp sp \<lparr>sysPv = Some pv', sysFiles = fs', sysReleased = e # sysReleased s\<rparr>)"
  proof (cases rule: sign_effect_cases)
    case (failed f)
    then show ?thesis
      using pv_inv_stopped [OF i(1-4)] pv_invI [OF i] by (cases f) simp_all
  next
    case (repeated e)
    then show ?thesis
      using pv_inv_stopped [OF i(1-4)] repeat_released [OF i(3,4,1) repeated(4-6)] pv_invI [OF _ i(2,3) _ i(5,6)] by simp
  next
    case (fresh e x l)
    have l: "hrs l = sgHRS e" "lsSignBytes l = Some (sgBytes e)" "lsSignature l = Some (sgSignature e)" "lsFilePath l = sp" "lss_wf E l"
      using fresh(3,4) i(5) by (auto simp: fresh(1) hrs_def lss_wf_def)
    note n = fresh_released [OF i(4,1) fresh(2,4) l(1-3)]
    note d = Save_disk [OF laws fresh(6) l(4)]
    have "pv_inv E kp sp \<lparr>sysPv = None, sysFiles = fs', sysReleased = sysReleased s\<rparr>"
      using d(1) pv_inv_stopped [OF i(1-4)] pv_inv_stopped [OF i(1) _ l(5) n(1)] by auto
    moreover have "pv_inv E kp sp \<lparr>sysPv = Some pv', sysFiles = fs', sysReleased = e # sysReleased s\<rparr>" if "x = Inr ()"
      by (rule pv_invI) (use d(2) [OF that] n(3,2) l(4,5) i(6) in \<open>simp_all add: fresh(5)\<close>)
    ultimately show ?thesis
      using Save_result [OF fresh(6)] fresh(7) by auto
  qed
  then show "pv_inv E kp sp \<lparr>sysPv = None, sysFiles = fs', sysReleased = sysReleased s\<rparr>"
    "case r of Inl (Panic p) \<Rightarrow> True | Inl (Error x) \<Rightarrow> pv_inv E kp sp \<lparr>sysPv = Some pv', sysFiles = fs', sysReleased = sysReleased s\<rparr>
     | Inr e \<Rightarrow> pv_inv E kp sp \<lparr>sysPv = Some pv', sysFiles = fs', sysReleased = e # sysReleased s\<rparr>"
    by blast+
qed

lemma pv_step_inv:
  assumes laws: "pv_laws E" and p: "kp \<noteq> sp" and step: "pv_step E kp sp s s'" and inv: "pv_inv E kp sp s"
  shows "pv_inv E kp sp s'"
  using step
proof cases
  case (pv_release pv rq e pv' fs')
  then show ?thesis
    using sign_step(2) [OF laws inv pv_release(2,3)] by (cases s) simp
next
  case (pv_refuse pv rq x pv' fs')
  then show ?thesis
    using sign_step(2) [OF laws inv pv_refuse(2,3)] by (cases s) simp
next
  case (pv_crash_signing pv rq r pv' fs')
  then show ?thesis
    using sign_step(1) [OF laws inv pv_crash_signing(2,3)] by (cases s) simp
next
  case pv_crash
  then show ?thesis
    using inv by (auto simp: pv_inv_def)
next
  case (pv_load pass pv)
  obtain l where l: "released_ok E (sysReleased s)" "state_on_disk E sp (sysFiles s) l" "lss_wf E l" "covers l (sysReleased s)"
    using inv by (auto simp: pv_inv_def)
  have "pvLastSignState pv = l\<lparr>lsFilePath := sp\<rparr>" "pkFilePath (pvKey pv) = kp" "stored l = l"
    using pv_load(2) l(2)
    by (auto simp: LoadSFilePV_def loadSFilePV_def state_on_disk_def NewSFilePV_def Let_def split: sum.splits option.splits)
  then show ?thesis
    using l pv_load(1) by (auto simp: pv_inv_def path_irrelevant)
next
  case (pv_save pv salt iv pass u tr)
  note i = pv_invD [OF inv pv_save(2)]
  have "state_on_disk E sp (last (sysFiles s # tr)) (stored (pvLastSignState pv))"
    using SaveWith_disk(2) [OF laws pv_save(3) i(5)] i(6) p by simp
  then show ?thesis
    using pv_invI [OF i(1) _ i(3-6)] pv_save(1,2) by (cases s) simp
next
  case (pv_crash_saving pv salt iv pass r tr fs')
  note i = pv_invD [OF inv pv_crash_saving(2)]
  have "state_on_disk E sp fs' (stored (pvLastSignState pv))"
    using SaveWith_disk(1) [OF laws pv_crash_saving(3) i(5) _ pv_crash_saving(4)] i(2,6) p state_on_disk_cong by metis
  then show ?thesis
    using pv_inv_stopped [OF i(1) _ i(3,4)] pv_crash_saving(1) by (cases s) simp
qed

lemma pv_init_inv:
  assumes laws: "pv_laws E" and p: "kp \<noteq> sp" and init: "pv_init E kp sp s"
  shows "pv_inv E kp sp s"
proof -
  obtain key salt iv pass fs tr where i: "SFilePV_SaveWith E salt iv pass (NewSFilePV E key kp sp) fs = (Inr (), tr)"
    "s = \<lparr>sysPv = Some (NewSFilePV E key kp sp), sysFiles = last (fs # tr), sysReleased = []\<rparr>"
    using init by (auto simp: pv_init_def)
  show ?thesis
    unfolding i(2)
  proof (rule pv_invI)
    show "state_on_disk E sp (last (fs # tr)) (stored (pvLastSignState (NewSFilePV E key kp sp)))"
      using SaveWith_disk(2) [OF laws i(1)] p by (simp add: NewSFilePV_def)
  qed (simp_all add: NewSFilePV_def released_ok_def lss_wf_def covers_def)
qed

text \<open>C4. Whatever votes and proposals a validator is asked to sign (\<^verbatim>\<open>sfile_pv.go\<close>), and wherever it stops and is loaded
  again from its files, also between the write of its state and the release of the signature and in
  the middle of saving its key: every signature it releases was made for exactly the bytes of the
  released message, and two messages released for the same height, round and step are the same bytes
  with the same signature.\<close>

theorem SFilePV_no_double_sign:
  assumes "pv_laws E" "kp \<noteq> sp" "pv_init E kp sp s0" "(pv_step E kp sp)\<^sup>*\<^sup>* s0 s"
  shows "(\<forall>e \<in> set (sysReleased s). \<exists>key. peKeySign E key (sgBytes e) = Inr (sgSignature e)) \<and>
    (\<forall>e \<in> set (sysReleased s). \<forall>e' \<in> set (sysReleased s). sgHRS e = sgHRS e' \<longrightarrow> sgBytes e = sgBytes e' \<and> sgSignature e = sgSignature e')"
proof -
  have "pv_inv E kp sp s"
    using assms(4)
  proof (induction rule: rtranclp_induct)
    case base
    show ?case
      using assms(1-3) by (rule pv_init_inv)
  qed (rule pv_step_inv [OF assms(1,2)])
  then have "released_ok E (sysReleased s)"
    by (simp add: pv_inv_def)
  then show ?thesis
    unfolding released_ok_def .
qed

text \<open>A concrete environment: messages as sequences of fields, a disk that never fails.\<close>

definition voteFields :: "CanonicalVote \<Rightarrow> bytes list" where
  "voteFields c = [int_field (cvType c), int_field (cvHeight c), int_field (cvRound c), cvBlockID c, int_field (cvTimestamp c), str_bytes (cvChainID c)]"

definition fieldsVote :: "bytes list \<Rightarrow> CanonicalVote" where
  "fieldsVote fs = \<lparr>cvType = field_int (fs ! 0), cvHeight = field_int (fs ! 1), cvRound = field_int (fs ! 2), cvBlockID = fs ! 3,
     cvTimestamp = field_int (fs ! 4), cvChainID = field_str (fs ! 5)\<rparr>"

definition propFields :: "CanonicalProposal \<Rightarrow> bytes list" where
  "propFields c = [int_field (cpHeight c), int_field (cpRound c), int_field (cpPolRound c), cpBlockID c, int_field (cpTimestamp c), str_bytes (cpChainID c)]"

definition fieldsProp :: "bytes list \<Rightarrow> CanonicalProposal" where
  "fieldsProp fs = \<lparr>cpHeight = field_int (fs ! 0), cpRound = field_int (fs ! 1), cpPolRound = field_int (fs ! 2), cpBlockID = fs ! 3,
     cpTimestamp = field_int (fs ! 4), cpChainID = field_str (fs ! 5)\<rparr>"

definition lssFields :: "SFilePVLastSignState \<Rightarrow> bytes list" where
  "lssFields l = [int_field (lsHeight l), int_field (lsRound l), int_field (lsStep l), opt_field (lsSignature l), opt_field (lsSignBytes l)]"

definition fieldsLss :: "bytes list \<Rightarrow> SFilePVLastSignState" where
  "fieldsLss fs = \<lparr>lsHeight = field_int (fs ! 0), lsRound = field_int (fs ! 1), lsStep = field_int (fs ! 2), lsSignature = field_opt (fs ! 3),
     lsSignBytes = field_opt (fs ! 4), lsFilePath = ''''\<rparr>"

definition demoPv :: pvEnv where
  "demoPv = \<lparr>peWallet = demoWallet, peKeySign = (\<lambda>key msg. Inr (key @ msg)), peVoteSignBytes = (\<lambda>chain v. enc_fields (voteFields (canonVote chain v))),
     peProposalSignBytes = (\<lambda>chain p. enc_fields (propFields (canonProposal chain p))), peUnmarshalVote = dec_msg 6 fieldsVote,
     peUnmarshalProposal = dec_msg 6 fieldsProp, peStateJson = fieldsJson 5 lssFields fieldsLss,
     peWriteFileAtomic = (\<lambda>path d fs. (None, fs(path \<mapsto> d))), peOpenFile = (\<lambda>path fs. None)\<rparr>"

lemma demoPv_fields:
  "fieldsVote (voteFields c) = c" "length (voteFields c) = 6" "fieldsProp (propFields p) = p" "length (propFields p) = 6"
  "fieldsLss (lssFields l) = stored l" "length (lssFields l) = 5"
  by (simp_all add: voteFields_def fieldsVote_def propFields_def fieldsProp_def)
    (simp_all add: lssFields_def fieldsLss_def stored_def omitEmpty_def opt_field_def field_opt_def split: option.splits)

lemma demoPv_laws: "pv_laws demoPv"
  by (simp add: pv_laws_def demoPv_def dec_msg_enc demoPv_fields fieldsJson_def)

definition demoVote :: "int \<Rightarrow> Vote" where
  "demoVote t = \<lparr>voteType = 1, voteHeight = 5, voteRound = 0, voteBlockID = [1, 2], voteTimestamp = t, voteSignature = []\<rparr>"

definition demoNewPv :: SFilePV where
  "demoNewPv = NewSFilePV demoPv [7] ''k'' ''s''"

lemma demoPv_saved: "\<exists>tr. SFilePV_SaveWith demoPv [] [] None demoNewPv Map.empty = (Inr (), tr)"
  by (simp add: SFilePV_SaveWith_def SFilePVKey_SaveWith_def demoNewPv_def NewSFilePV_def slice_make_def NewWalletKeyWith_def slice_append_def Let_def
      WalletKey_Save_def demoPv_def demoWallet_def fieldsJson_def FileIO_Write_def SFilePVLastSignState_Save_def)

lemma demoVote_first:
  "signRequest demoPv (VoteRequest ''c'' (demoVote 1)) (demoNewPv, fs) =
     (Inr \<lparr>sgHRS = (5, 0, 2), sgBytes = peVoteSignBytes demoPv ''c'' (demoVote 1), sgSignature = 7 # peVoteSignBytes demoPv ''c'' (demoVote 1)\<rparr>,
      demoNewPv\<lparr>pvLastSignState := \<lparr>lsHeight = 5, lsRound = 0, lsStep = 2, lsSignature = Some (7 # peVoteSignBytes demoPv ''c'' (demoVote 1)),
        lsSignBytes = Some (peVoteSignBytes demoPv ''c'' (demoVote 1)), lsFilePath = ''s''\<rparr>\<rparr>,
      fs(''s'' \<mapsto> enc_fields (lssFields \<lparr>lsHeight = 5, lsRound = 0, lsStep = 2, lsSignature = Some (7 # peVoteSignBytes demoPv ''c'' (demoVote 1)),
        lsSignBytes = Some (peVoteSignBytes demoPv ''c'' (demoVote 1)), lsFilePath = ''s''\<rparr>)))"
  by (simp add: signRequest_def SFilePV_SignVote_def SFilePV_signVote_def voteToStep_def demoVote_def stepPrevote_def demoNewPv_def NewSFilePV_def
      SFilePVLastSignState_CheckHRS_def stepNone_def demoPv_def SFilePV_saveSigned_def SFilePVLastSignState_Save_def fieldsJson_def canonVote_def Let_def)

lemma demoVote_again:
  assumes "lsHeight (pvLastSignState pv) = 5" "lsRound (pvLastSignState pv) = 0" "lsStep (pvLastSignState pv) = 2"
    "lsSignature (pvLastSignState pv) = Some sig" "lsSignBytes (pvLastSignState pv) = Some (peVoteSignBytes demoPv ''c'' (demoVote 1))"
  shows "\<exists>e. signRequest demoPv (VoteRequest ''c'' (demoVote 9)) (pv, fs) = (Inr e, pv, fs) \<and> sgHRS e = (5, 0, 2)"
proof -
  have "checkVotesOnlyDifferByTimestamp demoPv (peVoteSignBytes demoPv ''c'' (demoVote 1)) (peVoteSignBytes demoPv ''c'' (demoVote 9)) = Inr (1, True)"
    by (simp add: checkVotesOnlyDifferByTimestamp_def pv_lawsD(1) [OF demoPv_laws]) (simp add: canonVote_def demoVote_def)
  moreover have "voteToStep (demoVote t) = Inr 2" "voteHeight (demoVote t) = 5" "voteRound (demoVote t) = 0" for t
    by (simp_all add: voteToStep_def demoVote_def stepPrevote_def)
  moreover have "voteToStep (v\<lparr>voteSignature := x\<rparr>) = voteToStep v" "voteToStep (v\<lparr>voteTimestamp := t, voteSignature := x\<rparr>) = voteToStep v" for v x t
    by (simp_all add: voteToStep_def)
  ultimately show ?thesis
    using assms by (simp add: signRequest_def SFilePV_SignVote_def SFilePV_signVote_def SFilePVLastSignState_CheckHRS_def Let_def)
qed

theorem SFilePV_no_double_sign_witness:
  "\<exists>s0 s e e'. pv_init demoPv ''k'' ''s'' s0 \<and> (pv_step demoPv ''k'' ''s'')\<^sup>*\<^sup>* s0 s \<and> sysReleased s = [e', e] \<and>
     sgHRS e = (5, 0, 2) \<and> sgHRS e' = (5, 0, 2) \<and> sgBytes e = sgBytes e'"
proof -
  obtain tr where tr: "SFilePV_SaveWith demoPv [] [] None demoNewPv Map.empty = (Inr (), tr)"
    using demoPv_saved by blast
  define s0 where "s0 = \<lparr>sysPv = Some demoNewPv, sysFiles = last (Map.empty # tr), sysReleased = []\<rparr>"
  have init: "pv_init demoPv ''k'' ''s'' s0"
    using tr unfolding pv_init_def s0_def demoNewPv_def by blast
  define l where "l = \<lparr>lsHeight = 5, lsRound = 0, lsStep = 2, lsSignature = Some (7 # peVoteSignBytes demoPv ''c'' (demoVote 1)),
        lsSignBytes = Some (peVoteSignBytes demoPv ''c'' (demoVote 1)), lsFilePath = ''s''\<rparr>"
  define pv where "pv = demoNewPv\<lparr>pvLastSignState := l\<rparr>"
  obtain e fs where r: "signRequest demoPv (VoteRequest ''c'' (demoVote 1)) (demoNewPv, sysFiles s0) = (Inr e, pv, fs)" "sgHRS e = (5, 0, 2)"
    by (rule that [OF demoVote_first [of "sysFiles s0", folded l_def, folded pv_def]]) simp
  have pv: "\<exists>e'. signRequest demoPv (VoteRequest ''c'' (demoVote 9)) (pv, fs) = (Inr e', pv, fs) \<and> sgHRS e' = (5, 0, 2)"
    by (rule demoVote_again) (simp_all add: pv_def l_def)
  define s1 where "s1 = s0\<lparr>sysPv := Some pv, sysFiles := fs, sysReleased := [e]\<rparr>"
  have 1: "pv_step demoPv ''k'' ''s'' s0 s1"
    using pv_release [of s0, OF _ r(1)] by (simp add: s1_def s0_def)
  obtain e' where r': "signRequest demoPv (VoteRequest ''c'' (demoVote 9)) (pv, sysFiles s1) = (Inr e', pv, fs)" "sgHRS e' = (5, 0, 2)"
    using pv by (auto simp: s1_def)
  have 2: "pv_step demoPv ''k'' ''s'' s1 (s1\<lparr>sysPv := Some pv, sysFiles := fs, sysReleased := e' # sysReleased s1\<rparr>)"
    using pv_release [of s1, OF _ r'(1)] by (simp add: s1_def)
  have run: "(pv_step demoPv ''k'' ''s'')\<^sup>*\<^sup>* s0 (s1\<lparr>sysPv := Some pv, sysFiles := fs, sysReleased := e' # sysReleased s1\<rparr>)"
    using 1 2 by (rule converse_rtranclp_into_rtranclp [OF _ r_into_rtranclp])
  have m: "e \<in> set (sysReleased (s1\<lparr>sysPv := Some pv, sysFiles := fs, sysReleased := e' # sysReleased s1\<rparr>))"
    "e' \<in> set (sysReleased (s1\<lparr>sysPv := Some pv, sysFiles := fs, sysReleased := e' # sysReleased s1\<rparr>))"
    by (simp_all add: s1_def)
  have ne: "''k'' \<noteq> ''s''" and same: "sgHRS e = sgHRS e'"
    using r(2) r'(2) by simp_all
  have "sgBytes e = sgBytes e'"
    using conjunct2 [OF SFilePV_no_double_sign [OF demoPv_laws ne init run], THEN bspec, OF m(1), THEN bspec, OF m(2), THEN mp, OF same]
    by (rule conjunct1)
  moreover have "sysReleased (s1\<lparr>sysPv := Some pv, sysFiles := fs, sysReleased := e' # sysReleased s1\<rparr>) = [e', e]"
    by (simp add: s1_def)
  ultimately show ?thesis
    using init run r(2) r'(2) by blast
qed

end
