(* ===== verification/Rigo_StateDB.thy ===== *)
theory Rigo_StateDB
  imports Rigo_AcctCtrler
begin

text \<open>
  The state the EVM works on: \<^verbatim>\<open>src/ctrlers/vm/evm/statedb.go\<close> and \<^verbatim>\<open>block_ctx.go\<close>. The wrapper puts the
  accounts of the node behind the \<^verbatim>\<open>state.StateDB\<close> of go-ethereum: the first access to an address
  copies its nonce and balance in, \<^verbatim>\<open>Finish\<close> copies them back.

  go-ethereum is not part of the repository: \<open>stateDBOps\<close> is the record of the operations of its
  \<^verbatim>\<open>StateDB\<close> that are used, with addresses of 20 and hashes of 32 bytes, and a \<^verbatim>\<open>big.Int\<close> as \<open>int\<close>. The
  account handler is the interface \<^verbatim>\<open>IAccountHandler\<close>: \<open>acctHandler\<close> is the record of its methods
  that are called here, and its state \<open>'h\<close> is passed along. It is the account controller in a block
  and the immutable controller in a query.
\<close>

section \<open>Interfaces\<close>

record vmLog =
  lgAddress :: bytes
  lgTopics :: "bytes list"
  lgData :: bytes
  lgRemoved :: bool

text \<open>An access list: addresses with their storage keys.\<close>

type_synonym accessList = "(bytes \<times> bytes list) list"

text \<open>\<open>gethGetOrNewStateObject\<close> also says whether the object is not nil; \<open>gethObjSetNonce\<close> and
  \<open>gethObjSetBalance\<close> are the methods of the state object of an address. \<open>'e\<close> is the disk database:
  \<open>gethNew\<close> opens the state of a root hash, \<open>gethTrieCommit\<close> writes the trie of a root to disk.\<close>

record ('e, 'db) stateDBOps =
  gethNew :: "'e \<Rightarrow> bytes \<Rightarrow> string + 'db"
  gethPrepare :: "bytes \<Rightarrow> int \<Rightarrow> 'db \<Rightarrow> 'db"
  gethCreateAccount :: "bytes \<Rightarrow> 'db \<Rightarrow> 'db"
  gethSubBalance :: "bytes \<Rightarrow> int \<Rightarrow> 'db \<Rightarrow> 'db"
  gethAddBalance :: "bytes \<Rightarrow> int \<Rightarrow> 'db \<Rightarrow> 'db"
  gethGetBalance :: "bytes \<Rightarrow> 'db \<Rightarrow> int"
  gethGetNonce :: "bytes \<Rightarrow> 'db \<Rightarrow> u64"
  gethSetNonce :: "bytes \<Rightarrow> u64 \<Rightarrow> 'db \<Rightarrow> 'db"
  gethGetCodeHash :: "bytes \<Rightarrow> 'db \<Rightarrow> bytes"
  gethGetCode :: "bytes \<Rightarrow> 'db \<Rightarrow> bytes"
  gethSetCode :: "bytes \<Rightarrow> bytes \<Rightarrow> 'db \<Rightarrow> 'db"
  gethGetCodeSize :: "bytes \<Rightarrow> 'db \<Rightarrow> int"
  gethAddRefund :: "u64 \<Rightarrow> 'db \<Rightarrow> 'db"
  gethSubRefund :: "u64 \<Rightarrow> 'db \<Rightarrow> 'db"
  gethGetRefund :: "'db \<Rightarrow> u64"
  gethGetCommittedState :: "bytes \<Rightarrow> bytes \<Rightarrow> 'db \<Rightarrow> bytes"
  gethGetState :: "bytes \<Rightarrow> bytes \<Rightarrow> 'db \<Rightarrow> bytes"
  gethSetState :: "bytes \<Rightarrow> bytes \<Rightarrow> bytes \<Rightarrow> 'db \<Rightarrow> 'db"
  gethSuicide :: "bytes \<Rightarrow> 'db \<Rightarrow> bool \<times> 'db"
  gethHasSuicided :: "bytes \<Rightarrow> 'db \<Rightarrow> bool"
  gethExist :: "bytes \<Rightarrow> 'db \<Rightarrow> bool"
  gethEmpty :: "bytes \<Rightarrow> 'db \<Rightarrow> bool"
  gethPrepareAccessList :: "bytes \<Rightarrow> bytes option \<Rightarrow> bytes list \<Rightarrow> accessList \<Rightarrow> 'db \<Rightarrow> 'db"
  gethAddressInAccessList :: "bytes \<Rightarrow> 'db \<Rightarrow> bool"
  gethSlotInAccessList :: "bytes \<Rightarrow> bytes \<Rightarrow> 'db \<Rightarrow> bool \<times> bool"
  gethAddAddressToAccessList :: "bytes \<Rightarrow> 'db \<Rightarrow> 'db"
  gethAddSlotToAccessList :: "bytes \<Rightarrow> bytes \<Rightarrow> 'db \<Rightarrow> 'db"
  gethRevertToSnapshot :: "int \<Rightarrow> 'db \<Rightarrow> 'db"
  gethSnapshot :: "'db \<Rightarrow> int \<times> 'db"
  gethAddLog :: "vmLog \<Rightarrow> 'db \<Rightarrow> 'db"
  gethAddPreimage :: "bytes \<Rightarrow> bytes \<Rightarrow> 'db \<Rightarrow> 'db"
  gethGetOrNewStateObject :: "bytes \<Rightarrow> 'db \<Rightarrow> bool \<times> 'db"
  gethObjSetNonce :: "bytes \<Rightarrow> u64 \<Rightarrow> 'db \<Rightarrow> 'db"
  gethObjSetBalance :: "bytes \<Rightarrow> int \<Rightarrow> 'db \<Rightarrow> 'db"
  gethFinalise :: "bool \<Rightarrow> 'db \<Rightarrow> 'db"
  gethIntermediateRoot :: "bool \<Rightarrow> 'db \<Rightarrow> bytes \<times> 'db"
  gethGetLogs :: "bytes \<Rightarrow> bytes \<Rightarrow> 'db \<Rightarrow> vmLog list"
  gethCommit :: "bool \<Rightarrow> 'db \<Rightarrow> (string + bytes) \<times> 'db"
  gethTrieCommit :: "bytes \<Rightarrow> 'db \<Rightarrow> 'e \<Rightarrow> string + 'e"

record 'h acctHandler =
  ahFindOrNewAccount :: "bytes \<Rightarrow> bool \<Rightarrow> 'h \<Rightarrow> Account \<times> 'h"
  ahSetAccountCommittable :: "Account \<Rightarrow> bool \<Rightarrow> 'h \<Rightarrow> unit res \<times> 'h"

definition acctHandlerOf :: "'t treeOps \<Rightarrow> acctProtoOps \<Rightarrow> 't AcctCtrler acctHandler" where
  "acctHandlerOf T P =
     \<lparr>ahFindOrNewAccount = AcctCtrler_FindOrNewAccount T P,
      ahSetAccountCommittable = AcctCtrler_setAccountCommittable P\<rparr>"

text \<open>The immutable controller ignores the level.\<close>

definition immuHandlerOf :: "'t treeOps \<Rightarrow> acctProtoOps \<Rightarrow> 't ImmuAcctCtrler acctHandler" where
  "immuHandlerOf T P =
     \<lparr>ahFindOrNewAccount = (\<lambda>addr _. ImmuAcctCtrler_FindOrNewAccount T P addr),
      ahSetAccountCommittable = (\<lambda>acct _. ImmuAcctCtrler_SetAccountCommittable P acct)\<rparr>"

section \<open>The wrapper\<close>

text \<open>\<open>swAccessed\<close> is the map of the accessed addresses to the snapshot they were accessed in,
  plus one.\<close>

record 'db StateDBWrapper =
  swStateDB :: 'db
  swImmutable :: bool
  swAccessed :: "(bytes \<times> int) list"
  swSnapshot :: int
  swExec :: bool

definition newWrapper :: "'db \<Rightarrow> bool \<Rightarrow> 'db StateDBWrapper" where
  "newWrapper db immutable =
     \<lparr>swStateDB = db, swImmutable = immutable, swAccessed = [], swSnapshot = 0, swExec = False\<rparr>"

definition NewStateDBWrapper :: "('e, 'db) stateDBOps \<Rightarrow> 'e \<Rightarrow> bytes \<Rightarrow> string + 'db StateDBWrapper" where
  "NewStateDBWrapper D ethDB rootHash =
     (case gethNew D ethDB (HexBytes_Array32 rootHash) of
        Inl err \<Rightarrow> Inl err
      | Inr stateDB \<Rightarrow> Inr (newWrapper stateDB False))"

definition onDB :: "('db \<Rightarrow> 'db) \<Rightarrow> 'db StateDBWrapper \<Rightarrow> 'db StateDBWrapper" where
  "onDB f s = s\<lparr>swStateDB := f (swStateDB s)\<rparr>"

definition StateDBWrapper_addAccessedObjAddr ::
  "('e, 'db) stateDBOps \<Rightarrow> 'h acctHandler \<Rightarrow> bytes \<Rightarrow> 'db StateDBWrapper \<times> 'h \<Rightarrow> 'db StateDBWrapper \<times> 'h" where
  "StateDBWrapper_addAccessedObjAddr D AH addr sh =
     (let (s, h) = sh in
      if map_of (swAccessed s) addr = None then
        (let (ok, db) = gethGetOrNewStateObject D addr (swStateDB s);
             s = s\<lparr>swStateDB := db\<rparr>
         in if ok then
              (let (rigoAcct, h) = ahFindOrNewAccount AH addr (swExec s) h;
                   db = gethObjSetBalance D addr (uint (acctBalance rigoAcct))
                          (gethObjSetNonce D addr (acctNonce rigoAcct) (swStateDB s))
               in (s\<lparr>swStateDB := db, swAccessed := AList.update addr (swSnapshot s + 1) (swAccessed s)\<rparr>, h))
            else (s, h))
      else (s, h))"

definition StateDBWrapper_AddAddressToAccessList ::
  "('e, 'db) stateDBOps \<Rightarrow> 'h acctHandler \<Rightarrow> bytes \<Rightarrow> 'db StateDBWrapper \<times> 'h \<Rightarrow> 'db StateDBWrapper \<times> 'h" where
  "StateDBWrapper_AddAddressToAccessList D AH addr sh =
     apfst (onDB (gethAddAddressToAccessList D addr)) (StateDBWrapper_addAccessedObjAddr D AH addr sh)"

definition StateDBWrapper_Prepare ::
  "('e, 'db) stateDBOps \<Rightarrow> 'h acctHandler \<Rightarrow> bytes \<Rightarrow> int \<Rightarrow> bytes \<Rightarrow> bytes \<Rightarrow> int \<Rightarrow> bool \<Rightarrow>
     'db StateDBWrapper \<times> 'h \<Rightarrow> 'db StateDBWrapper \<times> 'h" where
  "StateDBWrapper_Prepare D AH txhash txidx from to snap exec sh =
     (let (s, h) = sh;
          s = s\<lparr>swExec := exec, swSnapshot := snap,
                swStateDB := gethPrepare D (HexBytes_Array32 txhash) txidx (swStateDB s)\<rparr>;
          sh = StateDBWrapper_AddAddressToAccessList D AH (HexBytes_Array20 from) (s, h)
      in if \<not> IsZeroAddress to then StateDBWrapper_AddAddressToAccessList D AH (HexBytes_Array20 to) sh else sh)"

text \<open>\<^verbatim>\<open>uint256.MustFromBig\<close> panics on a number of more than 256 bits.\<close>

definition u256_MustFromBig :: "int \<Rightarrow> u256 res" where
  "u256_MustFromBig b = (if 2 ^ 256 \<le> \<bar>b\<bar> then Inl (Panic ''overflow'') else Inr (word_of_int b))"

text \<open>\<^verbatim>\<open>Finish\<close>: the accounts of the accessed addresses get the nonce and the balance of the state. The
  account is written and put back at once; putting it back does not fail, and an error is dropped.\<close>

fun finishLoop :: "('e, 'db) stateDBOps \<Rightarrow> 'h acctHandler \<Rightarrow> 'db StateDBWrapper \<Rightarrow> bytes list \<Rightarrow> 'h \<Rightarrow> unit res \<times> 'h" where
  "finishLoop D AH s [] h = (Inr (), h)"
| "finishLoop D AH s (addr # addrs) h =
     (case u256_MustFromBig (gethGetBalance D addr (swStateDB s)) of
        Inl e \<Rightarrow> (Inl e, h)
      | Inr amt \<Rightarrow>
          (let nonce = gethGetNonce D addr (swStateDB s);
               (acct, h) = ahFindOrNewAccount AH addr (swExec s) h;
               acct = Account_SetNonce nonce (Account_SetBalance amt acct)
           in finishLoop D AH s addrs (snd (ahSetAccountCommittable AH acct (swExec s) h))))"

definition StateDBWrapper_Finish ::
  "('e, 'db) stateDBOps \<Rightarrow> 'h acctHandler \<Rightarrow> 'db StateDBWrapper \<times> 'h \<Rightarrow> unit res \<times> 'db StateDBWrapper \<times> 'h" where
  "StateDBWrapper_Finish D AH sh =
     (let (s, h) = sh in
      case finishLoop D AH s (map fst (swAccessed s)) h of
        (Inl e, h) \<Rightarrow> (Inl e, s, h)
      | (Inr _, h) \<Rightarrow> (Inr (), s\<lparr>swAccessed := []\<rparr>, h))"

text \<open>\<^verbatim>\<open>PrepareAccessList\<close>.\<close>

fun addAccessTuples ::
  "('e, 'db) stateDBOps \<Rightarrow> 'h acctHandler \<Rightarrow> accessList \<Rightarrow> 'db StateDBWrapper \<times> 'h \<Rightarrow> 'db StateDBWrapper \<times> 'h" where
  "addAccessTuples D AH [] sh = sh"
| "addAccessTuples D AH ((addr, keys) # els) sh =
     addAccessTuples D AH els
       (apfst (fold (\<lambda>k. onDB (gethAddSlotToAccessList D addr k)) keys) (StateDBWrapper_addAccessedObjAddr D AH addr sh))"

definition StateDBWrapper_PrepareAccessList ::
  "('e, 'db) stateDBOps \<Rightarrow> 'h acctHandler \<Rightarrow> bytes \<Rightarrow> bytes option \<Rightarrow> bytes list \<Rightarrow> accessList \<Rightarrow>
     'db StateDBWrapper \<times> 'h \<Rightarrow> 'db StateDBWrapper \<times> 'h" where
  "StateDBWrapper_PrepareAccessList D AH addr dest precompiles txAccesses sh =
     (let sh = StateDBWrapper_addAccessedObjAddr D AH addr sh;
          sh = (case dest of None \<Rightarrow> sh | Some d \<Rightarrow> StateDBWrapper_addAccessedObjAddr D AH d sh);
          sh = fold (StateDBWrapper_addAccessedObjAddr D AH) precompiles sh;
          sh = addAccessTuples D AH txAccesses sh
      in apfst (onDB (gethPrepareAccessList D addr dest precompiles txAccesses)) sh)"

definition StateDBWrapper_revertAccessedObjAddr :: "int \<Rightarrow> 'db StateDBWrapper \<Rightarrow> 'db StateDBWrapper" where
  "StateDBWrapper_revertAccessedObjAddr snapshot s =
     (let revertAddrs = map fst (filter (\<lambda>(k, v). snapshot < v) (swAccessed s))
      in s\<lparr>swAccessed := fold AList.delete revertAddrs (swAccessed s)\<rparr>)"

definition StateDBWrapper_RevertToSnapshot :: "('e, 'db) stateDBOps \<Rightarrow> int \<Rightarrow> 'db StateDBWrapper \<Rightarrow> 'db StateDBWrapper" where
  "StateDBWrapper_RevertToSnapshot D revid s =
     onDB (gethRevertToSnapshot D revid) (StateDBWrapper_revertAccessedObjAddr revid s)"

definition StateDBWrapper_Snapshot :: "('e, 'db) stateDBOps \<Rightarrow> 'db StateDBWrapper \<Rightarrow> int \<times> 'db StateDBWrapper" where
  "StateDBWrapper_Snapshot D s =
     (let (n, db) = gethSnapshot D (swStateDB s) in (n, s\<lparr>swStateDB := db, swSnapshot := n\<rparr>))"

section \<open>The methods that only pass on\<close>

definition StateDBWrapper_CreateAccount :: "('e, 'db) stateDBOps \<Rightarrow> bytes \<Rightarrow> 'db StateDBWrapper \<Rightarrow> 'db StateDBWrapper" where
  "StateDBWrapper_CreateAccount D addr = onDB (gethCreateAccount D addr)"

definition StateDBWrapper_SubBalance :: "('e, 'db) stateDBOps \<Rightarrow> bytes \<Rightarrow> int \<Rightarrow> 'db StateDBWrapper \<Rightarrow> 'db StateDBWrapper" where
  "StateDBWrapper_SubBalance D addr amt = onDB (gethSubBalance D addr amt)"

definition StateDBWrapper_AddBalance :: "('e, 'db) stateDBOps \<Rightarrow> bytes \<Rightarrow> int \<Rightarrow> 'db StateDBWrapper \<Rightarrow> 'db StateDBWrapper" where
  "StateDBWrapper_AddBalance D addr amt = onDB (gethAddBalance D addr amt)"

definition StateDBWrapper_GetBalance :: "('e, 'db) stateDBOps \<Rightarrow> bytes \<Rightarrow> 'db StateDBWrapper \<Rightarrow> int" where
  "StateDBWrapper_GetBalance D addr s = gethGetBalance D addr (swStateDB s)"

definition StateDBWrapper_GetNonce :: "('e, 'db) stateDBOps \<Rightarrow> bytes \<Rightarrow> 'db StateDBWrapper \<Rightarrow> u64" where
  "StateDBWrapper_GetNonce D addr s = gethGetNonce D addr (swStateDB s)"

definition StateDBWrapper_SetNonce :: "('e, 'db) stateDBOps \<Rightarrow> bytes \<Rightarrow> u64 \<Rightarrow> 'db StateDBWrapper \<Rightarrow> 'db StateDBWrapper" where
  "StateDBWrapper_SetNonce D addr n = onDB (gethSetNonce D addr n)"

definition StateDBWrapper_GetCodeHash :: "('e, 'db) stateDBOps \<Rightarrow> bytes \<Rightarrow> 'db StateDBWrapper \<Rightarrow> bytes" where
  "StateDBWrapper_GetCodeHash D addr s = gethGetCodeHash D addr (swStateDB s)"

definition StateDBWrapper_GetCode :: "('e, 'db) stateDBOps \<Rightarrow> bytes \<Rightarrow> 'db StateDBWrapper \<Rightarrow> bytes" where
  "StateDBWrapper_GetCode D addr s = gethGetCode D addr (swStateDB s)"

definition StateDBWrapper_SetCode :: "('e, 'db) stateDBOps \<Rightarrow> bytes \<Rightarrow> bytes \<Rightarrow> 'db StateDBWrapper \<Rightarrow> 'db StateDBWrapper" where
  "StateDBWrapper_SetCode D addr code = onDB (gethSetCode D addr code)"

definition StateDBWrapper_GetCodeSize :: "('e, 'db) stateDBOps \<Rightarrow> bytes \<Rightarrow> 'db StateDBWrapper \<Rightarrow> int" where
  "StateDBWrapper_GetCodeSize D addr s = gethGetCodeSize D addr (swStateDB s)"

definition StateDBWrapper_AddRefund :: "('e, 'db) stateDBOps \<Rightarrow> u64 \<Rightarrow> 'db StateDBWrapper \<Rightarrow> 'db StateDBWrapper" where
  "StateDBWrapper_AddRefund D gas = onDB (gethAddRefund D gas)"

definition StateDBWrapper_SubRefund :: "('e, 'db) stateDBOps \<Rightarrow> u64 \<Rightarrow> 'db StateDBWrapper \<Rightarrow> 'db StateDBWrapper" where
  "StateDBWrapper_SubRefund D gas = onDB (gethSubRefund D gas)"

definition StateDBWrapper_GetRefund :: "('e, 'db) stateDBOps \<Rightarrow> 'db StateDBWrapper \<Rightarrow> u64" where
  "StateDBWrapper_GetRefund D s = gethGetRefund D (swStateDB s)"

definition StateDBWrapper_GetCommittedState :: "('e, 'db) stateDBOps \<Rightarrow> bytes \<Rightarrow> bytes \<Rightarrow> 'db StateDBWrapper \<Rightarrow> bytes" where
  "StateDBWrapper_GetCommittedState D addr hash s = gethGetCommittedState D addr hash (swStateDB s)"

definition StateDBWrapper_GetState :: "('e, 'db) stateDBOps \<Rightarrow> bytes \<Rightarrow> bytes \<Rightarrow> 'db StateDBWrapper \<Rightarrow> bytes" where
  "StateDBWrapper_GetState D addr hash s = gethGetState D addr hash (swStateDB s)"

definition StateDBWrapper_SetState :: "('e, 'db) stateDBOps \<Rightarrow> bytes \<Rightarrow> bytes \<Rightarrow> bytes \<Rightarrow> 'db StateDBWrapper \<Rightarrow> 'db StateDBWrapper" where
  "StateDBWrapper_SetState D addr key val = onDB (gethSetState D addr key val)"

definition StateDBWrapper_Suicide :: "('e, 'db) stateDBOps \<Rightarrow> bytes \<Rightarrow> 'db StateDBWrapper \<Rightarrow> bool \<times> 'db StateDBWrapper" where
  "StateDBWrapper_Suicide D addr s =
     (let (b, db) = gethSuicide D addr (swStateDB s) in (b, s\<lparr>swStateDB := db\<rparr>))"

definition StateDBWrapper_HasSuicided :: "('e, 'db) stateDBOps \<Rightarrow> bytes \<Rightarrow> 'db StateDBWrapper \<Rightarrow> bool" where
  "StateDBWrapper_HasSuicided D addr s = gethHasSuicided D addr (swStateDB s)"

definition StateDBWrapper_Exist :: "('e, 'db) stateDBOps \<Rightarrow> bytes \<Rightarrow> 'db StateDBWrapper \<Rightarrow> bool" where
  "StateDBWrapper_Exist D addr s = gethExist D addr (swStateDB s)"

definition StateDBWrapper_Empty :: "('e, 'db) stateDBOps \<Rightarrow> bytes \<Rightarrow> 'db StateDBWrapper \<Rightarrow> bool" where
  "StateDBWrapper_Empty D addr s = gethEmpty D addr (swStateDB s)"

definition StateDBWrapper_AddressInAccessList :: "('e, 'db) stateDBOps \<Rightarrow> bytes \<Rightarrow> 'db StateDBWrapper \<Rightarrow> bool" where
  "StateDBWrapper_AddressInAccessList D addr s = gethAddressInAccessList D addr (swStateDB s)"

definition StateDBWrapper_SlotInAccessList :: "('e, 'db) stateDBOps \<Rightarrow> bytes \<Rightarrow> bytes \<Rightarrow> 'db StateDBWrapper \<Rightarrow> bool \<times> bool" where
  "StateDBWrapper_SlotInAccessList D addr slot s = gethSlotInAccessList D addr slot (swStateDB s)"

definition StateDBWrapper_AddSlotToAccessList :: "('e, 'db) stateDBOps \<Rightarrow> bytes \<Rightarrow> bytes \<Rightarrow> 'db StateDBWrapper \<Rightarrow> 'db StateDBWrapper" where
  "StateDBWrapper_AddSlotToAccessList D addr slot = onDB (gethAddSlotToAccessList D addr slot)"

definition StateDBWrapper_AddLog :: "('e, 'db) stateDBOps \<Rightarrow> vmLog \<Rightarrow> 'db StateDBWrapper \<Rightarrow> 'db StateDBWrapper" where
  "StateDBWrapper_AddLog D l = onDB (gethAddLog D l)"

definition StateDBWrapper_AddPreimage :: "('e, 'db) stateDBOps \<Rightarrow> bytes \<Rightarrow> bytes \<Rightarrow> 'db StateDBWrapper \<Rightarrow> 'db StateDBWrapper" where
  "StateDBWrapper_AddPreimage D hash preimage = onDB (gethAddPreimage D hash preimage)"

section \<open>Blocks and messages\<close>

definition gasLimit :: u64 where "gasLimit = 25000000"
definition gasFeeCap :: u256 where "gasFeeCap = 0"
definition gasTipCap :: u256 where "gasTipCap = 0"

definition CanTransfer :: "('e, 'db) stateDBOps \<Rightarrow> 'db StateDBWrapper \<Rightarrow> bytes \<Rightarrow> int \<Rightarrow> bool" where
  "CanTransfer D db addr amount \<longleftrightarrow> StateDBWrapper_GetBalance D addr db \<ge> amount"

definition evm_Transfer :: "('e, 'db) stateDBOps \<Rightarrow> 'db StateDBWrapper \<Rightarrow> bytes \<Rightarrow> bytes \<Rightarrow> int \<Rightarrow> 'db StateDBWrapper" where
  "evm_Transfer D db sender recipient amount =
     StateDBWrapper_AddBalance D recipient amount (StateDBWrapper_SubBalance D sender amount db)"

definition GetHash :: "u64 \<Rightarrow> bytes" where
  "GetHash h = ZeroBytes 32"

record 'db vmBlockContext =
  vbCanTransfer :: "'db StateDBWrapper \<Rightarrow> bytes \<Rightarrow> int \<Rightarrow> bool"
  vbTransfer :: "'db StateDBWrapper \<Rightarrow> bytes \<Rightarrow> bytes \<Rightarrow> int \<Rightarrow> 'db StateDBWrapper"
  vbGetHash :: "u64 \<Rightarrow> bytes"
  vbCoinbase :: bytes
  vbBlockNumber :: int
  vbTime :: int
  vbDifficulty :: int
  vbBaseFee :: int
  vbGasLimit :: u64

definition evmBlockContext :: "('e, 'db) stateDBOps \<Rightarrow> bytes \<Rightarrow> int \<Rightarrow> int \<Rightarrow> 'db vmBlockContext" where
  "evmBlockContext D sender bn tm =
     \<lparr>vbCanTransfer = CanTransfer D, vbTransfer = evm_Transfer D, vbGetHash = GetHash, vbCoinbase = sender,
      vbBlockNumber = bn, vbTime = tm, vbDifficulty = 1, vbBaseFee = 0, vbGasLimit = gasLimit\<rparr>"

record vmMessage =
  vmFrom :: bytes
  vmTo :: "bytes option"
  vmNonce :: u64
  vmAmount :: int
  vmGas :: u64
  vmGasPrice :: int
  vmGasFeeCap :: int
  vmGasTipCap :: int
  vmData :: bytes
  vmAccessList :: accessList
  vmIsFake :: bool

definition evmMessage :: "bytes \<Rightarrow> bytes option \<Rightarrow> u64 \<Rightarrow> u64 \<Rightarrow> u256 \<Rightarrow> u256 \<Rightarrow> bytes \<Rightarrow> bool \<Rightarrow> vmMessage" where
  "evmMessage from to nonce gas gasPrice amt data isFake =
     \<lparr>vmFrom = from, vmTo = to, vmNonce = nonce, vmAmount = uint amt, vmGas = gas, vmGasPrice = uint gasPrice,
      vmGasFeeCap = uint gasFeeCap, vmGasTipCap = uint gasTipCap, vmData = data, vmAccessList = [], vmIsFake = isFake\<rparr>"

end
