(* ===== verification/Rigo_EVM.thy ===== *)
theory Rigo_EVM
  imports Rigo_StateDB Rigo_StakeCtrler Rigo_Crypto
begin

text \<open>
  The EVM controller: \<^verbatim>\<open>src/ctrlers/vm/evm/ctrler.go\<close>, \<^verbatim>\<open>query.go\<close> and \<^verbatim>\<open>precompiled.go\<close>. The EVM itself is
  not part of the repository: \<^verbatim>\<open>ApplyMessage\<close> is a parameter that runs a message on the wrapper and
  the accounts, as are the other functions of go-ethereum that are called. The fields of the chain
  configuration are only read by go-ethereum; the forks the source asks for are parameters.
\<close>

section \<open>Decimal numbers\<close>

fun dec_value :: "nat \<Rightarrow> string \<Rightarrow> nat option" where
  "dec_value n [] = Some n"
| "dec_value n (c # cs) =
     (let d = of_char c :: nat in if 48 \<le> d \<and> d \<le> 57 then dec_value (10 * n + (d - 48)) cs else None)"

text \<open>\<^verbatim>\<open>strconv.ParseInt(s, 10, 64)\<close>.\<close>

definition strconv_ParseInt :: "string \<Rightarrow> string + int" where
  "strconv_ParseInt s =
     (let neg = (s \<noteq> [] \<and> hd s = CHR ''-'');
          ds = (if s \<noteq> [] \<and> (hd s = CHR ''-'' \<or> hd s = CHR ''+'') then tl s else s)
      in if ds = [] then Inl ''strconv.ParseInt: invalid syntax''
         else case dec_value 0 ds of
                None \<Rightarrow> Inl ''strconv.ParseInt: invalid syntax''
              | Some n \<Rightarrow>
                  if in_i64 (if neg then - int n else int n) then Inr (if neg then - int n else int n)
                  else Inl ''strconv.ParseInt: value out of range'')"

section \<open>State\<close>

record executionResult =
  erUsedGas :: u64
  erErr :: "string option"
  erReturnData :: bytes

text \<open>The database of heights and root hashes: \<open>mtWriteSync\<close> writes a batch; the source ignores its
  error.\<close>

record 'm metaOps =
  mtGet :: "'m \<Rightarrow> bytes \<Rightarrow> string + bytes option"
  mtWriteSync :: "(bytes \<times> bytes) list \<Rightarrow> 'm \<Rightarrow> 'm"

text \<open>\<open>eeApplyMessage\<close> gets the block context of the EVM, the message and the gas pool;
  \<open>eeCallMessage\<close> is the same function on an immutable state, and also says whether the EVM was
  cancelled. \<open>eeBlockTime\<close> is the time of a block of the node.\<close>

record ('t, 'e, 'db, 'm) evmEnv =
  eeTree :: "'t treeOps"
  eeAccts :: acctProtoOps
  eeState :: "('e, 'db) stateDBOps"
  eeMeta :: "'m metaOps"
  eeApplyMessage :: "'db vmBlockContext \<Rightarrow> vmMessage \<Rightarrow> u64 \<Rightarrow> 'db StateDBWrapper \<times> 't AcctCtrler \<Rightarrow>
    (string + executionResult) \<times> u64 \<times> 'db StateDBWrapper \<times> 't AcctCtrler"
  eeCallMessage :: "'db vmBlockContext \<Rightarrow> vmMessage \<Rightarrow> u64 \<Rightarrow> 'db StateDBWrapper \<times> 't ImmuAcctCtrler \<Rightarrow>
    (string + executionResult) \<times> bool"
  eeIntrinsicGas :: "bytes \<Rightarrow> bool \<Rightarrow> bool \<Rightarrow> bool \<Rightarrow> string + u64"
  eeCreateAddress :: "bytes \<Rightarrow> u64 \<Rightarrow> bytes"
  eeIsHomestead :: "int \<Rightarrow> bool"
  eeIsIstanbul :: "int \<Rightarrow> bool"
  eeIsByzantium :: "int \<Rightarrow> bool"
  eeIsEIP158 :: "int \<Rightarrow> bool"
  eeBlockTime :: "int \<Rightarrow> string + int"

record ('e, 'db, 'm) EVMCtrler =
  ecVmevm :: "'db vmBlockContext option"
  ecEthDB :: 'e
  ecStateDB :: "'db StateDBWrapper option"
  ecBlockGasPool :: u64
  ecMetadb :: 'm
  ecLastRootHash :: bytes
  ecLastBlockHeight :: int

abbreviation evmAcct :: "('t, 'e, 'db, 'm) evmEnv \<Rightarrow> 't AcctCtrler acctHandler" where
  "evmAcct E \<equiv> acctHandlerOf (eeTree E) (eeAccts E)"

definition lastBlockHeightKey :: bytes where
  "lastBlockHeightKey = str_bytes ''lbh''"

definition blockKey :: "int \<Rightarrow> bytes" where
  "blockKey h = str_bytes (''bn'' @ strconv_FormatInt h)"

text \<open>A panic with an error as its value.\<close>

definition panicErr :: "string \<Rightarrow> fault" where
  "panicErr err = Panic err"

text \<open>\<^verbatim>\<open>NewEVMCtrler\<close>, given the opened databases.\<close>

definition NewEVMCtrler :: "('t, 'e, 'db, 'm) evmEnv \<Rightarrow> 'm \<Rightarrow> 'e \<Rightarrow> ('e, 'db, 'm) EVMCtrler res" where
  "NewEVMCtrler E metadb ethDB =
     (case mtGet (eeMeta E) metadb lastBlockHeightKey of
        Inl err \<Rightarrow> Inl (panicErr err)
      | Inr val \<Rightarrow>
          (case (case val of None \<Rightarrow> Inr 0 | Some v \<Rightarrow> strconv_ParseInt (field_str v)) of
             Inl err \<Rightarrow> Inl (panicErr err)
           | Inr bn \<Rightarrow>
               (case mtGet (eeMeta E) metadb (blockKey bn) of
                  Inl err \<Rightarrow> Inl (panicErr err)
                | Inr hash \<Rightarrow>
                    Inr \<lparr>ecVmevm = None, ecEthDB = ethDB, ecStateDB = None, ecBlockGasPool = 0, ecMetadb = metadb,
                         ecLastRootHash = (case hash of None \<Rightarrow> [] | Some h \<Rightarrow> h), ecLastBlockHeight = bn\<rparr>)))"

definition EVMCtrler_InitLedger :: "('e, 'db, 'm) EVMCtrler \<Rightarrow> unit res \<times> ('e, 'db, 'm) EVMCtrler" where
  "EVMCtrler_InitLedger c = (Inr (), c)"

section \<open>Blocks and transactions\<close>

definition EVMCtrler_BeginBlock ::
  "('t, 'e, 'db, 'm) evmEnv \<Rightarrow> BlockContext \<Rightarrow> ('e, 'db, 'm) EVMCtrler \<Rightarrow> event list res \<times> ('e, 'db, 'm) EVMCtrler" where
  "EVMCtrler_BeginBlock E ctx c =
     (if i64 (ecLastBlockHeight c + 1) \<noteq> BlockContext_Height ctx
      then (Inl (Error (xerror_Wrapf ErrBeginBlock ''wrong block height - expected: %v, actual: %v'')), c)
      else case NewStateDBWrapper (eeState E) (ecEthDB c) (ecLastRootHash c) of
             Inl err \<Rightarrow> (Inl (Error (xerrors_NewOrdinary err)), c)
           | Inr stdb \<Rightarrow>
               (let beneficiary = HexBytes_Array20 (case biProposerAddress (bctxBlockInfo ctx) of None \<Rightarrow> [] | Some a \<Rightarrow> a)
                in (Inr [], c\<lparr>ecStateDB := Some stdb, ecBlockGasPool := gasLimit,
                       ecVmevm := Some (evmBlockContext (eeState E) beneficiary (BlockContext_Height ctx) (BlockContext_TimeSeconds ctx))\<rparr>)))"

definition contractData :: "Trx \<Rightarrow> bytes" where
  "contractData tx = (case txPayload tx of Some (TrxPayloadContract d) \<Rightarrow> d | _ \<Rightarrow> [])"

text \<open>The first test of both handlers: anything but a contract transaction needs a receiver with
  code.\<close>

definition evmTrxType :: "TrxContext \<Rightarrow> 't AcctCtrler \<Rightarrow> unit res" where
  "evmTrxType ctx ac =
     (if txType (ctxTx ctx) \<noteq> TRX_CONTRACT then
        (case AcctCtrler_at (ctxExec ctx) (ctxReceiver ctx) ac of
           None \<Rightarrow> Inl nilPointer
         | Some receiver \<Rightarrow> if acctCode receiver = None then Inl (Error ErrUnknownTrxType) else Inr ())
      else Inr ())"

definition EVMCtrler_ValidateTrx :: "('t, 'e, 'db, 'm) evmEnv \<Rightarrow> TrxContext \<Rightarrow> 't AcctCtrler \<Rightarrow> unit res" where
  "EVMCtrler_ValidateTrx E ctx ac =
     (case evmTrxType ctx ac of
        Inl e \<Rightarrow> Inl e
      | Inr _ \<Rightarrow>
          (let tx = ctxTx ctx; bn = ctxHeight ctx in
           case eeIntrinsicGas E (contractData tx) (IsZeroAddress (txTo tx)) (eeIsHomestead E bn) (eeIsIstanbul E bn) of
             Inl err \<Rightarrow> Inl (Error (xerrors_NewOrdinary err))
           | Inr gas \<Rightarrow> if txGas tx < gas then Inl (Error ErrInvalidGas) else Inr ()))"

definition EVMCtrler_execVM ::
  "('t, 'e, 'db, 'm) evmEnv \<Rightarrow> bytes \<Rightarrow> bytes \<Rightarrow> u64 \<Rightarrow> u64 \<Rightarrow> u256 \<Rightarrow> u256 \<Rightarrow> bytes \<Rightarrow>
     'db StateDBWrapper \<Rightarrow> ('e, 'db, 'm) EVMCtrler \<times> 't AcctCtrler \<Rightarrow>
     executionResult res \<times> 'db StateDBWrapper \<times> ('e, 'db, 'm) EVMCtrler \<times> 't AcctCtrler" where
  "EVMCtrler_execVM E from to nonce gas gasPrice amt data s cac =
     (let (c, ac) = cac;
          toAddr = (if IsZeroAddress to then None else Some (HexBytes_Array20 to));
          vmmsg = evmMessage (HexBytes_Array20 from) toAddr nonce gas gasPrice amt data False
      in case ecVmevm c of
           None \<Rightarrow> (Inl nilPointer, s, c, ac)
         | Some vmevm \<Rightarrow>
             (let (r, gp, s, ac) = eeApplyMessage E vmevm vmmsg (ecBlockGasPool c) (s, ac);
                  c = c\<lparr>ecBlockGasPool := gp\<rparr>
              in (case r of Inl err \<Rightarrow> Inl (Error (xerrors_NewOrdinary err)) | Inr result \<Rightarrow> Inr result, s, c, ac)))"

text \<open>The event of the logs of a transaction.\<close>

fun topicAttrs :: "nat \<Rightarrow> bytes list \<Rightarrow> (bytes \<times> bytes \<times> bool) list" where
  "topicAttrs i [] = []"
| "topicAttrs i (t # ts) =
     eventAttr (''topic.'' @ dec_digits i) (map to_upper (hex_EncodeToString t)) True # topicAttrs (i + 1) ts"

definition logAttrs :: "vmLog \<Rightarrow> (bytes \<times> bytes \<times> bool) list" where
  "logAttrs l =
     [eventAttr ''contract'' (hex_EncodeToString (lgAddress l)) True] @ topicAttrs 0 (lgTopics l) @
     (if length (lgData l) > 0 then [eventAttr ''data'' (hex_EncodeToString (lgData l)) False] else []) @
     [eventAttr ''removed'' (if lgRemoved l then ''true'' else ''false'') False]"

text \<open>After a message that created a contract: the code of the new account is the hash of the
  transaction, and its address is returned.\<close>

definition recordContract ::
  "('t, 'e, 'db, 'm) evmEnv \<Rightarrow> TrxContext \<Rightarrow> 't AcctCtrler \<Rightarrow> (bytes \<times> bytes \<times> bool) list res \<times> TrxContext \<times> 't AcctCtrler" where
  "recordContract E ctx ac =
     (let tx = ctxTx ctx; createdAddr = eeCreateAddress E (HexBytes_Array20 (txFrom tx)) (txNonce tx) in
      case AcctCtrler_FindAccount (eeTree E) (eeAccts E) createdAddr (ctxExec ctx) ac of
        (None, ac) \<Rightarrow> (Inl nilPointer, ctx, ac)
      | (Some contAcct, ac) \<Rightarrow>
          (case AcctCtrler_setAccountCommittable (eeAccts E) (Account_SetCode (Some (ctxTxHash ctx)) contAcct) (ctxExec ctx) ac of
             (Inl xerr, ac) \<Rightarrow> (Inl xerr, ctx, ac)
           | (Inr _, ac) \<Rightarrow>
               (Inr [eventAttr ''contractAddress'' (HexBytes_String createdAddr) False], ctx\<lparr>ctxRetData := createdAddr\<rparr>, ac)))"

text \<open>The end of a message: the accessed accounts are written back.\<close>

definition evmFinish ::
  "('t, 'e, 'db, 'm) evmEnv \<Rightarrow> 'db StateDBWrapper \<Rightarrow> ('e, 'db, 'm) EVMCtrler \<times> 't AcctCtrler \<Rightarrow>
     unit res \<times> 'db StateDBWrapper \<times> ('e, 'db, 'm) EVMCtrler \<times> 't AcctCtrler" where
  "evmFinish E s cac =
     (let (c, ac) = cac; (r, s, ac) = StateDBWrapper_Finish (eeState E) (evmAcct E) (s, ac)
      in (r, s, c\<lparr>ecStateDB := Some s\<rparr>, ac))"

text \<open>A message that failed: the state goes back to the snapshot.\<close>

definition evmRevert ::
  "('t, 'e, 'db, 'm) evmEnv \<Rightarrow> int \<Rightarrow> fault \<Rightarrow> TrxContext \<Rightarrow> 'db StateDBWrapper \<Rightarrow> ('e, 'db, 'm) EVMCtrler \<times> 't AcctCtrler \<Rightarrow>
     unit res \<times> TrxContext \<times> ('e, 'db, 'm) EVMCtrler \<times> 't AcctCtrler" where
  "evmRevert E snap xerr ctx s cac =
     (case evmFinish E (StateDBWrapper_RevertToSnapshot (eeState E) snap s) cac of
        (Inl p, s, c, ac) \<Rightarrow> (Inl p, ctx, c, ac)
      | (Inr _, s, c, ac) \<Rightarrow> (Inl xerr, ctx, c, ac))"

text \<open>A message that succeeded: the state is finalised and the result and the logs go to the
  context.\<close>

definition evmSucceed ::
  "('t, 'e, 'db, 'm) evmEnv \<Rightarrow> executionResult \<Rightarrow> TrxContext \<Rightarrow> 'db StateDBWrapper \<Rightarrow> ('e, 'db, 'm) EVMCtrler \<times> 't AcctCtrler \<Rightarrow>
     unit res \<times> TrxContext \<times> ('e, 'db, 'm) EVMCtrler \<times> 't AcctCtrler" where
  "evmSucceed E evmResult ctx s cac =
     (case evmFinish E s cac of
        (Inl p, s, c, ac) \<Rightarrow> (Inl p, ctx, c, ac)
      | (Inr _, s, c, ac) \<Rightarrow>
          (let D = eeState E; blockNumber = uint (word_of_int (ctxHeight ctx) :: u64);
               (s, root) = (if eeIsByzantium E blockNumber then (onDB (gethFinalise D True) s, ecLastRootHash c)
                            else let (h, db) = gethIntermediateRoot D (eeIsEIP158 E blockNumber) (swStateDB s)
                                 in (s\<lparr>swStateDB := db\<rparr>, h));
               c = c\<lparr>ecStateDB := Some s, ecLastRootHash := root\<rparr>;
               ctx = ctx\<lparr>ctxGasUsed := erUsedGas evmResult, ctxRetData := erReturnData evmResult\<rparr>;
               (r, ctx, ac) = (if IsZeroAddress (txTo (ctxTx ctx)) then recordContract E ctx ac else (Inr [], ctx, ac))
           in case r of
                Inl xerr \<Rightarrow> (Inl xerr, ctx, c, ac)
              | Inr attrs \<Rightarrow>
                  (let logs = gethGetLogs D (HexBytes_Array32 (ctxTxHash ctx)) (ZeroBytes 32) (swStateDB s)
                   in (Inr (), ctx\<lparr>ctxEvents := ctxEvents ctx @ [(''evm'', attrs @ concat (map logAttrs logs))]\<rparr>, c, ac))))"

definition EVMCtrler_ExecuteTrx ::
  "('t, 'e, 'db, 'm) evmEnv \<Rightarrow> GovParams \<Rightarrow> TrxContext \<Rightarrow> ('e, 'db, 'm) EVMCtrler \<times> 't AcctCtrler \<Rightarrow>
     unit res \<times> TrxContext \<times> ('e, 'db, 'm) EVMCtrler \<times> 't AcctCtrler" where
  "EVMCtrler_ExecuteTrx E gov ctx cac =
     (let (c, ac) = cac; tx = ctxTx ctx; D = eeState E in
      if ctxExec ctx = False then (Inr (), ctx, c, ac)
      else case evmTrxType ctx ac of
        Inl e \<Rightarrow> (Inl e, ctx, c, ac)
      | Inr _ \<Rightarrow>
          (case ecStateDB c of
             None \<Rightarrow> (Inl nilPointer, ctx, c, ac)
           | Some s \<Rightarrow>
               (let (snap, s) = StateDBWrapper_Snapshot D s;
                    (s, ac) = StateDBWrapper_Prepare D (evmAcct E) (ctxTxHash ctx) (ctxTxIdx ctx) (txFrom tx) (txTo tx) snap (ctxExec ctx) (s, ac);
                    c = c\<lparr>ecStateDB := Some s\<rparr>
                in case GovParams_GasPrice gov of
                     Inl e \<Rightarrow> (Inl e, ctx, c, ac)
                   | Inr gasPrice \<Rightarrow>
                       (case EVMCtrler_execVM E (txFrom tx) (txTo tx) (txNonce tx) (txGas tx) gasPrice (txAmount tx) (contractData tx) s (c, ac) of
                          (Inl (Panic p), s, c, ac) \<Rightarrow> (Inl (Panic p), ctx, c, ac)
                        | (Inl (Error xerr), s, c, ac) \<Rightarrow> evmRevert E snap (Error xerr) ctx s (c, ac)
                        | (Inr evmResult, s, c, ac) \<Rightarrow>
                            (case erErr evmResult of
                               Some err \<Rightarrow>
                                 evmRevert E snap (Error (xerrors_NewOrdinary err)) (ctx\<lparr>ctxRetData := erReturnData evmResult\<rparr>) s (c, ac)
                             | None \<Rightarrow> evmSucceed E evmResult ctx s (c, ac))))))"

definition EVMCtrler_EndBlock :: "BlockContext \<Rightarrow> ('e, 'db, 'm) EVMCtrler \<Rightarrow> event list res \<times> ('e, 'db, 'm) EVMCtrler" where
  "EVMCtrler_EndBlock ctx c = (Inr [], c)"

definition EVMCtrler_Commit ::
  "('t, 'e, 'db, 'm) evmEnv \<Rightarrow> ('e, 'db, 'm) EVMCtrler \<Rightarrow> (bytes \<times> int) res \<times> ('e, 'db, 'm) EVMCtrler" where
  "EVMCtrler_Commit E c =
     (let D = eeState E in
      case ecStateDB c of
        None \<Rightarrow> (Inl nilPointer, c)
      | Some s \<Rightarrow>
          (case gethCommit D True (swStateDB s) of
             (Inl err, db) \<Rightarrow> (Inl (panicErr err), c\<lparr>ecStateDB := Some (s\<lparr>swStateDB := db\<rparr>)\<rparr>)
           | (Inr rootHash, db) \<Rightarrow>
               (let c = c\<lparr>ecStateDB := Some (s\<lparr>swStateDB := db\<rparr>)\<rparr> in
                case gethTrieCommit D rootHash db (ecEthDB c) of
                  Inl err \<Rightarrow> (Inl (panicErr err), c)
                | Inr ethDB \<Rightarrow>
                    (let h = i64 (ecLastBlockHeight c + 1);
                         c = c\<lparr>ecEthDB := ethDB, ecLastBlockHeight := h, ecLastRootHash := rootHash,
                               ecMetadb := mtWriteSync (eeMeta E)
                                 [(lastBlockHeightKey, str_bytes (strconv_FormatInt h)), (blockKey h, rootHash)] (ecMetadb c)\<rparr>
                     in case NewStateDBWrapper D (ecEthDB c) (ecLastRootHash c) of
                          Inl err \<Rightarrow> (Inl (panicErr err), c)
                        | Inr stdb \<Rightarrow> (Inr (rootHash, h), c\<lparr>ecStateDB := Some stdb\<rparr>)))))"

section \<open>Queries\<close>

definition EVMCtrler_ImmutableStateAt ::
  "('t, 'e, 'db, 'm) evmEnv \<Rightarrow> int \<Rightarrow> ('e, 'db, 'm) EVMCtrler \<Rightarrow> 't AcctCtrler \<Rightarrow> ('db StateDBWrapper \<times> 't ImmuAcctCtrler) res" where
  "EVMCtrler_ImmutableStateAt E height c ac =
     (case mtGet (eeMeta E) (ecMetadb c) (blockKey height) of
        Inl err \<Rightarrow> Inl (Error (xerrors_NewOrdinary err))
      | Inr hash \<Rightarrow>
          (case gethNew (eeState E) (ecEthDB c) (HexBytes_Array32 (case hash of None \<Rightarrow> [] | Some h \<Rightarrow> h)) of
             Inl err \<Rightarrow> Inl (Error (xerrors_NewOrdinary err))
           | Inr stateDB \<Rightarrow>
               (case AcctCtrler_ImmutableAcctCtrlerAt (eeTree E) height ac of
                  Inl xerr \<Rightarrow> Inl xerr
                | Inr immuAcctHandler \<Rightarrow> Inr (newWrapper stateDB True, immuAcctHandler))))"

definition EVMCtrler_callVM ::
  "('t, 'e, 'db, 'm) evmEnv \<Rightarrow> bytes \<Rightarrow> bytes \<Rightarrow> bytes \<Rightarrow> int \<Rightarrow> int \<Rightarrow> ('e, 'db, 'm) EVMCtrler \<Rightarrow> 't AcctCtrler \<Rightarrow> executionResult res" where
  "EVMCtrler_callVM E from to data height blockTime c ac =
     (case EVMCtrler_ImmutableStateAt E height c ac of
        Inl xerr \<Rightarrow> Inl xerr
      | Inr si \<Rightarrow>
          (let D = eeState E;
               si = StateDBWrapper_Prepare D (immuHandlerOf (eeTree E) (eeAccts E)) [] 0 from to 0 False si;
               sender = HexBytes_Array20 from;
               toAddr = (if IsZeroAddress to then None else Some (HexBytes_Array20 to));
               vmmsg = evmMessage sender toAddr 0 gasLimit 0 0 data True;
               (result, cancelled) = eeCallMessage E (evmBlockContext D sender height blockTime) vmmsg gasLimit si
           in case result of
                Inl err \<Rightarrow> Inl (Error (xerrors_NewOrdinary err))
              | Inr result \<Rightarrow>
                  if cancelled then Inl (Error (xerrors_NewOrdinary ''execution aborted (timeout ???)''))
                  else Inr result))"

record VMCallResult =
  vcUsedGas :: u64
  vcErr :: string
  vcReturnData :: bytes

text \<open>The slices of the request panic exactly when the data is shorter than two addresses. \<open>J\<close> is the
  JSON form of the answer.\<close>

definition EVMCtrler_Query ::
  "('t, 'e, 'db, 'm) evmEnv \<Rightarrow> (VMCallResult \<Rightarrow> string + bytes) \<Rightarrow> requestQuery \<Rightarrow> ('e, 'db, 'm) EVMCtrler \<Rightarrow> 't AcctCtrler \<Rightarrow> bytes res" where
  "EVMCtrler_Query E J req c ac =
     (if length (rqData req) < 2 * AddrSize then Inl (Panic ''runtime error: slice bounds out of range'')
      else
        let from = take AddrSize (rqData req); to = take AddrSize (drop AddrSize (rqData req));
            data = drop (2 * AddrSize) (rqData req);
            height = (if rqHeight req \<le> 0 then ecLastBlockHeight c else rqHeight req)
        in case eeBlockTime E height of
             Inl err \<Rightarrow> Inl (Error (xerrors_NewOrdinary err))
           | Inr btm \<Rightarrow>
               (case EVMCtrler_callVM E from to data height btm c ac of
                  Inl xerr \<Rightarrow> Inl xerr
                | Inr execRet \<Rightarrow>
                    (case J \<lparr>vcUsedGas = erUsedGas execRet, vcErr = (case erErr execRet of None \<Rightarrow> '''' | Some e \<Rightarrow> e),
                            vcReturnData = erReturnData execRet\<rparr> of
                       Inl err \<Rightarrow> Inl (Error (xerrors_NewOrdinary err))
                     | Inr retbz \<Rightarrow> Inr retbz)))"

definition EVMCtrler_QueryCode ::
  "('t, 'e, 'db, 'm) evmEnv \<Rightarrow> bytes \<Rightarrow> int \<Rightarrow> ('e, 'db, 'm) EVMCtrler \<Rightarrow> 't AcctCtrler \<Rightarrow> bytes res" where
  "EVMCtrler_QueryCode E addr height c ac =
     (case EVMCtrler_ImmutableStateAt E height c ac of
        Inl xerr \<Rightarrow> Inl xerr
      | Inr (state, immu) \<Rightarrow> Inr (StateDBWrapper_GetCode (eeState E) (HexBytes_Array20 addr) state))"

section \<open>The precompiled contract\<close>

fun allZero :: "bytes \<Rightarrow> bool" where
  "allZero [] = True"
| "allZero (b0 # b) = (if b0 \<noteq> 0 then False else allZero b)"

text \<open>\<^verbatim>\<open>common.RightPadBytes\<close> and \<^verbatim>\<open>LeftPadBytes\<close>.\<close>

definition RightPadBytes :: "bytes \<Rightarrow> nat \<Rightarrow> bytes" where
  "RightPadBytes s l = s @ replicate (l - length s) 0"

definition LeftPadBytes :: "bytes \<Rightarrow> nat \<Rightarrow> bytes" where
  "LeftPadBytes s l = replicate (l - length s) 0 @ s"

text \<open>The curve is a parameter: \<open>validSig v r s\<close> is \<^verbatim>\<open>ValidateSignatureValues\<close> (not homestead), \<open>sigToAddr\<close>
  the address of \<^verbatim>\<open>Pub2Addr\<close> for the public key of \<^verbatim>\<open>SigToPub\<close>. A nil answer without error is
  \<open>Inr None\<close>.\<close>

definition rigo_ecrecover_Run ::
  "(byte \<Rightarrow> bytes \<Rightarrow> bytes \<Rightarrow> bool) \<Rightarrow> (bytes \<Rightarrow> bytes \<Rightarrow> string + bytes) \<Rightarrow> bytes \<Rightarrow> string + bytes option" where
  "rigo_ecrecover_Run validSig sigToAddr input =
     (let input = RightPadBytes input 128;
          r = take 32 (drop 64 input); s = take 32 (drop 96 input); v = input ! 63
      in if \<not> allZero (take 31 (drop 32 input)) \<or> \<not> validSig v r s then Inr None
         else case sigToAddr (take 32 input) (r @ s @ [v]) of
                Inl err \<Rightarrow> Inl err
              | Inr addr \<Rightarrow> Inr (Some (LeftPadBytes addr 32)))"

end
