(* ===== verification/Rigo_EVMProps.thy ===== *)
theory Rigo_EVMProps
  imports Rigo_EVM Rigo_AcctProps
begin

text \<open>
  What the EVM controller promises, whatever the EVM does through the interface of the state: a failed
  message changes no account, a successful one gives exactly the accessed accounts the nonces and the
  balances of the EVM, and the heights and root hashes survive a restart.
\<close>

section \<open>What is relied on\<close>

text \<open>\<open>N\<close> is the number of the next snapshot, which go-ethereum counts up and no other operation
  changes.\<close>

definition geth_laws :: "('e, 'db) stateDBOps \<Rightarrow> ('db \<Rightarrow> int) \<Rightarrow> bool" where
  "geth_laws D N \<longleftrightarrow>
     (\<forall>db. fst (gethSnapshot D db) = N db \<and> N (snd (gethSnapshot D db)) = N db + 1) \<and>
     (\<forall>n db. N (gethRevertToSnapshot D n db) = N db) \<and>
     (\<forall>a db. N (snd (gethGetOrNewStateObject D a db)) = N db) \<and>
     (\<forall>a n db. N (gethObjSetNonce D a n db) = N db) \<and> (\<forall>a b db. N (gethObjSetBalance D a b db) = N db) \<and>
     (\<forall>h i db. N (gethPrepare D h i db) = N db) \<and> (\<forall>a db. N (gethAddAddressToAccessList D a db) = N db)"

text \<open>The EVM works on the wrapper and the accounts only through the methods of the wrapper: accesses
  of addresses of 20 bytes, snapshots, reverts, and methods that only change the state database.\<close>

inductive wrapper_step ::
  "('e, 'db) stateDBOps \<Rightarrow> 'h acctHandler \<Rightarrow> ('db \<Rightarrow> int) \<Rightarrow> 'db StateDBWrapper \<times> 'h \<Rightarrow> 'db StateDBWrapper \<times> 'h \<Rightarrow> bool"
  for D AH N where
  step_db: "N (f (swStateDB s)) = N (swStateDB s) \<Longrightarrow> wrapper_step D AH N (s, h) (onDB f s, h)"
| step_access: "length addr = 20 \<Longrightarrow> wrapper_step D AH N (s, h) (StateDBWrapper_addAccessedObjAddr D AH addr (s, h))"
| step_snapshot: "wrapper_step D AH N (s, h) (snd (StateDBWrapper_Snapshot D s), h)"
| step_revert: "wrapper_step D AH N (s, h) (StateDBWrapper_RevertToSnapshot D n s, h)"

definition evm_laws :: "('t, 'e, 'db, 'm) evmEnv \<Rightarrow> ('db \<Rightarrow> int) \<Rightarrow> bool" where
  "evm_laws E N \<longleftrightarrow> geth_laws (eeState E) N \<and>
     (\<forall>bc msg gp sh r gp' sh'. eeApplyMessage E bc msg gp sh = (r, gp', sh') \<longrightarrow>
        (wrapper_step (eeState E) (evmAcct E) N)\<^sup>*\<^sup>* sh sh')"

section \<open>Accounts that are looked up\<close>

text \<open>\<open>grown L L'\<close>: the same accounts, and perhaps some new ones without funds.\<close>

definition grown :: "Account levelSpec \<Rightarrow> Account levelSpec \<Rightarrow> bool" where
  "grown L L' \<longleftrightarrow> (\<forall>k. level_get k L' = level_get k L \<or>
     (level_get k L = None \<and> (\<exists>addr. level_get k L' = Some (NewAccountWithName addr ''''))))"

lemma grown_refl [simp]: "grown L L"
  by (simp add: grown_def)

lemma grown_trans: "grown L L' \<Longrightarrow> grown L' L'' \<Longrightarrow> grown L L''"
  unfolding grown_def by (metis option.distinct(1))

lemma grown_bal: "grown L L' \<Longrightarrow> bal L' k = bal L k"
  unfolding grown_def bal_def
  by (drule spec [of _ k]) (auto simp: NewAccountWithName_def NewAccount_def)

lemma FindOrNewAccount:
  assumes inv: "acct_inv T P A H V c" and f: "AcctCtrler_FindOrNewAccount T P addr exec c = (a, c')"
  defines "L \<equiv> acct_level P A exec c"
  shows "a = acct_or_new addr L" "acct_inv T P A H V c'" "level_get (ToLedgerKey addr) (acct_level P A exec c') = Some a"
    "grown L (acct_level P A exec c')" "acct_level P A (\<not> exec) c' = acct_level P A (\<not> exec) c"
    "acct_valid V a" "Account_Key a = ToLedgerKey addr"
    "k \<noteq> ToLedgerKey addr \<Longrightarrow> level_get k (acct_level P A exec c') = level_get k L"
proof -
  obtain r c1 where f1: "AcctCtrler_findAccount T P addr exec c = (r, c1)"
    by (rule prod.exhaust)
  note g = findAccount [OF inv f1]
  have vn: "V ''''"
    using inv by (simp add: acct_inv_def acctProto_laws_def)
  have S: "snd L = {}"
    using inv by (simp add: acct_inv_def L_def)
  have all: "a = acct_or_new addr L \<and> acct_inv T P A H V c' \<and> level_get (ToLedgerKey addr) (acct_level P A exec c') = Some a \<and>
      grown L (acct_level P A exec c') \<and> acct_level P A (\<not> exec) c' = acct_level P A (\<not> exec) c \<and>
      acct_valid V a \<and> Account_Key a = ToLedgerKey addr \<and>
      (k \<noteq> ToLedgerKey addr \<longrightarrow> level_get k (acct_level P A exec c') = level_get k L)"
  proof (cases r)
    case (Some b)
    then have e: "a = b" "c' = c1"
      using f f1 by (simp_all add: AcctCtrler_FindOrNewAccount_def)
    have L: "level_get (ToLedgerKey addr) (acct_level P A exec c) = Some b"
      using g(1) Some by simp
    show ?thesis
      using e L g(2,3) level_valid [OF inv L] acctStore.level_key [OF inv L] by (simp add: L_def acct_or_new_def)
  next
    case None
    let ?n = "NewAccountWithName addr ''''"
    have e: "a = ?n" "c' = snd (AcctCtrler_setAccountCommittable P ?n exec c1)"
      using f f1 None by (auto simp: AcctCtrler_FindOrNewAccount_def Let_def)
    have v: "acct_valid V ?n" and k: "Account_Key ?n = ToLedgerKey addr"
      using vn by (simp_all add: acct_valid_def NewAccountWithName_def NewAccount_def Account_Key_ToLedgerKey)
    have L: "level_get (ToLedgerKey addr) L = None"
      using g(1) None by (simp add: L_def)
    have l: "acct_level P A exec c' = level_set (ToLedgerKey addr) ?n L"
      "acct_level P A (\<not> exec) c' = acct_level P A (\<not> exec) c" "acct_inv T P A H V c'"
      using acct_set(1-3) [OF g(2) v, of exec] g(3) k by (simp_all add: e L_def)
    have "grown L (level_set (ToLedgerKey addr) ?n L)"
      unfolding grown_def
    proof
      fix j
      show "level_get j (level_set (ToLedgerKey addr) ?n L) = level_get j L \<or>
          (level_get j L = None \<and> (\<exists>addr'. level_get j (level_set (ToLedgerKey addr) ?n L) = Some (NewAccountWithName addr' '''')))"
        using L S by (cases "j = ToLedgerKey addr") (auto simp: level_get_set_same)
    qed
    then show ?thesis
      using e l v k L S by (simp add: acct_or_new_def level_get_set_same)
  qed
  show "a = acct_or_new addr L" "acct_inv T P A H V c'" "level_get (ToLedgerKey addr) (acct_level P A exec c') = Some a"
    "grown L (acct_level P A exec c')" "acct_level P A (\<not> exec) c' = acct_level P A (\<not> exec) c"
    "acct_valid V a" "Account_Key a = ToLedgerKey addr"
    "k \<noteq> ToLedgerKey addr \<Longrightarrow> level_get k (acct_level P A exec c') = level_get k L"
    using all by blast+
qed

section \<open>The invariant of a message\<close>

text \<open>Between the snapshot \<open>snap\<close> taken before the message and its end: the accounts have only grown,
  and every accessed address was accessed in a later snapshot.\<close>

definition message_inv ::
  "'t treeOps \<Rightarrow> acctProtoOps \<Rightarrow> ('t \<Rightarrow> bytes \<rightharpoonup> bytes) \<Rightarrow> ('t \<Rightarrow> int \<rightharpoonup> (bytes \<rightharpoonup> bytes)) \<Rightarrow> (string \<Rightarrow> bool) \<Rightarrow>
     ('db \<Rightarrow> int) \<Rightarrow> int \<Rightarrow> 't AcctCtrler \<Rightarrow> 'db StateDBWrapper \<times> 't AcctCtrler \<Rightarrow> bool" where
  "message_inv T P A H V N snap c0 sh \<longleftrightarrow>
     (case sh of (s, c) \<Rightarrow>
        acct_inv T P A H V c \<and> grown (acct_level P A True c0) (acct_level P A True c) \<and>
        acct_level P A False c = acct_level P A False c0 \<and> swExec s \<and> snap < N (swStateDB s) \<and> snap \<le> swSnapshot s \<and>
        distinct (map fst (swAccessed s)) \<and> (\<forall>(a, v) \<in> set (swAccessed s). length a = 20 \<and> snap < v))"

lemma message_invI:
  assumes "acct_inv T P A H V c" "grown (acct_level P A True c0) (acct_level P A True c)"
    "acct_level P A False c = acct_level P A False c0" "swExec s" "snap < N (swStateDB s)" "snap \<le> swSnapshot s"
    "distinct (map fst (swAccessed s))" "\<And>a v. (a, v) \<in> set (swAccessed s) \<Longrightarrow> length a = 20 \<and> snap < v"
  shows "message_inv T P A H V N snap c0 (s, c)"
  using assms by (auto simp: message_inv_def)

lemma message_invD:
  assumes "message_inv T P A H V N snap c0 (s, c)"
  shows "acct_inv T P A H V c" "grown (acct_level P A True c0) (acct_level P A True c)"
    "acct_level P A False c = acct_level P A False c0" "swExec s" "snap < N (swStateDB s)" "snap \<le> swSnapshot s"
    "distinct (map fst (swAccessed s))" "(a, v) \<in> set (swAccessed s) \<Longrightarrow> length a = 20 \<and> snap < v"
  using assms by (auto simp: message_inv_def)

lemma set_alist_update: "(a, v) \<in> set (AList.update k w xs) \<Longrightarrow> (a, v) = (k, w) \<or> (a, v) \<in> set xs"
  by (induction xs) (auto split: if_splits)

lemma message_access:
  assumes laws: "geth_laws D N" and inv: "message_inv T P A H V N snap c0 sh" and len: "length addr = 20"
  shows "message_inv T P A H V N snap c0 (StateDBWrapper_addAccessedObjAddr D (acctHandlerOf T P) addr sh)"
proof -
  obtain s c where sh: "sh = (s, c)"
    by (rule prod.exhaust)
  note i = message_invD [OF inv [unfolded sh]]
  obtain ok db where g: "gethGetOrNewStateObject D addr (swStateDB s) = (ok, db)"
    by (rule prod.exhaust)
  have Ndb: "N db = N (swStateDB s)"
    using laws g unfolding geth_laws_def by (metis snd_conv)
  obtain a c' where f: "AcctCtrler_FindOrNewAccount T P addr True c = (a, c')"
    by (rule prod.exhaust)
  note fo = FindOrNewAccount [OF i(1) f]
  let ?db = "gethObjSetBalance D addr (uint (acctBalance a)) (gethObjSetNonce D addr (acctNonce a) db)"
  have Ndb': "N ?db = N (swStateDB s)"
    using laws Ndb by (simp add: geth_laws_def)
  have "message_inv T P A H V N snap c0
      (s\<lparr>swStateDB := ?db, swAccessed := AList.update addr (swSnapshot s + 1) (swAccessed s)\<rparr>, c')"
    by (rule message_invI)
      (use i fo Ndb' len in \<open>auto simp: distinct_update dest!: set_alist_update intro: grown_trans [OF i(2)]\<close>)
  moreover have "message_inv T P A H V N snap c0 (s\<lparr>swStateDB := db\<rparr>, c)"
    by (rule message_invI) (use i Ndb in auto)
  ultimately show ?thesis
    using inv i(4) f g by (simp add: sh StateDBWrapper_addAccessedObjAddr_def acctHandlerOf_def Let_def)
qed

lemma message_onDB:
  assumes "message_inv T P A H V N snap c0 (s, c)" "N (f (swStateDB s)) = N (swStateDB s)"
  shows "message_inv T P A H V N snap c0 (onDB f s, c)"
  by (rule message_invI) (use message_invD [OF assms(1)] assms(2) in \<open>auto simp: onDB_def\<close>)

lemma fold_delete_filter: "fold AList.delete ks xs = filter (\<lambda>x. fst x \<notin> set ks) xs"
proof (induction ks arbitrary: xs)
  case (Cons k ks)
  have "fold AList.delete (k # ks) xs = filter (\<lambda>x. fst x \<notin> set ks) (filter (\<lambda>(k', _). k \<noteq> k') xs)"
    by (simp add: Cons.IH AList.delete_eq)
  also have "\<dots> = filter (\<lambda>x. fst x \<notin> set (k # ks)) xs"
    unfolding filter_filter by (rule filter_cong) auto
  finally show ?case .
qed simp

lemma message_revert:
  assumes "geth_laws D N" "message_inv T P A H V N snap c0 (s, c)"
  shows "message_inv T P A H V N snap c0 (StateDBWrapper_RevertToSnapshot D n s, c)"
  unfolding StateDBWrapper_RevertToSnapshot_def
proof (rule message_onDB)
  show "message_inv T P A H V N snap c0 (StateDBWrapper_revertAccessedObjAddr n s, c)"
    by (rule message_invI)
      (use message_invD [OF assms(2)] in \<open>auto simp: StateDBWrapper_revertAccessedObjAddr_def Let_def fold_delete_filter distinct_map_filter\<close>)
qed (use assms(1) in \<open>simp add: geth_laws_def\<close>)

lemma message_step:
  assumes "wrapper_step D (acctHandlerOf T P) N sh sh'" "geth_laws D N" "message_inv T P A H V N snap c0 sh"
  shows "message_inv T P A H V N snap c0 sh'"
  using assms
proof (induction rule: wrapper_step.induct)
  case (step_db f s h)
  then show ?case
    by (intro message_onDB)
next
  case (step_access addr s h)
  then show ?case
    by (intro message_access)
next
  case (step_snapshot s h)
  then have "fst (gethSnapshot D (swStateDB s)) = N (swStateDB s)" "N (snd (gethSnapshot D (swStateDB s))) = N (swStateDB s) + 1"
    by (simp_all add: geth_laws_def)
  then show ?case
    using message_invD [OF step_snapshot(2)]
    by (intro message_invI) (auto simp: StateDBWrapper_Snapshot_def split: prod.splits)
next
  case (step_revert s h n)
  then show ?case
    by (intro message_revert)
qed

lemma message_steps:
  assumes "(wrapper_step D (acctHandlerOf T P) N)\<^sup>*\<^sup>* sh sh'" "geth_laws D N" "message_inv T P A H V N snap c0 sh"
  shows "message_inv T P A H V N snap c0 sh'"
  using assms(1)
proof (induction rule: rtranclp_induct)
  case (step y z)
  then show ?case
    using message_step assms(2) by blast
qed (rule assms(3))

text \<open>After the revert no address counts as accessed.\<close>

lemma revert_clears:
  assumes "message_inv T P A H V N snap c0 (s, c)"
  shows "swAccessed (StateDBWrapper_RevertToSnapshot D snap s) = []"
proof -
  have "filter (\<lambda>(k, v). snap < v) (swAccessed s) = swAccessed s"
    using message_invD(8) [OF assms] by (intro filter_True) auto
  then show ?thesis
    by (simp add: StateDBWrapper_RevertToSnapshot_def StateDBWrapper_revertAccessedObjAddr_def onDB_def Let_def fold_delete_filter)
qed

section \<open>The start and the end of a message\<close>

definition nonceOf :: "Account levelSpec \<Rightarrow> ledgerKey \<Rightarrow> u64" where
  "nonceOf L k = (case level_get k L of None \<Rightarrow> 0 | Some a \<Rightarrow> acctNonce a)"

lemma grown_nonceOf: "grown L L' \<Longrightarrow> nonceOf L' k = nonceOf L k"
  unfolding grown_def nonceOf_def
  by (drule spec [of _ k]) (auto simp: NewAccountWithName_def NewAccount_def)

lemma length_Array20 [simp]: "length (HexBytes_Array20 a) = 20"
  by (simp add: HexBytes_Array20_def Let_def)

text \<open>The state and the accounts a message starts from.\<close>

definition evmPrepared :: "('t, 'e, 'db, 'm) evmEnv \<Rightarrow> TrxContext \<Rightarrow> 'db StateDBWrapper \<Rightarrow> 't AcctCtrler \<Rightarrow> 'db StateDBWrapper \<times> 't AcctCtrler" where
  "evmPrepared E ctx s ac =
     (let (snap, s) = StateDBWrapper_Snapshot (eeState E) s
      in StateDBWrapper_Prepare (eeState E) (evmAcct E) (ctxTxHash ctx) (ctxTxIdx ctx) (txFrom (ctxTx ctx)) (txTo (ctxTx ctx))
           snap (ctxExec ctx) (s, ac))"

definition trxMessage :: "u256 \<Rightarrow> Trx \<Rightarrow> vmMessage" where
  "trxMessage price tx =
     evmMessage (HexBytes_Array20 (txFrom tx)) (if IsZeroAddress (txTo tx) then None else Some (HexBytes_Array20 (txTo tx)))
       (txNonce tx) (txGas tx) price (txAmount tx) (contractData tx) False"

lemma message_addAddress:
  assumes "geth_laws D N" "message_inv T P A H V N snap c0 sh" "length addr = 20"
  shows "message_inv T P A H V N snap c0 (StateDBWrapper_AddAddressToAccessList D (acctHandlerOf T P) addr sh)"
proof -
  obtain s c where e: "StateDBWrapper_addAccessedObjAddr D (acctHandlerOf T P) addr sh = (s, c)"
    by (rule prod.exhaust)
  have "message_inv T P A H V N snap c0 (onDB (gethAddAddressToAccessList D addr) s, c)"
    using message_access [OF assms] assms(1) by (intro message_onDB) (simp_all add: e geth_laws_def)
  then show ?thesis
    by (simp add: StateDBWrapper_AddAddressToAccessList_def e)
qed

lemma message_start:
  assumes laws: "geth_laws D N" and inv: "acct_inv T P A H V c" and s: "swAccessed s = []"
    and snap: "StateDBWrapper_Snapshot D s = (snap, s1)"
  shows "message_inv T P A H V N snap c (StateDBWrapper_Prepare D (acctHandlerOf T P) txhash txidx src dst snap True (s1, c))"
proof -
  have g: "fst (gethSnapshot D (swStateDB s)) = N (swStateDB s)" "N (snd (gethSnapshot D (swStateDB s))) = N (swStateDB s) + 1"
    and p: "N (gethPrepare D h i db) = N db" for h i db
    using laws by (simp_all add: geth_laws_def)
  have s1: "snap = N (swStateDB s)" "N (swStateDB s1) = snap + 1" "swAccessed s1 = []"
    using snap g s by (auto simp: StateDBWrapper_Snapshot_def split: prod.splits)
  let ?s = "s1\<lparr>swExec := True, swSnapshot := snap, swStateDB := gethPrepare D (HexBytes_Array32 txhash) txidx (swStateDB s1)\<rparr>"
  have m0: "message_inv T P A H V N snap c (?s, c)"
    by (rule message_invI) (use inv s1 p in auto)
  note m1 = message_addAddress [OF laws m0 length_Array20 [of src]]
  show ?thesis
    using m1 message_addAddress [OF laws m1 length_Array20 [of dst]] by (simp add: StateDBWrapper_Prepare_def Let_def)
qed

lemma finishLoop_accounts:
  assumes "acct_inv T P A H V c" "swExec s" "distinct addrs" "\<And>a. a \<in> set addrs \<Longrightarrow> length a = 20"
    "finishLoop D (acctHandlerOf T P) s addrs c = (Inr (), c')"
  defines "L \<equiv> acct_level P A True c" and "L' \<equiv> acct_level P A True c'"
  shows "acct_inv T P A H V c' \<and> acct_level P A False c' = acct_level P A False c \<and>
    (\<forall>k. k \<notin> ToLedgerKey ` set addrs \<longrightarrow> level_get k L' = level_get k L) \<and>
    (\<forall>a \<in> set addrs. \<exists>x. level_get (ToLedgerKey a) L' = Some x \<and> acctNonce x = gethGetNonce D a (swStateDB s) \<and>
       acctBalance x = word_of_int (gethGetBalance D a (swStateDB s)))"
  using assms(1,3-5) unfolding L_def L'_def
proof (induction addrs arbitrary: c)
  case Nil
  then show ?case by simp
next
  case (Cons a addrs)
  obtain x c1 where f: "AcctCtrler_FindOrNewAccount T P a True c = (x, c1)"
    by (rule prod.exhaust)
  note fo = FindOrNewAccount [OF Cons.prems(1) f]
  define amt where "amt = (word_of_int (gethGetBalance D a (swStateDB s)) :: u256)"
  define y where "y = Account_SetNonce (gethGetNonce D a (swStateDB s)) (Account_SetBalance amt x)"
  define c2 where "c2 = snd (AcctCtrler_setAccountCommittable P y True c1)"
  have m: "u256_MustFromBig (gethGetBalance D a (swStateDB s)) = Inr amt"
    using Cons.prems(4) by (auto simp: u256_MustFromBig_def amt_def)
  have l: "finishLoop D (acctHandlerOf T P) s addrs c2 = (Inr (), c')"
    using Cons.prems(4) f m assms(2) by (simp add: acctHandlerOf_def Let_def c2_def y_def)
  have y: "acct_valid V y" "Account_Key y = ToLedgerKey a"
    using fo(6,7) by (simp_all add: y_def Account_SetNonce_def Account_SetBalance_def acct_valid_def Account_Key_def)
  note st = acct_set [OF fo(2) y(1), of True, folded c2_def, unfolded y(2)]
  have ih: "acct_inv T P A H V c' \<and> acct_level P A False c' = acct_level P A False c2 \<and>
    (\<forall>k. k \<notin> ToLedgerKey ` set addrs \<longrightarrow> level_get k (acct_level P A True c') = level_get k (acct_level P A True c2)) \<and>
    (\<forall>a \<in> set addrs. \<exists>x. level_get (ToLedgerKey a) (acct_level P A True c') = Some x \<and> acctNonce x = gethGetNonce D a (swStateDB s) \<and>
       acctBalance x = word_of_int (gethGetBalance D a (swStateDB s)))"
    by (rule Cons.IH) (use Cons.prems st l in auto)
  have S: "snd (acct_level P A True c1) = {}"
    using fo(2) by (simp add: acct_inv_def)
  have notin: "ToLedgerKey a \<notin> ToLedgerKey ` set addrs"
    using Cons.prems(2,3) ToLedgerKey_inj [of a] by auto
  have ga: "level_get (ToLedgerKey a) (acct_level P A True c') = Some y"
    using ih notin S by (simp add: st level_get_set_same)
  have go: "level_get k (acct_level P A True c2) = level_get k (acct_level P A True c)" if "k \<noteq> ToLedgerKey a" for k
    using that fo(8) [of k] by (simp add: st)
  have fa: "acct_level P A False c2 = acct_level P A False c"
    using st(3) fo(5) by simp
  show ?case
    using ih ga go fa by (auto simp: y_def amt_def Account_SetNonce_def Account_SetBalance_def)
qed

lemma revert_result:
  assumes "message_inv T P A H V N snap c0 (s, ac)"
  shows "\<exists>s'. evmRevert E snap e ctx s (c, ac) = (Inl e, ctx, c\<lparr>ecStateDB := Some s'\<rparr>, ac) \<and> swAccessed s' = []"
proof -
  have "finishLoop (eeState E) (evmAcct E) (StateDBWrapper_RevertToSnapshot (eeState E) snap s)
      (map fst (swAccessed (StateDBWrapper_RevertToSnapshot (eeState E) snap s))) ac = (Inr (), ac)"
    by (simp add: revert_clears [OF assms])
  then show ?thesis
    by (intro exI [of _ "StateDBWrapper_RevertToSnapshot (eeState E) snap s\<lparr>swAccessed := []\<rparr>"])
      (simp add: evmRevert_def evmFinish_def StateDBWrapper_Finish_def Let_def)
qed

text \<open>Setting the code of an account changes no nonce and no balance.\<close>

lemma recordContract_accounts:
  assumes inv: "acct_inv (eeTree E) (eeAccts E) A H V ac" and h: "ctxTxHash ctx \<noteq> []" and ex: "ctxExec ctx"
    and r: "recordContract E ctx ac = (r, ctx', ac')"
  defines "L \<equiv> acct_level (eeAccts E) A True ac" and "L' \<equiv> acct_level (eeAccts E) A True ac'"
  shows "acct_inv (eeTree E) (eeAccts E) A H V ac' \<and> acct_level (eeAccts E) A False ac' = acct_level (eeAccts E) A False ac \<and>
    (\<forall>k. bal L' k = bal L k \<and> nonceOf L' k = nonceOf L k) \<and> ctxGasUsed ctx' = ctxGasUsed ctx \<and> (\<forall>e. r \<noteq> Inl (Error e))"
proof -
  let ?a = "eeCreateAddress E (HexBytes_Array20 (txFrom (ctxTx ctx))) (txNonce (ctxTx ctx))"
  obtain o1 ac1 where f: "AcctCtrler_findAccount (eeTree E) (eeAccts E) ?a True ac = (o1, ac1)"
    by (rule prod.exhaust)
  note fa = findAccount [OF inv f]
  show ?thesis
  proof (cases o1)
    case None
    then show ?thesis
      using r f ex fa(2,3) by (auto simp: recordContract_def AcctCtrler_FindAccount_def nilPointer_def L_def L'_def)
  next
    case (Some x)
    define y where "y = Account_SetCode (Some (ctxTxHash ctx)) x"
    have x: "level_get (ToLedgerKey ?a) L = Some x"
      using fa(1) Some by (simp add: L_def)
    have v: "acct_valid V y" "Account_Key y = ToLedgerKey ?a"
      using level_valid [OF inv x [unfolded L_def]] acctStore.level_key [OF inv x [unfolded L_def]] h
      by (simp_all add: y_def Account_SetCode_def acct_valid_def Account_Key_def)
    obtain ac2 where p: "AcctCtrler_setAccountCommittable (eeAccts E) y True ac1 = (Inr (), ac2)"
      using acctStore.put_eq by blast
    have "(r, ctx', ac') = (Inr [eventAttr ''contractAddress'' (HexBytes_String ?a) False], ctx\<lparr>ctxRetData := ?a\<rparr>, ac2)"
      unfolding r [symmetric] using f ex Some p by (simp add: recordContract_def AcctCtrler_FindAccount_def y_def Let_def)
    then have e: "ac' = snd (AcctCtrler_setAccountCommittable (eeAccts E) y True ac1)" "ctxGasUsed ctx' = ctxGasUsed ctx" "\<forall>e. r \<noteq> Inl (Error e)"
      using p by simp_all
    note st = acct_set [OF fa(2) v(1), of True, folded e(1), unfolded v(2)]
    have S: "snd L = {}"
      using inv by (simp add: acct_inv_def L_def)
    have L': "L' = level_set (ToLedgerKey ?a) y L"
      using st(2) fa(3) by (simp add: L'_def L_def)
    have "level_get k L' = (if k = ToLedgerKey ?a then Some y else level_get k L)" for k
      using S by (auto simp: L' level_get_set_same)
    then have "bal L' k = bal L k \<and> nonceOf L' k = nonceOf L k" for k
      using x by (simp add: bal_def nonceOf_def y_def Account_SetCode_def)
    then show ?thesis
      using st(1,3) fa(3) e(2,3) by simp
  qed
qed

lemma finishLoop_panic: "finishLoop D AH s addrs h = (Inl p, h') \<Longrightarrow> \<exists>q. p = Panic q"
  by (induction addrs arbitrary: h) (auto simp: u256_MustFromBig_def Let_def split: if_splits prod.splits sum.splits)

lemma evmSucceed_Inl: "evmFinish E s cac = (Inl p, s2, c2, ac1) \<Longrightarrow> evmSucceed E res ctx s cac = (Inl p, ctx, c2, ac1)"
  unfolding evmSucceed_def by (simp only: prod.case sum.case)

lemma evmSucceed_Inr:
  assumes "evmFinish E s cac = (Inr u, s2, c2, ac1)"
    "(if eeIsByzantium E (uint (word_of_int (ctxHeight ctx) :: u64)) then (onDB (gethFinalise (eeState E) True) s2, ecLastRootHash c2)
      else case gethIntermediateRoot (eeState E) (eeIsEIP158 E (uint (word_of_int (ctxHeight ctx) :: u64))) (swStateDB s2) of
        (h, db) \<Rightarrow> (s2\<lparr>swStateDB := db\<rparr>, h)) = (s3, root)"
    "(if IsZeroAddress (txTo (ctxTx (ctx\<lparr>ctxGasUsed := erUsedGas res, ctxRetData := erReturnData res\<rparr>)))
      then recordContract E (ctx\<lparr>ctxGasUsed := erUsedGas res, ctxRetData := erReturnData res\<rparr>) ac1
      else (Inr [], ctx\<lparr>ctxGasUsed := erUsedGas res, ctxRetData := erReturnData res\<rparr>, ac1)) = (r2, ctx2, ac2)"
  shows "evmSucceed E res ctx s cac = (case r2 of
      Inl xerr \<Rightarrow> (Inl xerr, ctx2, c2\<lparr>ecStateDB := Some s3, ecLastRootHash := root\<rparr>, ac2)
    | Inr attrs \<Rightarrow> (Inr (), ctx2\<lparr>ctxEvents := ctxEvents ctx2 @ [(''evm'', attrs @ concat (map logAttrs
          (gethGetLogs (eeState E) (HexBytes_Array32 (ctxTxHash ctx2)) (ZeroBytes 32) (swStateDB s3))))]\<rparr>,
        c2\<lparr>ecStateDB := Some s3, ecLastRootHash := root\<rparr>, ac2))"
  unfolding evmSucceed_def Let_def assms prod.case sum.case by (rule refl)

lemma succeed_accounts:
  assumes m: "message_inv (eeTree E) (eeAccts E) A H V N snap c0 (s, ac)" and h: "ctxTxHash ctx \<noteq> []" and ex: "ctxExec ctx"
    and run: "evmSucceed E res ctx s (c, ac) = (r, ctx', c', ac')"
  defines "L \<equiv> acct_level (eeAccts E) A True ac" and "L' \<equiv> acct_level (eeAccts E) A True ac'"
    and "K \<equiv> fst ` set (swAccessed s)"
  shows "(\<forall>e. r \<noteq> Inl (Error e)) \<and>
    (r = Inr () \<longrightarrow>
       acct_inv (eeTree E) (eeAccts E) A H V ac' \<and> acct_level (eeAccts E) A False ac' = acct_level (eeAccts E) A False ac \<and>
       (\<exists>s'. ecStateDB c' = Some s' \<and> swAccessed s' = []) \<and> ctxGasUsed ctx' = erUsedGas res \<and>
       (\<forall>k. k \<notin> ToLedgerKey ` K \<longrightarrow> bal L' k = bal L k \<and> nonceOf L' k = nonceOf L k) \<and>
       (\<forall>a \<in> K. bal L' (ToLedgerKey a) = gethGetBalance (eeState E) a (swStateDB s) mod 2 ^ 256 \<and>
          nonceOf L' (ToLedgerKey a) = gethGetNonce (eeState E) a (swStateDB s)))"
proof -
  note i = message_invD [OF m]
  let ?as = "map fst (swAccessed s)"
  obtain r1 ac1 where f: "finishLoop (eeState E) (evmAcct E) s ?as ac = (r1, ac1)"
    by (rule prod.exhaust)
  show ?thesis
  proof (cases r1)
    case (Inl p)
    have "\<exists>q. p = Panic q"
      by (rule finishLoop_panic [OF f [unfolded Inl]])
    moreover have "evmFinish E s (c, ac) = (Inl p, s, c\<lparr>ecStateDB := Some s\<rparr>, ac1)"
      using f Inl by (simp add: evmFinish_def StateDBWrapper_Finish_def)
    ultimately show ?thesis
      using run evmSucceed_Inl by fastforce
  next
    case (Inr u)
    then have r1: "r1 = Inr ()"
      by simp
    have fl: "acct_inv (eeTree E) (eeAccts E) A H V ac1 \<and> acct_level (eeAccts E) A False ac1 = acct_level (eeAccts E) A False ac \<and>
      (\<forall>k. k \<notin> ToLedgerKey ` set ?as \<longrightarrow> level_get k (acct_level (eeAccts E) A True ac1) = level_get k L) \<and>
      (\<forall>a \<in> set ?as. \<exists>x. level_get (ToLedgerKey a) (acct_level (eeAccts E) A True ac1) = Some x \<and>
         acctNonce x = gethGetNonce (eeState E) a (swStateDB s) \<and> acctBalance x = word_of_int (gethGetBalance (eeState E) a (swStateDB s)))"
      unfolding L_def
      by (rule finishLoop_accounts [OF i(1,4,7) _ f [unfolded r1]]) (use i(8) in auto)
    define ctx1 where "ctx1 = ctx\<lparr>ctxGasUsed := erUsedGas res, ctxRetData := erReturnData res\<rparr>"
    obtain r2 ctx2 ac2 where rc: "(if IsZeroAddress (txTo (ctxTx ctx1)) then recordContract E ctx1 ac1 else (Inr [], ctx1, ac1)) = (r2, ctx2, ac2)"
      by (rule prod_cases3)
    have ra: "acct_inv (eeTree E) (eeAccts E) A H V ac2 \<and> acct_level (eeAccts E) A False ac2 = acct_level (eeAccts E) A False ac1 \<and>
      (\<forall>k. bal (acct_level (eeAccts E) A True ac2) k = bal (acct_level (eeAccts E) A True ac1) k \<and>
         nonceOf (acct_level (eeAccts E) A True ac2) k = nonceOf (acct_level (eeAccts E) A True ac1) k) \<and>
      ctxGasUsed ctx2 = ctxGasUsed ctx1 \<and> (\<forall>e. r2 \<noteq> Inl (Error e))"
    proof (cases "IsZeroAddress (txTo (ctxTx ctx1))")
      case True
      show ?thesis
        by (rule recordContract_accounts) (use True rc fl h ex in \<open>simp_all add: ctx1_def\<close>)
    next
      case False
      then show ?thesis
        using rc fl by auto
    qed
    define s2 where "s2 = s\<lparr>swAccessed := []\<rparr>"
    define c2 where "c2 = c\<lparr>ecStateDB := Some s2\<rparr>"
    let ?n = "uint (word_of_int (ctxHeight ctx) :: u64)"
    obtain s3 root where q: "(if eeIsByzantium E ?n then (onDB (gethFinalise (eeState E) True) s2, ecLastRootHash c2)
        else case gethIntermediateRoot (eeState E) (eeIsEIP158 E ?n) (swStateDB s2) of (h, db) \<Rightarrow> (s2\<lparr>swStateDB := db\<rparr>, h)) = (s3, root)"
      by (rule prod.exhaust)
    have s3: "swAccessed s3 = []"
      using q by (auto simp: s2_def onDB_def split: if_splits prod.splits)
    have fin: "evmFinish E s (c, ac) = (Inr (), s2, c2, ac1)"
      using f r1 by (simp add: evmFinish_def StateDBWrapper_Finish_def s2_def c2_def)
    note out = run [unfolded evmSucceed_Inr [OF fin q rc [unfolded ctx1_def]]]
    have gas: "ctxGasUsed ctx2 = erUsedGas res"
      using ra by (simp add: ctx1_def)
    have K: "K = set ?as"
      by (simp add: K_def)
    have ac': "bal L' k = bal (acct_level (eeAccts E) A True ac1) k" "nonceOf L' k = nonceOf (acct_level (eeAccts E) A True ac1) k" if "ac' = ac2" for k
      using ra that by (simp_all add: L'_def)
    show ?thesis
    proof (cases r2)
      case (Inl e)
      then show ?thesis
        using out ra by auto
    next
      case (Inr attrs)
      then have e: "ac' = ac2" "r = Inr ()" "ctxGasUsed ctx' = erUsedGas res" "ecStateDB c' = Some s3"
        using out gas by auto
      have other: "bal L' k = bal L k \<and> nonceOf L' k = nonceOf L k" if "k \<notin> ToLedgerKey ` K" for k
        using fl that unfolding ac' [OF e(1)] K by (simp add: bal_def nonceOf_def)
      have acc: "bal L' (ToLedgerKey a) = gethGetBalance (eeState E) a (swStateDB s) mod 2 ^ 256 \<and>
          nonceOf L' (ToLedgerKey a) = gethGetNonce (eeState E) a (swStateDB s)" if ak: "a \<in> K" for a
      proof -
        obtain x where "level_get (ToLedgerKey a) (acct_level (eeAccts E) A True ac1) = Some x"
          "acctNonce x = gethGetNonce (eeState E) a (swStateDB s)" "acctBalance x = word_of_int (gethGetBalance (eeState E) a (swStateDB s))"
          using bspec [OF fl [THEN conjunct2, THEN conjunct2, THEN conjunct2] ak [unfolded K]] that by blast
        then show ?thesis
          unfolding ac' [OF e(1)] by (simp add: bal_def nonceOf_def uint_word_of_int)
      qed
      show ?thesis
        using other acc e s3 fl ra by simp
    qed
  qed
qed

section \<open>Properties\<close>

lemma ExecuteTrx_eq:
  assumes ex: "ctxExec ctx" and ty: "evmTrxType ctx ac = Inr u" and s: "ecStateDB c = Some s"
    and snap: "StateDBWrapper_Snapshot (eeState E) s = (snap, s0)" and pr: "evmPrepared E ctx s ac = (sP, acP)"
  shows "EVMCtrler_ExecuteTrx E gov ctx (c, ac) =
    (case GovParams_GasPrice gov of
       Inl e \<Rightarrow> (Inl e, ctx, c\<lparr>ecStateDB := Some sP\<rparr>, acP)
     | Inr price \<Rightarrow>
         (case ecVmevm c of
            None \<Rightarrow> (Inl nilPointer, ctx, c\<lparr>ecStateDB := Some sP\<rparr>, acP)
          | Some bc \<Rightarrow>
              (case eeApplyMessage E bc (trxMessage price (ctxTx ctx)) (ecBlockGasPool c) (sP, acP) of
                 (Inl err, gp, s1, ac1) \<Rightarrow>
                   evmRevert E snap (Error (xerrors_NewOrdinary err)) ctx s1 (c\<lparr>ecStateDB := Some sP, ecBlockGasPool := gp\<rparr>, ac1)
               | (Inr res, gp, s1, ac1) \<Rightarrow>
                   (case erErr res of
                      Some err \<Rightarrow> evmRevert E snap (Error (xerrors_NewOrdinary err)) (ctx\<lparr>ctxRetData := erReturnData res\<rparr>) s1
                                    (c\<lparr>ecStateDB := Some sP, ecBlockGasPool := gp\<rparr>, ac1)
                    | None \<Rightarrow> evmSucceed E res ctx s1 (c\<lparr>ecStateDB := Some sP, ecBlockGasPool := gp\<rparr>, ac1)))))"
proof -
  have "StateDBWrapper_Prepare (eeState E) (evmAcct E) (ctxTxHash ctx) (ctxTxIdx ctx) (txFrom (ctxTx ctx)) (txTo (ctxTx ctx)) snap True (s0, ac) = (sP, acP)"
    using pr snap ex by (simp add: evmPrepared_def)
  note run = EVMCtrler_ExecuteTrx_def EVMCtrler_execVM_def trxMessage_def Let_def ex ty s snap this
  show ?thesis
  proof (cases "GovParams_GasPrice gov")
    case Inl
    then show ?thesis
      by (simp add: run)
  next
    case price: (Inr price)
    show ?thesis
    proof (cases "ecVmevm c")
      case None
      then show ?thesis
        using price by (simp add: run nilPointer_def)
    next
      case bc: (Some bc)
      obtain x gp s1 ac1 where app: "eeApplyMessage E bc (trxMessage price (ctxTx ctx)) (ecBlockGasPool c) (sP, acP) = (x, gp, s1, ac1)"
        by (rule prod_cases4)
      show ?thesis
        by (cases x; cases "erErr (projr x)") (use price bc app in \<open>simp_all add: run\<close>)
    qed
  qed
qed

text \<open>C6. Whatever a contract does: if its transaction fails with an error, every account keeps its
  balance and its nonce (at most accounts without funds were created), and no gas counts as used. If it
  succeeds, exactly the accounts the EVM accessed get the balance and the nonce the EVM left them with,
  every other account keeps its own, and the gas is what the EVM reports. In both cases the level of
  CheckTx is untouched, and the next transaction starts with no accessed address.\<close>

theorem EVMCtrler_ExecuteTrx_accounts:
  assumes laws: "evm_laws E N" and inv: "acct_inv (eeTree E) (eeAccts E) A H V ac"
    and s: "ecStateDB c = Some s" "swAccessed s = []" and h: "ctxTxHash ctx \<noteq> []" and ex: "ctxExec ctx"
    and run: "EVMCtrler_ExecuteTrx E gov ctx (c, ac) = (r, ctx', c', ac')" and np: "\<forall>p. r \<noteq> Inl (Panic p)"
  defines "L \<equiv> acct_level (eeAccts E) A True ac" and "L' \<equiv> acct_level (eeAccts E) A True ac'"
  shows "acct_inv (eeTree E) (eeAccts E) A H V ac' \<and> acct_level (eeAccts E) A False ac' = acct_level (eeAccts E) A False ac \<and>
    (\<exists>s'. ecStateDB c' = Some s' \<and> swAccessed s' = []) \<and>
    (case r of
       Inl _ \<Rightarrow> grown L L' \<and> (\<forall>k. bal L' k = bal L k \<and> nonceOf L' k = nonceOf L k) \<and> ctxGasUsed ctx' = ctxGasUsed ctx
     | Inr _ \<Rightarrow> (\<exists>bc price res gp s1 ac1.
         ecVmevm c = Some bc \<and> GovParams_GasPrice gov = Inr price \<and>
         eeApplyMessage E bc (trxMessage price (ctxTx ctx)) (ecBlockGasPool c) (evmPrepared E ctx s ac) = (Inr res, gp, s1, ac1) \<and>
         erErr res = None \<and> ctxGasUsed ctx' = erUsedGas res \<and>
         (\<forall>k. k \<notin> ToLedgerKey ` fst ` set (swAccessed s1) \<longrightarrow> bal L' k = bal L k \<and> nonceOf L' k = nonceOf L k) \<and>
         (\<forall>a \<in> fst ` set (swAccessed s1). bal L' (ToLedgerKey a) = gethGetBalance (eeState E) a (swStateDB s1) mod 2 ^ 256 \<and>
            nonceOf L' (ToLedgerKey a) = gethGetNonce (eeState E) a (swStateDB s1))))"
proof (cases "evmTrxType ctx ac")
  case (Inl e)
  then have "r = Inl e" "ctx' = ctx" "c' = c" "ac' = ac"
    using run ex by (simp_all add: EVMCtrler_ExecuteTrx_def)
  then show ?thesis
    using inv s by (simp add: L_def L'_def)
next
  case ty: (Inr u)
  let ?D = "eeState E"
  have gl: "geth_laws ?D N"
    using laws by (simp add: evm_laws_def)
  obtain snap s0 where snap: "StateDBWrapper_Snapshot ?D s = (snap, s0)"
    by (rule prod.exhaust)
  obtain sP acP where pr: "evmPrepared E ctx s ac = (sP, acP)"
    by (rule prod.exhaust)
  note eq = run [unfolded ExecuteTrx_eq [OF ex ty s(1) snap pr]]
  have m: "message_inv (eeTree E) (eeAccts E) A H V N snap ac (sP, acP)"
    using message_start [OF gl inv s(2) snap, where txhash = "ctxTxHash ctx" and txidx = "ctxTxIdx ctx" and src = "txFrom (ctxTx ctx)" and dst = "txTo (ctxTx ctx)"] pr snap ex
    by (simp add: evmPrepared_def)
  obtain price where price: "GovParams_GasPrice gov = Inr price"
    using eq np by (cases "GovParams_GasPrice gov") (auto simp: GovParams_GasPrice_def deref_def nilPointer_def split: option.splits)
  obtain bc where bc: "ecVmevm c = Some bc"
    using eq np price by (cases "ecVmevm c") (auto simp: nilPointer_def)
  obtain x gp s1 ac1 where app: "eeApplyMessage E bc (trxMessage price (ctxTx ctx)) (ecBlockGasPool c) (sP, acP) = (x, gp, s1, ac1)"
    by (rule prod_cases4)
  have m1: "message_inv (eeTree E) (eeAccts E) A H V N snap ac (s1, ac1)"
    by (rule message_steps [OF _ gl m]) (use laws app in \<open>simp add: evm_laws_def\<close>)
  note i = message_invD [OF m1]
  let ?c = "c\<lparr>ecStateDB := Some sP, ecBlockGasPool := gp\<rparr>"
  note eq2 = eq [unfolded price bc app sum.case option.case prod.case]
  have fail: ?thesis if rv: "evmRevert E snap e ctx1 s1 (?c, ac1) = (r, ctx', c', ac')" "ctxGasUsed ctx1 = ctxGasUsed ctx" for e ctx1
  proof -
    obtain s' where "evmRevert E snap e ctx1 s1 (?c, ac1) = (Inl e, ctx1, ?c\<lparr>ecStateDB := Some s'\<rparr>, ac1)" "swAccessed s' = []"
      using revert_result [OF m1] by blast
    then have "r = Inl e" "ctx' = ctx1" "ecStateDB c' = Some s'" "swAccessed s' = []" "ac' = ac1"
      using rv(1) by auto
    then show ?thesis
      using i(1-3) rv(2) grown_bal [OF i(2)] grown_nonceOf [OF i(2)] by (simp add: L_def L'_def)
  qed
  show ?thesis
  proof (cases x)
    case (Inl err)
    then show ?thesis
      using eq2 fail by simp
  next
    case (Inr res)
    show ?thesis
    proof (cases "erErr res")
      case (Some err)
      then show ?thesis
        using eq2 fail [of _ "ctx\<lparr>ctxRetData := erReturnData res\<rparr>"] Inr by simp
    next
      case None
      have su: "evmSucceed E res ctx s1 (?c, ac1) = (r, ctx', c', ac')"
        using eq2 Inr None by simp
      note sa = succeed_accounts [OF m1 h ex su]
      have r: "r = Inr ()"
        using sa np by (cases r; cases "projl r") auto
      note sa' = sa [THEN conjunct2, rule_format, OF r]
      show ?thesis
        using sa' i(3) r price bc app [folded pr] Inr None grown_bal [OF i(2)] grown_nonceOf [OF i(2)]
        by (simp add: L_def L'_def)
    qed
  qed
qed

section \<open>A concrete EVM\<close>

text \<open>A state database of nonces and balances with snapshots, and an EVM that makes a transfer and fails
  when the funds do not suffice. They stand for no code of the repository.\<close>

record demoDB =
  ddObjs :: "(bytes \<times> u64 \<times> int) list"
  ddRevs :: "(int \<times> (bytes \<times> u64 \<times> int) list) list"
  ddNext :: int

definition ddGet :: "bytes \<Rightarrow> demoDB \<Rightarrow> u64 \<times> int" where
  "ddGet a db = (case map_of (ddObjs db) a of None \<Rightarrow> (0, 0) | Some x \<Rightarrow> x)"

definition ddSet :: "bytes \<Rightarrow> u64 \<times> int \<Rightarrow> demoDB \<Rightarrow> demoDB" where
  "ddSet a x db = db\<lparr>ddObjs := AList.update a x (ddObjs db)\<rparr>"

definition demoGeth :: "(unit, demoDB) stateDBOps" where
  "demoGeth =
     \<lparr>gethNew = (\<lambda>_ _. Inr \<lparr>ddObjs = [], ddRevs = [], ddNext = 0\<rparr>), gethPrepare = (\<lambda>_ _ db. db), gethCreateAccount = (\<lambda>_ db. db),
      gethSubBalance = (\<lambda>a n db. ddSet a (fst (ddGet a db), snd (ddGet a db) - n) db),
      gethAddBalance = (\<lambda>a n db. ddSet a (fst (ddGet a db), snd (ddGet a db) + n) db),
      gethGetBalance = (\<lambda>a db. snd (ddGet a db)), gethGetNonce = (\<lambda>a db. fst (ddGet a db)),
      gethSetNonce = (\<lambda>a n db. ddSet a (n, snd (ddGet a db)) db),
      gethGetCodeHash = (\<lambda>_ _. []), gethGetCode = (\<lambda>_ _. []), gethSetCode = (\<lambda>_ _ db. db), gethGetCodeSize = (\<lambda>_ _. 0),
      gethAddRefund = (\<lambda>_ db. db), gethSubRefund = (\<lambda>_ db. db), gethGetRefund = (\<lambda>_. 0), gethGetCommittedState = (\<lambda>_ _ _. []),
      gethGetState = (\<lambda>_ _ _. []), gethSetState = (\<lambda>_ _ _ db. db), gethSuicide = (\<lambda>_ db. (False, db)),
      gethHasSuicided = (\<lambda>_ _. False), gethExist = (\<lambda>a db. map_of (ddObjs db) a \<noteq> None), gethEmpty = (\<lambda>a db. ddGet a db = (0, 0)),
      gethPrepareAccessList = (\<lambda>_ _ _ _ db. db), gethAddressInAccessList = (\<lambda>_ _. True), gethSlotInAccessList = (\<lambda>_ _ _. (True, True)),
      gethAddAddressToAccessList = (\<lambda>_ db. db), gethAddSlotToAccessList = (\<lambda>_ _ db. db),
      gethRevertToSnapshot = (\<lambda>n db. case map_of (ddRevs db) n of None \<Rightarrow> db | Some objs \<Rightarrow> db\<lparr>ddObjs := objs\<rparr>),
      gethSnapshot = (\<lambda>db. (ddNext db, db\<lparr>ddRevs := (ddNext db, ddObjs db) # ddRevs db, ddNext := ddNext db + 1\<rparr>)),
      gethAddLog = (\<lambda>_ db. db), gethAddPreimage = (\<lambda>_ _ db. db), gethGetOrNewStateObject = (\<lambda>a db. (True, ddSet a (ddGet a db) db)),
      gethObjSetNonce = (\<lambda>a n db. ddSet a (n, snd (ddGet a db)) db), gethObjSetBalance = (\<lambda>a n db. ddSet a (fst (ddGet a db), n) db),
      gethFinalise = (\<lambda>_ db. db), gethIntermediateRoot = (\<lambda>_ db. ([], db)), gethGetLogs = (\<lambda>_ _ _. []),
      gethCommit = (\<lambda>_ db. (Inr [], db)), gethTrieCommit = (\<lambda>_ _ e. Inr e)\<rparr>"

lemma demoGeth_laws: "geth_laws demoGeth ddNext"
  by (simp add: geth_laws_def demoGeth_def ddSet_def split: option.split)

definition demoApply ::
  "vmMessage \<Rightarrow> u64 \<Rightarrow> demoDB StateDBWrapper \<times> vtree AcctCtrler \<Rightarrow>
     (string + executionResult) \<times> u64 \<times> demoDB StateDBWrapper \<times> vtree AcctCtrler" where
  "demoApply msg gp sh =
     (case vmTo msg of
        None \<Rightarrow> (Inl ''no code'', gp, sh)
      | Some t \<Rightarrow>
          (let (s, h) = StateDBWrapper_addAccessedObjAddr demoGeth (acctHandlerOf vtreeOps demoAcctProto) (HexBytes_Array20 t) sh;
               s = onDB (\<lambda>db. gethSetNonce demoGeth (vmFrom msg) (vmNonce msg + 1) db) s;
               s = onDB (gethSubBalance demoGeth (vmFrom msg) (vmAmount msg)) s;
               ok = StateDBWrapper_GetBalance demoGeth (vmFrom msg) s \<ge> 0;
               s = onDB (gethAddBalance demoGeth (HexBytes_Array20 t) (vmAmount msg)) s
           in (Inr \<lparr>erUsedGas = 21000, erErr = (if ok then None else Some ''insufficient balance for transfer''), erReturnData = []\<rparr>, gp, s, h)))"

definition demoMeta :: "(bytes \<times> bytes) list metaOps" where
  "demoMeta = \<lparr>mtGet = (\<lambda>m k. Inr (map_of m k)), mtWriteSync = fold (\<lambda>(k, v). AList.update k v)\<rparr>"

definition demoEvm :: "(vtree, unit, demoDB, (bytes \<times> bytes) list) evmEnv" where
  "demoEvm =
     \<lparr>eeTree = vtreeOps, eeAccts = demoAcctProto, eeState = demoGeth, eeMeta = demoMeta,
      eeApplyMessage = (\<lambda>_. demoApply), eeCallMessage = (\<lambda>_ _ _ _. (Inl ''no code'', False)), eeIntrinsicGas = (\<lambda>_ _ _ _. Inr 21000),
      eeCreateAddress = (\<lambda>_ _. ZeroBytes 20), eeIsHomestead = (\<lambda>_. True), eeIsIstanbul = (\<lambda>_. True), eeIsByzantium = (\<lambda>_. True),
      eeIsEIP158 = (\<lambda>_. True), eeBlockTime = (\<lambda>_. Inr 0)\<rparr>"

lemma demoEvm_sel [simp]:
  "eeTree demoEvm = vtreeOps" "eeAccts demoEvm = demoAcctProto" "eeState demoEvm = demoGeth" "eeApplyMessage demoEvm = (\<lambda>_. demoApply)" "eeMeta demoEvm = demoMeta"
  by (simp_all add: demoEvm_def)

lemma demoEvm_laws: "evm_laws demoEvm ddNext"
  unfolding evm_laws_def
proof (intro conjI allI impI)
  fix bc :: "demoDB vmBlockContext" and msg gp sh r gp' sh'
  assume run: "eeApplyMessage demoEvm bc msg gp sh = (r, gp', sh')"
  let ?R = "wrapper_step demoGeth (acctHandlerOf vtreeOps demoAcctProto) ddNext"
  have "?R\<^sup>*\<^sup>* sh sh'"
  proof (cases "vmTo msg")
    case None
    then show ?thesis
      using run by (simp add: demoApply_def)
  next
    case (Some t)
    obtain s0 h0 s h where sh: "sh = (s0, h0)"
      and a: "StateDBWrapper_addAccessedObjAddr demoGeth (acctHandlerOf vtreeOps demoAcctProto) (HexBytes_Array20 t) sh = (s, h)"
      by (metis prod.exhaust)
    have N: "ddNext (gethSetNonce demoGeth a n db) = ddNext db" "ddNext (gethSubBalance demoGeth a i db) = ddNext db"
      "ddNext (gethAddBalance demoGeth a i db) = ddNext db" for a n i db
      by (simp_all add: demoGeth_def ddSet_def)
    have "?R sh (s, h)"
      using step_access [where D = demoGeth and AH = "acctHandlerOf vtreeOps demoAcctProto" and N = ddNext and s = s0 and h = h0, OF length_Array20 [of t]]
      by (simp add: sh a [unfolded sh])
    moreover have db: "?R (x, h) (onDB f x, h)" if "ddNext (f (swStateDB x)) = ddNext (swStateDB x)" for f x
      using that by (rule step_db)
    ultimately have "?R\<^sup>*\<^sup>* sh (onDB (gethAddBalance demoGeth (HexBytes_Array20 t) (vmAmount msg))
        (onDB (gethSubBalance demoGeth (vmFrom msg) (vmAmount msg)) (onDB (gethSetNonce demoGeth (vmFrom msg) (vmNonce msg + 1)) s)), h)"
      by (meson N db r_into_rtranclp rtranclp.rtrancl_into_rtrancl)
    moreover have "sh' = (onDB (gethAddBalance demoGeth (HexBytes_Array20 t) (vmAmount msg))
        (onDB (gethSubBalance demoGeth (vmFrom msg) (vmAmount msg)) (onDB (gethSetNonce demoGeth (vmFrom msg) (vmNonce msg + 1)) s)), h)"
      using run Some a by (simp add: demoApply_def Let_def)
    ultimately show ?thesis
      by simp
  qed
  then show "(wrapper_step (eeState demoEvm) (evmAcct demoEvm) ddNext)\<^sup>*\<^sup>* sh sh'"
    by simp
qed (simp add: demoGeth_laws)

definition demoPayer :: bytes where "demoPayer = replicate 20 1"
definition demoPayee :: bytes where "demoPayee = replicate 20 2"

definition demoPayerAcct :: Account where
  "demoPayerAcct = (NewAccount demoPayer)\<lparr>acctBalance := 100\<rparr>"

definition demoPayers :: "vtree AcctCtrler" where
  "demoPayers = snd (AcctCtrler_setAccountCommittable demoAcctProto demoPayerAcct True emptyAcctCtrler)"

definition demoCallCtx :: "u256 \<Rightarrow> TrxContext" where
  "demoCallCtx amt =
     \<lparr>ctxHeight = 1, ctxBlockTime = 0, ctxTxHash = replicate 32 7,
      ctxTx = \<lparr>txVersion = 1, txTime = 0, txNonce = 0, txFrom = demoPayer, txTo = demoPayee, txAmount = amt, txGas = 30000,
               txGasPrice = 1, txType = TRX_CONTRACT, txPayload = Some (TrxPayloadContract []), txSig = []\<rparr>,
      ctxTxIdx = 0, ctxExec = True, ctxSenderPubKey = [], ctxSender = ToLedgerKey demoPayer, ctxReceiver = ToLedgerKey demoPayee,
      ctxGasUsed = 0, ctxRetData = [], ctxEvents = [], ctxChainID = ''''\<rparr>"

definition demoEvmCtrler :: "(unit, demoDB, (bytes \<times> bytes) list) EVMCtrler" where
  "demoEvmCtrler =
     \<lparr>ecVmevm = Some (evmBlockContext demoGeth [] 1 0), ecEthDB = (),
      ecStateDB = Some (newWrapper \<lparr>ddObjs = [], ddRevs = [], ddNext = 0\<rparr> False), ecBlockGasPool = gasLimit, ecMetadb = [],
      ecLastRootHash = [], ecLastBlockHeight = 0\<rparr>"

definition demoPrice :: GovParams where
  "demoPrice = emptyGovParams\<lparr>gp_gasPrice := Some 1\<rparr>"

lemma demoPayers_inv: "acct_inv vtreeOps demoAcctProto vMap vHist (\<lambda>_. True) demoPayers"
  unfolding demoPayers_def by (rule acct_set(1) [OF emptyAcctCtrler_inv]) (simp add: demoPayerAcct_def)

lemma demoPayers_level: "acct_level demoAcctProto vMap True demoPayers = ([ToLedgerKey demoPayer \<mapsto> demoPayerAcct], {})"
proof -
  have "Account_Key demoPayerAcct = ToLedgerKey demoPayer" "acct_valid (\<lambda>_. True) demoPayerAcct"
    by (simp_all add: demoPayerAcct_def NewAccount_def Account_Key_ToLedgerKey acct_valid_def)
  then show ?thesis
    unfolding demoPayers_def acct_set(2) [OF emptyAcctCtrler_inv \<open>acct_valid (\<lambda>_. True) demoPayerAcct\<close>]
    by (simp add: acct_level_def emptyAcctCtrler_def level_set_def)
qed

lemma demoCall_result:
  "fst (EVMCtrler_ExecuteTrx demoEvm demoPrice (demoCallCtx 30) (demoEvmCtrler, demoPayers)) = Inr ()"
  "fst (EVMCtrler_ExecuteTrx demoEvm demoPrice (demoCallCtx 300) (demoEvmCtrler, demoPayers)) =
     Inl (Error (XError 1 ''insufficient balance for transfer'' None))"
  by code_simp+

lemma demoCall_accessed:
  "case demoApply (trxMessage 1 (ctxTx (demoCallCtx 30))) gasLimit
     (evmPrepared demoEvm (demoCallCtx 30) (newWrapper \<lparr>ddObjs = [], ddRevs = [], ddNext = 0\<rparr> False) demoPayers) of
     (x, gp, s1, ac1) \<Rightarrow> map fst (swAccessed s1) = [demoPayer, demoPayee] \<and>
       gethGetBalance demoGeth demoPayee (swStateDB s1) = 30 \<and> gethGetBalance demoGeth demoPayer (swStateDB s1) = 70 \<and>
       gethGetNonce demoGeth demoPayer (swStateDB s1) = 1"
  by code_simp

theorem EVMCtrler_ExecuteTrx_accounts_witness:
  "(\<exists>ctx' c' ac'. EVMCtrler_ExecuteTrx demoEvm demoPrice (demoCallCtx 30) (demoEvmCtrler, demoPayers) = (Inr (), ctx', c', ac') \<and>
      bal (acct_level demoAcctProto vMap True ac') (ToLedgerKey demoPayee) = 30 \<and>
      bal (acct_level demoAcctProto vMap True ac') (ToLedgerKey demoPayer) = 70 \<and>
      nonceOf (acct_level demoAcctProto vMap True ac') (ToLedgerKey demoPayer) = 1) \<and>
   (\<exists>ctx' c' ac' e. EVMCtrler_ExecuteTrx demoEvm demoPrice (demoCallCtx 300) (demoEvmCtrler, demoPayers) = (Inl (Error e), ctx', c', ac') \<and>
      bal (acct_level demoAcctProto vMap True ac') (ToLedgerKey demoPayer) = 100 \<and>
      nonceOf (acct_level demoAcctProto vMap True ac') (ToLedgerKey demoPayer) = 0)"
proof -
  have c: "ecStateDB demoEvmCtrler = Some (newWrapper \<lparr>ddObjs = [], ddRevs = [], ddNext = 0\<rparr> False)"
    "swAccessed (newWrapper \<lparr>ddObjs = [], ddRevs = [], ddNext = 0\<rparr> False :: demoDB StateDBWrapper) = []" "ecBlockGasPool demoEvmCtrler = gasLimit"
    by (simp_all add: demoEvmCtrler_def newWrapper_def)
  have x: "ctxTxHash (demoCallCtx amt) \<noteq> []" "ctxExec (demoCallCtx amt)" for amt
    by (simp_all add: demoCallCtx_def)
  have p: "GovParams_GasPrice demoPrice = Inr 1"
    by (simp add: demoPrice_def GovParams_GasPrice_def deref_def)
  note th = EVMCtrler_ExecuteTrx_accounts [where E = demoEvm, OF demoEvm_laws, unfolded demoEvm_sel, OF demoPayers_inv c(1,2) x, unfolded c(3)]
  have L: "bal (acct_level demoAcctProto vMap True demoPayers) (ToLedgerKey demoPayer) = 100"
    "nonceOf (acct_level demoAcctProto vMap True demoPayers) (ToLedgerKey demoPayer) = 0"
    by (simp_all add: demoPayers_level bal_def nonceOf_def level_get_def demoPayerAcct_def NewAccount_def)
  obtain ctx1 c1 ac1 where r1: "EVMCtrler_ExecuteTrx demoEvm demoPrice (demoCallCtx 30) (demoEvmCtrler, demoPayers) = (Inr (), ctx1, c1, ac1)"
    using demoCall_result(1) by (cases "EVMCtrler_ExecuteTrx demoEvm demoPrice (demoCallCtx 30) (demoEvmCtrler, demoPayers)") auto
  obtain ctx2 c2 ac2 where r2: "EVMCtrler_ExecuteTrx demoEvm demoPrice (demoCallCtx 300) (demoEvmCtrler, demoPayers) =
      (Inl (Error (XError 1 ''insufficient balance for transfer'' None)), ctx2, c2, ac2)"
    using demoCall_result(2) by (cases "EVMCtrler_ExecuteTrx demoEvm demoPrice (demoCallCtx 300) (demoEvmCtrler, demoPayers)") auto
  obtain res gp s1 h1 where a: "demoApply (trxMessage 1 (ctxTx (demoCallCtx 30))) gasLimit
      (evmPrepared demoEvm (demoCallCtx 30) (newWrapper \<lparr>ddObjs = [], ddRevs = [], ddNext = 0\<rparr> False) demoPayers) = (Inr res, gp, s1, h1)"
    "\<forall>a \<in> fst ` set (swAccessed s1). bal (acct_level demoAcctProto vMap True ac1) (ToLedgerKey a) = gethGetBalance demoGeth a (swStateDB s1) mod 2 ^ 256 \<and>
        nonceOf (acct_level demoAcctProto vMap True ac1) (ToLedgerKey a) = gethGetNonce demoGeth a (swStateDB s1)"
    using th [OF r1] p by auto
  have m: "map fst (swAccessed s1) = [demoPayer, demoPayee]" "gethGetBalance demoGeth demoPayee (swStateDB s1) = 30"
    "gethGetBalance demoGeth demoPayer (swStateDB s1) = 70" "gethGetNonce demoGeth demoPayer (swStateDB s1) = 1"
    using demoCall_accessed by (simp_all add: a(1))
  have "fst ` set (swAccessed s1) = {demoPayer, demoPayee}"
    using arg_cong [OF m(1), of set] by simp
  then show ?thesis
    using r1 r2 a(2) m(2-4) th [OF r2] L by auto
qed

end
