(* ===== verification/Rigo_Executor.thy ===== *)
theory Rigo_Executor
  imports Rigo_EVM Rigo_GovCtrler Rigo_TrxRLP
begin

text \<open>
  The execution of a transaction: \<^verbatim>\<open>NewTrxContext\<close> of \<^verbatim>\<open>src/ctrlers/types/trx_ctx.go\<close> and
  \<^verbatim>\<open>src/node/trx_executor.go\<close>. The handlers of a context are the four controllers of the node, which are
  passed as the record \<open>ctrlers\<close>. The node makes its executor with no channels and executes every
  transaction synchronously, so the channels and the goroutines that serve them are left out.
\<close>

record ('t, 'd, 'e, 'db, 'm) ctrlers =
  csGov :: "'t GovCtrler"
  csAcct :: "'t AcctCtrler"
  csStake :: "('t, 'd) StakeCtrler"
  csEvm :: "('e, 'db, 'm) EVMCtrler"

text \<open>What is not in the repository: the parameters of the controllers, the codecs of a transaction,
  the recovery of a signer and the hash of the bytes of a transaction.\<close>

record ('t, 'e, 'db, 'm) nodeEnv =
  neGov :: "'t govEnv"
  neStake :: "'t stakeEnv"
  neEvm :: "('t, 'e, 'db, 'm) evmEnv"
  neTrx :: trxProtoOps
  neRlp :: rlpOps
  neSig2Addr :: "bytes \<Rightarrow> bytes \<Rightarrow> goerror + bytes \<times> bytes"
  neTxHash :: "bytes \<Rightarrow> bytes"

abbreviation neTree :: "('t, 'e, 'db, 'm) nodeEnv \<Rightarrow> 't treeOps" where
  "neTree E \<equiv> seTree (neStake E)"

abbreviation neAccts :: "('t, 'e, 'db, 'm) nodeEnv \<Rightarrow> acctProtoOps" where
  "neAccts E \<equiv> seAccts (neStake E)"

section \<open>The context of a transaction\<close>

text \<open>The callbacks may change the context and a state of the caller.\<close>

fun runCallbacks :: "(TrxContext \<times> 's \<Rightarrow> unit res \<times> TrxContext \<times> 's) list \<Rightarrow> TrxContext \<times> 's \<Rightarrow> unit res \<times> TrxContext \<times> 's" where
  "runCallbacks [] cs = (Inr (), cs)"
| "runCallbacks (fn # fns) cs = bindE (fn cs) (\<lambda>_ cs. runCallbacks fns cs)"

definition NewTrxContext ::
  "('t, 'e, 'db, 'm) nodeEnv \<Rightarrow> bytes \<Rightarrow> int \<Rightarrow> int \<Rightarrow> bool \<Rightarrow> (TrxContext \<times> 's \<Rightarrow> unit res \<times> TrxContext \<times> 's) list \<Rightarrow>
     's \<times> 't AcctCtrler \<Rightarrow> TrxContext res \<times> 's \<times> 't AcctCtrler" where
  "NewTrxContext E txbz height btime exec cbfns sa =
     (let (s, ac) = sa in
      case Trx_Decode (neTrx E) txbz of
        Inl xerr \<Rightarrow> (Inl (Error xerr), s, ac)
      | Inr tx \<Rightarrow>
          (case runCallbacks cbfns
             (\<lparr>ctxHeight = height, ctxBlockTime = btime, ctxTxHash = neTxHash E txbz, ctxTx = tx, ctxTxIdx = 0, ctxExec = exec,
               ctxSenderPubKey = [], ctxSender = [], ctxReceiver = [], ctxGasUsed = 0, ctxRetData = [], ctxEvents = [],
               ctxChainID = ''''\<rparr>, s) of
             (Inl err, txctx, s) \<Rightarrow> (Inl err, s, ac)
           | (Inr _, txctx, s) \<Rightarrow>
               (case AcctCtrler_FindAccount (neTree E) (neAccts E) (txFrom tx) (ctxExec txctx) ac of
                  (None, ac) \<Rightarrow> (Inl (Error (xerror_Wrapf ErrNotFoundAccount ''address: %v'')), s, ac)
                | (Some _, ac) \<Rightarrow>
                    (let (_, ac) = AcctCtrler_FindOrNewAccount (neTree E) (neAccts E) (txTo tx) (ctxExec txctx) ac
                     in (Inr (txctx\<lparr>ctxSender := ToLedgerKey (txFrom tx), ctxReceiver := ToLedgerKey (txTo tx)\<rparr>), s, ac)))))"

section \<open>Validation\<close>

definition trxFee :: "Trx \<Rightarrow> u256" where
  "trxFee tx = txGasPrice tx * u256_NewInt (txGas tx)"

definition commonValidation0 :: "('t, 'e, 'db, 'm) nodeEnv \<Rightarrow> GovParams \<Rightarrow> TrxContext \<Rightarrow> unit res \<times> TrxContext" where
  "commonValidation0 E gov ctx =
     (let tx = ctxTx ctx in
      if length (txFrom tx) \<noteq> AddrSize then (Inl (Error ErrInvalidAddress), ctx)
      else if length (txTo tx) \<noteq> AddrSize then (Inl (Error ErrInvalidAddress), ctx)
      else if u256_Sign (txAmount tx) < 0 then (Inl (Error ErrInvalidAmount), ctx)
      else if txGas tx > 0x7FFFFFFFFFFFFFFF then (Inl (Error ErrInvalidGas), ctx)
      else if u256_Sign (txGasPrice tx) < 0 then (Inl (Error ErrInvalidGasPrice), ctx)
      else case GovParams_GasPrice gov of
        Inl p \<Rightarrow> (Inl p, ctx)
      | Inr price \<Rightarrow>
          if u256_Cmp (txGasPrice tx) price \<noteq> 0 then (Inl (Error ErrInvalidGasPrice), ctx)
          else case GovParams_MinTrxFee gov of
            Inl p \<Rightarrow> (Inl p, ctx)
          | Inr minFee \<Rightarrow>
              if u256_Cmp (trxFee tx) minFee < 0 then (Inl (Error (xerror_Wrapf ErrInvalidGas ''too small gas(fee)'')), ctx)
              else if ctxExec ctx then
                (case VerifyTrxRLP (neSig2Addr E) (neRlp E) tx (ctxChainID ctx) of
                   Inl xerr \<Rightarrow> (Inl (Error xerr), ctx)
                 | Inr (_, pubKeyBytes) \<Rightarrow> (Inr (), ctx\<lparr>ctxSenderPubKey := pubKeyBytes\<rparr>))
              else (Inr (), ctx))"

definition commonValidation1 :: "TrxContext \<Rightarrow> 't AcctCtrler \<Rightarrow> unit res" where
  "commonValidation1 ctx ac =
     (let tx = ctxTx ctx; needAmt = trxFee tx + txAmount tx in
      case AcctCtrler_at (ctxExec ctx) (ctxSender ctx) ac of
        None \<Rightarrow> Inl nilPointer
      | Some sender \<Rightarrow>
          (case Account_CheckBalance sender needAmt of
             Inl xerr \<Rightarrow> Inl xerr
           | Inr _ \<Rightarrow>
               (case Account_CheckNonce sender (txNonce tx) of
                  Inl (Error xerr) \<Rightarrow>
                    Inl (Error (xerror_Wrap xerr (PlainError ''invalid nonce - ledger: %v, tx:%v, address: %v, txhash: %X'')))
                | Inl (Panic p) \<Rightarrow> Inl (Panic p)
                | Inr _ \<Rightarrow> Inr ())))"

text \<open>The handler of the type of the transaction.\<close>

definition handlerValidate ::
  "('t, 'e, 'db, 'm) nodeEnv \<Rightarrow> TrxContext \<Rightarrow> ('t, 'd, 'e, 'db, 'm) ctrlers \<Rightarrow> unit res \<times> ('t, 'd, 'e, 'db, 'm) ctrlers" where
  "handlerValidate E ctx cs =
     (let ty = txType (ctxTx ctx) in
      if ty = TRX_PROPOSAL \<or> ty = TRX_VOTING then
        (let (r, g) = GovCtrler_ValidateTrx (neGov E) (csStake cs) ctx (csGov cs) in (r, cs\<lparr>csGov := g\<rparr>))
      else if ty = TRX_TRANSFER \<or> ty = TRX_SETDOC then (AcctCtrler_ValidateTrx ctx, cs)
      else if ty = TRX_STAKING \<or> ty = TRX_UNSTAKING \<or> ty = TRX_WITHDRAW then
        (let (r, k) = StakeCtrler_ValidateTrx (neStake E) (gcGovParams (csGov cs)) ctx (csStake cs) in (r, cs\<lparr>csStake := k\<rparr>))
      else if ty = TRX_CONTRACT then (EVMCtrler_ValidateTrx (neEvm E) ctx (csAcct cs), cs)
      else (Inl (Error ErrUnknownTrxType), cs))"

definition validateTrx ::
  "('t, 'e, 'db, 'm) nodeEnv \<Rightarrow> TrxContext \<Rightarrow> ('t, 'd, 'e, 'db, 'm) ctrlers \<Rightarrow>
     unit res \<times> TrxContext \<times> ('t, 'd, 'e, 'db, 'm) ctrlers" where
  "validateTrx E ctx cs =
     (case commonValidation0 E (gcGovParams (csGov cs)) ctx of
        (Inl xerr, ctx) \<Rightarrow> (Inl xerr, ctx, cs)
      | (Inr _, ctx) \<Rightarrow>
          (case commonValidation1 ctx (csAcct cs) of
             Inl xerr \<Rightarrow> (Inl xerr, ctx, cs)
           | Inr _ \<Rightarrow> (let (r, cs) = handlerValidate E ctx cs in (r, ctx, cs))))"

section \<open>Execution\<close>

text \<open>\<open>toContract\<close>: a transfer whose receiver has code, which the EVM executes.\<close>

definition toContract :: "TrxContext \<Rightarrow> 't AcctCtrler \<Rightarrow> bool res" where
  "toContract ctx ac =
     (if txType (ctxTx ctx) = TRX_TRANSFER then
        (case AcctCtrler_at (ctxExec ctx) (ctxReceiver ctx) ac of
           None \<Rightarrow> Inl nilPointer
         | Some receiver \<Rightarrow> Inr (acctCode receiver \<noteq> None))
      else Inr False)"

definition runEvm ::
  "('t, 'e, 'db, 'm) nodeEnv \<Rightarrow> TrxContext \<Rightarrow> ('t, 'd, 'e, 'db, 'm) ctrlers \<Rightarrow>
     unit res \<times> TrxContext \<times> ('t, 'd, 'e, 'db, 'm) ctrlers" where
  "runEvm E ctx cs =
     (let (r, ctx, c, ac) = EVMCtrler_ExecuteTrx (neEvm E) (gcGovParams (csGov cs)) ctx (csEvm cs, csAcct cs)
      in (if r = Inl (Error ErrUnknownTrxType) then Inr () else r, ctx, cs\<lparr>csEvm := c, csAcct := ac\<rparr>))"

definition handlerExecute ::
  "('t, 'e, 'db, 'm) nodeEnv \<Rightarrow> TrxContext \<Rightarrow> ('t, 'd, 'e, 'db, 'm) ctrlers \<Rightarrow>
     unit res \<times> TrxContext \<times> ('t, 'd, 'e, 'db, 'm) ctrlers" where
  "handlerExecute E ctx cs =
     (let ty = txType (ctxTx ctx) in
      if ty = TRX_CONTRACT then runEvm E ctx cs
      else if ty = TRX_PROPOSAL \<or> ty = TRX_VOTING then
        (let (r, g) = GovCtrler_ExecuteTrx (neGov E) (csStake cs) ctx (csGov cs) in (r, ctx, cs\<lparr>csGov := g\<rparr>))
      else if ty = TRX_TRANSFER \<or> ty = TRX_SETDOC then
        (case toContract ctx (csAcct cs) of
           Inl p \<Rightarrow> (Inl p, ctx, cs)
         | Inr True \<Rightarrow> runEvm E ctx cs
         | Inr False \<Rightarrow> (let (r, ac) = AcctCtrler_ExecuteTrx (neAccts E) ctx (csAcct cs) in (r, ctx, cs\<lparr>csAcct := ac\<rparr>)))
      else if ty = TRX_STAKING \<or> ty = TRX_UNSTAKING \<or> ty = TRX_WITHDRAW then
        (let (r, k, ac) = StakeCtrler_ExecuteTrx (neStake E) (gcGovParams (csGov cs)) ctx (csStake cs, csAcct cs)
         in (r, ctx, cs\<lparr>csStake := k, csAcct := ac\<rparr>))
      else (Inl (Error ErrUnknownTrxType), ctx, cs))"

definition chargeSender :: "acctProtoOps \<Rightarrow> TrxContext \<Rightarrow> 't AcctCtrler \<Rightarrow> unit res \<times> 't AcctCtrler" where
  "chargeSender P ctx ac =
     (case AcctCtrler_at (ctxExec ctx) (ctxSender ctx) ac of
        None \<Rightarrow> (Inl nilPointer, ac)
      | Some sender \<Rightarrow>
          (case Account_SubBalance (trxFee (ctxTx ctx)) sender of
             (Inl xerr, sender) \<Rightarrow> (Inl xerr, AcctCtrler_assign P (ctxExec ctx) sender ac)
           | (Inr _, sender) \<Rightarrow>
               (let sender = Account_AddNonce sender; ac = AcctCtrler_assign P (ctxExec ctx) sender ac
                in AcctCtrler_setAccountCommittable P sender (ctxExec ctx) ac)))"

definition postRunTrx ::
  "('t, 'e, 'db, 'm) nodeEnv \<Rightarrow> TrxContext \<Rightarrow> ('t, 'd, 'e, 'db, 'm) ctrlers \<Rightarrow>
     unit res \<times> TrxContext \<times> ('t, 'd, 'e, 'db, 'm) ctrlers" where
  "postRunTrx E ctx cs =
     (if txType (ctxTx ctx) = TRX_CONTRACT then (Inr (), ctx, cs)
      else case toContract ctx (csAcct cs) of
        Inl p \<Rightarrow> (Inl p, ctx, cs)
      | Inr True \<Rightarrow> (Inr (), ctx, cs)
      | Inr False \<Rightarrow>
          (case chargeSender (neAccts E) ctx (csAcct cs) of
             (Inl xerr, ac) \<Rightarrow> (Inl xerr, ctx, cs\<lparr>csAcct := ac\<rparr>)
           | (Inr _, ac) \<Rightarrow> (Inr (), ctx\<lparr>ctxGasUsed := txGas (ctxTx ctx)\<rparr>, cs\<lparr>csAcct := ac\<rparr>)))"

definition runTrx ::
  "('t, 'e, 'db, 'm) nodeEnv \<Rightarrow> TrxContext \<Rightarrow> ('t, 'd, 'e, 'db, 'm) ctrlers \<Rightarrow>
     unit res \<times> TrxContext \<times> ('t, 'd, 'e, 'db, 'm) ctrlers" where
  "runTrx E ctx cs =
     (case handlerExecute E ctx cs of
        (Inl xerr, ctx, cs) \<Rightarrow> (Inl xerr, ctx, cs)
      | (Inr _, ctx, cs) \<Rightarrow> postRunTrx E ctx cs)"

definition TrxExecutor_ExecuteSync ::
  "('t, 'e, 'db, 'm) nodeEnv \<Rightarrow> TrxContext \<Rightarrow> ('t, 'd, 'e, 'db, 'm) ctrlers \<Rightarrow>
     unit res \<times> TrxContext \<times> ('t, 'd, 'e, 'db, 'm) ctrlers" where
  "TrxExecutor_ExecuteSync E ctx cs =
     (case validateTrx E ctx cs of
        (Inl xerr, ctx, cs) \<Rightarrow> (Inl xerr, ctx, cs)
      | (Inr _, ctx, cs) \<Rightarrow> runTrx E ctx cs)"

end
