(* ===== verification/Rigo_Genesis.thy ===== *)
theory Rigo_Genesis
  imports Rigo_AcctCtrler Rigo_GovParams Rigo_Crypto Rigo_Stake
begin

text \<open>
  The version number of the program (\<^verbatim>\<open>src/cmd/version/version.go\<close>), the units of the coin
  (\<^verbatim>\<open>src/types/asset.go\<close>), the helpers of \<^verbatim>\<open>src/libs/utils.go\<close>, and the genesis state
  (\<^verbatim>\<open>src/genesis/genesis.go\<close>, \<^verbatim>\<open>genesis_app_state.go\<close>, \<^verbatim>\<open>genesis_asset_holder.go\<close>).
\<close>

unbundle bit_operations_syntax

section \<open>The version\<close>

text \<open>The commit part is set when the program is linked, so it is an argument.\<close>

definition majorVer :: u64 where "majorVer = 1"
definition minorVer :: u64 where "minorVer = 3"
definition patchVer :: u64 where "patchVer = 19"

definition MASK_MAJOR_VER :: u64 where "MASK_MAJOR_VER = 0xFF00000000000000"
definition MASK_MINOR_VER :: u64 where "MASK_MINOR_VER = 0x00FF000000000000"
definition MASK_PATCH_VER :: u64 where "MASK_PATCH_VER = 0x0000FFFF00000000"
definition MASK_COMMIT_VER :: u64 where "MASK_COMMIT_VER = 0x00000000FFFFFFFF"

definition versionMask :: "u64 list \<Rightarrow> u64" where
  "versionMask masks =
     (if length masks = 0 then MASK_MAJOR_VER OR MASK_MINOR_VER OR MASK_PATCH_VER OR MASK_COMMIT_VER
      else fold (\<lambda>m mask. mask OR m) masks 0)"

definition version_Uint64 :: "u64 \<Rightarrow> u64 list \<Rightarrow> u64" where
  "version_Uint64 commitVer masks =
     (push_bit 56 majorVer + push_bit 48 minorVer + push_bit 32 patchVer + commitVer) AND versionMask masks"

definition version_Uint64Formated :: "u64 list \<Rightarrow> u64" where
  "version_Uint64Formated masks =
     (let mask = versionMask masks;
          r = (if mask AND MASK_MAJOR_VER \<noteq> 0 then majorVer * 1000000 else 0);
          r = (if mask AND MASK_MINOR_VER \<noteq> 0 then r + minorVer * 1000 else r)
      in if mask AND MASK_PATCH_VER \<noteq> 0 then r + patchVer else r)"

text \<open>The four numbers \<^verbatim>\<open>Parse\<close> prints.\<close>

definition version_Parse :: "u64 \<Rightarrow> u64 \<times> u64 \<times> u64 \<times> u64" where
  "version_Parse c =
     (drop_bit 56 c AND 0xFF, drop_bit 48 c AND 0xFF, drop_bit 32 c AND 0xFFFF, c AND 0xFFFFFFFF)"

definition version_Major :: u64 where "version_Major = majorVer"
definition version_Minor :: u64 where "version_Minor = minorVer"
definition version_Patch :: u64 where "version_Patch = patchVer"

section \<open>Units\<close>

definition oneCoinInFons :: u256 where "oneCoinInFons = 1000000000000000000"

definition ToFons :: "u64 \<Rightarrow> u256" where
  "ToFons n = u256_NewInt n * oneCoinInFons"

definition FromFons :: "u256 \<Rightarrow> u64 \<times> u64" where
  "FromFons sau = (ucast (sau div oneCoinInFons), ucast (sau mod oneCoinInFons))"

text \<open>\<^verbatim>\<open>MAX\<close> and \<^verbatim>\<open>MIN\<close> of \<^verbatim>\<open>libs\<close>; \<^verbatim>\<open>MAX64\<close> and \<^verbatim>\<open>MIN64\<close> are the same on 64 bits.\<close>

definition libs_MAX :: "int \<Rightarrow> int \<Rightarrow> int" where "libs_MAX a b = (if a > b then a else b)"
definition libs_MIN :: "int \<Rightarrow> int \<Rightarrow> int" where "libs_MIN a b = (if a < b then a else b)"
definition libs_MAX64 :: "int \<Rightarrow> int \<Rightarrow> int" where "libs_MAX64 a b = (if a > b then a else b)"
definition libs_MIN64 :: "int \<Rightarrow> int \<Rightarrow> int" where "libs_MIN64 a b = (if a < b then a else b)"

section \<open>Genesis\<close>

record GenesisAssetHolderJSON =
  gjAddress :: bytes
  gjBalance :: string

definition GenesisAssetHolder_MarshalJSON :: "(u256 \<Rightarrow> string) \<Rightarrow> GenesisAssetHolderJSON jsonOps \<Rightarrow> GenesisAssetHolder \<Rightarrow> string + bytes" where
  "GenesisAssetHolder_MarshalJSON dec J gh = jsonMarshal J \<lparr>gjAddress = ghAddress gh, gjBalance = dec (ghBalance gh)\<rparr>"

definition GenesisAssetHolder_UnmarshalJSON ::
  "(string \<Rightarrow> string + u256) \<Rightarrow> GenesisAssetHolderJSON jsonOps \<Rightarrow> bytes \<Rightarrow> string + GenesisAssetHolder" where
  "GenesisAssetHolder_UnmarshalJSON fromDecimal J bz =
     (case jsonUnmarshal J bz of
        Inl err \<Rightarrow> Inl err
      | Inr tm \<Rightarrow> (case fromDecimal (gjBalance tm) of Inl err \<Rightarrow> Inl err | Inr b \<Rightarrow> Inr \<lparr>ghAddress = gjAddress tm, ghBalance = b\<rparr>))"

definition GenesisAssetHolder_Hash :: "cryptoOps \<Rightarrow> GenesisAssetHolder \<Rightarrow> bytes" where
  "GenesisAssetHolder_Hash C gh = DefaultHash C [ghAddress gh, u256_Bytes (ghBalance gh)]"

record GenesisAppState =
  gsAssetHolders :: "GenesisAssetHolder list"
  gsGovParams :: "GovParams option"

definition GenesisAppState_Hash :: "cryptoOps \<Rightarrow> govProtoOps \<Rightarrow> GenesisAppState \<Rightarrow> bytes res" where
  "GenesisAppState_Hash C G ga =
     (case gsGovParams ga of
        None \<Rightarrow> Inl nilPointer
      | Some params \<Rightarrow>
          (case GovParams_Encode G params of
             Inl err \<Rightarrow> Inl err
           | Inr bz \<Rightarrow> Inr (DefaultHash C (bz # map (GenesisAssetHolder_Hash C) (gsAssetHolders ga)))))"

text \<open>The fields of the document the program sets itself; the time and the default parameters of the
  consensus engine are not modelled.\<close>

record GenesisDoc =
  gdChainID :: string
  gdAppVersion :: u64
  gdValidators :: "validatorUpdate list"
  gdAppState :: bytes
  gdAppHash :: bytes

definition NewGenesisDoc ::
  "cryptoOps \<Rightarrow> govProtoOps \<Rightarrow> (GenesisAppState \<Rightarrow> string + bytes) \<Rightarrow> string \<Rightarrow> validatorUpdate list \<Rightarrow>
     GenesisAssetHolder list \<Rightarrow> GovParams option \<Rightarrow> GenesisDoc res" where
  "NewGenesisDoc C G marshal chainID validators assetHolders govParams =
     (let appState = \<lparr>gsAssetHolders = assetHolders, gsGovParams = govParams\<rparr> in
      case marshal appState of
        Inl err \<Rightarrow> Inl (Error (PlainError err))
      | Inr appStateJsonBlob \<Rightarrow>
          (case GenesisAppState_Hash C G appState of
             Inl err \<Rightarrow> Inl err
           | Inr appHash \<Rightarrow>
               Inr \<lparr>gdChainID = chainID, gdAppVersion = version_Major, gdValidators = validators,
                    gdAppState = appStateJsonBlob, gdAppHash = appHash\<rparr>))"

text \<open>\<^verbatim>\<open>DevnetGenesisDoc\<close>, \<^verbatim>\<open>TestnetGenesisDoc\<close> and \<^verbatim>\<open>MainnetGenesisDoc\<close>: the document parsed from the
  text in the program, given the result of the parser. The main network keeps its own chain id.\<close>

definition DevnetGenesisDoc :: "string + GenesisDoc \<Rightarrow> string \<Rightarrow> string + GenesisDoc" where
  "DevnetGenesisDoc parsed chainId = map_sum id (\<lambda>genDoc. genDoc\<lparr>gdChainID := chainId\<rparr>) parsed"

definition TestnetGenesisDoc :: "string + GenesisDoc \<Rightarrow> string \<Rightarrow> string + GenesisDoc" where
  "TestnetGenesisDoc parsed chainId = map_sum id (\<lambda>genDoc. genDoc\<lparr>gdChainID := chainId\<rparr>) parsed"

definition MainnetGenesisDoc :: "string + GenesisDoc \<Rightarrow> string \<Rightarrow> string + GenesisDoc" where
  "MainnetGenesisDoc parsed chainId = parsed"

end
