(* ===== verification/Rigo_App.thy ===== *)
theory Rigo_App
  imports Rigo_Executor Rigo_Genesis
begin

text \<open>
  The application the consensus engine drives: \<^verbatim>\<open>src/node/app.go\<close>, \<^verbatim>\<open>src/node/query.go\<close> and
  \<^verbatim>\<open>src/ctrlers/account/query.go\<close>. The engine calls \<^verbatim>\<open>Info\<close> and, on a new chain, \<^verbatim>\<open>InitChain\<close>; then for every
  block \<^verbatim>\<open>BeginBlock\<close>, \<^verbatim>\<open>DeliverTx\<close> for each transaction, \<^verbatim>\<open>EndBlock\<close> and \<^verbatim>\<open>Commit\<close>. \<^verbatim>\<open>CheckTx\<close> and \<^verbatim>\<open>Query\<close>
  may come at any time between two of these calls, which hold the lock of the application. A panic of a
  handler stops the node. \<^verbatim>\<open>deliverTxAsync\<close> is not called by the program.
\<close>

record ('t, 'd, 'e, 'db, 'm, 'a) RigoApp =
  raLastBlockCtx :: "BlockContext option"
  raNextBlockCtx :: "BlockContext option"
  raMetaDB :: "'a MetaDB"
  raCtrlers :: "('t, 'd, 'e, 'db, 'm) ctrlers"
  raChainID :: string

record AccountJSON =
  ajAddress :: bytes
  ajName :: string
  ajNonce :: u64
  ajBalance :: string
  ajCode :: "bytes option"
  ajDocURL :: string

text \<open>What is not in the repository, with the configured interval of empty blocks in seconds
  (\<open>aeInterval\<close>) and the commit the program was linked with (\<open>aeCommitVer\<close>).\<close>

record ('t, 'd, 'e, 'db, 'm, 'a) appEnv =
  aeNode :: "('t, 'e, 'db, 'm) nodeEnv"
  aeDb :: "'a dbOps"
  aeRwdDb :: "'d dbOps"
  aeCrypto :: cryptoOps
  aeBlockJson :: "BlockContext jsonOps"
  aeAppStateJson :: "GenesisAppState jsonOps"
  aeAcctJson :: "AccountJSON jsonOps"
  aeStakeQuery :: stakeQueryOps
  aeGovQuery :: govQueryOps
  aeCallJson :: "VMCallResult \<Rightarrow> string + bytes"
  aeInterval :: int
  aeCommitVer :: u64
  aeABCIVersion :: string

abbreviation appGovParams :: "('t, 'd, 'e, 'db, 'm, 'a) RigoApp \<Rightarrow> GovParams" where
  "appGovParams a \<equiv> gcGovParams (csGov (raCtrlers a))"

text \<open>An error the application turns into a panic.\<close>

definition panicOf :: "fault \<Rightarrow> fault" where
  "panicOf f = (case f of Panic p \<Rightarrow> Panic p | Error e \<Rightarrow> Panic (xerror_Error e))"

section \<open>Start\<close>

record ResponseInfo =
  riVersion :: string
  riAppVersion :: u64
  riLastBlockHeight :: int
  riLastBlockAppHash :: bytes

text \<open>\<open>now\<close> is the current time.\<close>

definition RigoApp_Info ::
  "('t, 'd, 'e, 'db, 'm, 'a) appEnv \<Rightarrow> int \<Rightarrow> ('t, 'd, 'e, 'db, 'm, 'a) RigoApp \<Rightarrow> ResponseInfo res \<times> ('t, 'd, 'e, 'db, 'm, 'a) RigoApp" where
  "RigoApp_Info E now a =
     (let (o1, db) = MetaDB_LastBlockContext (aeDb E) (jsonUnmarshal (aeBlockJson E)) (raMetaDB a);
          (r, db) =
            (case o1 of
               Some bctx \<Rightarrow> (Inr bctx, db)
             | None \<Rightarrow>
                 (case MetaDB_LastBlockHeight (aeDb E) db of
                    (Inl p, db) \<Rightarrow> (Inl p, db)
                  | (Inr lastHeight, db) \<Rightarrow>
                      (let (appHash, db) = MetaDB_LastBlockAppHash (aeDb E) db;
                           hash = (case appHash of None \<Rightarrow> [] | Some h \<Rightarrow> h)
                       in (Inr (BlockContext_SetAppHash hash (NewBlockContext
                            \<lparr>biHeight = lastHeight, biTime = now, biProposerAddress = None, biAppHash = [], biVotes = [],
                             biByzantineValidators = []\<rparr>)), db))))
      in case r of
           Inl p \<Rightarrow> (Inl p, a\<lparr>raLastBlockCtx := None, raMetaDB := db\<rparr>)
         | Inr bctx \<Rightarrow>
             (let (chainID, db) = MetaDB_ChainID (aeDb E) db
              in (Inr \<lparr>riVersion = aeABCIVersion E,
                       riAppVersion = version_Uint64 (aeCommitVer E) [MASK_MAJOR_VER, MASK_MINOR_VER],
                       riLastBlockHeight = BlockContext_Height bctx, riLastBlockAppHash = bctxAppHash bctx\<rparr>,
                  a\<lparr>raLastBlockCtx := Some bctx, raMetaDB := db, raChainID := chainID\<rparr>)))"

text \<open>The validators of the genesis: their initial stakes and, if need be, their accounts.\<close>

fun initValidators ::
  "('t, 'd, 'e, 'db, 'm, 'a) appEnv \<Rightarrow> validatorUpdate list \<Rightarrow> InitStake list \<Rightarrow> 't AcctCtrler \<Rightarrow> InitStake list \<times> 't AcctCtrler" where
  "initValidators E [] initStakes ac = (initStakes, ac)"
| "initValidators E ((pubBytes, pw) # vals) initStakes ac =
     (let addr = PubBytes2Addr (aeCrypto E) pubBytes;
          s0 = NewStakeWithPower addr addr pw 1 (ZeroBytes 32);
          (_, ac) = AcctCtrler_FindOrNewAccount (neTree (aeNode E)) (neAccts (aeNode E)) addr True ac
      in initValidators E vals (initStakes @ [\<lparr>isPubKeys = pubBytes, isStakes = [s0]\<rparr>]) ac)"

definition RigoApp_InitChain ::
  "('t, 'd, 'e, 'db, 'm, 'a) appEnv \<Rightarrow> string \<Rightarrow> bytes \<Rightarrow> validatorUpdate list \<Rightarrow> ('t, 'd, 'e, 'db, 'm, 'a) RigoApp \<Rightarrow>
     bytes res \<times> ('t, 'd, 'e, 'db, 'm, 'a) RigoApp" where
  "RigoApp_InitChain E chainId appStateBytes validators a =
     (if chainId = '''' then (Inl (Panic ''there is no chain_id''), a)
      else
        let a = a\<lparr>raChainID := chainId, raMetaDB := snd (MetaDB_PutChainID (aeDb E) chainId (raMetaDB a))\<rparr>
        in case jsonUnmarshal (aeAppStateJson E) appStateBytes of
             Inl err \<Rightarrow> (Inl (Panic err), a)
           | Inr appState \<Rightarrow>
               (case (GenesisAppState_Hash (aeCrypto E) (geParams (neGov (aeNode E))) appState, gsGovParams appState) of
                  (Inl err, _) \<Rightarrow> (Inl (panicOf err), a)
                | (Inr _, None) \<Rightarrow> (Inl nilPointer, a)
                | (Inr appHash, Some params) \<Rightarrow>
                    (let cs = raCtrlers a; (r, g) = GovCtrler_InitLedger (neGov (aeNode E)) params (csGov cs);
                         cs = cs\<lparr>csGov := g\<rparr>
                     in case r of
                          Inl xerr \<Rightarrow> (Inl (panicOf xerr), a\<lparr>raCtrlers := cs\<rparr>)
                        | Inr _ \<Rightarrow>
                            (case AcctCtrler_InitLedger (neAccts (aeNode E)) (gsAssetHolders appState) (csAcct cs) of
                               (Inl xerr, ac) \<Rightarrow> (Inl (panicOf xerr), a\<lparr>raCtrlers := cs\<lparr>csAcct := ac\<rparr>\<rparr>)
                             | (Inr _, ac) \<Rightarrow>
                                 (let (initStakes, ac) = initValidators E validators [] ac; cs = cs\<lparr>csAcct := ac\<rparr>;
                                      (r, k) = StakeCtrler_InitLedger (neStake (aeNode E)) initStakes (csStake cs)
                                  in (case r of Inl xerr \<Rightarrow> Inl (panicOf xerr) | Inr _ \<Rightarrow> Inr appHash,
                                      a\<lparr>raCtrlers := cs\<lparr>csStake := k\<rparr>\<rparr>))))))"

section \<open>CheckTx\<close>

record ResponseTx =
  rtCode :: nat
  rtLog :: string
  rtData :: bytes
  rtGasWanted :: int
  rtGasUsed :: int
  rtEvents :: "event list"

definition okResponse :: ResponseTx where
  "okResponse = \<lparr>rtCode = 0, rtLog = '''', rtData = [], rtGasWanted = 0, rtGasUsed = 0, rtEvents = []\<rparr>"

definition errResponse :: "goerror \<Rightarrow> bytes \<Rightarrow> event list \<Rightarrow> ResponseTx" where
  "errResponse xerr data evts = okResponse\<lparr>rtCode := xerror_Code xerr, rtLog := xerror_Error xerr, rtData := data, rtEvents := evts\<rparr>"

definition BlockContext_ExpectedNextBlockTimeSeconds :: "int \<Rightarrow> BlockContext \<Rightarrow> int" where
  "BlockContext_ExpectedNextBlockTimeSeconds secs bctx = i64 (BlockContext_TimeSeconds bctx + secs)"

definition checkContext :: "string \<Rightarrow> TrxContext \<times> unit \<Rightarrow> unit res \<times> TrxContext \<times> unit" where
  "checkContext chainID cs = (Inr (), apfst (\<lambda>c. c\<lparr>ctxChainID := chainID\<rparr>) cs)"

definition RigoApp_CheckTx ::
  "('t, 'd, 'e, 'db, 'm, 'a) appEnv \<Rightarrow> bool \<Rightarrow> bytes \<Rightarrow> ('t, 'd, 'e, 'db, 'm, 'a) RigoApp \<Rightarrow>
     ResponseTx res \<times> ('t, 'd, 'e, 'db, 'm, 'a) RigoApp" where
  "RigoApp_CheckTx E isNew txbz a =
     (if \<not> isNew then (Inr okResponse, a)
      else case raLastBlockCtx a of
        None \<Rightarrow> (Inl nilPointer, a)
      | Some lastCtx \<Rightarrow>
          (let cs = raCtrlers a;
               (r, _, ac) = NewTrxContext (aeNode E) txbz (i64 (BlockContext_Height lastCtx + 1))
                 (BlockContext_ExpectedNextBlockTimeSeconds (aeInterval E) lastCtx) False [checkContext (raChainID a)] ((), csAcct cs);
               cs = cs\<lparr>csAcct := ac\<rparr>
           in case r of
                Inl (Panic p) \<Rightarrow> (Inl (Panic p), a\<lparr>raCtrlers := cs\<rparr>)
              | Inl (Error xerr) \<Rightarrow> (Inr (errResponse (xerror_Wrap ErrCheckTx xerr) [] []), a\<lparr>raCtrlers := cs\<rparr>)
              | Inr txctx \<Rightarrow>
                  (let (r, txctx, cs) = TrxExecutor_ExecuteSync (aeNode E) txctx cs; a = a\<lparr>raCtrlers := cs\<rparr>
                   in case r of
                        Inl (Panic p) \<Rightarrow> (Inl (Panic p), a)
                      | Inl (Error xerr) \<Rightarrow> (Inr (errResponse (xerror_Wrap ErrCheckTx xerr) (ctxRetData txctx) []), a)
                      | Inr _ \<Rightarrow>
                          (Inr (okResponse\<lparr>rtData := ctxRetData txctx, rtGasWanted := i64_of_u64 (txGas (ctxTx txctx)),
                                          rtGasUsed := i64_of_u64 (ctxGasUsed txctx)\<rparr>), a))))"

section \<open>Blocks\<close>

definition RigoApp_BeginBlock ::
  "('t, 'd, 'e, 'db, 'm, 'a) appEnv \<Rightarrow> blockInfo \<Rightarrow> ('t, 'd, 'e, 'db, 'm, 'a) RigoApp \<Rightarrow>
     event list res \<times> ('t, 'd, 'e, 'db, 'm, 'a) RigoApp" where
  "RigoApp_BeginBlock E req a =
     (case raLastBlockCtx a of
        None \<Rightarrow> (Inl nilPointer, a)
      | Some lastCtx \<Rightarrow>
          if biHeight req \<noteq> i64 (BlockContext_Height lastCtx + 1)
          then (Inl (Panic ''error block height: expected(%v), actural(%v)''), a)
          else
            (let bctx = NewBlockContext req; cs = raCtrlers a; N = aeNode E;
                 (r0, g) = GovCtrler_BeginBlock (neGov N) bctx (csGov cs); cs = cs\<lparr>csGov := g\<rparr>;
                 a = a\<lparr>raNextBlockCtx := Some bctx, raCtrlers := cs\<rparr>
             in case r0 of
                  Inl xerr \<Rightarrow> (Inl (panicOf xerr), a)
                | Inr ev0 \<Rightarrow>
                    (let (r1, k) = StakeCtrler_BeginBlock (neStake N) (gcGovParams (csGov cs)) bctx (csStake cs);
                         cs = cs\<lparr>csStake := k\<rparr>; a = a\<lparr>raCtrlers := cs\<rparr>
                     in case r1 of
                          Inl xerr \<Rightarrow> (Inl (panicOf xerr), a)
                        | Inr ev1 \<Rightarrow>
                            (let (r2, v) = EVMCtrler_BeginBlock (neEvm N) bctx (csEvm cs); a = a\<lparr>raCtrlers := cs\<lparr>csEvm := v\<rparr>\<rparr>
                             in case r2 of
                                  Inl xerr \<Rightarrow> (Inl (panicOf xerr), a)
                                | Inr ev2 \<Rightarrow> (Inr (ev0 @ ev1 @ ev2), a)))))"

text \<open>The event of a transaction. The status of a failed one is the last byte of the code.\<close>

definition trxEvent :: "Trx \<Rightarrow> (bytes \<times> bytes \<times> bool) list \<Rightarrow> byte \<Rightarrow> event" where
  "trxEvent tx attrs status =
     (''tx'', [eventAttr ''type'' (Trx_TypeString tx) True, eventAttr ''sender'' (HexBytes_String (txFrom tx)) True] @
        attrs @ [(str_bytes ''status'', [status], False)])"

definition deliverContext :: "string \<Rightarrow> TrxContext \<times> BlockContext \<Rightarrow> unit res \<times> TrxContext \<times> BlockContext" where
  "deliverContext chainID cb =
     (let (ctx, bctx) = cb
      in (Inr (), ctx\<lparr>ctxTxIdx := bctxTxsCnt bctx, ctxChainID := chainID\<rparr>, BlockContext_AddTxsCnt 1 bctx))"

text \<open>When \<^verbatim>\<open>NewTrxContext\<close> fails it returns no context, which the source then reads: that is a nil
  pointer.\<close>

definition RigoApp_deliverTxSync ::
  "('t, 'd, 'e, 'db, 'm, 'a) appEnv \<Rightarrow> bytes \<Rightarrow> ('t, 'd, 'e, 'db, 'm, 'a) RigoApp \<Rightarrow>
     ResponseTx res \<times> ('t, 'd, 'e, 'db, 'm, 'a) RigoApp" where
  "RigoApp_deliverTxSync E txbz a =
     (case raNextBlockCtx a of
        None \<Rightarrow> (Inl nilPointer, a)
      | Some bctx \<Rightarrow>
          (let cs = raCtrlers a;
               (r, bctx, ac) = NewTrxContext (aeNode E) txbz (BlockContext_Height bctx) (BlockContext_TimeSeconds bctx) True
                 [deliverContext (raChainID a)] (bctx, csAcct cs);
               cs = cs\<lparr>csAcct := ac\<rparr>; a = a\<lparr>raNextBlockCtx := Some bctx, raCtrlers := cs\<rparr>
           in case r of
                Inl xerr \<Rightarrow> (Inl nilPointer, a)
              | Inr txctx \<Rightarrow>
                  (let (r, txctx, cs) = TrxExecutor_ExecuteSync (aeNode E) txctx cs; a = a\<lparr>raCtrlers := cs\<rparr>;
                       tx = ctxTx txctx
                   in case r of
                        Inl (Panic p) \<Rightarrow> (Inl (Panic p), a)
                      | Inl (Error xerr) \<Rightarrow>
                          (let xerr = xerror_Wrap ErrDeliverTx xerr
                           in (Inr (errResponse xerr (ctxRetData txctx)
                                 (ctxEvents txctx @ [trxEvent tx [] (word_of_nat (xerror_Code xerr))])), a))
                      | Inr _ \<Rightarrow>
                          (case GovParams_GasPrice (appGovParams a) of
                             Inl p \<Rightarrow> (Inl p, a)
                           | Inr price \<Rightarrow>
                               (Inr (okResponse\<lparr>rtGasWanted := i64_of_u64 (txGas tx), rtGasUsed := i64_of_u64 (ctxGasUsed txctx),
                                  rtData := ctxRetData txctx,
                                  rtEvents := ctxEvents txctx @
                                    [trxEvent tx
                                       [eventAttr ''receiver'' (HexBytes_String (txTo tx)) True,
                                        eventAttr ''addrpair'' (HexBytes_String (txFrom tx) @ HexBytes_String (txTo tx)) True,
                                        eventAttr ''amount'' (seDec (neStake (aeNode E)) (txAmount tx)) False] 0]\<rparr>),
                                a\<lparr>raNextBlockCtx := Some (BlockContext_AddFee (GasToFee (ctxGasUsed txctx) price) bctx)\<rparr>)))))"

definition RigoApp_DeliverTx ::
  "('t, 'd, 'e, 'db, 'm, 'a) appEnv \<Rightarrow> bytes \<Rightarrow> ('t, 'd, 'e, 'db, 'm, 'a) RigoApp \<Rightarrow>
     ResponseTx res \<times> ('t, 'd, 'e, 'db, 'm, 'a) RigoApp" where
  "RigoApp_DeliverTx E txbz a = RigoApp_deliverTxSync E txbz a"

definition RigoApp_EndBlock ::
  "('t, 'd, 'e, 'db, 'm, 'a) appEnv \<Rightarrow> ('t, 'd, 'e, 'db, 'm, 'a) RigoApp \<Rightarrow>
     (validatorUpdate list \<times> event list) res \<times> ('t, 'd, 'e, 'db, 'm, 'a) RigoApp" where
  "RigoApp_EndBlock E a =
     (case raNextBlockCtx a of
        None \<Rightarrow> (Inl nilPointer, a)
      | Some bctx \<Rightarrow>
          (let cs = raCtrlers a; N = aeNode E;
               (r0, g) = GovCtrler_EndBlock (neGov N) bctx (csGov cs); cs = cs\<lparr>csGov := g\<rparr>; a = a\<lparr>raCtrlers := cs\<rparr>
           in case r0 of
                Inl xerr \<Rightarrow> (Inl (panicOf xerr), a)
              | Inr ev0 \<Rightarrow>
                  (let (r1, ac) = AcctCtrler_EndBlock (neTree N) (neAccts N) bctx (csAcct cs); cs = cs\<lparr>csAcct := ac\<rparr>; a = a\<lparr>raCtrlers := cs\<rparr>
                   in case r1 of
                        Inl xerr \<Rightarrow> (Inl (panicOf xerr), a)
                      | Inr _ \<Rightarrow>
                          (let (r2, k, ac) = StakeCtrler_EndBlock (neStake N) (gcGovParams (csGov cs)) bctx (csStake cs, csAcct cs);
                               cs = cs\<lparr>csStake := k, csAcct := ac\<rparr>; a = a\<lparr>raCtrlers := cs\<rparr>
                           in case r2 of
                                Inl xerr \<Rightarrow> (Inl (panicOf xerr), a)
                              | Inr bctx \<Rightarrow>
                                  (let (r3, v) = EVMCtrler_EndBlock bctx (csEvm cs);
                                       a = a\<lparr>raCtrlers := cs\<lparr>csEvm := v\<rparr>, raNextBlockCtx := Some bctx\<rparr>
                                   in case r3 of
                                        Inl xerr \<Rightarrow> (Inl (panicOf xerr), a)
                                      | Inr ev3 \<Rightarrow> (Inr (bctxValUpdates bctx, ev0 @ ev3), a))))))"

definition RigoApp_Commit ::
  "('t, 'd, 'e, 'db, 'm, 'a) appEnv \<Rightarrow> ('t, 'd, 'e, 'db, 'm, 'a) RigoApp \<Rightarrow> bytes res \<times> ('t, 'd, 'e, 'db, 'm, 'a) RigoApp" where
  "RigoApp_Commit E a =
     (case raNextBlockCtx a of
        None \<Rightarrow> (Inl nilPointer, a)
      | Some bctx \<Rightarrow>
          (let cs = raCtrlers a; N = aeNode E;
               (r0, g) = GovCtrler_Commit (neGov N) (csGov cs); cs = cs\<lparr>csGov := g\<rparr>; a = a\<lparr>raCtrlers := cs\<rparr>
           in case r0 of
                Inl err \<Rightarrow> (Inl (panicOf err), a)
              | Inr (appHash0, ver0) \<Rightarrow>
                  (let (r1, ac) = AcctCtrler_Commit (neTree N) (neAccts N) (csAcct cs); cs = cs\<lparr>csAcct := ac\<rparr>; a = a\<lparr>raCtrlers := cs\<rparr>
                   in case r1 of
                        Inl err \<Rightarrow> (Inl (panicOf err), a)
                      | Inr (appHash1, ver1) \<Rightarrow>
                          (let (r2, k) = StakeCtrler_Commit (neStake N) (aeRwdDb E) (csStake cs); cs = cs\<lparr>csStake := k\<rparr>; a = a\<lparr>raCtrlers := cs\<rparr>
                           in case r2 of
                                Inl err \<Rightarrow> (Inl (panicOf err), a)
                              | Inr (appHash2, ver2) \<Rightarrow>
                                  (let (r3, v) = EVMCtrler_Commit (neEvm N) (csEvm cs); cs = cs\<lparr>csEvm := v\<rparr>; a = a\<lparr>raCtrlers := cs\<rparr>
                                   in case r3 of
                                        Inl err \<Rightarrow> (Inl (panicOf err), a)
                                      | Inr (appHash3, ver3) \<Rightarrow>
                                          if ver0 \<noteq> ver1 \<or> ver1 \<noteq> ver2 \<or> ver2 \<noteq> ver3
                                          then (Inl (Panic ''Not same versions: gov: %v, account:%v, stake:%v, vm:%v''), a)
                                          else
                                            (let appHash = DefaultHash (aeCrypto E) [appHash0, appHash1, appHash2, appHash3];
                                                 bctx = BlockContext_SetAppHash appHash bctx;
                                                 db = snd (MetaDB_PutLastBlockContext (aeDb E) (jsonMarshal (aeBlockJson E)) bctx (raMetaDB a));
                                                 db = snd (MetaDB_PutLastBlockHeight (aeDb E) ver0 db)
                                             in (Inr appHash, a\<lparr>raMetaDB := db, raLastBlockCtx := Some bctx, raNextBlockCtx := None\<rparr>)))))))"

section \<open>Queries\<close>

definition AcctCtrler_Query ::
  "'t treeOps \<Rightarrow> acctProtoOps \<Rightarrow> (u256 \<Rightarrow> string) \<Rightarrow> AccountJSON jsonOps \<Rightarrow> requestQuery \<Rightarrow> 't AcctCtrler \<Rightarrow> bytes res" where
  "AcctCtrler_Query T P dec J req c =
     (case FinalityLedger_ImmutableLedgerAt T (rqHeight req) (acctLedger c) of
        Inl xerr \<Rightarrow> Inl (queryWrap xerr)
      | Inr atledger \<Rightarrow>
          (let acct = (case SimpleLedger_Read T (accountItem P) (HexBytes_Array32 (rqData req)) atledger of
                         Inl xerr \<Rightarrow> NewAccount (rqData req) | Inr acct \<Rightarrow> acct)
           in queryJson (jsonMarshal J
                \<lparr>ajAddress = acctAddress acct, ajName = acctName acct, ajNonce = acctNonce acct,
                 ajBalance = dec (acctBalance acct), ajCode = acctCode acct, ajDocURL = acctDocURL acct\<rparr>)))"

record ResponseQuery =
  rsCode :: nat
  rsLog :: string
  rsKey :: bytes
  rsValue :: bytes
  rsHeight :: int

text \<open>The answer for the path of the request; an answer about an account is parsed once more.\<close>

definition queryPath ::
  "('t, 'd, 'e, 'db, 'm, 'a) appEnv \<Rightarrow> requestQuery \<Rightarrow> ('t, 'd, 'e, 'db, 'm) ctrlers \<Rightarrow> bytes \<times> unit res" where
  "queryPath E req cs =
     (let N = aeNode E; value = (\<lambda>r. case r of Inl xerr \<Rightarrow> ([], Inl xerr) | Inr bz \<Rightarrow> (bz, Inr ())) in
      if rqPath req = ''account'' then
        (case AcctCtrler_Query (neTree N) (neAccts N) (seDec (neStake N)) (aeAcctJson E) req (csAcct cs) of
           Inl xerr \<Rightarrow> ([], Inl xerr)
         | Inr bz \<Rightarrow>
             (bz, case jsonUnmarshal (aeAcctJson E) bz of
                    Inl err \<Rightarrow> Inl (Error (xerror_Wrap ErrQuery (PlainError err)))
                  | Inr _ \<Rightarrow> Inr ()))
      else if rqPath req \<in> set [''stakes'', ''stakes/total_power'', ''stakes/voting_power'', ''delegatee'', ''reward''] then
        value (StakeCtrler_Query (neStake N) (aeStakeQuery E) (gcGovParams (csGov cs)) req (csStake cs))
      else if rqPath req = ''proposal'' \<or> rqPath req = ''gov_params'' then
        value (GovCtrler_Query (neGov N) (aeGovQuery E) req (csGov cs))
      else if rqPath req = ''vm_call'' then value (EVMCtrler_Query (neEvm N) (aeCallJson E) req (csEvm cs) (csAcct cs))
      else ([], Inl (Error ErrInvalidQueryPath)))"

definition RigoApp_Query ::
  "('t, 'd, 'e, 'db, 'm, 'a) appEnv \<Rightarrow> requestQuery \<Rightarrow> ('t, 'd, 'e, 'db, 'm, 'a) RigoApp \<Rightarrow> ResponseQuery res" where
  "RigoApp_Query E req a =
     (case (if rqHeight req = 0 then map_option BlockContext_Height (raLastBlockCtx a) else Some (rqHeight req)) of
        None \<Rightarrow> Inl nilPointer
      | Some h \<Rightarrow>
          (let req = req\<lparr>rqHeight := h\<rparr>; (val, r) = queryPath E req (raCtrlers a);
               response = \<lparr>rsCode = 0, rsLog = '''', rsKey = rqData req, rsValue = val, rsHeight = h\<rparr>
           in case r of
                Inr _ \<Rightarrow> Inr response
              | Inl (Panic p) \<Rightarrow> Inl (Panic p)
              | Inl (Error xerr) \<Rightarrow> Inr (response\<lparr>rsCode := xerror_Code xerr, rsLog := xerror_Error xerr\<rparr>)))"

end
