(* ===== verification/Rigo_AppDemo.thy ===== *)
theory Rigo_AppDemo
  imports Rigo_App Rigo_EVMProps Rigo_StakingProps Rigo_TrxProps Rigo_GovParamsProps
begin

text \<open>A concrete application: the parameters of the model instantiated by executable functions, an
  application inside a block, whose account ledger holds one account with 100 fons, and a signed transfer of
  30 fons by this account at the price 1 with 10 gas. The properties of the application are evaluated on it.\<close>

definition demoGovEnv :: "vtree govEnv" where
  "demoGovEnv =
     \<lparr>geTree = vtreeOps, geParams = demoGovProto,
      geProposals = \<lparr>jsonMarshal = (\<lambda>_. Inl ''unsupported''), jsonUnmarshal = (\<lambda>_. Inl ''unsupported'')\<rparr>,
      geJson = demoGovJson, geEvidenceName = (\<lambda>_. ''''), geDefaultHash = concat\<rparr>"

definition demoNode :: "(vtree, unit, demoDB, (bytes \<times> bytes) list) nodeEnv" where
  "demoNode =
     \<lparr>neGov = demoGovEnv, neStake = demoEnv, neEvm = demoEvm, neTrx = demoTrxProto, neRlp = demoRlp,
      neSig2Addr = (\<lambda>msg sig. if length sig = 21 then Inr (tl sig, [hd sig]) else Inl (PlainError ''invalid signature'')),
      neTxHash = take 32\<rparr>"

definition demoAppEnv :: "(vtree, bytes \<rightharpoonup> bytes, unit, demoDB, (bytes \<times> bytes) list, bytes \<rightharpoonup> bytes) appEnv" where
  "demoAppEnv =
     \<lparr>aeNode = demoNode, aeDb = demoDb, aeRwdDb = demoDb,
      aeCrypto = \<lparr>coSha256 = take 32, coSign = (\<lambda>_ _. Inl ''unsupported''), coVerify = (\<lambda>_ _ _. False),
        coSigToPub = (\<lambda>_ _. Inl ''unsupported''), coCompress = id, coPubAddress = take 20\<rparr>,
      aeBlockJson = \<lparr>jsonMarshal = (\<lambda>_. Inl ''unsupported''), jsonUnmarshal = (\<lambda>_. Inl ''unsupported'')\<rparr>,
      aeAppStateJson = \<lparr>jsonMarshal = (\<lambda>_. Inl ''unsupported''), jsonUnmarshal = (\<lambda>_. Inl ''unsupported'')\<rparr>,
      aeAcctJson = \<lparr>jsonMarshal = (\<lambda>_. Inl ''unsupported''), jsonUnmarshal = (\<lambda>_. Inl ''unsupported'')\<rparr>,
      aeStakeQuery = \<lparr>sqReward = (\<lambda>_. Inr []), sqStakes = (\<lambda>_. Inr []), sqDelegatee = (\<lambda>_. Inr [])\<rparr>,
      aeGovQuery = \<lparr>gqProposals = (\<lambda>_. Inr []), gqProposal = (\<lambda>_. Inr []), gqParams = (\<lambda>_. Inr [])\<rparr>,
      aeCallJson = (\<lambda>_. Inr []), aeInterval = 1, aeCommitVer = 0, aeABCIVersion = ''''\<rparr>"

definition demoGovCtrler :: "vtree GovCtrler" where
  "demoGovCtrler =
     \<lparr>gcGovParams = demoPrice, gcNewGovParams = None, gcParamsLedger = emptyLedger,
      gcProposalLedger = emptyLedger, gcFrozenLedger = emptyLedger\<rparr>"

definition demoApp :: "(vtree, bytes \<rightharpoonup> bytes, unit, demoDB, (bytes \<times> bytes) list, bytes \<rightharpoonup> bytes) RigoApp" where
  "demoApp =
     \<lparr>raLastBlockCtx = None,
      raNextBlockCtx = Some (NewBlockContext \<lparr>biHeight = 1, biTime = 0, biProposerAddress = None, biAppHash = [], biVotes = [], biByzantineValidators = []\<rparr>),
      raMetaDB = OpenMetaDB Map.empty,
      raCtrlers = \<lparr>csGov = demoGovCtrler, csAcct = demoPayers, csStake = demoStakeCtrler, csEvm = demoEvmCtrler\<rparr>,
      raChainID = ''demo''\<rparr>"

definition demoTransferTx :: Trx where
  "demoTransferTx = \<lparr>txVersion = 1, txTime = 0, txNonce = 0, txFrom = demoPayer, txTo = demoPayee, txAmount = 30, txGas = 10,
     txGasPrice = 1, txType = TRX_TRANSFER, txPayload = None, txSig = 7 # demoPayer\<rparr>"

definition demoTransfer :: bytes where
  "demoTransfer = (case Trx_Encode demoTrxProto demoTransferTx of Inr bz \<Rightarrow> bz | Inl _ \<Rightarrow> [])"

lemma demoTransfer_decode: "Trx_Decode demoTrxProto demoTransfer = Inr demoTransferTx"
  by code_simp

lemma demoTransfer_delivered:
  obtains resp app' where "RigoApp_DeliverTx demoAppEnv demoTransfer demoApp = (Inr resp, app')" "rtCode resp = 0"
proof -
  have "case RigoApp_DeliverTx demoAppEnv demoTransfer demoApp of (Inr resp, app) \<Rightarrow> rtCode resp = 0 | _ \<Rightarrow> False"
    by code_simp
  then show ?thesis
    using that by (auto split: prod.splits sum.splits)
qed

lemma demoApp_sel [simp]:
  "neTree (aeNode demoAppEnv) = vtreeOps" "neAccts (aeNode demoAppEnv) = demoAcctProto" "neTrx (aeNode demoAppEnv) = demoTrxProto"
  "csAcct (raCtrlers demoApp) = demoPayers"
  by (simp_all add: demoAppEnv_def demoNode_def demoApp_def demoEnv_def)

lemma demoTransferTx_sel [simp]:
  "txType demoTransferTx = TRX_TRANSFER" "txPayload demoTransferTx = None" "txFrom demoTransferTx = demoPayer" "txTo demoTransferTx = demoPayee"
  "txNonce demoTransferTx = 0" "txAmount demoTransferTx = 30" "txGas demoTransferTx = 10" "txGasPrice demoTransferTx = 1"
  by (simp_all add: demoTransferTx_def)

lemma demoPayee_new: "level_get (ToLedgerKey demoPayee) (acct_level demoAcctProto vMap True demoPayers) = None"
proof -
  have "ToLedgerKey demoPayee \<noteq> ToLedgerKey demoPayer"
    by code_simp
  then show ?thesis
    by (simp add: demoPayers_level level_get_def)
qed

end
