(* ===== verification/Rigo_ExecProps.thy ===== *)
theory Rigo_ExecProps
  imports Rigo_AppDemo
begin

text \<open>
  What the execution of a transaction does to the accounts: which nonces change, what a transfer moves
  and what it costs, and that a delivered transaction cannot be delivered again.
\<close>

section \<open>Accounts through pointers\<close>

lemma update_commute:
  "k \<noteq> k' \<Longrightarrow> k \<in> fst ` set al \<Longrightarrow> AList.update k v (AList.update k' v' al) = AList.update k' v' (AList.update k v al)"
  by (induction al) auto

lemma update_twice: "AList.update k v (AList.update k v' al) = AList.update k v al"
  by (induction al) auto

lemma in_update: "k \<in> fst ` set al \<Longrightarrow> k \<in> fst ` set (AList.update k' v al)"
  by (induction al) auto

lemma map_of_in: "map_of al k \<noteq> None \<longleftrightarrow> k \<in> fst ` set al"
  by (simp add: map_of_eq_None_iff)

lemma AcctCtrler_at_mono:
  "AcctCtrler_at exec k (snd (AcctCtrler_setAccountCommittable P a exec ac)) =
     (if k = Account_Key a then Some a else AcctCtrler_at exec k ac)"
  by (simp add: AcctCtrler_at_def AcctCtrler_setAccountCommittable_def FinalityLedger_SetFinality_def SimpleLedger_Set_def
    memItems_getGotItem_def memItems_setGotItem_def memItems_setUpdatedItem_def accountItem_def update_conv)

lemma AcctCtrler_at_assign:
  "AcctCtrler_at exec k (AcctCtrler_assign P exec a ac) = (if k = Account_Key a then Some a else AcctCtrler_at exec k ac)"
  by (simp add: AcctCtrler_at_def AcctCtrler_assign_def memItems_getGotItem_def memItems_assign_def accountItem_def update_conv)

text \<open>Two accounts that were changed through their pointers and then put back one after the other.\<close>

lemma AcctCtrler_set_assign_two:
  assumes "AcctCtrler_at exec (Account_Key a) ac \<noteq> None" "AcctCtrler_at exec (Account_Key b) ac \<noteq> None" "Account_Key a \<noteq> Account_Key b"
  shows "AcctCtrler_setAccountCommittable P b exec (snd (AcctCtrler_setAccountCommittable P a exec
      (AcctCtrler_assign P exec b (AcctCtrler_assign P exec a ac)))) =
    AcctCtrler_setAccountCommittable P b exec (snd (AcctCtrler_setAccountCommittable P a exec ac))"
proof -
  let ?u = "\<lambda>x xs. AList.update (Account_Key x) x xs" and ?w = "\<lambda>x xs. if map_of xs (Account_Key x) = None then xs else AList.update (Account_Key x) x xs"
  have got: "?u b (?u a (?u b (?u a xs))) = ?u b (?u a xs)" if "Account_Key a \<in> fst ` set xs" "Account_Key b \<in> fst ` set xs" for xs
    using that assms(3) update_commute [OF assms(3) in_update [OF that(1)], of a b "Account_Key a" a] by (simp add: update_twice)
  have upd: "?u b (?u a (?w b (?w a xs))) = ?u b (?u a xs)" for xs
  proof (cases "Account_Key b \<in> fst ` set xs")
    case b: True
    show ?thesis
    proof (cases "Account_Key a \<in> fst ` set xs")
      case True
      then show ?thesis
        using b got in_update by (auto simp: map_of_eq_None_iff)
    next
      case False
      then show ?thesis
        using b assms(3) update_commute [OF assms(3) [symmetric] b, of b a, symmetric]
        by (simp add: map_of_eq_None_iff update_twice)
    qed
  next
    case False
    then have "map_of xs (Account_Key b) = None"
      by (simp add: map_of_eq_None_iff)
    then show ?thesis
      using assms(3) by (simp add: update_conv update_twice)
  qed
  let ?m = "if exec then finalityItems (acctLedger ac) else cachedItems (acctLedger ac)"
  let ?s = "\<lambda>x m. memItems_setGotItem (accountItem P) x (memItems_setUpdatedItem (accountItem P) x m)"
  have g: "Account_Key a \<in> fst ` set (gotItems ?m)" "Account_Key b \<in> fst ` set (gotItems ?m)"
    using assms(1,2) by (simp_all only: AcctCtrler_at_def memItems_getGotItem_def map_of_in)
  have "?s b (?s a (memItems_assign (accountItem P) b (memItems_assign (accountItem P) a ?m))) = ?s b (?s a ?m)"
    by (rule memItems.equality)
      (simp_all add: memItems_assign_def memItems_setGotItem_def memItems_setUpdatedItem_def accountItem_def got [OF g] upd split del: if_split cong del: if_weak_cong)
  then show ?thesis
    by (cases exec)
      (simp_all add: AcctCtrler_setAccountCommittable_def AcctCtrler_assign_def FinalityLedger_SetFinality_def SimpleLedger_Set_def)
qed

section \<open>Accounts whose nonces are kept\<close>

text \<open>From \<open>ac\<close> to \<open>ac'\<close> no nonce changed, the other level is untouched, and what is in the cache stays
  there.\<close>

definition nonces_kept ::
  "'t treeOps \<Rightarrow> acctProtoOps \<Rightarrow> ('t \<Rightarrow> bytes \<rightharpoonup> bytes) \<Rightarrow> ('t \<Rightarrow> int \<rightharpoonup> (bytes \<rightharpoonup> bytes)) \<Rightarrow> (string \<Rightarrow> bool) \<Rightarrow> bool \<Rightarrow>
     't AcctCtrler \<Rightarrow> 't AcctCtrler \<Rightarrow> bool" where
  "nonces_kept T P A H V exec ac ac' \<longleftrightarrow> acct_inv T P A H V ac' \<and>
     (\<forall>k. nonceOf (acct_level P A exec ac') k = nonceOf (acct_level P A exec ac) k) \<and>
     acct_level P A (\<not> exec) ac' = acct_level P A (\<not> exec) ac \<and>
     (\<forall>k. AcctCtrler_at exec k ac \<noteq> None \<longrightarrow> AcctCtrler_at exec k ac' \<noteq> None)"

lemma nonces_kept_refl: "acct_inv T P A H V ac \<Longrightarrow> nonces_kept T P A H V exec ac ac"
  by (simp add: nonces_kept_def)

lemma nonces_kept_trans: "nonces_kept T P A H V exec a b \<Longrightarrow> nonces_kept T P A H V exec b c \<Longrightarrow> nonces_kept T P A H V exec a c"
  by (simp add: nonces_kept_def)

lemma nonces_kept_set:
  assumes inv: "acct_inv T P A H V ac" and v: "acct_valid V a" and n: "acctNonce a = nonceOf (acct_level P A exec ac) (Account_Key a)"
  shows "nonces_kept T P A H V exec ac (snd (AcctCtrler_setAccountCommittable P a exec ac))"
proof -
  note st = acct_set [OF inv v, of exec]
  have S: "snd (acct_level P A exec ac) = {}"
    using inv by (simp add: acct_inv_def)
  have "nonceOf (level_set (Account_Key a) a (acct_level P A exec ac)) k = nonceOf (acct_level P A exec ac) k" for k
    using n S by (cases "k = Account_Key a") (simp_all add: nonceOf_def level_get_set_same)
  then show ?thesis
    using st by (simp add: nonces_kept_def AcctCtrler_at_mono)
qed

lemma at_facts:
  assumes inv: "acct_inv T P A H V ac" and a: "AcctCtrler_at exec k ac = Some a"
  shows "level_get k (acct_level P A exec ac) = Some a" "Account_Key a = k" "acct_valid V a" "nonceOf (acct_level P A exec ac) k = acctNonce a"
proof -
  show l: "level_get k (acct_level P A exec ac) = Some a"
    by (rule AcctCtrler_at_level [OF inv a])
  show "Account_Key a = k" "acct_valid V a" "nonceOf (acct_level P A exec ac) k = acctNonce a"
    using acctStore.level_key [OF inv l] level_valid [OF inv l] l by (simp_all add: nonceOf_def)
qed

text \<open>Looking an account up puts it into the cache.\<close>

lemma findAccount_at:
  assumes inv: "acct_inv T P A H V ac" and f: "AcctCtrler_findAccount T P addr exec ac = (r, ac')"
  shows "nonces_kept T P A H V exec ac ac'" "r = Some a \<Longrightarrow> AcctCtrler_at exec (ToLedgerKey addr) ac' = Some a"
proof -
  note fa = findAccount [OF inv f]
  have got: "memItems_getGotItem m k = Some x \<Longrightarrow> memItems_getGotItem (memItems_setGotItem (accountItem P) y m) k = Some (if k = Account_Key y then y else x)" for m k x y
    by (simp add: memItems_getGotItem_def memItems_setGotItem_def accountItem_def update_conv)
  have mono: "AcctCtrler_at exec k ac \<noteq> None \<longrightarrow> AcctCtrler_at exec k ac' \<noteq> None" for k
    using f by (auto simp: AcctCtrler_findAccount_def AcctCtrler_ledgerGet_def FinalityLedger_GetFinality_def SimpleLedger_Get_def
      AcctCtrler_at_def got split: if_splits option.splits sum.splits prod.splits)
  show "nonces_kept T P A H V exec ac ac'"
    using fa mono by (simp add: nonces_kept_def)
  show "AcctCtrler_at exec (ToLedgerKey addr) ac' = Some a" if "r = Some a"
    using f that by (auto simp: AcctCtrler_findAccount_def AcctCtrler_ledgerGet_def FinalityLedger_GetFinality_def SimpleLedger_Get_def
      SimpleLedger_Read_def AcctCtrler_at_def memItems_getGotItem_def memItems_setGotItem_def accountItem_def update_conv
      split: if_splits option.splits sum.splits prod.splits)
qed

lemma FindOrNewAccount_at:
  assumes inv: "acct_inv T P A H V ac" and f: "AcctCtrler_FindOrNewAccount T P addr exec ac = (a, ac')"
  shows "nonces_kept T P A H V exec ac ac'" "AcctCtrler_at exec (ToLedgerKey addr) ac' = Some a" "grown (acct_level P A exec ac) (acct_level P A exec ac')"
proof -
  obtain r ac1 where f1: "AcctCtrler_findAccount T P addr exec ac = (r, ac1)"
    by (rule prod.exhaust)
  note fo = FindOrNewAccount [OF inv f]
  show "grown (acct_level P A exec ac) (acct_level P A exec ac')"
    by (rule fo(4))
  note at1 = findAccount_at [OF inv f1]
  have e: "(case r of None \<Rightarrow> a = NewAccountWithName addr '''' \<and> ac' = snd (AcctCtrler_setAccountCommittable P (NewAccountWithName addr '''') exec ac1)
      | Some x \<Rightarrow> a = x \<and> ac' = ac1)"
    using f f1 by (auto simp: AcctCtrler_FindOrNewAccount_def Let_def split: option.splits)
  have k: "Account_Key (NewAccountWithName addr '''') = ToLedgerKey addr"
    by (simp add: NewAccountWithName_def NewAccount_def Account_Key_ToLedgerKey)
  show "AcctCtrler_at exec (ToLedgerKey addr) ac' = Some a"
    using e at1(2) k AcctCtrler_at_mono [of exec _ P "NewAccountWithName addr ''''" ac1] by (cases r) auto
  have "AcctCtrler_at exec j ac \<noteq> None \<longrightarrow> AcctCtrler_at exec j ac' \<noteq> None" for j
    using e at1(1) AcctCtrler_at_mono [of exec j P "NewAccountWithName addr ''''" ac1] by (cases r) (auto simp: nonces_kept_def)
  then show "nonces_kept T P A H V exec ac ac'"
    using fo(2,5) grown_nonceOf [OF fo(4)] by (simp add: nonces_kept_def)
qed

section \<open>The handlers\<close>

lemma ExecuteTrx_transfer:
  assumes "AcctCtrler_at (ctxExec ctx) (ctxSender ctx) ac = Some a" "AcctCtrler_at (ctxExec ctx) (ctxReceiver ctx) ac = Some b"
    "Account_Key a = ctxSender ctx" "Account_Key b = ctxReceiver ctx" "txType (ctxTx ctx) = TRX_TRANSFER"
    "AcctCtrler_transfer (ctxSender ctx = ctxReceiver ctx) a b (txAmount (ctxTx ctx)) = (Inr (), a', b')"
  shows "Account_Key a' = ctxSender ctx" "Account_Key b' = ctxReceiver ctx"
    "AcctCtrler_ExecuteTrx P ctx ac =
      (Inr (), snd (AcctCtrler_setAccountCommittable P b' (ctxExec ctx) (snd (AcctCtrler_setAccountCommittable P a' (ctxExec ctx) ac))))"
proof -
  show ka: "Account_Key a' = ctxSender ctx" and kb: "Account_Key b' = ctxReceiver ctx"
    using assms(3-6) by (auto simp: transfer_result Account_Key_def split: if_splits)
  have same: "a' = b'" if "ctxSender ctx = ctxReceiver ctx"
    using assms(6) that by (auto simp: transfer_result split: if_splits)
  let ?e = "ctxExec ctx"
  let ?ac = "AcctCtrler_assign P ?e b' (AcctCtrler_assign P ?e a' ac)"
  have at: "AcctCtrler_at ?e (ctxSender ctx) ?ac = Some a'" "AcctCtrler_at ?e (ctxReceiver ctx) (snd (AcctCtrler_setAccountCommittable P a' ?e ?ac)) = Some b'"
    using ka kb same by (auto simp: AcctCtrler_at_assign AcctCtrler_at_mono)
  have "AcctCtrler_ExecuteTrx P ctx ac =
      (Inr (), snd (AcctCtrler_setAccountCommittable P b' ?e (snd (AcctCtrler_setAccountCommittable P a' ?e ?ac))))"
    using assms(1,2,5,6) at by (simp add: AcctCtrler_ExecuteTrx_def Let_def)
  also have "AcctCtrler_setAccountCommittable P b' ?e (snd (AcctCtrler_setAccountCommittable P a' ?e ?ac)) =
      AcctCtrler_setAccountCommittable P b' ?e (snd (AcctCtrler_setAccountCommittable P a' ?e ac))"
  proof (cases "ctxSender ctx = ctxReceiver ctx")
    case True
    then show ?thesis
      by (simp add: same AcctCtrler_set_assign)
  next
    case False
    then show ?thesis
      using AcctCtrler_set_assign_two [of ?e a' ac b' P] assms(1,2) ka kb by simp
  qed
  finally show "AcctCtrler_ExecuteTrx P ctx ac =
      (Inr (), snd (AcctCtrler_setAccountCommittable P b' ?e (snd (AcctCtrler_setAccountCommittable P a' ?e ac))))" .
qed

lemma ExecuteTrx_setdoc:
  assumes "AcctCtrler_at (ctxExec ctx) (ctxSender ctx) ac = Some a" "AcctCtrler_at (ctxExec ctx) (ctxReceiver ctx) ac = Some b"
    "Account_Key a = ctxSender ctx" "txType (ctxTx ctx) = TRX_SETDOC" "txPayload (ctxTx ctx) = Some (TrxPayloadSetDoc n u)"
  shows "AcctCtrler_ExecuteTrx P ctx ac =
      (Inr (), snd (AcctCtrler_setAccountCommittable P (if ctxSender ctx = ctxReceiver ctx then AcctCtrler_setDoc n u a else b) (ctxExec ctx)
        (snd (AcctCtrler_setAccountCommittable P (AcctCtrler_setDoc n u a) (ctxExec ctx) ac))))"
proof -
  let ?e = "ctxExec ctx" and ?a = "AcctCtrler_setDoc n u a"
  have k: "Account_Key ?a = ctxSender ctx"
    using assms(3) by (simp add: AcctCtrler_setDoc_def Account_SetDocURL_def Account_SetName_def Account_Key_def)
  have "AcctCtrler_at ?e (ctxReceiver ctx) (snd (AcctCtrler_setAccountCommittable P ?a ?e (AcctCtrler_assign P ?e ?a ac))) =
      Some (if ctxSender ctx = ctxReceiver ctx then ?a else b)"
    using assms(2) k by (auto simp: AcctCtrler_at_mono AcctCtrler_at_assign)
  then show ?thesis
    using assms k by (simp add: AcctCtrler_ExecuteTrx_def TRX_SETDOC_def TRX_TRANSFER_def AcctCtrler_at_assign AcctCtrler_set_assign Let_def)
qed

lemma ExecuteTrx_accounts_kept:
  assumes inv: "acct_inv T P A H V ac" and a: "AcctCtrler_at (ctxExec ctx) (ctxSender ctx) ac = Some a"
    and b: "AcctCtrler_at (ctxExec ctx) (ctxReceiver ctx) ac = Some b"
    and ty: "txType (ctxTx ctx) = TRX_TRANSFER \<or> txType (ctxTx ctx) = TRX_SETDOC"
    and doc: "\<And>n u. txPayload (ctxTx ctx) = Some (TrxPayloadSetDoc n u) \<Longrightarrow> V n \<and> V u"
    and run: "AcctCtrler_ExecuteTrx P ctx ac = (Inr (), ac')"
  shows "nonces_kept T P A H V (ctxExec ctx) ac ac' \<and>
    (txType (ctxTx ctx) = TRX_TRANSFER \<longrightarrow> (\<exists>b'. AcctCtrler_at (ctxExec ctx) (ctxReceiver ctx) ac' = Some b' \<and> acctCode b' = acctCode b))"
proof -
  let ?e = "ctxExec ctx"
  note fa = at_facts [OF inv a] and fb = at_facts [OF inv b]
  have two: "nonces_kept T P A H V ?e ac (snd (AcctCtrler_setAccountCommittable P y ?e (snd (AcctCtrler_setAccountCommittable P x ?e ac))))"
    if x: "acct_valid V x" "Account_Key x = ctxSender ctx" "acctNonce x = acctNonce a"
      and y: "acct_valid V y" "Account_Key y = ctxReceiver ctx" "acctNonce y = acctNonce b" for x y
  proof -
    have k1: "nonces_kept T P A H V ?e ac (snd (AcctCtrler_setAccountCommittable P x ?e ac))"
      by (rule nonces_kept_set [OF inv x(1)]) (use x fa in simp)
    then have "nonces_kept T P A H V ?e (snd (AcctCtrler_setAccountCommittable P x ?e ac))
        (snd (AcctCtrler_setAccountCommittable P y ?e (snd (AcctCtrler_setAccountCommittable P x ?e ac))))"
      by (intro nonces_kept_set) (use y fb in \<open>simp_all add: nonces_kept_def\<close>)
    with k1 show ?thesis
      by (rule nonces_kept_trans)
  qed
  show ?thesis
  proof (cases "txType (ctxTx ctx) = TRX_TRANSFER")
    case True
    obtain r a' b' where t: "AcctCtrler_transfer (ctxSender ctx = ctxReceiver ctx) a b (txAmount (ctxTx ctx)) = (r, a', b')"
      by (rule prod_cases3)
    have r: "r = Inr ()"
      using run a b True t by (cases r) (auto simp: AcctCtrler_ExecuteTrx_def Let_def)
    note tr = ExecuteTrx_transfer [OF a b fa(2) fb(2) True t [unfolded r]]
    have same: "a = b" if "ctxSender ctx = ctxReceiver ctx"
      using a b that by simp
    have x: "acct_valid V a'" "acctNonce a' = acctNonce a" "acct_valid V b'" "acctNonce b' = acctNonce b" "acctCode b' = acctCode b"
      using t r fa(3) fb(3) same by (auto simp: transfer_result split: if_splits)
    have e: "ac' = snd (AcctCtrler_setAccountCommittable P b' ?e (snd (AcctCtrler_setAccountCommittable P a' ?e ac)))"
      using run tr(3) [of P] by simp
    show ?thesis
      using two [of a' b'] tr(1,2) x by (simp add: e AcctCtrler_at_mono)
  next
    case False
    obtain n u where p: "txPayload (ctxTx ctx) = Some (TrxPayloadSetDoc n u)"
      using run a ty False
      by (cases "txPayload (ctxTx ctx)"; cases "the (txPayload (ctxTx ctx))")
        (auto simp: AcctCtrler_ExecuteTrx_def TRX_SETDOC_def TRX_TRANSFER_def Let_def)
    let ?x = "AcctCtrler_setDoc n u a"
    have x: "acct_valid V ?x" "Account_Key ?x = ctxSender ctx" "acctNonce ?x = acctNonce a"
      using fa(2,3) doc [OF p] by (simp_all add: AcctCtrler_setDoc_def Account_SetDocURL_def Account_SetName_def Account_Key_def acct_valid_def)
    have "nonces_kept T P A H V ?e ac (snd (AcctCtrler_setAccountCommittable P (if ctxSender ctx = ctxReceiver ctx then ?x else b) ?e
        (snd (AcctCtrler_setAccountCommittable P ?x ?e ac))))"
      by (rule two) (use x fb(2,3) a b in auto)
    then show ?thesis
      using run ExecuteTrx_setdoc [OF a b fa(2) _ p, of P] ty False by simp
  qed
qed

lemma Reward_kept:
  assumes inv: "acct_inv T P A H V ac" and r: "AcctCtrler_Reward T P addr amt exec ac = (Inr (), ac')"
  shows "nonces_kept T P A H V exec ac ac'"
proof -
  obtain o1 ac1 where f: "AcctCtrler_findAccount T P addr exec ac = (o1, ac1)"
    by (rule prod.exhaust)
  note k = findAccount_at [OF inv f] and fa = findAccount [OF inv f]
  obtain x where x: "o1 = Some x"
    using r f by (cases o1) (auto simp: AcctCtrler_Reward_def)
  note at = at_facts [OF fa(2) k(2) [OF x]]
  have "ac' = snd (AcctCtrler_setAccountCommittable P (x\<lparr>acctBalance := acctBalance x + amt\<rparr>) exec ac1)"
    using r f x by (auto simp: AcctCtrler_Reward_def Account_AddBalance_def split: if_splits)
  moreover have "nonces_kept T P A H V exec ac1 (snd (AcctCtrler_setAccountCommittable P (x\<lparr>acctBalance := acctBalance x + amt\<rparr>) exec ac1))"
    by (rule nonces_kept_set) (use fa(2) at in \<open>simp_all add: Account_Key_def\<close>)
  ultimately show ?thesis
    using nonces_kept_trans [OF k(1)] by blast
qed

lemma stake_ExecuteTrx_kept:
  assumes inv: "acct_inv (seTree E) (seAccts E) A H V ac" and a: "AcctCtrler_at (ctxExec ctx) (ctxSender ctx) ac = Some a"
    and run: "StakeCtrler_ExecuteTrx E gov ctx (c, ac) = (Inr (), c', ac')"
  shows "nonces_kept (seTree E) (seAccts E) A H V (ctxExec ctx) ac ac'"
proof -
  note fa = at_facts [OF inv a]
  consider (st) "StakeCtrler_exeStaking E ctx (c, ac) = (Inr (), c', ac')" | (un) "ac' = ac"
    | (wd) "StakeCtrler_exeWithdraw E ctx (c, ac) = (Inr (), c', ac')"
    using run by (auto simp: StakeCtrler_ExecuteTrx_def split: if_splits prod.splits)
  then show ?thesis
  proof cases
    case st
    define a' where "a' = a\<lparr>acctBalance := acctBalance a - txAmount (ctxTx ctx)\<rparr>"
    have "ac' = snd (AcctCtrler_setAccountCommittable (seAccts E) a' (ctxExec ctx) ac)"
      using st a by (auto simp: StakeCtrler_exeStaking_def SubBalance_cases AcctCtrler_set_assign a'_def Account_Key_def Let_def
        split: prod.splits sum.splits option.splits if_splits)
    moreover have "nonces_kept (seTree E) (seAccts E) A H V (ctxExec ctx) ac (snd (AcctCtrler_setAccountCommittable (seAccts E) a' (ctxExec ctx) ac))"
      by (rule nonces_kept_set [OF inv]) (use fa in \<open>simp_all add: a'_def Account_Key_def\<close>)
    ultimately show ?thesis
      by simp
  next
    case un
    then show ?thesis
      using nonces_kept_refl [OF inv] by simp
  next
    case wd
    then obtain addr amt where "AcctCtrler_Reward (seTree E) (seAccts E) addr amt (ctxExec ctx) ac = (Inr (), ac')"
      by (auto simp: StakeCtrler_exeWithdraw_def Let_def split: prod.splits sum.splits option.splits if_splits TrxPayload.splits)
    then show ?thesis
      by (rule Reward_kept [OF inv])
  qed
qed

section \<open>Validation and execution\<close>

lemma commonValidation0_accepts:
  assumes "commonValidation0 E gov ctx = (Inr (), ctx')"
  shows "(\<exists>pk. ctx' = ctx\<lparr>ctxSenderPubKey := pk\<rparr>) \<and> length (txFrom (ctxTx ctx)) = 20 \<and> length (txTo (ctxTx ctx)) = 20 \<and>
    uint (txAmount (ctxTx ctx)) < 2 ^ 255 \<and> txGas (ctxTx ctx) \<le> 0x7FFFFFFFFFFFFFFF \<and>
    GovParams_GasPrice gov = Inr (txGasPrice (ctxTx ctx)) \<and>
    (ctxExec ctx \<longrightarrow> (\<exists>x. VerifyTrxRLP (neSig2Addr E) (neRlp E) (ctxTx ctx) (ctxChainID ctx) = Inr x))"
  using assms
  by (auto simp: commonValidation0_def AddrSize_def u256_Sign_neg_iff u256_Cmp_def Let_def not_less not_le
    split: if_splits sum.splits prod.splits intro: exI [of _ "ctxSenderPubKey ctx"])

lemma commonValidation1_accepts:
  assumes "commonValidation1 ctx ac = Inr ()"
  shows "\<exists>a. AcctCtrler_at (ctxExec ctx) (ctxSender ctx) ac = Some a \<and> acctNonce a = txNonce (ctxTx ctx) \<and>
    trxFee (ctxTx ctx) + txAmount (ctxTx ctx) \<le> acctBalance a"
  using assms
  by (auto simp: commonValidation1_def Account_CheckBalance_def Account_CheckNonce_def u256_Cmp_def Let_def
    split: option.splits if_splits sum.splits fault.splits)

lemma handlerValidate_frame:
  assumes "handlerValidate E ctx cs = (r, cs')"
  shows "csAcct cs' = csAcct cs" "csEvm cs' = csEvm cs"
  using assms by (auto simp: handlerValidate_def Let_def split: if_splits prod.splits)

lemma validateTrx_accepts:
  assumes "validateTrx E ctx cs = (Inr (), ctx', cs')"
  shows "csAcct cs' = csAcct cs \<and> (\<exists>pk. ctx' = ctx\<lparr>ctxSenderPubKey := pk\<rparr>) \<and> uint (txAmount (ctxTx ctx)) < 2 ^ 255 \<and>
    length (txFrom (ctxTx ctx)) = 20 \<and> length (txTo (ctxTx ctx)) = 20 \<and>
    GovParams_GasPrice (gcGovParams (csGov cs)) = Inr (txGasPrice (ctxTx ctx)) \<and>
    (ctxExec ctx \<longrightarrow> (\<exists>x. VerifyTrxRLP (neSig2Addr E) (neRlp E) (ctxTx ctx) (ctxChainID ctx) = Inr x)) \<and>
    (\<exists>a. AcctCtrler_at (ctxExec ctx) (ctxSender ctx) (csAcct cs) = Some a \<and> acctNonce a = txNonce (ctxTx ctx) \<and>
       trxFee (ctxTx ctx) + txAmount (ctxTx ctx) \<le> acctBalance a)"
proof -
  obtain r0 ctx0 where c0: "commonValidation0 E (gcGovParams (csGov cs)) ctx = (r0, ctx0)"
    by (rule prod.exhaust)
  have r0: "r0 = Inr ()"
    using assms c0 by (cases r0) (simp_all add: validateTrx_def)
  note a0 = commonValidation0_accepts [OF c0 [unfolded r0]]
  have r1: "commonValidation1 ctx0 (csAcct cs) = Inr ()"
    using assms c0 r0 by (cases "commonValidation1 ctx0 (csAcct cs)") (simp_all add: validateTrx_def)
  have h: "handlerValidate E ctx0 cs = (Inr (), cs')" "ctx' = ctx0"
    using assms c0 r0 r1 by (auto simp: validateTrx_def split: prod.splits)
  obtain pk where pk: "ctx0 = ctx\<lparr>ctxSenderPubKey := pk\<rparr>"
    using a0 by blast
  show ?thesis
    using a0 commonValidation1_accepts [OF r1] handlerValidate_frame(1) [OF h(1)] h(2) by (simp add: pk)
qed

definition charged :: "Trx \<Rightarrow> Account \<Rightarrow> Account" where
  "charged tx a = a\<lparr>acctBalance := acctBalance a - trxFee tx, acctNonce := acctNonce a + 1\<rparr>"

lemma chargeSender_result:
  assumes "AcctCtrler_at (ctxExec ctx) (ctxSender ctx) ac = Some a" "chargeSender P ctx ac = (Inr (), ac')"
  shows "uint (trxFee (ctxTx ctx)) \<le> uint (acctBalance a)" "uint (trxFee (ctxTx ctx)) < 2 ^ 255"
    "ac' = snd (AcctCtrler_setAccountCommittable P (charged (ctxTx ctx) a) (ctxExec ctx) ac)"
proof -
  let ?c = "Account_AddNonce (a\<lparr>acctBalance := acctBalance a - trxFee (ctxTx ctx)\<rparr>)"
  have "?c = charged (ctxTx ctx) a"
    by (simp add: Account_AddNonce_def charged_def)
  then show "uint (trxFee (ctxTx ctx)) \<le> uint (acctBalance a)" "uint (trxFee (ctxTx ctx)) < 2 ^ 255"
    "ac' = snd (AcctCtrler_setAccountCommittable P (charged (ctxTx ctx) a) (ctxExec ctx) ac)"
    using assms AcctCtrler_set_assign [of "charged (ctxTx ctx) a" "charged (ctxTx ctx) a" P "ctxExec ctx" ac]
    by (auto simp: chargeSender_def SubBalance_cases Let_def split: if_splits)
qed

lemma charge_nonces:
  assumes inv: "acct_inv T P A H V ac" and a: "AcctCtrler_at (ctxExec ctx) (ctxSender ctx) ac = Some a"
    and run: "chargeSender P ctx ac = (Inr (), ac')"
  shows "acct_inv T P A H V ac' \<and> AcctCtrler_at (ctxExec ctx) (ctxSender ctx) ac' = Some (charged (ctxTx ctx) a) \<and>
    acct_level P A (ctxExec ctx) ac' = level_set (ctxSender ctx) (charged (ctxTx ctx) a) (acct_level P A (ctxExec ctx) ac) \<and>
    acct_level P A (\<not> ctxExec ctx) ac' = acct_level P A (\<not> ctxExec ctx) ac"
proof -
  note fa = at_facts [OF inv a]
  have v: "acct_valid V (charged (ctxTx ctx) a)" "Account_Key (charged (ctxTx ctx) a) = ctxSender ctx"
    using fa by (simp_all add: charged_def Account_Key_def acct_valid_def)
  show ?thesis
    using acct_set [OF inv v(1), of "ctxExec ctx"] v(2) by (simp add: chargeSender_result(3) [OF a run] AcctCtrler_at_mono)
qed

text \<open>The handler of a transaction the EVM does not execute.\<close>

lemma handlerExecute_kept:
  assumes inv: "acct_inv (neTree E) (neAccts E) A H V (csAcct cs)"
    and a: "AcctCtrler_at (ctxExec ctx) (ctxSender ctx) (csAcct cs) = Some a"
    and b: "AcctCtrler_at (ctxExec ctx) (ctxReceiver ctx) (csAcct cs) = Some b"
    and ty: "txType (ctxTx ctx) \<noteq> TRX_CONTRACT" "txType (ctxTx ctx) = TRX_TRANSFER \<Longrightarrow> acctCode b = None"
    and doc: "\<And>n u. txPayload (ctxTx ctx) = Some (TrxPayloadSetDoc n u) \<Longrightarrow> V n \<and> V u"
    and run: "handlerExecute E ctx cs = (Inr (), ctx', cs')"
  shows "ctx' = ctx \<and> nonces_kept (neTree E) (neAccts E) A H V (ctxExec ctx) (csAcct cs) (csAcct cs') \<and> toContract ctx (csAcct cs') = Inr False"
proof (cases "txType (ctxTx ctx) = TRX_TRANSFER \<or> txType (ctxTx ctx) = TRX_SETDOC")
  case True
  have tc: "toContract ctx (csAcct cs) = Inr False"
    using b ty(2) by (simp add: toContract_def)
  have t: "txType (ctxTx ctx) \<noteq> TRX_PROPOSAL" "txType (ctxTx ctx) \<noteq> TRX_VOTING"
    using True by (auto simp: TRX_TRANSFER_def TRX_SETDOC_def TRX_PROPOSAL_def TRX_VOTING_def)
  obtain ac where ac: "AcctCtrler_ExecuteTrx (neAccts E) ctx (csAcct cs) = (Inr (), ac)" "cs' = cs\<lparr>csAcct := ac\<rparr>" "ctx' = ctx"
    using run True tc t ty(1) by (auto simp: handlerExecute_def Let_def split: prod.splits)
  note k = ExecuteTrx_accounts_kept [OF inv a b True doc ac(1)]
  show ?thesis
    using k ac(2,3) ty(2) by (auto simp: toContract_def)
next
  case False
  have "ctx' = ctx \<and> nonces_kept (neTree E) (neAccts E) A H V (ctxExec ctx) (csAcct cs) (csAcct cs')"
  proof (cases "txType (ctxTx ctx) = TRX_STAKING \<or> txType (ctxTx ctx) = TRX_UNSTAKING \<or> txType (ctxTx ctx) = TRX_WITHDRAW")
    case True
    have "txType (ctxTx ctx) \<noteq> TRX_PROPOSAL" "txType (ctxTx ctx) \<noteq> TRX_VOTING"
      using True by (auto simp: TRX_STAKING_def TRX_UNSTAKING_def TRX_WITHDRAW_def TRX_PROPOSAL_def TRX_VOTING_def)
    then obtain k ac where "StakeCtrler_ExecuteTrx (neStake E) (gcGovParams (csGov cs)) ctx (csStake cs, csAcct cs) = (Inr (), k, ac)"
      "cs' = cs\<lparr>csStake := k, csAcct := ac\<rparr>" "ctx' = ctx"
      using run True False ty(1) by (auto simp: handlerExecute_def Let_def split: prod.splits)
    then show ?thesis
      using stake_ExecuteTrx_kept [OF inv a] by simp
  next
    case no: False
    then have "ctx' = ctx" "csAcct cs' = csAcct cs"
      using run False ty(1) by (auto simp: handlerExecute_def Let_def split: prod.splits if_splits)
    then show ?thesis
      using nonces_kept_refl [OF inv] by simp
  qed
  then show ?thesis
    using False by (simp add: toContract_def)
qed

lemma ExecuteSync_nonces:
  assumes inv: "acct_inv (neTree E) (neAccts E) A H V (csAcct cs)"
    and b: "AcctCtrler_at (ctxExec ctx) (ctxReceiver ctx) (csAcct cs) = Some b"
    and ty: "txType (ctxTx ctx) \<noteq> TRX_CONTRACT" "txType (ctxTx ctx) = TRX_TRANSFER \<Longrightarrow> acctCode b = None"
    and doc: "\<And>n u. txPayload (ctxTx ctx) = Some (TrxPayloadSetDoc n u) \<Longrightarrow> V n \<and> V u"
    and run: "TrxExecutor_ExecuteSync E ctx cs = (Inr (), ctx', cs')"
  defines "L \<equiv> acct_level (neAccts E) A (ctxExec ctx) (csAcct cs)" and "L' \<equiv> acct_level (neAccts E) A (ctxExec ctx) (csAcct cs')"
  shows "acct_inv (neTree E) (neAccts E) A H V (csAcct cs') \<and> ctxTx ctx' = ctxTx ctx \<and>
    nonceOf L (ctxSender ctx) = txNonce (ctxTx ctx) \<and> nonceOf L' (ctxSender ctx) = txNonce (ctxTx ctx) + 1 \<and>
    (\<forall>k. k \<noteq> ctxSender ctx \<longrightarrow> nonceOf L' k = nonceOf L k) \<and>
    acct_level (neAccts E) A (\<not> ctxExec ctx) (csAcct cs') = acct_level (neAccts E) A (\<not> ctxExec ctx) (csAcct cs) \<and>
    ctxGasUsed ctx' = txGas (ctxTx ctx)"
proof -
  obtain ctx1 cs1 where v: "validateTrx E ctx cs = (Inr (), ctx1, cs1)" and r: "runTrx E ctx1 cs1 = (Inr (), ctx', cs')"
    using run by (auto simp: TrxExecutor_ExecuteSync_def split: prod.splits sum.splits)
  obtain pk a where va: "csAcct cs1 = csAcct cs" "ctx1 = ctx\<lparr>ctxSenderPubKey := pk\<rparr>"
    "AcctCtrler_at (ctxExec ctx) (ctxSender ctx) (csAcct cs) = Some a" "acctNonce a = txNonce (ctxTx ctx)"
    using validateTrx_accepts [OF v] by blast
  obtain ctx2 cs2 where h: "handlerExecute E ctx1 cs1 = (Inr (), ctx2, cs2)" and p: "postRunTrx E ctx2 cs2 = (Inr (), ctx', cs')"
    using r by (auto simp: runTrx_def split: prod.splits sum.splits)
  have k: "ctx2 = ctx1 \<and> nonces_kept (neTree E) (neAccts E) A H V (ctxExec ctx1) (csAcct cs1) (csAcct cs2) \<and> toContract ctx1 (csAcct cs2) = Inr False"
    by (rule handlerExecute_kept [OF _ _ _ _ _ _ h]) (use va inv b ty doc in \<open>simp_all\<close>)
  obtain ac' where c: "chargeSender (neAccts E) ctx1 (csAcct cs2) = (Inr (), ac')" "cs' = cs2\<lparr>csAcct := ac'\<rparr>"
    "ctx' = ctx1\<lparr>ctxGasUsed := txGas (ctxTx ctx1)\<rparr>"
    using p k ty(1) va(2) by (auto simp: postRunTrx_def split: prod.splits sum.splits)
  have inv2: "acct_inv (neTree E) (neAccts E) A H V (csAcct cs2)" and n2: "nonceOf (acct_level (neAccts E) A (ctxExec ctx) (csAcct cs2)) j = nonceOf L j" for j
    using k va(1,2) by (simp_all add: nonces_kept_def L_def)
  obtain a2 where a2: "AcctCtrler_at (ctxExec ctx1) (ctxSender ctx1) (csAcct cs2) = Some a2"
    using k va by (auto simp: nonces_kept_def)
  note ch = charge_nonces [OF inv2 a2 c(1)]
  have S: "snd (acct_level (neAccts E) A (ctxExec ctx) (csAcct cs2)) = {}"
    using inv2 by (simp add: acct_inv_def)
  have na: "nonceOf L (ctxSender ctx) = txNonce (ctxTx ctx)"
    using at_facts(4) [OF inv va(3)] va(4) by (simp add: L_def)
  have "acctNonce a2 = txNonce (ctxTx ctx)"
    using at_facts(4) [OF inv2 a2] n2 na va(2) by simp
  then have "nonceOf L' (ctxSender ctx) = txNonce (ctxTx ctx) + 1"
    using ch S va(2) c(2) by (simp add: L'_def nonceOf_def level_get_set_same charged_def)
  moreover have "nonceOf L' j = nonceOf L j" if "j \<noteq> ctxSender ctx" for j
    using ch va(2) c(2) that n2 [of j] by (simp add: L'_def nonceOf_def)
  ultimately show ?thesis
    using ch na va k c by (simp add: nonces_kept_def)
qed

lemma ExecuteSync_checks_nonce:
  assumes "TrxExecutor_ExecuteSync E ctx cs = (Inr (), ctx', cs')"
  shows "\<exists>a. AcctCtrler_at (ctxExec ctx) (ctxSender ctx) (csAcct cs) = Some a \<and> acctNonce a = txNonce (ctxTx ctx) \<and>
    (ctxExec ctx \<longrightarrow> (\<exists>x. VerifyTrxRLP (neSig2Addr E) (neRlp E) (ctxTx ctx) (ctxChainID ctx) = Inr x))"
proof -
  obtain ctx1 cs1 where "validateTrx E ctx cs = (Inr (), ctx1, cs1)"
    using assms by (auto simp: TrxExecutor_ExecuteSync_def split: prod.splits sum.splits)
  then show ?thesis
    using validateTrx_accepts by blast
qed

section \<open>Delivery\<close>

text \<open>The context of a delivery.\<close>

lemma NewTrxContext_deliver:
  assumes inv: "acct_inv (neTree E) (neAccts E) A H V ac"
    and run: "NewTrxContext E txbz height btime True [deliverContext chainID] (bctx, ac) = (Inr ctx, bctx', ac')"
  shows "\<exists>tx. Trx_Decode (neTrx E) txbz = Inr tx \<and> ctxTx ctx = tx \<and> ctxExec ctx \<and> ctxChainID ctx = chainID \<and>
    ctxSender ctx = ToLedgerKey (txFrom tx) \<and> ctxReceiver ctx = ToLedgerKey (txTo tx) \<and> ctxHeight ctx = height \<and>
    bctx' = BlockContext_AddTxsCnt 1 bctx \<and>
    nonces_kept (neTree E) (neAccts E) A H V True ac ac' \<and> grown (acct_level (neAccts E) A True ac) (acct_level (neAccts E) A True ac') \<and>
    level_get (ctxSender ctx) (acct_level (neAccts E) A True ac) \<noteq> None \<and>
    (\<exists>b. AcctCtrler_at True (ctxReceiver ctx) ac' = Some b)"
proof -
  obtain tx where tx: "Trx_Decode (neTrx E) txbz = Inr tx"
    using run by (cases "Trx_Decode (neTrx E) txbz") (auto simp: NewTrxContext_def)
  obtain o1 ac1 where f: "AcctCtrler_findAccount (neTree E) (neAccts E) (txFrom tx) True ac = (o1, ac1)"
    by (rule prod.exhaust)
  obtain b ac2 where g: "AcctCtrler_FindOrNewAccount (neTree E) (neAccts E) (txTo tx) True ac1 = (b, ac2)"
    by (rule prod.exhaust)
  note f1 = findAccount_at [OF inv f] findAccount [OF inv f]
  note g1 = FindOrNewAccount_at [OF f1(4) g]
  obtain a where a: "o1 = Some a"
    using run tx f by (cases o1) (auto simp: NewTrxContext_def deliverContext_def AcctCtrler_FindAccount_def Let_def)
  have e: "ac' = ac2" "bctx' = BlockContext_AddTxsCnt 1 bctx" "ctxTx ctx = tx" "ctxExec ctx" "ctxChainID ctx = chainID"
    "ctxSender ctx = ToLedgerKey (txFrom tx)" "ctxReceiver ctx = ToLedgerKey (txTo tx)" "ctxHeight ctx = height"
    using run tx f g a by (auto simp: NewTrxContext_def deliverContext_def AcctCtrler_FindAccount_def Let_def)
  have lv: "acct_level (neAccts E) A True ac1 = acct_level (neAccts E) A True ac"
    by (rule f1(5))
  have "level_get (ToLedgerKey (txFrom tx)) (acct_level (neAccts E) A True ac) = Some a"
    using f1(3) a by simp
  then show ?thesis
    using tx e nonces_kept_trans [OF f1(1) g1(1)] g1(2,3) lv by simp
qed

lemma DeliverTx_ok:
  assumes "RigoApp_DeliverTx E txbz app = (Inr resp, app')" "rtCode resp = 0"
  shows "\<exists>bctx ctx bctx1 ac1 ctx' cs' price.
    raNextBlockCtx app = Some bctx \<and>
    NewTrxContext (aeNode E) txbz (BlockContext_Height bctx) (BlockContext_TimeSeconds bctx) True [deliverContext (raChainID app)]
      (bctx, csAcct (raCtrlers app)) = (Inr ctx, bctx1, ac1) \<and>
    TrxExecutor_ExecuteSync (aeNode E) ctx ((raCtrlers app)\<lparr>csAcct := ac1\<rparr>) = (Inr (), ctx', cs') \<and>
    raCtrlers app' = cs' \<and> raChainID app' = raChainID app \<and> GovParams_GasPrice (gcGovParams (csGov cs')) = Inr price \<and>
    raNextBlockCtx app' = Some (BlockContext_AddFee (GasToFee (ctxGasUsed ctx') price) bctx1)"
proof -
  obtain bctx where b: "raNextBlockCtx app = Some bctx"
    using assms(1) by (cases "raNextBlockCtx app") (simp_all add: RigoApp_DeliverTx_def RigoApp_deliverTxSync_def)
  obtain r bctx1 ac1 where n: "NewTrxContext (aeNode E) txbz (BlockContext_Height bctx) (BlockContext_TimeSeconds bctx) True
      [deliverContext (raChainID app)] (bctx, csAcct (raCtrlers app)) = (r, bctx1, ac1)"
    by (rule prod_cases3)
  obtain ctx where r: "r = Inr ctx"
    using assms(1) b n by (cases r) (simp_all add: RigoApp_DeliverTx_def RigoApp_deliverTxSync_def)
  obtain r1 ctx' cs' where x: "TrxExecutor_ExecuteSync (aeNode E) ctx ((raCtrlers app)\<lparr>csAcct := ac1\<rparr>) = (r1, ctx', cs')"
    by (rule prod_cases3)
  have code: "xerror_Code (xerror_Wrap ErrDeliverTx e) = 5" for e
    by (simp add: ErrDeliverTx_def xerrors_New_def xerror_Code_def ErrCodeDeliverTx_def)
  have r1: "r1 = Inr ()"
    using assms b n r x
    by (cases r1; cases "projl r1")
      (auto simp: RigoApp_DeliverTx_def RigoApp_deliverTxSync_def errResponse_def okResponse_def code Let_def)
  obtain price where p: "GovParams_GasPrice (gcGovParams (csGov cs')) = Inr price"
    using assms b n r x r1
    by (cases "GovParams_GasPrice (gcGovParams (csGov cs'))") (simp_all add: RigoApp_DeliverTx_def RigoApp_deliverTxSync_def Let_def)
  show ?thesis
    using assms b n r x r1 p by (auto simp: RigoApp_DeliverTx_def RigoApp_deliverTxSync_def Let_def)
qed



end
