(* ===== verification/Rigo_TransferProps.thy ===== *)
theory Rigo_TransferProps
  imports Rigo_ExecProps
begin

text \<open>
  The accounting of a delivered transfer: what it moves, what it costs, and that a failed one changes
  nothing.
\<close>

section \<open>Transfers\<close>

lemma trxFee_exact:
  assumes "uint (txGasPrice tx) < 2 ^ 192" "txGas tx \<le> 0x7FFFFFFFFFFFFFFF"
  shows "uint (trxFee tx) = uint (txGasPrice tx) * uint (txGas tx)" "uint (trxFee tx) < 2 ^ 255"
proof -
  have g: "uint (txGas tx) < 2 ^ 63" "uint (u256_NewInt (txGas tx)) = uint (txGas tx)"
    using assms(2) by (simp_all add: word_le_def u256_NewInt_def uint_up_ucast is_up)
  have "uint (txGasPrice tx) * uint (txGas tx) < 2 ^ 192 * 2 ^ 63"
    using assms(1) g(1) by (intro mult_strict_mono) simp_all
  then have b: "uint (txGasPrice tx) * uint (txGas tx) < 2 ^ 255"
    by simp
  then show "uint (trxFee tx) = uint (txGasPrice tx) * uint (txGas tx)"
    using uint_u256_bound(2) [of "txGasPrice tx"] g(2) by (simp add: trxFee_def uint_word_ariths)
  then show "uint (trxFee tx) < 2 ^ 255"
    using b by simp
qed

text \<open>The outcome of a transfer: the accounts as they were, or moved and charged.\<close>

lemma ExecuteSync_transfer:
  assumes inv: "acct_inv (neTree E) (neAccts E) A H V (csAcct cs)"
    and b: "AcctCtrler_at (ctxExec ctx) (ctxReceiver ctx) (csAcct cs) = Some b" "acctCode b = None"
    and ty: "txType (ctxTx ctx) = TRX_TRANSFER" and price: "uint (txGasPrice (ctxTx ctx)) < 2 ^ 192"
    and run: "TrxExecutor_ExecuteSync E ctx cs = (r, ctx', cs')" and np: "\<forall>p. r \<noteq> Inl (Panic p)"
  defines "L \<equiv> acct_level (neAccts E) A (ctxExec ctx) (csAcct cs)" and "L' \<equiv> acct_level (neAccts E) A (ctxExec ctx) (csAcct cs')"
    and "tx \<equiv> ctxTx ctx"
  shows "(\<exists>e. r = Inl (Error e)) \<and> csAcct cs' = csAcct cs \<or>
    r = Inr () \<and> txGas tx \<le> 0x7FFFFFFFFFFFFFFF \<and> GovParams_GasPrice (gcGovParams (csGov cs')) = Inr (txGasPrice tx) \<and> ctxGasUsed ctx' = txGas tx \<and>
    (\<exists>a. level_get (ctxSender ctx) L = Some a \<and> uint (txAmount tx) + uint (trxFee tx) \<le> uint (acctBalance a) \<and>
       (if ctxSender ctx = ctxReceiver ctx then L' = level_set (ctxSender ctx) (charged tx a) (level_set (ctxSender ctx) a (level_set (ctxSender ctx) a L))
        else L' = level_set (ctxSender ctx) (charged tx (a\<lparr>acctBalance := acctBalance a - txAmount tx\<rparr>))
          (level_set (ctxReceiver ctx) (b\<lparr>acctBalance := acctBalance b + txAmount tx\<rparr>)
             (level_set (ctxSender ctx) (a\<lparr>acctBalance := acctBalance a - txAmount tx\<rparr>) L))))"
proof (cases "\<exists>ctx1 cs1. validateTrx E ctx cs = (Inr (), ctx1, cs1)")
  case False
  obtain r1 ctx1 cs1 where v1: "validateTrx E ctx cs = (r1, ctx1, cs1)"
    by (rule prod_cases3)
  then obtain e where v: "validateTrx E ctx cs = (Inl e, ctx1, cs1)"
    using False by (cases r1) auto
  then have "csAcct cs1 = csAcct cs"
    by (auto simp: validateTrx_def split: prod.splits sum.splits dest: handlerValidate_frame)
  then show ?thesis
    using run v np by (cases e) (auto simp: TrxExecutor_ExecuteSync_def)
next
  case True
  then obtain ctx1 cs1 where v: "validateTrx E ctx cs = (Inr (), ctx1, cs1)"
    by blast
  obtain pk a where va: "csAcct cs1 = csAcct cs" "ctx1 = ctx\<lparr>ctxSenderPubKey := pk\<rparr>"
    "AcctCtrler_at (ctxExec ctx) (ctxSender ctx) (csAcct cs) = Some a"
    "trxFee tx + txAmount tx \<le> acctBalance a" "uint (txAmount tx) < 2 ^ 255"
    using validateTrx_accepts [OF v] unfolding tx_def by blast
  have gas: "txGas tx \<le> 0x7FFFFFFFFFFFFFFF" and gp: "GovParams_GasPrice (gcGovParams (csGov cs)) = Inr (txGasPrice tx)" and gg: "csGov cs1 = csGov cs"
    using v ty commonValidation0_accepts [of E "gcGovParams (csGov cs)" ctx] unfolding tx_def
    by (auto simp: validateTrx_def handlerValidate_def TRX_TRANSFER_def TRX_PROPOSAL_def TRX_VOTING_def Let_def split: prod.splits sum.splits if_splits)
  note fee = trxFee_exact [OF price gas [unfolded tx_def], folded tx_def]
  have need: "uint (txAmount tx) + uint (trxFee tx) \<le> uint (acctBalance a)"
    using va(4,5) fee(2) uint_u256_add [of "trxFee tx" "txAmount tx"] by (simp add: word_le_def)
  note fa = at_facts [OF inv va(3)] and fb = at_facts [OF inv b(1)]
  have same: "a = b" if "ctxSender ctx = ctxReceiver ctx"
    using va(3) b(1) that by simp
  have amt: "uint (txAmount tx) \<le> uint (acctBalance a)"
    using need uint_u256_bound(2) [of "trxFee tx"] by linarith
  have feeb: "uint (trxFee tx) \<le> uint (acctBalance a)"
    using need uint_u256_bound(2) [of "txAmount tx"] by linarith
  define a1 where "a1 = (if ctxSender ctx = ctxReceiver ctx then a else a\<lparr>acctBalance := acctBalance a - txAmount tx\<rparr>)"
  define b1 where "b1 = (if ctxSender ctx = ctxReceiver ctx then a else b\<lparr>acctBalance := acctBalance b + txAmount tx\<rparr>)"
  have t: "AcctCtrler_transfer (ctxSender ctx1 = ctxReceiver ctx1) a b (txAmount (ctxTx ctx1)) = (Inr (), a1, b1)"
    using amt va(5) by (auto simp: transfer_result va(2) a1_def b1_def tx_def)
  have x: "AcctCtrler_at (ctxExec ctx1) (ctxSender ctx1) (csAcct cs) = Some a" "AcctCtrler_at (ctxExec ctx1) (ctxReceiver ctx1) (csAcct cs) = Some b"
    "Account_Key a = ctxSender ctx1" "Account_Key b = ctxReceiver ctx1" "txType (ctxTx ctx1) = TRX_TRANSFER"
    using va b(1) fa(2) fb(2) ty by simp_all
  note tr = ExecuteTrx_transfer [OF x t]
  define ac1 where "ac1 = snd (AcctCtrler_setAccountCommittable (neAccts E) a1 (ctxExec ctx) (csAcct cs))"
  define ac2 where "ac2 = snd (AcctCtrler_setAccountCommittable (neAccts E) b1 (ctxExec ctx) ac1)"
  have va1: "acct_valid V a1" "acct_valid V b1" "Account_Key a1 = ctxSender ctx" "Account_Key b1 = ctxReceiver ctx"
    using fa(2,3) fb(2,3) same by (auto simp: a1_def b1_def Account_Key_def)
  note s1 = acct_set [OF inv va1(1), of "ctxExec ctx", folded ac1_def, unfolded va1(3)]
  note s2 = acct_set [OF s1(1) va1(2), of "ctxExec ctx", folded ac2_def, unfolded va1(4)]
  have h: "handlerExecute E ctx1 cs1 = (Inr (), ctx1, cs1\<lparr>csAcct := ac2\<rparr>)"
    using tr(3) [of "neAccts E"] x b(2) va(1,2)
    by (simp add: handlerExecute_def toContract_def ac1_def ac2_def TRX_TRANSFER_def TRX_CONTRACT_def TRX_PROPOSAL_def TRX_VOTING_def)
  have at2: "AcctCtrler_at (ctxExec ctx1) (ctxSender ctx1) ac2 = Some a1" "AcctCtrler_at (ctxExec ctx1) (ctxReceiver ctx1) ac2 = Some b1"
    using va(2) va1(3,4) by (auto simp: ac1_def ac2_def AcctCtrler_at_mono a1_def b1_def)
  have code: "acctCode b1 = None"
    using b(2) same by (auto simp: b1_def)
  have bal1: "uint (trxFee tx) \<le> uint (acctBalance a1)"
    using need feeb uint_u256_sub_int [OF amt]
    by (auto simp: a1_def)
  have ch: "chargeSender (neAccts E) ctx1 ac2 = (Inr (), snd (AcctCtrler_setAccountCommittable (neAccts E) (charged tx a1) (ctxExec ctx) ac2))"
    using at2(1) bal1 fee(2) va(2) AcctCtrler_set_assign [of "charged tx a1" "charged tx a1" "neAccts E" "ctxExec ctx" ac2]
      acctStore.put_eq [of "neAccts E" "charged tx a1" "ctxExec ctx" ac2]
    by (simp add: chargeSender_def SubBalance_cases Account_AddNonce_def charged_def tx_def)
  have vc: "acct_valid V (charged tx a1)" "Account_Key (charged tx a1) = ctxSender ctx"
    using va1 by (simp_all add: charged_def Account_Key_def acct_valid_def)
  note s3 = acct_set [OF s2(1) vc(1), of "ctxExec ctx", unfolded vc(2)]
  have "r = Inr ()" "ctxGasUsed ctx' = txGas tx" "cs' = cs1\<lparr>csAcct := snd (AcctCtrler_setAccountCommittable (neAccts E) (charged tx a1) (ctxExec ctx) ac2)\<rparr>"
    using run v h ch at2(2) code ty va(2)
    by (auto simp: TrxExecutor_ExecuteSync_def runTrx_def postRunTrx_def toContract_def TRX_TRANSFER_def TRX_CONTRACT_def tx_def)
  then show ?thesis
    using gas gp gg fa(1) need s1(2) s2(2) s3(2) same
    by (auto simp: L_def L'_def a1_def b1_def intro!: exI [of _ a])
qed

lemma transfer_balances:
  assumes la: "level_get kf L = Some a" and lb: "level_get kt L = Some b" and S: "snd L = {}"
    and le: "uint (txAmount tx) + uint (trxFee tx) \<le> uint (acctBalance a)"
    and L': "if kf = kt then L' = level_set kf (charged tx a) (level_set kf a (level_set kf a L))
      else L' = level_set kf (charged tx (a\<lparr>acctBalance := acctBalance a - txAmount tx\<rparr>))
        (level_set kt (b\<lparr>acctBalance := acctBalance b + txAmount tx\<rparr>) (level_set kf (a\<lparr>acctBalance := acctBalance a - txAmount tx\<rparr>) L))"
  shows "bal L' kf = bal L kf - uint (trxFee tx) - (if kf = kt then 0 else uint (txAmount tx))"
    and "kf \<noteq> kt \<Longrightarrow> bal L' kt = (bal L kt + uint (txAmount tx)) mod 2 ^ 256"
    and "k \<noteq> kf \<Longrightarrow> k \<noteq> kt \<Longrightarrow> bal L' k = bal L k"
proof -
  have ba: "bal L kf = uint (acctBalance a)" "bal L kt = uint (acctBalance b)"
    using la lb by (simp_all add: bal_def)
  note pos = uint_u256_bound(2) [of "trxFee tx"] uint_u256_bound(2) [of "txAmount tx"]
  have "uint (txAmount tx) \<le> uint (acctBalance a)" and fa: "uint (trxFee tx) \<le> uint (acctBalance a)"
    using le pos by linarith+
  then have d: "uint (acctBalance a - txAmount tx) = bal L kf - uint (txAmount tx)"
    using ba(1) by (simp add: uint_u256_sub_int)
  then have "uint (trxFee tx) \<le> uint (acctBalance a - txAmount tx)"
    using le ba(1) by linarith
  then have d2: "uint (acctBalance a - txAmount tx - trxFee tx) = bal L kf - uint (txAmount tx) - uint (trxFee tx)"
    using d by (simp add: uint_u256_sub_int)
  show "bal L' kf = bal L kf - uint (trxFee tx) - (if kf = kt then 0 else uint (txAmount tx))"
    using L' ba S fa d2 by (cases "kf = kt") (simp_all add: bal_set charged_def uint_u256_sub_int)
  show "kf \<noteq> kt \<Longrightarrow> bal L' kt = (bal L kt + uint (txAmount tx)) mod 2 ^ 256"
    using L' ba S by (simp add: bal_set charged_def uint_u256_add_mod)
  show "k \<noteq> kf \<Longrightarrow> k \<noteq> kt \<Longrightarrow> bal L' k = bal L k"
    using L' S by (cases "kf = kt") (simp_all add: bal_set)
qed

lemma DeliverTx_outcome:
  assumes "RigoApp_DeliverTx E txbz app = (Inr resp, app')"
  shows "\<exists>bctx ctx bctx1 ac1 r1 ctx' cs'.
    raNextBlockCtx app = Some bctx \<and>
    NewTrxContext (aeNode E) txbz (BlockContext_Height bctx) (BlockContext_TimeSeconds bctx) True [deliverContext (raChainID app)]
      (bctx, csAcct (raCtrlers app)) = (Inr ctx, bctx1, ac1) \<and>
    TrxExecutor_ExecuteSync (aeNode E) ctx ((raCtrlers app)\<lparr>csAcct := ac1\<rparr>) = (r1, ctx', cs') \<and> (\<forall>p. r1 \<noteq> Inl (Panic p)) \<and>
    raCtrlers app' = cs' \<and>
    (case r1 of
       Inl _ \<Rightarrow> rtCode resp = ErrCodeDeliverTx \<and> raNextBlockCtx app' = Some bctx1
     | Inr _ \<Rightarrow> rtCode resp = 0 \<and> (\<exists>price. GovParams_GasPrice (gcGovParams (csGov cs')) = Inr price \<and>
         raNextBlockCtx app' = Some (BlockContext_AddFee (GasToFee (ctxGasUsed ctx') price) bctx1)))"
proof -
  obtain bctx where b: "raNextBlockCtx app = Some bctx"
    using assms(1) by (cases "raNextBlockCtx app") (simp_all add: RigoApp_DeliverTx_def RigoApp_deliverTxSync_def)
  obtain r bctx1 ac1 where n: "NewTrxContext (aeNode E) txbz (BlockContext_Height bctx) (BlockContext_TimeSeconds bctx) True
      [deliverContext (raChainID app)] (bctx, csAcct (raCtrlers app)) = (r, bctx1, ac1)"
    by (rule prod_cases3)
  obtain ctx where r: "r = Inr ctx"
    using assms(1) b n by (cases r) (simp_all add: RigoApp_DeliverTx_def RigoApp_deliverTxSync_def)
  obtain r1 ctx' cs' where x: "TrxExecutor_ExecuteSync (aeNode E) ctx ((raCtrlers app)\<lparr>csAcct := ac1\<rparr>) = (r1, ctx', cs')"
    by (rule prod_cases3)
  have code: "xerror_Code (xerror_Wrap ErrDeliverTx e) = ErrCodeDeliverTx" for e
    by (simp add: ErrDeliverTx_def xerrors_New_def xerror_Code_def)
  note run = assms [unfolded RigoApp_DeliverTx_def RigoApp_deliverTxSync_def Let_def b n r x option.case prod.case sum.case]
  show ?thesis
  proof (cases r1)
    case (Inl f)
    then obtain e where e: "f = Error e"
      using run by (cases f) simp_all
    have "rtCode resp = ErrCodeDeliverTx" "raNextBlockCtx app' = Some bctx1" "raCtrlers app' = cs'"
      using run Inl e by (auto simp: errResponse_def okResponse_def code)
    then show ?thesis
      using b n r x Inl e by simp
  next
    case (Inr u)
    obtain price where p: "GovParams_GasPrice (gcGovParams (csGov cs')) = Inr price"
      using run Inr by (cases "GovParams_GasPrice (gcGovParams (csGov cs'))") simp_all
    have "rtCode resp = 0" "raCtrlers app' = cs'" "raNextBlockCtx app' = Some (BlockContext_AddFee (GasToFee (ctxGasUsed ctx') price) bctx1)"
      using run Inr p by (auto simp: okResponse_def)
    then show ?thesis
      using b n r x Inr p by simp
  qed
qed

definition feeSum :: "('t, 'd, 'e, 'db, 'm, 'a) RigoApp \<Rightarrow> u256" where
  "feeSum app = (case raNextBlockCtx app of None \<Rightarrow> 0 | Some bctx \<Rightarrow> BlockContext_SumFee bctx)"



end
