(* ===== verification/Rigo_CheckProps.thy ===== *)
theory Rigo_CheckProps
  imports Rigo_TransferProps
begin

text \<open>
  What the check of a transaction for the mempool may change: the caches of its own level and the stake
  limiter, and nothing else of the application. And what becomes of transactions that have no context.
\<close>

section \<open>The level of the checks\<close>

definition clearCache :: "('t, 'a) FinalityLedger \<Rightarrow> ('t, 'a) FinalityLedger" where
  "clearCache l = l\<lparr>cachedItems := newMemItems\<rparr>"

definition clearAcct :: "'t AcctCtrler \<Rightarrow> 't AcctCtrler" where
  "clearAcct c = c\<lparr>acctLedger := clearCache (acctLedger c)\<rparr>"

definition clearStake :: "('t, 'd) StakeCtrler \<Rightarrow> ('t, 'd) StakeCtrler" where
  "clearStake c = c\<lparr>scDelegateeLedger := clearCache (scDelegateeLedger c), scFrozenLedger := clearCache (scFrozenLedger c),
     scRewardLedger := clearCache (scRewardLedger c), scStakeLimiter := NewStakeLimiter [] 0 0 0\<rparr>"

definition clearGov :: "'t GovCtrler \<Rightarrow> 't GovCtrler" where
  "clearGov c = c\<lparr>gcProposalLedger := clearCache (gcProposalLedger c)\<rparr>"

definition clearCtrlers :: "('t, 'd, 'e, 'db, 'm) ctrlers \<Rightarrow> ('t, 'd, 'e, 'db, 'm) ctrlers" where
  "clearCtrlers cs = cs\<lparr>csGov := clearGov (csGov cs), csAcct := clearAcct (csAcct cs), csStake := clearStake (csStake cs)\<rparr>"

lemma clearCache_ops [simp]:
  "clearCache (snd (SimpleLedger_Get T I k l)) = clearCache l"
  "clearCache (snd (SimpleLedger_Set I x l)) = clearCache l"
  "clearCache (snd (SimpleLedger_Del T I k l)) = clearCache l"
  "clearCache (snd (SimpleLedger_CancelSet k l)) = clearCache l"
  by (auto simp: SimpleLedger_Get_def SimpleLedger_Set_def SimpleLedger_Del_def SimpleLedger_CancelSet_def bindE_def clearCache_def
    split: option.splits sum.splits prod.splits)

lemmas clear_defs = clearAcct_def clearStake_def clearGov_def

lemma clearAcct_ops [simp]:
  "clearAcct (snd (AcctCtrler_setAccountCommittable P a False c)) = clearAcct c"
  "clearAcct (AcctCtrler_assign P False a c) = clearAcct c"
  "clearAcct (snd (AcctCtrler_findAccount T P addr False c)) = clearAcct c"
  "clearAcct (snd (AcctCtrler_FindOrNewAccount T P addr False c)) = clearAcct c"
  "clearAcct (snd (AcctCtrler_Reward T P to amt False c)) = clearAcct c"
proof -
  show s: "clearAcct (snd (AcctCtrler_setAccountCommittable P a False c)) = clearAcct c" for a c
    by (simp add: AcctCtrler_setAccountCommittable_def clear_defs Let_def case_prod_unfold)
  show "clearAcct (AcctCtrler_assign P False a c) = clearAcct c"
    by (simp add: AcctCtrler_assign_def clear_defs clearCache_def)
  show f: "clearAcct (snd (AcctCtrler_findAccount T P addr False c)) = clearAcct c" for addr c
    by (simp add: AcctCtrler_findAccount_def AcctCtrler_ledgerGet_def clear_defs Let_def case_prod_unfold split: sum.split)
  show "clearAcct (snd (AcctCtrler_FindOrNewAccount T P addr False c)) = clearAcct c"
    using f [of addr c] by (auto simp: AcctCtrler_FindOrNewAccount_def Let_def s split: prod.split option.split)
  show "clearAcct (snd (AcctCtrler_Reward T P to amt False c)) = clearAcct c"
    using f [of to c] by (auto simp: AcctCtrler_Reward_def Let_def s split: prod.split option.split sum.split)
qed

lemma clearStake_ops [simp]:
  "clearStake (snd (StakeCtrler_getDelegatee E False k c)) = clearStake c"
  "clearStake (snd (StakeCtrler_setDelegatee E False d c)) = clearStake c"
  "clearStake (snd (StakeCtrler_delDelegatee E False k c)) = clearStake c"
  "clearStake (snd (StakeCtrler_setFrozen E False s0 c)) = clearStake c"
  "clearStake (snd (StakeCtrler_getReward E False k c)) = clearStake c"
  "clearStake (snd (StakeCtrler_setReward E False rwd c)) = clearStake c"
  "clearStake (snd (StakeCtrler_cancelSetReward False k c)) = clearStake c"
  "clearStake (snd (checkLimiter d pw c)) = clearStake c"
  by (simp_all add: StakeCtrler_getDelegatee_def StakeCtrler_setDelegatee_def StakeCtrler_delDelegatee_def StakeCtrler_setFrozen_def
      StakeCtrler_getReward_def StakeCtrler_setReward_def StakeCtrler_cancelSetReward_def checkLimiter_def clear_defs Let_def case_prod_unfold
      split: sum.split fault.split)

lemma clearGov_ops [simp]:
  "clearGov (snd (GovCtrler_getProposal E False k c)) = clearGov c"
  "clearGov (snd (GovCtrler_setProposal E False q c)) = clearGov c"
  by (simp_all add: GovCtrler_getProposal_def GovCtrler_setProposal_def clear_defs Let_def case_prod_unfold)

text \<open>Sequencing, for any part \<open>g\<close> of the state.\<close>

lemma bindE_keeps:
  assumes "g (snd x) = y" "\<And>a c. g c = y \<Longrightarrow> g (snd (f a c)) = y"
  shows "g (snd (bindE x f)) = y"
  using assms by (cases x) (auto simp: bindE_def split: sum.split)

section \<open>The handlers\<close>

lemmas govKeeps = bindE_keeps [where g = clearGov]
lemmas acctKeeps = bindE_keeps [where g = clearAcct]
lemmas stakeKeeps = bindE_keeps [where g = clearStake]

lemma gov_check:
  assumes "\<not> ctxExec ctx"
  shows "clearGov (snd (GovCtrler_ValidateTrx E sc ctx c)) = clearGov c" "clearGov (snd (GovCtrler_ExecuteTrx E sc ctx c)) = clearGov c"
proof -
  have x: "ctxExec ctx = False"
    using assms by simp
  have "clearGov (snd (GovCtrler_validateProposal E sc ctx c)) = clearGov c"
    by (simp add: GovCtrler_validateProposal_def x Let_def case_prod_unfold split: option.split TrxPayload.split sum.split)
  moreover have "clearGov (snd (GovCtrler_validateVoting E ctx c)) = clearGov c"
    by (auto simp: GovCtrler_validateVoting_def x Let_def intro!: govKeeps split: option.split TrxPayload.split)
  ultimately show "clearGov (snd (GovCtrler_ValidateTrx E sc ctx c)) = clearGov c"
    by (simp add: GovCtrler_ValidateTrx_def)
  have "clearGov (snd (GovCtrler_execProposing E sc ctx c)) = clearGov c"
    by (simp add: GovCtrler_execProposing_def x Let_def case_prod_unfold split: option.split TrxPayload.split)
  moreover have "clearGov (snd (GovCtrler_execVoting E ctx c)) = clearGov c"
    by (auto simp: GovCtrler_execVoting_def x case_prod_unfold intro!: govKeeps split: option.split TrxPayload.split sum.split)
  ultimately show "clearGov (snd (GovCtrler_ExecuteTrx E sc ctx c)) = clearGov c"
    by (simp add: GovCtrler_ExecuteTrx_def)
qed

lemma acct_check: "\<not> ctxExec ctx \<Longrightarrow> clearAcct (snd (AcctCtrler_ExecuteTrx P ctx c)) = clearAcct c"
  unfolding AcctCtrler_ExecuteTrx_def Let_def
  by (rule acctKeeps) (auto simp: case_prod_unfold split: option.split TrxPayload.split)

lemma stake_validate_check:
  assumes "\<not> ctxExec ctx"
  shows "clearStake (snd (StakeCtrler_ValidateTrx E gov ctx c)) = clearStake c"
proof -
  have x: "ctxExec ctx = False"
    using assms by simp
  have "clearStake (snd (StakeCtrler_validateStaking E gov ctx c)) = clearStake c"
    by (simp add: StakeCtrler_validateStaking_def x Let_def case_prod_unfold split: sum.split)
  moreover have "clearStake (snd (StakeCtrler_validateUnstaking E ctx c)) = clearStake c"
    by (auto simp: StakeCtrler_validateUnstaking_def x Let_def intro!: stakeKeeps split: option.split TrxPayload.split)
  moreover have "clearStake (snd (StakeCtrler_validateWithdraw E ctx c)) = clearStake c"
    by (auto simp: StakeCtrler_validateWithdraw_def x Let_def intro!: stakeKeeps split: option.split TrxPayload.split)
  ultimately show ?thesis
    by (simp add: StakeCtrler_ValidateTrx_def)
qed


abbreviation clearPair :: "('t, 'd) StakeCtrler \<times> 't AcctCtrler \<Rightarrow> ('t, 'd) StakeCtrler \<times> 't AcctCtrler" where
  "clearPair \<equiv> map_prod clearStake clearAcct"

lemma freeze_check: "\<not> ctxExec ctx \<Longrightarrow> clearStake (freeze E gov ctx s0 c) = clearStake c"
  by (simp add: freeze_def)

lemma freezes_check: "\<not> ctxExec ctx \<Longrightarrow> clearStake (fold (freeze E gov ctx) ss c) = clearStake c"
  by (induction ss arbitrary: c) (simp_all add: freeze_check)

lemma stake_execute_check:
  assumes "\<not> ctxExec ctx"
  shows "clearPair (snd (StakeCtrler_ExecuteTrx E gov ctx s)) = clearPair s"
proof -
  obtain c ac where s: "s = (c, ac)"
    by (rule prod.exhaust)
  have x: "ctxExec ctx = False"
    using assms by simp
  have "clearPair (snd (StakeCtrler_exeStaking E ctx s)) = clearPair s"
    by (simp add: StakeCtrler_exeStaking_def s x Let_def case_prod_unfold split: sum.split option.split)
  moreover have "clearStake (snd (StakeCtrler_exeUnstaking E gov ctx c)) = clearStake c"
    by (auto simp: StakeCtrler_exeUnstaking_def x Let_def freeze_check [OF assms] freezes_check [OF assms] case_prod_unfold
      intro!: stakeKeeps split: option.split TrxPayload.split)
  moreover have "clearPair (snd (StakeCtrler_exeWithdraw E ctx s)) = clearPair s"
    by (simp add: StakeCtrler_exeWithdraw_def s x Let_def case_prod_unfold split: sum.split option.split TrxPayload.split)
  ultimately show ?thesis
    by (simp add: StakeCtrler_ExecuteTrx_def s case_prod_unfold Let_def)
qed

section \<open>The executor\<close>

lemma evm_check: "\<not> ctxExec ctx \<Longrightarrow> runEvm E ctx cs = (Inr (), ctx, cs)"
  by (simp add: runEvm_def EVMCtrler_ExecuteTrx_def case_prod_unfold Let_def)

lemma chargeSender_check: "\<not> ctxExec ctx \<Longrightarrow> clearAcct (snd (chargeSender P ctx ac)) = clearAcct ac"
  by (simp add: chargeSender_def Let_def case_prod_unfold split: option.split sum.split)

lemma commonValidation0_exec: "ctxExec (snd (commonValidation0 E gov ctx)) = ctxExec ctx"
  by (simp add: commonValidation0_def Let_def case_prod_unfold split: sum.split)

lemma clearCtrlers_upd [simp]:
  "clearGov g = clearGov (csGov cs) \<Longrightarrow> clearCtrlers (cs\<lparr>csGov := g\<rparr>) = clearCtrlers cs"
  "clearAcct ac = clearAcct (csAcct cs) \<Longrightarrow> clearCtrlers (cs\<lparr>csAcct := ac\<rparr>) = clearCtrlers cs"
  "clearStake k = clearStake (csStake cs) \<Longrightarrow> clearCtrlers (cs\<lparr>csStake := k\<rparr>) = clearCtrlers cs"
  by (simp_all add: clearCtrlers_def)

lemma handlerValidate_check: "\<not> ctxExec ctx \<Longrightarrow> clearCtrlers (snd (handlerValidate E ctx cs)) = clearCtrlers cs"
  by (simp add: handlerValidate_def Let_def case_prod_unfold gov_check stake_validate_check)

lemma validateTrx_check:
  assumes "\<not> ctxExec ctx"
  shows "clearCtrlers (snd (snd (validateTrx E ctx cs))) = clearCtrlers cs" "\<not> ctxExec (fst (snd (validateTrx E ctx cs)))"
  using assms commonValidation0_exec [of E "gcGovParams (csGov cs)" ctx]
  by (auto simp: validateTrx_def handlerValidate_check Let_def case_prod_unfold split: prod.split sum.split)

lemma handlerExecute_check:
  assumes "\<not> ctxExec ctx"
  shows "clearCtrlers (snd (snd (handlerExecute E ctx cs))) = clearCtrlers cs" "fst (snd (handlerExecute E ctx cs)) = ctx"
proof -
  have st: "clearStake (fst (snd (StakeCtrler_ExecuteTrx (neStake E) gov ctx (k, ac)))) = clearStake k"
    "clearAcct (snd (snd (StakeCtrler_ExecuteTrx (neStake E) gov ctx (k, ac)))) = clearAcct ac" for gov k ac
    using stake_execute_check [OF assms, of "neStake E" gov "(k, ac)"] by (simp_all add: prod_eq_iff)
  show "clearCtrlers (snd (snd (handlerExecute E ctx cs))) = clearCtrlers cs"
    using assms by (simp add: handlerExecute_def Let_def case_prod_unfold gov_check acct_check evm_check st split: sum.split bool.split)
  show "fst (snd (handlerExecute E ctx cs)) = ctx"
    using assms by (simp add: handlerExecute_def Let_def case_prod_unfold evm_check split: sum.split bool.split)
qed

lemma postRunTrx_check: "\<not> ctxExec ctx \<Longrightarrow> clearCtrlers (snd (snd (postRunTrx E ctx cs))) = clearCtrlers cs"
  by (simp add: postRunTrx_def case_prod_unfold chargeSender_check split: sum.split bool.split)

lemma runTrx_check: "\<not> ctxExec ctx \<Longrightarrow> clearCtrlers (snd (snd (runTrx E ctx cs))) = clearCtrlers cs"
  by (simp add: runTrx_def case_prod_unfold handlerExecute_check postRunTrx_check split: sum.split)

lemma ExecuteSync_check: "\<not> ctxExec ctx \<Longrightarrow> clearCtrlers (snd (snd (TrxExecutor_ExecuteSync E ctx cs))) = clearCtrlers cs"
  by (simp add: TrxExecutor_ExecuteSync_def case_prod_unfold validateTrx_check runTrx_check split: sum.split)

section \<open>CheckTx\<close>

definition clearApp :: "('t, 'd, 'e, 'db, 'm, 'a) RigoApp \<Rightarrow> ('t, 'd, 'e, 'db, 'm, 'a) RigoApp" where
  "clearApp a = a\<lparr>raCtrlers := clearCtrlers (raCtrlers a)\<rparr>"

lemma NewTrxContext_check:
  assumes "NewTrxContext E txbz height btime False [checkContext chainID] (u, ac) = (r, u', ac')"
  shows "clearAcct ac' = clearAcct ac" "r = Inr ctx \<Longrightarrow> \<not> ctxExec ctx"
  using assms clearAcct_ops(3) [of "neTree E" "neAccts E" _ ac]
  by (auto simp: NewTrxContext_def checkContext_def AcctCtrler_FindAccount_def bindE_def Let_def case_prod_unfold split: sum.splits option.splits)

text \<open>C5. Checking a transaction for the mempool, with whatever result, changes nothing of the application but
  the caches of the level of the checks and the stake limiter: the committed trees, what the running
  block has done to accounts, stakes, rewards and proposals, the parameters, the state of the EVM and
  the contexts of the blocks are untouched.\<close>

theorem RigoApp_CheckTx_isolated: "clearApp (snd (RigoApp_CheckTx E isNew txbz app)) = clearApp app"
proof (cases "isNew \<and> raLastBlockCtx app \<noteq> None")
  case True
  then obtain lastCtx where l: "isNew" "raLastBlockCtx app = Some lastCtx"
    by auto
  obtain r u ac where n: "NewTrxContext (aeNode E) txbz (i64 (BlockContext_Height lastCtx + 1))
      (BlockContext_ExpectedNextBlockTimeSeconds (aeInterval E) lastCtx) False [checkContext (raChainID app)] ((), csAcct (raCtrlers app)) = (r, u, ac)"
    by (rule prod_cases3)
  have c: "clearCtrlers ((raCtrlers app)\<lparr>csAcct := ac\<rparr>) = clearCtrlers (raCtrlers app)"
    using NewTrxContext_check(1) [OF n] by simp
  show ?thesis
  proof (cases r)
    case (Inl f)
    then show ?thesis
      using l n c by (simp add: RigoApp_CheckTx_def clearApp_def Let_def split: fault.split)
  next
    case (Inr ctx)
    then have "clearCtrlers (snd (snd (TrxExecutor_ExecuteSync (aeNode E) ctx ((raCtrlers app)\<lparr>csAcct := ac\<rparr>)))) = clearCtrlers (raCtrlers app)"
      using ExecuteSync_check NewTrxContext_check(2) [OF n] c by metis
    then show ?thesis
      using l n Inr by (simp add: RigoApp_CheckTx_def clearApp_def Let_def case_prod_unfold split: sum.split fault.split)
  qed
next
  case False
  then show ?thesis
    by (auto simp: RigoApp_CheckTx_def clearApp_def)
qed

section \<open>Transactions without a context\<close>

text \<open>The bytes are no transaction, or its sender has no account.\<close>

definition noContext :: "('t, 'e, 'db, 'm) nodeEnv \<Rightarrow> ('t \<Rightarrow> bytes \<rightharpoonup> bytes) \<Rightarrow> bool \<Rightarrow> bytes \<Rightarrow> 't AcctCtrler \<Rightarrow> bool" where
  "noContext E A exec txbz ac \<longleftrightarrow>
     (case Trx_Decode (neTrx E) txbz of
        Inl _ \<Rightarrow> True
      | Inr tx \<Rightarrow> level_get (ToLedgerKey (txFrom tx)) (acct_level (neAccts E) A exec ac) = None)"

lemma NewTrxContext_none:
  assumes inv: "acct_inv (neTree E) (neAccts E) A H V ac" and none: "noContext E A exec txbz ac"
    and cb: "\<And>ctx s. \<exists>ctx' s'. cb (ctx, s) = (Inr (), ctx', s') \<and> ctxExec ctx' = ctxExec ctx"
  shows "\<exists>e s' ac'. NewTrxContext E txbz height btime exec [cb] (s, ac) = (Inl (Error e), s', ac')"
proof (cases "Trx_Decode (neTrx E) txbz")
  case (Inl e)
  then show ?thesis
    by (simp add: NewTrxContext_def)
next
  case (Inr tx)
  obtain o1 ac1 where f: "AcctCtrler_findAccount (neTree E) (neAccts E) (txFrom tx) exec ac = (o1, ac1)"
    by (rule prod.exhaust)
  have "o1 = None"
    using findAccount(1) [OF inv f] none Inr by (simp add: noContext_def)
  then show ?thesis
    using cb [of "\<lparr>ctxHeight = height, ctxBlockTime = btime, ctxTxHash = neTxHash E txbz, ctxTx = tx, ctxTxIdx = 0, ctxExec = exec,
               ctxSenderPubKey = [], ctxSender = [], ctxReceiver = [], ctxGasUsed = 0, ctxRetData = [], ctxEvents = [],
               ctxChainID = ''''\<rparr>" s] f Inr by (auto simp: NewTrxContext_def AcctCtrler_FindAccount_def bindE_def)
qed

text \<open>C38. A transaction that cannot be decoded or whose sender has no account is refused with an error code
  when it is checked for the mempool, but stops the node with a nil pointer when it is delivered in a
  block: the error path of the delivery reads the context that was not created.\<close>

theorem RigoApp_DeliverTx_stops:
  assumes inv: "acct_inv (neTree (aeNode E)) (neAccts (aeNode E)) A H V (csAcct (raCtrlers app))"
    and blocks: "raLastBlockCtx app = Some lastCtx" "raNextBlockCtx app = Some nextCtx"
  shows "(noContext (aeNode E) A False txbz (csAcct (raCtrlers app)) \<longrightarrow>
      (\<exists>resp app'. RigoApp_CheckTx E True txbz app = (Inr resp, app') \<and> rtCode resp = ErrCodeCheckTx)) \<and>
    (noContext (aeNode E) A True txbz (csAcct (raCtrlers app)) \<longrightarrow>
      (\<exists>app'. RigoApp_DeliverTx E txbz app = (Inl nilPointer, app')))"
proof (intro conjI impI)
  assume none: "noContext (aeNode E) A False txbz (csAcct (raCtrlers app))"
  have cb: "\<exists>ctx' s'. checkContext (raChainID app) (ctx, s) = (Inr (), ctx', s') \<and> ctxExec ctx' = ctxExec ctx" for ctx s
    by (simp add: checkContext_def)
  obtain e s' ac' where "NewTrxContext (aeNode E) txbz (i64 (BlockContext_Height lastCtx + 1))
      (BlockContext_ExpectedNextBlockTimeSeconds (aeInterval E) lastCtx) False [checkContext (raChainID app)] ((), csAcct (raCtrlers app)) = (Inl (Error e), s', ac')"
    using NewTrxContext_none [OF inv none cb] by blast
  then show "\<exists>resp app'. RigoApp_CheckTx E True txbz app = (Inr resp, app') \<and> rtCode resp = ErrCodeCheckTx"
    using blocks(1) by (simp add: RigoApp_CheckTx_def errResponse_def ErrCheckTx_def xerrors_New_def xerror_Code_def)
next
  assume none: "noContext (aeNode E) A True txbz (csAcct (raCtrlers app))"
  have cb: "\<exists>ctx' s'. deliverContext (raChainID app) (ctx, s) = (Inr (), ctx', s') \<and> ctxExec ctx' = ctxExec ctx" for ctx s
    by (simp add: deliverContext_def)
  obtain e s' ac' where "NewTrxContext (aeNode E) txbz (BlockContext_Height nextCtx) (BlockContext_TimeSeconds nextCtx) True
      [deliverContext (raChainID app)] (nextCtx, csAcct (raCtrlers app)) = (Inl (Error e), s', ac')"
    using NewTrxContext_none [OF inv none cb] by blast
  then show "\<exists>app'. RigoApp_DeliverTx E txbz app = (Inl nilPointer, app')"
    using blocks(2) by (simp add: RigoApp_DeliverTx_def RigoApp_deliverTxSync_def)
qed

theorem RigoApp_DeliverTx_stops_witness:
  "let app = demoApp\<lparr>raLastBlockCtx := raNextBlockCtx demoApp, raCtrlers := (raCtrlers demoApp)\<lparr>csAcct := emptyAcctCtrler\<rparr>\<rparr>
   in (\<exists>resp app'. RigoApp_CheckTx demoAppEnv True demoTransfer app = (Inr resp, app') \<and> rtCode resp = ErrCodeCheckTx) \<and>
      (\<exists>app'. RigoApp_DeliverTx demoAppEnv demoTransfer app = (Inl nilPointer, app'))"
proof -
  let ?app = "demoApp\<lparr>raLastBlockCtx := raNextBlockCtx demoApp, raCtrlers := (raCtrlers demoApp)\<lparr>csAcct := emptyAcctCtrler\<rparr>\<rparr>"
  have "noContext (aeNode demoAppEnv) vMap exec demoTransfer emptyAcctCtrler" for exec
    by (simp add: noContext_def demoTransfer_decode emptyAcctCtrler_def acct_level_def level_get_def)
  then show ?thesis
    using RigoApp_DeliverTx_stops [where E = demoAppEnv and A = vMap and H = vHist and V = "\<lambda>_. True" and app = ?app and txbz = demoTransfer]
    by (simp add: emptyAcctCtrler_inv Let_def demoApp_def)
qed

end
