(* ===== verification/Spec2Isabelle.thy ===== *)
theory Spec2Isabelle
  imports Rigo_LedgerProps Rigo_TrxProps Rigo_AcctProps Rigo_GovParamsProps Rigo_LimiterProps Rigo_ValidatorProps Rigo_TwoLevel Rigo_WithdrawProps Rigo_GovCtrler Rigo_PVProps Rigo_EVMRestart Rigo_CheckProps
begin

text \<open>
  A verification development for \<^verbatim>\<open>rigo-go\<close>, the node of a proof-of-stake blockchain whose consensus engine
  is Tendermint. It models the state machine the engine drives, from the bytes of a transaction to the
  committed ledgers, and the key and signing state of a validator.

  \<^bold>\<open>The parts of the program and how they interact.\<close> Tendermint calls the application
  (\<^verbatim>\<open>src/node/app.go\<close>): \<^verbatim>\<open>CheckTx\<close> for the mempool, and \<^verbatim>\<open>BeginBlock\<close>, \<^verbatim>\<open>DeliverTx\<close>, \<^verbatim>\<open>EndBlock\<close> and \<^verbatim>\<open>Commit\<close>
  for a block. The application makes a context of a transaction (\<^verbatim>\<open>src/ctrlers/types/trx_ctx.go\<close>), the
  executor (\<^verbatim>\<open>src/node/trx_executor.go\<close>) validates it and hands it to one of four controllers: accounts,
  stakes, governance and EVM (\<^verbatim>\<open>src/ctrlers/{account,stake,gov,vm/evm}\<close>), then charges the fee and raises the
  nonce. Each controller keeps its items in ledgers (\<^verbatim>\<open>src/ledger\<close>), which have two levels of caches, one
  for checks and one for the running block, in front of a versioned tree.

  \<^bold>\<open>How the code is modelled.\<close> A struct is a \<open>record\<close>, its methods are definitions with the name of the
  type in front (\<open>StakeCtrler_ExecuteTrx\<close> is \<^verbatim>\<open>StakeCtrler.ExecuteTrx\<close>), and a method that changes its
  receiver returns it. \<open>'a res\<close> is the result of code that can fail: \<open>Inl (Error e)\<close> is an error
  value, \<open>Inl (Panic p)\<close> a panic. A Go map is an association list; an \<^verbatim>\<open>int64\<close> is an \<open>int\<close> with the
  wrap-around \<open>i64\<close> written out; \<^verbatim>\<open>uint64\<close>, \<^verbatim>\<open>uint256\<close> and bytes are words. A pointer to an account that a
  context holds is the key of the account, read and written through \<open>AcctCtrler_at\<close> and
  \<open>AcctCtrler_assign\<close>; the byte arrays a wallet key shares with its caller are addresses of an explicit
  store. Code that is not in the repository is an argument: the tree (\<open>treeOps\<close>), protobuf, RLP and JSON
  codecs, hashes and curves (\<open>cryptoOps\<close>), the EVM with its state (\<open>evmEnv\<close>, \<open>stateDBOps\<close>) and the
  databases. What a property needs of it is a named hypothesis (\<open>tree_laws\<close>, \<open>json_laws\<close>, \<open>geth_laws\<close>,
  \<open>evm_laws\<close>, \<open>meta_laws\<close>, ...), and each such property has a witness on concrete functions.

  \<^bold>\<open>The theories of the model\<close>, each with the files it translates:
  \<^item> \<open>Rigo_Prelude\<close>: machine integers, results, sequencing; \<open>Rigo_Errors\<close>: \<^verbatim>\<open>types/xerrors\<close>;
    \<open>Rigo_Bytes\<close>: \<^verbatim>\<open>types/bytes\<close>, \<^verbatim>\<open>types/address.go\<close>; \<open>Rigo_Sort\<close>: the \<^verbatim>\<open>sort.Sort\<close> the sources call.
  \<^item> \<open>Rigo_Ledger\<close>: \<^verbatim>\<open>ledger\<close> (\<open>SimpleLedger\<close>, \<open>FinalityLedger\<close>, \<open>memItems\<close>).
  \<^item> \<open>Rigo_Account\<close>, \<open>Rigo_AcctCtrler\<close>: accounts, their codec and controller.
  \<^item> \<open>Rigo_Trx\<close>, \<open>Rigo_TrxRLP\<close>: transactions, payloads, both wire forms and the signed text;
    \<open>Rigo_Ctx\<close>: the contexts.
  \<^item> \<open>Rigo_GovParams\<close>, \<open>Rigo_Proposal\<close>, \<open>Rigo_GovCtrler\<close>: governance parameters, proposals and
    their controller.
  \<^item> \<open>Rigo_Stake\<close>, \<open>Rigo_Reward\<close>, \<open>Rigo_StakeCtrler\<close>: stakes, delegatees, marks of missed blocks,
    rewards, the limiter of stake changes and the controller.
  \<^item> \<open>Rigo_MetaDB\<close>: the records of the node itself.
  \<^item> \<open>Rigo_StateDB\<close>, \<open>Rigo_EVM\<close>: the state the EVM works on, and its controller.
  \<^item> \<open>Rigo_Genesis\<close>: version, units, genesis documents.
  \<^item> \<open>Rigo_Executor\<close>, \<open>Rigo_App\<close>: the executor and the application.
  \<^item> \<open>Rigo_Crypto\<close>, \<open>Rigo_WalletKey\<close>, \<open>Rigo_SFilePV\<close>: hashes and paddings, wallet keys, and the key and the
    last signed state of a validator with their files.

  \<^bold>\<open>The theories of the properties.\<close>
  \<^item> \<open>Rigo_LedgerSpec\<close> is the contract of a ledger, an abstract map per level with the keys deleted since
    the commit, as locales: \<open>ledger_store\<close> (lookups and updates) and its extensions. \<open>Rigo_LedgerRefine\<close>
    interprets them on \<open>FinalityLedger\<close>, \<open>Rigo_TwoLevel\<close> on the choice of the level by the flag of
    a transaction, from which each controller gets its facts. \<open>Rigo_LedgerProps\<close>: whole runs refine the
    abstract ledger, committed versions never change, checks do not influence blocks, and the order of Go
    maps does not influence a commit.
  \<^item> \<open>Rigo_AcctProps\<close>: transfers, and that they conserve the sum of the balances.
  \<^item> \<open>Rigo_TrxProps\<close>: round trips of the codecs, and that the signed text determines the transaction.
  \<^item> \<open>Rigo_GovParamsProps\<close>: round trips of the parameters, their merge, amounts, powers, gas and fees.
  \<^item> \<open>Rigo_StakeProps\<close>, \<open>Rigo_LimiterProps\<close>, \<open>Rigo_ValidatorProps\<close>: the powers of a delegatee are the sums
    of its stakes, slashing, the limiter, the rewards, and that the reported updates turn the old
    validator set into the new one.
  \<^item> \<open>Rigo_StakingProps\<close>, \<open>Rigo_UnstakingProps\<close>, \<open>Rigo_WithdrawProps\<close>: staking, un-staking, the refund and the
    withdrawal of rewards conserve the wealth of the system; where a stake is lost.
  \<^item> \<open>Rigo_EVMProps\<close>, \<open>Rigo_EVMRestart\<close>: for any interpreter that works through the interface of the
    state (\<open>wrapper_step\<close>, an inductive relation with one rule per method), what a message does to the
    accounts; and that a commit survives a restart.
  \<^item> \<open>Rigo_ExecProps\<close>, \<open>Rigo_TransferProps\<close>, \<open>Rigo_CheckProps\<close>: the application as a whole. A delivered
    transaction cannot be delivered again; what a transfer costs and moves; a check changes only the
    caches of its level and the stake limiter; which transactions stop the node.
  \<^item> \<open>Rigo_PVProps\<close>, \<open>Rigo_WalletProps\<close>: no double signing over all runs and crashes, and wallet keys.
  \<^item> \<open>Rigo_Instance\<close>, \<open>Rigo_Codec\<close>, \<open>Rigo_StakeCodec\<close>, \<open>Rigo_AppDemo\<close>: concrete parameters and states on which
    the witnesses are evaluated. They stand for no code.

  \<^bold>\<open>Termination and bounds.\<close> Every loop is a structural recursion over the list the source iterates, or has
  a termination proof, so no fuel is used. The bounds in hypotheses are those of the machine types: a gas
  price below 2^192 keeps price times gas below 2^256, an amount below 2^63 coins has an exact power.

  \<^bold>\<open>Not modelled.\<close>
  \<^item> Opening and closing of databases, starting and stopping of the node, commands, RPC, the
    clients in \<^verbatim>\<open>libs\<close> and the secret feeder: input and output of the process and the network.
  \<^item> The parallel executor (\<^verbatim>\<open>ExecuteAsync\<close>, \<^verbatim>\<open>deliverTxAsync\<close>), which the source declares unfinished and
    never calls, and the local client, whose callbacks belong to it. Mutexes: every call of the
    engine and every query of the model is atomic.
  \<^item> The memory ledger (\<^verbatim>\<open>mem_ledger.go\<close>, \<^verbatim>\<open>sliceMap.go\<close>), which no other code uses.
  \<^item> Generated protobuf code, and the texts of the genesis of the three networks.
  \<^item> The arguments of formatted error messages and log output.
\<close>

end
